(* ===== verification/Go_Base.thy ===== *)
theory Go_Base
  imports Main "HOL-Library.Word"
begin

text \<open>
  The prelude of the development: the fragment of Go that the modelled code is written in.
  It holds the machine integers, the error values (with their \<open>Error()\<close> strings), the
  outcome of a Go call (it returns, panics, or never returns), the world-passing programs the
  operations are translated to, their sequencing, early-return and \<open>defer\<close> combinators, and
  the rules by which the component theories reason about such programs: evaluation rules
  (collection \<open>go_simps\<close>) and frame rules for relations that every step of a program respects
  (collection \<open>within_intros\<close>).
\<close>

named_theorems go_simps \<open>unfolding the program combinators\<close>
named_theorems within_intros \<open>frame rules: a program stays within a relation\<close>
named_theorems agree_intros \<open>rules for programs that agree while a condition holds\<close>

section \<open>Values\<close>

text \<open>
  Go's fixed-width integers. A conversion between \<^verbatim>\<open>int64\<close> and \<^verbatim>\<open>uint64\<close> keeps the bits, so both
  are 64-bit words; \<^const>\<open>sint\<close> reads the signed value and \<^const>\<open>unat\<close> the unsigned one.
  Byte slices and strings are both \<^typ>\<open>string\<close>, a list of 8-bit characters.
\<close>

type_synonym int64 = "64 word"
type_synonym uint64 = "64 word"
type_synonym uint32 = "32 word"
type_synonym bytes = string

datatype num_err = ErrSyntax | ErrRange

text \<open>
  Error values. A nil \<^verbatim>\<open>error\<close> is \<^const>\<open>None\<close> where an error is optional. \<open>EOF\<close> is \<^verbatim>\<open>io.EOF\<close>;
  \<open>NotExist\<close> is any error that \<^verbatim>\<open>os.IsNotExist\<close> recognises; \<open>ErrorString\<close> is \<^verbatim>\<open>errors.New\<close>,
  \<^verbatim>\<open>fmt.Errorf\<close> and every other error that carries only its text; the three driver errors
  are the types of driver/errors.go; \<open>NumError\<close> is what strconv returns.
\<close>

datatype go_error =
    EOF
  | NotExist string
  | ErrorString string
  | LayerExistsError string
  | MissingVolumePathError string
  | EmptyDriverStoreError
  | NumError string string num_err

fun num_err_text :: "num_err \<Rightarrow> string" where
  "num_err_text ErrSyntax = ''invalid syntax''"
| "num_err_text ErrRange = ''value out of range''"

fun Error :: "go_error \<Rightarrow> string" where
  "Error EOF = ''EOF''"
| "Error (NotExist s) = s"
| "Error (ErrorString s) = s"
| "Error (LayerExistsError i) = ''layer already exists: '' @ i"
| "Error (MissingVolumePathError i) = ''could not get volume path for bundle ID: '' @ i"
| "Error EmptyDriverStoreError = ''driver store must be set''"
| "Error (NumError f n k) =
     ''strconv.'' @ f @ '': parsing '' @ [CHR 0x22] @ n @ [CHR 0x22] @ '': '' @ num_err_text k"

fun IsNotExist :: "go_error \<Rightarrow> bool" where
  "IsNotExist (NotExist s) = True"
| "IsNotExist e = False"

section \<open>Programs\<close>

text \<open>
  A call returns a value, panics, or does not return. The last is the outcome of a loop whose
  fuel is used up; theorems about such loops say how much fuel is enough.
\<close>

datatype go_panic = NilDereference | IndexOutOfRange | SliceBounds | NilMapWrite | UnlockOfUnlocked | InvalidDigest

datatype 'a go = Ret 'a | Panic go_panic | Diverged

type_synonym ('w, 'a) io = "'w \<Rightarrow> 'a go \<times> 'w"
type_synonym 'a res = "go_error + 'a"

definition go_ret :: "'a \<Rightarrow> ('w, 'a) io" where
  [go_simps]: "go_ret x = (\<lambda>w. (Ret x, w))"

definition go_panic :: "go_panic \<Rightarrow> ('w, 'a) io" where
  [go_simps]: "go_panic p = (\<lambda>w. (Panic p, w))"

definition go_diverge :: "('w, 'a) io" where
  [go_simps]: "go_diverge = (\<lambda>w. (Diverged, w))"

definition go_bind :: "('w, 'a) io \<Rightarrow> ('a \<Rightarrow> ('w, 'b) io) \<Rightarrow> ('w, 'b) io" where
  [go_simps]: "go_bind m f = (\<lambda>w. case m w of (r, w') \<Rightarrow>
     (case r of Ret x \<Rightarrow> f x w' | Panic p \<Rightarrow> (Panic p, w') | Diverged \<Rightarrow> (Diverged, w')))"

text \<open>
  \<open>go_defer d m\<close> is the rest \<open>m\<close> of a function after \<^verbatim>\<open>defer d\<close>: \<open>d\<close> runs when \<open>m\<close> returns and
  also when it panics, its result is dropped, and a panic of \<open>d\<close> itself replaces the outcome.
\<close>

definition go_defer :: "('w, 'd) io \<Rightarrow> ('w, 'a) io \<Rightarrow> ('w, 'a) io" where
  [go_simps]: "go_defer d m = (\<lambda>w. case m w of (r, w') \<Rightarrow>
     (case r of
        Diverged \<Rightarrow> (Diverged, w')
      | _ \<Rightarrow> (case d w' of (q, w'') \<Rightarrow>
          (case q of Ret _ \<Rightarrow> (r, w'') | Panic p \<Rightarrow> (Panic p, w'') | Diverged \<Rightarrow> (Diverged, w'')))))"

text \<open>
  \<open>go_defer_result d upd m\<close> is the same for a deferred function that assigns to the named results: \<open>upd\<close> gives
  the results from what \<open>d\<close> returned and the results so far.
\<close>

definition go_defer_result :: "('w, 'd) io \<Rightarrow> ('d \<Rightarrow> 'a \<Rightarrow> 'a) \<Rightarrow> ('w, 'a) io \<Rightarrow> ('w, 'a) io" where
  [go_simps]: "go_defer_result d upd m = (\<lambda>w. case m w of (r, w') \<Rightarrow>
     (case r of
        Diverged \<Rightarrow> (Diverged, w')
      | Ret x \<Rightarrow> (case d w' of (q, w'') \<Rightarrow>
          (case q of Ret y \<Rightarrow> (Ret (upd y x), w'') | Panic p \<Rightarrow> (Panic p, w'') | Diverged \<Rightarrow> (Diverged, w'')))
      | Panic p \<Rightarrow> (case d w' of (q, w'') \<Rightarrow>
          (case q of Ret y \<Rightarrow> (Panic p, w'') | Panic p' \<Rightarrow> (Panic p', w'') | Diverged \<Rightarrow> (Diverged, w'')))))"

text \<open>
  \<open>go_defer_seeing d m\<close> is the same for a deferred function that reads the results: \<open>d\<close> gets them, or \<^const>\<open>None\<close> when
  the function panics.
\<close>

definition go_defer_seeing :: "('a option \<Rightarrow> ('w, 'd) io) \<Rightarrow> ('w, 'a) io \<Rightarrow> ('w, 'a) io" where
  [go_simps]: "go_defer_seeing d m = (\<lambda>w. case m w of (r, w') \<Rightarrow>
     (case r of
        Diverged \<Rightarrow> (Diverged, w')
      | Ret x \<Rightarrow> (case d (Some x) w' of (q, w'') \<Rightarrow>
          (case q of Ret y \<Rightarrow> (Ret x, w'') | Panic p \<Rightarrow> (Panic p, w'') | Diverged \<Rightarrow> (Diverged, w'')))
      | Panic p \<Rightarrow> (case d None w' of (q, w'') \<Rightarrow>
          (case q of Ret y \<Rightarrow> (Panic p, w'') | Panic p' \<Rightarrow> (Panic p', w'') | Diverged \<Rightarrow> (Diverged, w'')))))"

text \<open>
  \<open>go_try\<close> is a call of a function returning a value and an error, followed by
  \<^verbatim>\<open>if err != nil\<close>; \<open>go_tryE\<close> the same for a function that returns only an error.
\<close>

definition go_try :: "('w, 'a res) io \<Rightarrow> (go_error \<Rightarrow> ('w, 'b) io) \<Rightarrow> ('a \<Rightarrow> ('w, 'b) io) \<Rightarrow> ('w, 'b) io" where
  [go_simps]: "go_try m h k = go_bind m (\<lambda>r. case r of Inl e \<Rightarrow> h e | Inr x \<Rightarrow> k x)"

definition go_tryE :: "('w, go_error option) io \<Rightarrow> (go_error \<Rightarrow> ('w, 'b) io) \<Rightarrow> ('w, 'b) io \<Rightarrow> ('w, 'b) io" where
  [go_simps]: "go_tryE m h k = go_bind m (\<lambda>r. case r of Some e \<Rightarrow> h e | None \<Rightarrow> k)"

text \<open>
  A pointer to an object of the world: how to read it and how to overwrite it. \<open>ref_modify\<close> is an
  assignment through the pointer.
\<close>

record ('w, 'a) ref =
  ref_get :: "'w \<Rightarrow> 'a"
  ref_put :: "'a \<Rightarrow> 'w \<Rightarrow> 'w"

definition ref_modify :: "('w, 'a) ref \<Rightarrow> ('a \<Rightarrow> 'a) \<Rightarrow> ('w, unit) io" where
  [go_simps]: "ref_modify p f = (\<lambda>w. (Ret (), ref_put p (f (ref_get p w)) w))"

definition ref_read :: "('w, 'a) ref \<Rightarrow> ('w, 'a) io" where
  [go_simps]: "ref_read p = (\<lambda>w. (Ret (ref_get p w), w))"

text \<open>A pointer to a field, the pointers to the halves of a pair, and a program on a part of the world.\<close>

definition field_ref :: "('a \<Rightarrow> 'b) \<Rightarrow> (('b \<Rightarrow> 'b) \<Rightarrow> 'a \<Rightarrow> 'a) \<Rightarrow> ('w, 'a) ref \<Rightarrow> ('w, 'b) ref" where
  [go_simps]: "field_ref get upd p =
     \<lparr>ref_get = (\<lambda>w. get (ref_get p w)), ref_put = (\<lambda>x w. ref_put p (upd (\<lambda>_. x) (ref_get p w)) w)\<rparr>"

definition fst_ref :: "('a \<times> 'b, 'a) ref" where
  [go_simps]: "fst_ref = \<lparr>ref_get = fst, ref_put = (\<lambda>x w. (x, snd w))\<rparr>"

definition snd_ref :: "('a \<times> 'b, 'b) ref" where
  [go_simps]: "snd_ref = \<lparr>ref_get = snd, ref_put = (\<lambda>x w. (fst w, x))\<rparr>"

definition zoom :: "('w, 'a) ref \<Rightarrow> ('a, 'b) io \<Rightarrow> ('w, 'b) io" where
  "zoom p m = (\<lambda>w. case m (ref_get p w) of (r, x) \<Rightarrow> (r, ref_put p x w))"

lemma zoom_run: "m (ref_get p w) = (r, x) \<Longrightarrow> zoom p m w = (r, ref_put p x w)"
  by (simp add: zoom_def)

section \<open>Evaluation rules\<close>

lemma go_bind_ret [simp]: "go_bind (go_ret x) f = f x"
  by (simp add: go_simps)

lemma go_bind_panic [simp]: "go_bind (go_panic p) f = go_panic p"
  by (simp add: go_simps)

lemma go_bind_assoc: "go_bind (go_bind m f) g = go_bind m (\<lambda>x. go_bind (f x) g)"
  by (rule ext) (simp add: go_bind_def split: prod.splits go.splits)

lemma go_bind_run [simp]:
  "m w = (Ret x, w') \<Longrightarrow> go_bind m f w = f x w'"
  "m w = (Panic p, w') \<Longrightarrow> go_bind m f w = (Panic p, w')"
  "m w = (Diverged, w') \<Longrightarrow> go_bind m f w = (Diverged, w')"
  by (simp_all add: go_simps)

lemma go_try_run [simp]:
  "m w = (Ret (Inl e), w') \<Longrightarrow> go_try m h k w = h e w'"
  "m w = (Ret (Inr x), w') \<Longrightarrow> go_try m h k w = k x w'"
  "m w = (Panic p, w') \<Longrightarrow> go_try m h k w = (Panic p, w')"
  "m w = (Diverged, w') \<Longrightarrow> go_try m h k w = (Diverged, w')"
  by (simp_all add: go_simps)

lemma go_try_bool_run [simp]:
  "m w = (Ret (Inr True), w') \<Longrightarrow> go_try m h k w = k True w'"
  "m w = (Ret (Inr False), w') \<Longrightarrow> go_try m h k w = k False w'"
  by (simp_all add: go_simps)

lemma go_tryE_run [simp]:
  "m w = (Ret (Some e), w') \<Longrightarrow> go_tryE m h k w = h e w'"
  "m w = (Ret None, w') \<Longrightarrow> go_tryE m h k w = k w'"
  "m w = (Panic p, w') \<Longrightarrow> go_tryE m h k w = (Panic p, w')"
  "m w = (Diverged, w') \<Longrightarrow> go_tryE m h k w = (Diverged, w')"
  by (simp_all add: go_simps)

lemma go_ret_run [simp]: "go_ret x w = (Ret x, w)"
  by (simp add: go_simps)

lemma go_panic_run [simp]: "go_panic p w = (Panic p, w)"
  by (simp add: go_simps)

lemma go_diverge_run [simp]: "go_diverge w = (Diverged, w)"
  by (simp add: go_simps)

text \<open>Inversion: how a sequence can have returned.\<close>

lemma go_bind_RetD:
  "go_bind m f w = (Ret y, w2) \<Longrightarrow> \<exists>x w1. m w = (Ret x, w1) \<and> f x w1 = (Ret y, w2)"
  by (auto simp: go_bind_def split: prod.splits go.splits)

lemma go_defer_RetD:
  "go_defer d m w = (Ret y, w2) \<Longrightarrow> \<exists>w1 u. m w = (Ret y, w1) \<and> d w1 = (Ret u, w2)"
  by (auto simp: go_defer_def split: prod.splits go.splits)

lemma go_defer_run:
  "m w = (Ret y, w1) \<Longrightarrow> d w1 = (Ret u, w2) \<Longrightarrow> go_defer d m w = (Ret y, w2)"
  "m w = (Panic p, w1) \<Longrightarrow> d w1 = (Ret u, w2) \<Longrightarrow> go_defer d m w = (Panic p, w2)"
  by (simp_all add: go_defer_def)

section \<open>Programs that stay within a relation\<close>

text \<open>
  \<open>within R m\<close>: whatever \<open>m\<close> returns, the world it leaves is related to the world it started in.
  With a reflexive and transitive \<open>R\<close> (a frame condition, an order on logs) the combinators
  keep it, so a component proves it once for each of its calls.
\<close>

definition within :: "('w \<Rightarrow> 'w \<Rightarrow> bool) \<Rightarrow> ('w, 'a) io \<Rightarrow> bool" where
  "within R m \<longleftrightarrow> (\<forall>w. R w (snd (m w)))"

lemma withinI: "(\<And>w r w'. m w = (r, w') \<Longrightarrow> R w w') \<Longrightarrow> within R m"
  unfolding within_def by (metis prod.collapse)

lemma withinD: "within R m \<Longrightarrow> m w = (r, w') \<Longrightarrow> R w w'"
  unfolding within_def by (metis snd_conv)

lemma within_ret [within_intros]: "reflp R \<Longrightarrow> within R (go_ret x)"
  by (simp add: within_def reflpD)

lemma within_panic [within_intros]: "reflp R \<Longrightarrow> within R (go_panic p)"
  by (simp add: within_def reflpD)

lemma within_diverge [within_intros]: "reflp R \<Longrightarrow> within R go_diverge"
  by (simp add: within_def reflpD)

lemma within_bind_at:
  assumes "transp R" and "within R m" and "\<And>w x w'. m w = (Ret x, w') \<Longrightarrow> within R (f x)"
  shows "within R (go_bind m f)"
proof (rule withinI)
  fix w r w'
  assume run: "go_bind m f w = (r, w')"
  obtain q w1 where q: "m w = (q, w1)" by force
  have R1: "R w w1" using assms(2) q by (rule withinD)
  show "R w w'"
  proof (cases q)
    case (Ret x)
    with run q have "f x w1 = (r, w')" by simp
    with assms(3) q Ret have "R w1 w'" by (blast intro: withinD)
    with R1 show ?thesis using assms(1) by (blast dest: transpD)
  qed (use run q R1 in simp_all)
qed

lemma within_bind [within_intros]: "transp R \<Longrightarrow> within R m \<Longrightarrow> (\<And>x. within R (f x)) \<Longrightarrow> within R (go_bind m f)"
  by (rule within_bind_at)

lemma within_defer_result [within_intros]:
  assumes "transp R" and "within R d" and "within R m"
  shows "within R (go_defer_result d upd m)"
proof (rule withinI)
  fix w r w'
  assume run: "go_defer_result d upd m w = (r, w')"
  obtain q w1 where q: "m w = (q, w1)" by force
  obtain s w2 where s: "d w1 = (s, w2)" by force
  have R1: "R w w1" using assms(3) q by (rule withinD)
  have "R w1 w2" using assms(2) s by (rule withinD)
  with R1 have R2: "R w w2" using assms(1) by (blast dest: transpD)
  have "w' = w1 \<or> w' = w2"
    using run q s by (auto simp: go_defer_result_def split: go.splits)
  with R1 R2 show "R w w'" by blast
qed

lemma go_defer_is_result: "go_defer d m = go_defer_result d (\<lambda>_ x. x) m"
  by (rule ext) (auto simp: go_defer_def go_defer_result_def split: prod.splits go.splits)

lemma within_defer [within_intros]:
  "transp R \<Longrightarrow> within R d \<Longrightarrow> within R m \<Longrightarrow> within R (go_defer d m)"
  unfolding go_defer_is_result by (rule within_defer_result)

lemma within_try [within_intros]:
  "transp R \<Longrightarrow> within R m \<Longrightarrow> (\<And>e. within R (h e)) \<Longrightarrow> (\<And>x. within R (k x)) \<Longrightarrow> within R (go_try m h k)"
  unfolding go_try_def by (rule within_bind) (auto split: sum.splits)

lemma within_tryE [within_intros]:
  "transp R \<Longrightarrow> within R m \<Longrightarrow> (\<And>e. within R (h e)) \<Longrightarrow> within R k \<Longrightarrow> within R (go_tryE m h k)"
  unfolding go_tryE_def by (rule within_bind) (auto split: option.splits)

lemma within_if [within_intros]:
  "(b \<Longrightarrow> within R m) \<Longrightarrow> (\<not> b \<Longrightarrow> within R n) \<Longrightarrow> within R (if b then m else n)"
  by simp

lemma within_mono: "within R m \<Longrightarrow> (\<And>w w'. R w w' \<Longrightarrow> S w w') \<Longrightarrow> within S m"
  by (auto simp: within_def)

text \<open>The relation of two worlds that agree on the observation \<open>f\<close>.\<close>

definition same :: "('w \<Rightarrow> 'b) \<Rightarrow> 'w \<Rightarrow> 'w \<Rightarrow> bool" where
  "same f w w' \<longleftrightarrow> f w' = f w"

lemma same_order [simp]: "reflp (same f)" "transp (same f)"
  by (auto simp: same_def intro!: reflpI transpI)

lemma within_sameD: "within (same f) m \<Longrightarrow> m w = (r, w') \<Longrightarrow> f w' = f w"
  by (drule (1) withinD) (simp add: same_def)

section \<open>Programs that agree while a condition holds\<close>

text \<open>
  \<open>agree P m n\<close>: started where \<open>P\<close> holds, \<open>m\<close> and \<open>n\<close> do the same and \<open>P\<close> holds afterwards. With \<open>n\<close> a version of
  \<open>m\<close> whose calls are guarded by \<open>P\<close> it says that every such call is made while \<open>P\<close> holds; with \<open>n = m\<close> it says that
  \<open>P\<close> is kept.
\<close>

definition agree :: "('w \<Rightarrow> bool) \<Rightarrow> ('w, 'a) io \<Rightarrow> ('w, 'a) io \<Rightarrow> bool" where
  "agree P m n \<longleftrightarrow> (\<forall>w. P w \<longrightarrow> n w = m w \<and> P (snd (m w)))"

definition guarded :: "('w \<Rightarrow> bool) \<Rightarrow> ('w, 'a) io \<Rightarrow> ('w, 'a) io" where
  "guarded P m = (\<lambda>w. if P w then m w else (Panic NilDereference, w))"

lemma agreeD: "agree P m n \<Longrightarrow> P w \<Longrightarrow> n w = m w" "agree P m n \<Longrightarrow> P w \<Longrightarrow> m w = (r, w') \<Longrightarrow> P w'"
  unfolding agree_def by (blast, metis snd_conv)

lemma agree_guarded [agree_intros]: "agree P m n \<Longrightarrow> agree P m (guarded P n)"
  by (simp add: agree_def guarded_def)

lemma agree_ret [agree_intros]: "agree P (go_ret x) (go_ret x)"
  by (simp add: agree_def)

lemma agree_panic [agree_intros]: "agree P (go_panic p) (go_panic p)"
  by (simp add: agree_def)

lemma agree_diverge [agree_intros]: "agree P go_diverge go_diverge"
  by (simp add: agree_def)

lemma agree_bind_at:
  assumes "agree P m n" and "\<And>w x w'. m w = (Ret x, w') \<Longrightarrow> agree P (f x) (g x)"
  shows "agree P (go_bind m f) (go_bind n g)"
  unfolding agree_def
proof (intro allI impI)
  fix w
  assume P: "P w"
  obtain r w1 where m: "m w = (r, w1)" by force
  then have n: "n w = (r, w1)" and P1: "P w1" using agreeD [OF assms(1) P] by simp_all
  show "go_bind n g w = go_bind m f w \<and> P (snd (go_bind m f w))"
  proof (cases r)
    case (Ret x)
    with assms(2) m have "agree P (f x) (g x)" by blast
    with Ret m n P1 show ?thesis by (simp add: agree_def)
  qed (use m n P1 in simp_all)
qed

lemma agree_bind [agree_intros]: "agree P m n \<Longrightarrow> (\<And>x. agree P (f x) (g x)) \<Longrightarrow> agree P (go_bind m f) (go_bind n g)"
  by (rule agree_bind_at)

lemma agree_try [agree_intros]:
  "agree P m n \<Longrightarrow> (\<And>e. agree P (h e) (h' e)) \<Longrightarrow> (\<And>x. agree P (k x) (k' x)) \<Longrightarrow> agree P (go_try m h k) (go_try n h' k')"
  unfolding go_try_def by (rule agree_bind) (auto split: sum.splits)

lemma agree_tryE [agree_intros]:
  "agree P m n \<Longrightarrow> (\<And>e. agree P (h e) (h' e)) \<Longrightarrow> agree P k k' \<Longrightarrow> agree P (go_tryE m h k) (go_tryE n h' k')"
  unfolding go_tryE_def by (rule agree_bind) (auto split: option.splits)

lemma agree_defer_result [agree_intros]:
  assumes "agree P d e" and "agree P m n"
  shows "agree P (go_defer_result d upd m) (go_defer_result e upd n)"
  unfolding agree_def
proof (intro allI impI)
  fix w
  assume P: "P w"
  obtain r w1 where m: "m w = (r, w1)" by force
  then have n: "n w = (r, w1)" and P1: "P w1" using agreeD [OF assms(2) P] by simp_all
  obtain q w2 where d: "d w1 = (q, w2)" by force
  then have e: "e w1 = (q, w2)" and P2: "P w2" using agreeD [OF assms(1) P1] by simp_all
  show "go_defer_result e upd n w = go_defer_result d upd m w \<and> P (snd (go_defer_result d upd m w))"
    using m n d e P1 P2 by (auto simp: go_defer_result_def split: go.splits)
qed

lemma agree_defer [agree_intros]:
  "agree P d e \<Longrightarrow> agree P m n \<Longrightarrow> agree P (go_defer d m) (go_defer e n)"
  unfolding go_defer_is_result by (rule agree_defer_result)

lemma agree_if [agree_intros]:
  "(b \<Longrightarrow> agree P m n) \<Longrightarrow> (\<not> b \<Longrightarrow> agree P m' n') \<Longrightarrow> agree P (if b then m else m') (if b then n else n')"
  by simp

text \<open>A program stays within a preorder exactly if it keeps every upward-closed set of worlds of the form \<open>R w\<close>.\<close>

lemma within_agree: "reflp R \<Longrightarrow> transp R \<Longrightarrow> within R m \<longleftrightarrow> (\<forall>w. agree (R w) m m)"
  unfolding within_def agree_def by (metis reflpD transpD)

section \<open>Words read as signed and unsigned integers\<close>

lemma sint_int64_bounds: "- (2 ^ 63) \<le> sint (x :: int64)" "sint (x :: int64) < 2 ^ 63"
  using sint_range_size [of x] by (simp_all add: word_size)

lemma uint_int64_nonneg:
  fixes x :: int64
  assumes "0 \<le> sint x"
  shows "uint x = sint x"
proof -
  have "sint x < 2 ^ 64"
    using sint_int64_bounds(2) [of x] by simp
  with assms have "take_bit 64 (sint x) = sint x"
    by (simp add: take_bit_int_eq_self)
  then show ?thesis
    by (simp add: uint_sint)
qed

lemma word_of_nat_int64: "0 \<le> i \<Longrightarrow> (of_nat (nat i) :: int64) = of_int i"
  by (metis of_int_of_nat_eq of_nat_nat)

lemma sint_of_nat_int64: "n < 2 ^ 63 \<Longrightarrow> sint (of_nat n :: int64) = int n"
proof -
  assume "n < 2 ^ 63"
  then have "int n < 2 ^ 63" by (simp add: of_nat_less_iff [symmetric] del: of_nat_less_iff)
  then show ?thesis
    by (simp add: signed_of_nat signed_take_bit_int_eq_self)
qed

end
