(* ===== verification/Go_Strconv.thy ===== *)
theory Go_Strconv
  imports Go_Base
begin

text \<open>
  Decimal conversion, as strconv does it: \<open>FormatInt\<close> with base 10, and \<open>ParseUint\<close> and
  \<open>ParseInt\<close> with base 10 and a bit size, including the value they return beside a range error.
  The size file of a layer is written with the first and read back with the last
  (src/driver/unpack.go), so the round trip below is what makes a cached layer report the size
  it was unpacked with.
\<close>

section \<open>Printing\<close>

definition digit_char :: "nat \<Rightarrow> char" where
  "digit_char d = char_of (48 + d)"

fun dec :: "nat \<Rightarrow> string" where
  "dec n = (if n < 10 then [digit_char n] else dec (n div 10) @ [digit_char (n mod 10)])"

declare dec.simps [simp del]

definition show_int :: "int \<Rightarrow> string" where
  "show_int i = (if i < 0 then CHR ''-'' # dec (nat (- i)) else dec (nat i))"

definition FormatInt :: "int64 \<Rightarrow> string" where
  "FormatInt i = show_int (sint i)"

section \<open>Parsing\<close>

definition maxUint64 :: nat where
  "maxUint64 = 18446744073709551615"

text \<open>
  The loop of ParseUint: the accumulator stays below \<open>2 ^ 64\<close>, so natural numbers and the
  \<^verbatim>\<open>uint64\<close> of the code agree; \<open>n \<ge> cutoff\<close> and \<open>n * 10 + d > maxVal\<close> are its two range tests.
\<close>

definition is_digit :: "char \<Rightarrow> bool" where
  "is_digit c \<longleftrightarrow> 48 \<le> (of_char c :: nat) \<and> (of_char c :: nat) \<le> 57"

fun uint_loop :: "nat \<Rightarrow> nat \<Rightarrow> string \<Rightarrow> num_err + nat" where
  "uint_loop maxVal n [] = Inr n"
| "uint_loop maxVal n (c # cs) =
     (if \<not> is_digit c then Inl ErrSyntax
      else if n \<ge> maxUint64 div 10 + 1 then Inl ErrRange
      else let n1 = n * 10 + (of_char c - 48) in
        if n1 > maxVal then Inl ErrRange else uint_loop maxVal n1 cs)"

text \<open>ParseUint returns a value and an error: the largest value on a range error, 0 on bad syntax.\<close>

definition ParseUint :: "string \<Rightarrow> nat \<Rightarrow> nat \<times> num_err option" where
  "ParseUint s bitSize =
     (if s = [] then (0, Some ErrSyntax)
      else let maxVal = 2 ^ bitSize - 1 in
        case uint_loop maxVal 0 s of
          Inr n \<Rightarrow> (n, None)
        | Inl ErrRange \<Rightarrow> (maxVal, Some ErrRange)
        | Inl ErrSyntax \<Rightarrow> (0, Some ErrSyntax))"

definition ParseInt :: "string \<Rightarrow> nat \<Rightarrow> int64 \<times> go_error option" where
  "ParseInt s0 bitSize =
     (if s0 = [] then (0, Some (NumError ''ParseInt'' s0 ErrSyntax))
      else
        let neg = (hd s0 = CHR ''-'');
            s = (if hd s0 = CHR ''+'' \<or> neg then tl s0 else s0);
            (un, err) = ParseUint s bitSize;
            cutoff = 2 ^ (bitSize - 1)
        in
        if err = Some ErrSyntax then (0, Some (NumError ''ParseInt'' s0 ErrSyntax))
        else if \<not> neg \<and> un \<ge> cutoff then (of_nat (cutoff - 1), Some (NumError ''ParseInt'' s0 ErrRange))
        else if neg \<and> un > cutoff then (- of_nat cutoff, Some (NumError ''ParseInt'' s0 ErrRange))
        else (if neg then - of_nat un else of_nat un, None))"

section \<open>Lemmas\<close>

lemma of_digit_char: "d < 10 \<Longrightarrow> (of_char (digit_char d) :: nat) = 48 + d"
  by (simp add: digit_char_def)

lemma is_digit_digit_char: "d < 10 \<Longrightarrow> is_digit (digit_char d)"
  by (simp add: is_digit_def of_digit_char)

lemma dec_nonempty [simp]: "dec n \<noteq> []"
  by (subst dec.simps) simp

lemma dec_digits: "c \<in> set (dec n) \<Longrightarrow> is_digit c"
proof (induction n rule: dec.induct)
  case (1 n)
  then show ?case
    by (cases "n < 10") (auto simp: dec.simps [of n] is_digit_digit_char)
qed

lemma hd_dec_digit: "is_digit (hd (dec n))"
  by (rule dec_digits [of _ n]) simp

text \<open>Reading back the digits of \<open>k\<close> leaves the accumulator at \<open>k\<close>.\<close>

lemma uint_loop_dec:
  assumes "maxVal \<le> maxUint64"
  shows "k \<le> maxVal \<Longrightarrow> uint_loop maxVal 0 (dec k @ cs) = uint_loop maxVal k cs"
proof (induction k arbitrary: cs rule: dec.induct)
  case (1 k)
  show ?case
  proof (cases "k < 10")
    case True
    with "1.prems" show ?thesis
      by (simp add: dec.simps [of k] is_digit_digit_char of_digit_char maxUint64_def)
  next
    case False
    let ?c = "digit_char (k mod 10)"
    from "1.prems" have "k div 10 \<le> maxVal" by simp
    with False have "uint_loop maxVal 0 (dec (k div 10) @ ?c # cs) = uint_loop maxVal (k div 10) (?c # cs)"
      using "1.IH" by simp
    moreover have "k div 10 < maxUint64 div 10 + 1"
      using "1.prems" assms by (simp add: div_le_mono less_Suc_eq_le)
    ultimately show ?thesis
      using False "1.prems"
      by (simp add: dec.simps [of k] is_digit_digit_char of_digit_char)
  qed
qed

lemma ParseUint_dec:
  assumes "bitSize \<le> 64" and "k < 2 ^ bitSize"
  shows "ParseUint (dec k) bitSize = (k, None)"
proof -
  have "(2::nat) ^ bitSize \<le> 2 ^ 64"
    using assms(1) by (rule power_increasing) simp
  then have "(2::nat) ^ bitSize - 1 \<le> maxUint64"
    by (simp add: maxUint64_def)
  moreover have "k \<le> 2 ^ bitSize - 1"
    using assms(2) by simp
  ultimately have "uint_loop (2 ^ bitSize - 1) 0 (dec k @ []) = uint_loop (2 ^ bitSize - 1) k []"
    by (rule uint_loop_dec)
  then show ?thesis
    by (simp add: ParseUint_def)
qed

lemma dec_head:
  "hd (dec n) \<noteq> CHR ''-''" "hd (dec n) \<noteq> CHR ''+''"
  using hd_dec_digit [of n] by (auto simp: is_digit_def)

lemma ParseInt_FormatInt: "ParseInt (FormatInt x) 64 = (x, None)"
proof (cases "sint x < 0")
  case True
  have b: "nat (- sint x) \<le> 2 ^ 63"
    using sint_int64_bounds(1) [of x] by simp
  then have "ParseUint (dec (nat (- sint x))) 64 = (nat (- sint x), None)"
    by (intro ParseUint_dec) simp_all
  moreover have "- (word_of_nat (nat (- sint x)) :: int64) = x"
    using True word_of_nat_int64 [of "- sint x"] by simp
  ultimately show ?thesis
    using True b by (simp add: ParseInt_def FormatInt_def show_int_def)
next
  case False
  have b: "nat (sint x) < 2 ^ 63"
    using sint_int64_bounds(2) [of x] False by simp
  then have "ParseUint (dec (nat (sint x))) 64 = (nat (sint x), None)"
    by (intro ParseUint_dec) simp_all
  moreover have "(word_of_nat (nat (sint x)) :: int64) = x"
    using False word_of_nat_int64 [of "sint x"] by simp
  ultimately show ?thesis
    using False b by (simp add: ParseInt_def FormatInt_def show_int_def dec_head)
qed

end
