(* ===== verification/Go_Encoding.thy ===== *)
theory Go_Encoding
  imports Go_Strconv
begin

text \<open>
  The encodings of the Go library that the backup-stream code uses: little-endian integers
  (encoding/binary), strings as UTF-16 code units (a conversion to runes followed by
  \<^verbatim>\<open>utf16.Encode\<close>), and base64 (\<^verbatim>\<open>base64.StdEncoding.DecodeString\<close>).
\<close>

section \<open>Little-endian integers\<close>

fun le_bytes :: "nat \<Rightarrow> nat \<Rightarrow> bytes" where
  "le_bytes 0 v = []"
| "le_bytes (Suc k) v = char_of (v mod 256) # le_bytes k (v div 256)"

fun le_value :: "bytes \<Rightarrow> nat" where
  "le_value [] = 0"
| "le_value (c # cs) = of_char c + 256 * le_value cs"

lemma length_le_bytes [simp]: "length (le_bytes k v) = k"
  by (induction k arbitrary: v) simp_all

lemma le_value_bytes: "v < 256 ^ k \<Longrightarrow> le_value (le_bytes k v) = v"
proof (induction k arbitrary: v)
  case (Suc k)
  then have "v div 256 < 256 ^ k" by (simp add: less_mult_imp_div_less mult.commute)
  with Suc.IH show ?case by simp
qed simp

section \<open>UTF-16\<close>

text \<open>
  A conversion \<^verbatim>\<open>[]rune(s)\<close>: the UTF-8 sequences of \<open>s\<close> one by one, where a byte that starts no valid
  sequence is the replacement rune U+FFFD and takes one byte.
\<close>

definition cont_byte :: "nat \<Rightarrow> bool" where
  "cont_byte b \<longleftrightarrow> 128 \<le> b \<and> b < 192"

definition rune_error :: nat where
  "rune_error = 0xFFFD"

text \<open>The rune at the start of a non-empty byte sequence, and its length.\<close>

definition decode_rune :: "nat list \<Rightarrow> nat \<times> nat" where
  "decode_rune bs =
     (case bs of
        [] \<Rightarrow> (rune_error, 0)
      | b0 # t \<Rightarrow>
          if b0 < 128 then (b0, 1)
          else if 0xC2 \<le> b0 \<and> b0 \<le> 0xDF then
            (case t of
               b1 # _ \<Rightarrow> if cont_byte b1 then ((b0 - 0xC0) * 64 + (b1 - 128), 2) else (rune_error, 1)
             | _ \<Rightarrow> (rune_error, 1))
          else if 0xE0 \<le> b0 \<and> b0 \<le> 0xEF then
            (case t of
               b1 # b2 # _ \<Rightarrow>
                 if cont_byte b1 \<and> cont_byte b2 \<and> (b0 = 0xE0 \<longrightarrow> 0xA0 \<le> b1) \<and> (b0 = 0xED \<longrightarrow> b1 \<le> 0x9F)
                 then ((b0 - 0xE0) * 4096 + (b1 - 128) * 64 + (b2 - 128), 3) else (rune_error, 1)
             | _ \<Rightarrow> (rune_error, 1))
          else if 0xF0 \<le> b0 \<and> b0 \<le> 0xF4 then
            (case t of
               b1 # b2 # b3 # _ \<Rightarrow>
                 if cont_byte b1 \<and> cont_byte b2 \<and> cont_byte b3
                    \<and> (b0 = 0xF0 \<longrightarrow> 0x90 \<le> b1) \<and> (b0 = 0xF4 \<longrightarrow> b1 \<le> 0x8F)
                 then ((b0 - 0xF0) * 262144 + (b1 - 128) * 4096 + (b2 - 128) * 64 + (b3 - 128), 4)
                 else (rune_error, 1)
             | _ \<Rightarrow> (rune_error, 1))
          else (rune_error, 1))"

lemma decode_rune_width: "bs \<noteq> [] \<Longrightarrow> 1 \<le> snd (decode_rune bs)"
  by (auto simp: decode_rune_def split: list.splits)

function runes :: "nat list \<Rightarrow> nat list" where
  "runes bs = (if bs = [] then [] else fst (decode_rune bs) # runes (drop (snd (decode_rune bs)) bs))"
  by pat_completeness auto

termination
proof (relation "measure length")
  fix bs :: "nat list"
  assume "bs \<noteq> []"
  then show "(drop (snd (decode_rune bs)) bs, bs) \<in> measure length"
    using decode_rune_width [of bs] by (cases bs) auto
qed simp

declare runes.simps [simp del]

definition utf16_units :: "nat \<Rightarrow> nat list" where
  "utf16_units r =
     (if r < 0x10000 then [if 0xD800 \<le> r \<and> r \<le> 0xDFFF then rune_error else r]
      else if r \<le> 0x10FFFF then [0xD800 + (r - 0x10000) div 1024, 0xDC00 + (r - 0x10000) mod 1024]
      else [rune_error])"

definition utf16_Encode :: "string \<Rightarrow> nat list" where
  "utf16_Encode s = concat (map utf16_units (runes (map of_char s)))"

definition utf16_bytes :: "nat list \<Rightarrow> bytes" where
  "utf16_bytes us = concat (map (le_bytes 2) us)"

lemma length_utf16_bytes [simp]: "length (utf16_bytes us) = 2 * length us"
  by (induction us) (simp_all add: utf16_bytes_def)

text \<open>An ASCII string is one unit per character.\<close>

lemma runes_ascii: "\<forall>b \<in> set bs. b < 128 \<Longrightarrow> runes bs = bs"
proof (induction bs)
  case (Cons b bs)
  then show ?case
    by (subst runes.simps) (simp add: decode_rune_def)
qed (simp add: runes.simps)

lemma utf16_ascii:
  assumes "\<forall>c \<in> set s. (of_char c :: nat) < 128"
  shows "utf16_Encode s = map of_char s"
proof -
  have "runes (map of_char s) = map of_char s"
    by (rule runes_ascii) (use assms in auto)
  moreover have "concat (map utf16_units (map of_char s)) = map of_char s"
    using assms by (induction s) (auto simp: utf16_units_def)
  ultimately show ?thesis by (simp add: utf16_Encode_def)
qed

section \<open>Base64\<close>

definition b64_value :: "char \<Rightarrow> nat option" where
  "b64_value c =
     (let n = of_char c :: nat in
      if 65 \<le> n \<and> n \<le> 90 then Some (n - 65)
      else if 97 \<le> n \<and> n \<le> 122 then Some (n - 71)
      else if 48 \<le> n \<and> n \<le> 57 then Some (n + 4)
      else if c = CHR ''+'' then Some 62
      else if c = CHR ''/'' then Some 63
      else None)"

definition is_newline :: "char \<Rightarrow> bool" where
  "is_newline c \<longleftrightarrow> c = CHR 0x0A \<or> c = CHR 0x0D"

definition CorruptInputError :: "nat \<Rightarrow> go_error" where
  "CorruptInputError n = ErrorString (''illegal base64 data at input byte '' @ dec n)"

fun skip_newlines :: "string \<Rightarrow> nat \<Rightarrow> string \<times> nat" where
  "skip_newlines [] si = ([], si)"
| "skip_newlines (c # cs) si = (if is_newline c then skip_newlines cs (Suc si) else (c # cs, si))"

text \<open>The bytes that the first \<open>dlen\<close> six-bit values of a quantum stand for.\<close>

definition quantum_bytes :: "nat list \<Rightarrow> bytes" where
  "quantum_bytes ds =
     (let v = (ds @ [0, 0, 0, 0]) ! 0 * 262144 + (ds @ [0, 0, 0, 0]) ! 1 * 4096
            + (ds @ [0, 0, 0, 0]) ! 2 * 64 + (ds @ [0, 0, 0, 0]) ! 3
      in map char_of (take (length ds - 1) [v div 65536 mod 256, v div 256 mod 256, v mod 256]))"

text \<open>
  DecodeString: \<open>si\<close> is the position in the input, \<open>ds\<close> the values of the quantum read so far. After the
  padding only newlines may follow.
\<close>

fun b64_loop :: "string \<Rightarrow> nat \<Rightarrow> nat list \<Rightarrow> bytes \<Rightarrow> bytes res" where
  "b64_loop [] si ds out = (if ds = [] then Inr out else Inl (CorruptInputError (si - length ds)))"
| "b64_loop (c # cs) si ds out =
     (case b64_value c of
        Some v \<Rightarrow>
          if length ds = 3 then b64_loop cs (Suc si) [] (out @ quantum_bytes (ds @ [v]))
          else b64_loop cs (Suc si) (ds @ [v]) out
      | None \<Rightarrow>
          if is_newline c then b64_loop cs (Suc si) ds out
          else if c \<noteq> CHR ''='' then Inl (CorruptInputError si)
          else if length ds < 2 then Inl (CorruptInputError si)
          else if length ds = 2 then
            (case skip_newlines cs (Suc si) of
               ([], n) \<Rightarrow> Inl (CorruptInputError n)
             | (p # ps, n) \<Rightarrow>
                 if p \<noteq> CHR ''='' then Inl (CorruptInputError (n - 1))
                 else (case skip_newlines ps (Suc n) of
                         ([], _) \<Rightarrow> Inr (out @ quantum_bytes ds)
                       | (_, m) \<Rightarrow> Inl (CorruptInputError m)))
          else
            (case skip_newlines cs (Suc si) of
               ([], _) \<Rightarrow> Inr (out @ quantum_bytes ds)
             | (_, m) \<Rightarrow> Inl (CorruptInputError m)))"

definition b64_DecodeString :: "string \<Rightarrow> bytes res" where
  "b64_DecodeString s = b64_loop s 0 [] []"

end
