(* ===== verification/Go_Path.thy ===== *)
theory Go_Path
  imports Go_Base
begin

text \<open>
  The path functions the program calls: \<^verbatim>\<open>path/filepath\<close> on Windows (Clean, Join, VolumeName,
  Dir, FromSlash) and the slash-separated \<^verbatim>\<open>path\<close> (Base, Dir). Clean is translated with its lazy
  buffer; the lemmas then show that on a rooted path with a drive letter it computes the
  reference normalisation (split at separators, resolve \<^verbatim>\<open>.\<close> and \<^verbatim>\<open>..\<close>, join with
  backslashes), from which the driver's store paths are computed.
\<close>

section \<open>Separators\<close>

abbreviation bslash :: char where
  "bslash \<equiv> CHR 0x5C"

definition IsPathSeparator :: "char \<Rightarrow> bool" where
  "IsPathSeparator c \<longleftrightarrow> c = bslash \<or> c = CHR ''/''"

definition IsSlash :: "char \<Rightarrow> bool" where
  "IsSlash c \<longleftrightarrow> c = CHR ''/''"

definition FromSlash :: "string \<Rightarrow> string" where
  "FromSlash s = map (\<lambda>c. if c = CHR ''/'' then bslash else c) s"

section \<open>Volume names\<close>

definition toUpper :: "char \<Rightarrow> char" where
  "toUpper c = (if 97 \<le> (of_char c :: nat) \<and> (of_char c :: nat) \<le> 122
                then char_of ((of_char c :: nat) - 32) else c)"

definition pathHasPrefixFold :: "string \<Rightarrow> string \<Rightarrow> bool" where
  "pathHasPrefixFold s prefix \<longleftrightarrow>
     length prefix \<le> length s
     \<and> list_all2 (\<lambda>p c. if IsPathSeparator p then IsPathSeparator c else toUpper p = toUpper c)
         prefix (take (length prefix) s)
     \<and> (length prefix < length s \<longrightarrow> IsPathSeparator (s ! length prefix))"

text \<open>\<open>unc_count k s\<close> is the number of characters before the k-th separator of s, all of s if there is none.\<close>

fun unc_count :: "nat \<Rightarrow> string \<Rightarrow> nat" where
  "unc_count k [] = 0"
| "unc_count k (c # cs) =
     (if IsPathSeparator c then (if k \<le> 1 then 0 else Suc (unc_count (k - 1) cs)) else Suc (unc_count k cs))"

definition uncLen :: "string \<Rightarrow> nat \<Rightarrow> nat" where
  "uncLen path prefixLen = min prefixLen (length path) + unc_count 2 (drop prefixLen path)"

definition volumeNameLen :: "string \<Rightarrow> nat" where
  "volumeNameLen path =
     (if 2 \<le> length path \<and> path ! 1 = CHR '':'' then 2
      else if path = [] \<or> \<not> IsPathSeparator (hd path) then 0
      else if pathHasPrefixFold path [bslash, bslash, CHR ''.'', bslash, CHR ''U'', CHR ''N'', CHR ''C'']
        then uncLen path 8
      else if pathHasPrefixFold path [bslash, bslash, CHR ''.'']
            \<or> pathHasPrefixFold path [bslash, bslash, CHR ''?'']
            \<or> pathHasPrefixFold path [bslash, CHR ''?'', CHR ''?'']
        then (if length path = 3 then 3 else 4 + unc_count 1 (drop 4 path))
      else if 2 \<le> length path \<and> IsPathSeparator (path ! 1) then uncLen path 2
      else 0)"

definition VolumeName :: "string \<Rightarrow> string" where
  "VolumeName path = FromSlash (take (volumeNameLen path) path)"

section \<open>The lazy buffer and the cleaning loop\<close>

text \<open>
  The output buffer is a pair: \<^const>\<open>None\<close> as long as the output is a prefix of the input path,
  and the number of bytes written. After the first difference the bytes are kept apart.
\<close>

type_synonym lazybuf = "string option \<times> nat"

definition lb_bytes :: "string \<Rightarrow> lazybuf \<Rightarrow> string" where
  "lb_bytes path b = (case fst b of None \<Rightarrow> path | Some s \<Rightarrow> s)"

definition lb_append :: "string \<Rightarrow> lazybuf \<Rightarrow> char \<Rightarrow> lazybuf" where
  "lb_append path b c =
     (case fst b of
        None \<Rightarrow>
          if snd b < length path \<and> path ! snd b = c then (None, Suc (snd b))
          else (Some ((take (snd b) path @ replicate (length path - snd b) (CHR 0x00))[snd b := c]), Suc (snd b))
      | Some s \<Rightarrow> (Some (s[snd b := c]), Suc (snd b)))"

fun lb_appends :: "string \<Rightarrow> lazybuf \<Rightarrow> string \<Rightarrow> lazybuf" where
  "lb_appends path b [] = b"
| "lb_appends path b (c # cs) = lb_appends path (lb_append path b c) cs"

text \<open>\<open>for out.w > dotdot \&\& !IsPathSeparator(out.index(out.w)) { out.w-- }\<close>\<close>

fun lb_back :: "(char \<Rightarrow> bool) \<Rightarrow> string \<Rightarrow> nat \<Rightarrow> nat \<Rightarrow> nat" where
  "lb_back isSep bs dotdot 0 = 0"
| "lb_back isSep bs dotdot (Suc w) =
     (if Suc w > dotdot \<and> \<not> isSep (bs ! Suc w) then lb_back isSep bs dotdot w else Suc w)"

function clean_loop :: "(char \<Rightarrow> bool) \<Rightarrow> char \<Rightarrow> string \<Rightarrow> bool \<Rightarrow> nat \<Rightarrow> lazybuf \<Rightarrow> string \<Rightarrow> lazybuf" where
  "clean_loop isSep sep path rooted dotdot b [] = b"
| "clean_loop isSep sep path rooted dotdot b (c # cs) =
     (if isSep c then clean_loop isSep sep path rooted dotdot b cs
      else if c = CHR ''.'' \<and> (cs = [] \<or> isSep (hd cs)) then clean_loop isSep sep path rooted dotdot b cs
      else if c = CHR ''.'' \<and> hd cs = CHR ''.'' \<and> (tl cs = [] \<or> isSep (hd (tl cs))) then
        (if snd b > dotdot then
           clean_loop isSep sep path rooted dotdot (fst b, lb_back isSep (lb_bytes path b) dotdot (snd b - 1)) (tl cs)
         else if \<not> rooted then
           (let b1 = (if snd b > 0 then lb_append path b sep else b);
                b2 = lb_append path (lb_append path b1 (CHR ''.'')) (CHR ''.'')
            in clean_loop isSep sep path rooted (snd b2) b2 (tl cs))
         else clean_loop isSep sep path rooted dotdot b (tl cs))
      else
        (let b1 = (if rooted \<and> snd b \<noteq> 1 \<or> \<not> rooted \<and> snd b \<noteq> 0 then lb_append path b sep else b);
             b2 = lb_appends path b1 (takeWhile (\<lambda>x. \<not> isSep x) (c # cs))
         in clean_loop isSep sep path rooted dotdot b2 (dropWhile (\<lambda>x. \<not> isSep x) (c # cs))))"
  by pat_completeness auto
termination
  by (relation "measure (\<lambda>(isSep, sep, path, rooted, dotdot, b, rest). length rest)")
     (auto simp: less_Suc_eq_le length_dropWhile_le)

definition clean_run :: "(char \<Rightarrow> bool) \<Rightarrow> char \<Rightarrow> string \<Rightarrow> lazybuf" where
  "clean_run isSep sep path =
     (let rooted = isSep (hd path);
          b = (if rooted
               then clean_loop isSep sep path True 1 (lb_append path (None, 0) sep) (tl path)
               else clean_loop isSep sep path False 0 (None, 0) path)
      in if snd b = 0 then lb_append path b (CHR ''.'') else b)"

section \<open>path/filepath on Windows\<close>

definition postClean :: "nat \<Rightarrow> lazybuf \<Rightarrow> lazybuf" where
  "postClean volLen b =
     (if volLen \<noteq> 0 then b
      else case fst b of
        None \<Rightarrow> b
      | Some s \<Rightarrow>
          if CHR '':'' \<in> set (takeWhile (\<lambda>c. \<not> IsPathSeparator c) s) then
            (Some (CHR ''.'' # bslash # s), snd b + 2)
          else if 3 \<le> length s \<and> IsPathSeparator (s ! 0) \<and> s ! 1 = CHR ''?'' \<and> s ! 2 = CHR ''?'' then
            (Some (bslash # CHR ''.'' # s), snd b + 2)
          else b)"

definition Clean :: "string \<Rightarrow> string" where
  "Clean originalPath =
     (let volLen = volumeNameLen originalPath; path = drop volLen originalPath in
      if path = [] then
        (if volLen > 1 \<and> IsPathSeparator (originalPath ! 0) \<and> IsPathSeparator (originalPath ! 1)
         then FromSlash originalPath else originalPath @ ''.'')
      else
        let b = postClean volLen (clean_run IsPathSeparator bslash path)
        in FromSlash (take volLen originalPath @ take (snd b) (lb_bytes path b)))"

text \<open>The Windows join: \<open>acc\<close> is the builder, its last character decides how the next element is attached.\<close>

fun join_loop :: "string \<Rightarrow> string list \<Rightarrow> string" where
  "join_loop acc [] = acc"
| "join_loop acc (e # es) =
     (if acc = [] then join_loop e es
      else if IsPathSeparator (last acc) then
        (let e' = dropWhile IsPathSeparator e in
         join_loop
           (acc @ (if length acc = 1 \<and> take 2 e' = ''??'' \<and> (length e' = 2 \<or> IsPathSeparator (e' ! 2))
                   then [CHR ''.'', bslash] else []) @ e') es)
      else if last acc = CHR '':'' then join_loop (acc @ e) es
      else join_loop (acc @ bslash # e) es)"

definition Join :: "string list \<Rightarrow> string" where
  "Join elems = (let s = join_loop [] elems in if s = [] then [] else Clean s)"

definition filepath_Dir :: "string \<Rightarrow> string" where
  "filepath_Dir path =
     (let vol = VolumeName path;
          rest = drop (length vol) path;
          dir = Clean (rev (dropWhile (\<lambda>c. \<not> IsPathSeparator c) (rev rest)))
      in if dir = ''.'' \<and> length vol > 2 then vol else vol @ dir)"

section \<open>path\<close>

definition path_Clean :: "string \<Rightarrow> string" where
  "path_Clean path =
     (if path = [] then ''.''
      else let b = clean_run IsSlash (CHR ''/'') path in take (snd b) (lb_bytes path b))"

definition path_Dir :: "string \<Rightarrow> string" where
  "path_Dir path = path_Clean (rev (dropWhile (\<lambda>c. c \<noteq> CHR ''/'') (rev path)))"

definition path_Base :: "string \<Rightarrow> string" where
  "path_Base path =
     (if path = [] then ''.''
      else let p = rev (dropWhile (\<lambda>c. c = CHR ''/'') (rev path));
               base = rev (takeWhile (\<lambda>c. c \<noteq> CHR ''/'') (rev p))
           in if base = [] then ''/'' else base)"

section \<open>Reference normalisation\<close>

fun split_seps :: "string \<Rightarrow> string list" where
  "split_seps [] = [[]]"
| "split_seps (c # cs) =
     (if IsPathSeparator c then [] # split_seps cs
      else let r = split_seps cs in (c # hd r) # tl r)"

lemma split_seps_Cons [simp]:
  "split_seps (c # cs) =
     (if IsPathSeparator c then [] # split_seps cs else (c # hd (split_seps cs)) # tl (split_seps cs))"
  by (simp add: Let_def)

declare split_seps.simps(2) [simp del]

definition push_elem :: "string list \<Rightarrow> string \<Rightarrow> string list" where
  "push_elem st e = (if e = [] \<or> e = ''.'' then st else if e = ''..'' then butlast st else st @ [e])"

definition resolve :: "string list \<Rightarrow> string list \<Rightarrow> string list" where
  "resolve st es = foldl push_elem st es"

definition rooted_text :: "string list \<Rightarrow> string" where
  "rooted_text es = (if es = [] then [bslash] else concat (map (\<lambda>e. bslash # e) es))"

definition elem_ok :: "string \<Rightarrow> bool" where
  "elem_ok e \<longleftrightarrow> e \<noteq> [] \<and> (\<forall>c \<in> set e. \<not> IsPathSeparator c)"

abbreviation nonsep :: "char \<Rightarrow> bool" where
  "nonsep c \<equiv> \<not> IsPathSeparator c"

lemma split_seps_nonempty [simp]: "split_seps s \<noteq> []"
  by (cases s) auto

lemma split_seps_rec:
  "split_seps s = takeWhile nonsep s # (case dropWhile nonsep s of [] \<Rightarrow> [] | _ # r \<Rightarrow> split_seps r)"
  by (induction s) auto

lemma resolve_split:
  "resolve st (split_seps s) = resolve (push_elem st (takeWhile nonsep s)) (split_seps (dropWhile nonsep s))"
proof -
  have "resolve st' (split_seps (dropWhile nonsep s))
      = resolve st' (case dropWhile nonsep s of [] \<Rightarrow> [] | _ # r \<Rightarrow> split_seps r)" for st'
  proof (cases "dropWhile nonsep s")
    case (Cons a r)
    then have "IsPathSeparator a"
      using hd_dropWhile [of nonsep s] by simp
    with Cons show ?thesis by (simp add: resolve_def push_elem_def)
  next
    case Nil
    show ?thesis unfolding Nil by (simp add: resolve_def push_elem_def)
  qed
  then show ?thesis
    by (subst split_seps_rec) (simp add: resolve_def)
qed

section \<open>The lazy buffer\<close>

definition lb_content :: "string \<Rightarrow> lazybuf \<Rightarrow> string" where
  "lb_content path b = take (snd b) (lb_bytes path b)"

definition lb_wf :: "string \<Rightarrow> lazybuf \<Rightarrow> bool" where
  "lb_wf path b \<longleftrightarrow> length (lb_bytes path b) = length path \<and> snd b \<le> length path"

lemma lb_append_content:
  assumes "lb_wf path b" and "snd b < length path"
  shows "lb_content path (lb_append path b c) = lb_content path b @ [c]"
    and "lb_wf path (lb_append path b c)"
    and "snd (lb_append path b c) = Suc (snd b)"
  using assms
  by (auto simp: lb_content_def lb_wf_def lb_append_def lb_bytes_def take_Suc_conv_app_nth min_def
      split: option.splits)

lemma lb_appends_content:
  "lb_wf path b \<Longrightarrow> snd b + length cs \<le> length path \<Longrightarrow>
     lb_content path (lb_appends path b cs) = lb_content path b @ cs
     \<and> lb_wf path (lb_appends path b cs) \<and> snd (lb_appends path b cs) = snd b + length cs"
proof (induction cs arbitrary: b)
  case (Cons c cs)
  then have "snd b < length path" by simp
  note app = lb_append_content [OF Cons.prems(1) this, of c]
  from Cons.IH [OF app(2)] Cons.prems(2) app(1,3) show ?case by simp
qed simp

lemma lb_append_set:
  "set (lb_bytes path (lb_append path b c)) \<subseteq> {c, CHR 0x00} \<union> set path \<union> set (lb_bytes path b)"
proof (cases "fst b")
  case None
  have "set ((take n xs @ replicate k z)[n := c]) \<subseteq> {c, z} \<union> set xs" for n k xs and z :: char
    using set_update_subset_insert [of "take n xs @ replicate k z" n c] set_take_subset [of n xs]
    by (auto split: if_splits)
  with None show ?thesis
    by (auto simp: lb_append_def lb_bytes_def)
next
  case (Some s)
  then show ?thesis
    using set_update_subset_insert [of s "snd b" c] by (auto simp: lb_append_def lb_bytes_def)
qed

lemma lb_appends_set:
  "set (lb_bytes path (lb_appends path b cs)) \<subseteq> set cs \<union> {CHR 0x00} \<union> set path \<union> set (lb_bytes path b)"
proof (induction cs arbitrary: b)
  case (Cons c cs)
  show ?case
    using Cons.IH [of "lb_append path b c"] lb_append_set [of path b c] by auto
qed auto

lemma length_lb_content: "lb_wf path b \<Longrightarrow> length (lb_content path b) = snd b"
  by (simp add: lb_wf_def lb_content_def)

lemma lb_back_stops:
  "dd \<le> m \<Longrightarrow> m \<le> n \<Longrightarrow> m = dd \<or> isSep (bs ! m) \<Longrightarrow> \<forall>i. m < i \<and> i \<le> n \<longrightarrow> \<not> isSep (bs ! i) \<Longrightarrow>
     lb_back isSep bs dd n = m"
  by (induction n) (auto simp: le_Suc_eq)

lemma rooted_text_snoc: "rooted_text (st @ [e]) = (if st = [] then [] else rooted_text st) @ bslash # e"
  by (simp add: rooted_text_def)

lemma length_rooted_text_gt1: "\<forall>e \<in> set st. elem_ok e \<Longrightarrow> 1 < length (rooted_text st) \<longleftrightarrow> st \<noteq> []"
  by (cases st) (auto simp: rooted_text_def elem_ok_def)

lemma length_rooted_text_pos: "0 < length (rooted_text st)"
  by (cases st) (auto simp: rooted_text_def)

text \<open>Going back over the last element of the buffer pops the stack.\<close>

lemma lb_back_pops:
  assumes wf: "lb_wf path b" and st: "lb_content path b = rooted_text (st @ [e])" and ok: "elem_ok e"
  shows "lb_back IsPathSeparator (lb_bytes path b) 1 (snd b - 1) = length (rooted_text st)"
    and "lb_content path (fst b, length (rooted_text st)) = rooted_text st"
proof -
  let ?bs = "lb_bytes path b" and ?m = "length (rooted_text st)"
  define X where "X = (if st = [] then [] else rooted_text st)"
  have c: "lb_content path b = X @ bslash # e"
    using st by (simp add: rooted_text_snoc X_def)
  then have w: "snd b = length X + 1 + length e"
    using length_lb_content [OF wf] by simp
  have idx: "?bs ! i = (X @ bslash # e) ! i" if "i < snd b" for i
    using that arg_cong [OF c, of "\<lambda>l. l ! i"] by (simp add: lb_content_def)
  have sep: "?m = 1 \<or> IsPathSeparator (?bs ! ?m)"
    using idx [of ?m] w ok by (cases "st = []") (auto simp: X_def rooted_text_def IsPathSeparator_def nth_append elem_ok_def)
  have non: "\<not> IsPathSeparator (?bs ! i)" if "?m < i" "i \<le> snd b - 1" for i
  proof -
    have i: "i < snd b" "length X < i"
      using that w by (auto simp: X_def rooted_text_def split: if_splits)
    then have "(X @ bslash # e) ! i = e ! (i - length X - 1)"
      by (simp add: nth_append)
    moreover have "i - length X - 1 < length e"
      using i w by simp
    ultimately show ?thesis
      using idx [OF i(1)] ok by (simp add: elem_ok_def)
  qed
  have le: "1 \<le> ?m" "?m \<le> snd b - 1"
    using w ok length_rooted_text_pos [of st] by (auto simp: X_def rooted_text_def elem_ok_def Suc_le_eq)
  show "lb_back IsPathSeparator ?bs 1 (snd b - 1) = ?m"
    using lb_back_stops [of 1 ?m "snd b - 1" IsPathSeparator ?bs] le sep non by blast
  have "take ?m (lb_content path b) = rooted_text st"
    using c by (cases "st = []") (simp_all add: X_def rooted_text_def)
  moreover have "?m \<le> snd b" using le(2) by simp
  ultimately show "lb_content path (fst b, ?m) = rooted_text st"
    by (simp add: lb_content_def lb_bytes_def min_absorb1)
qed

section \<open>The loop computes the reference\<close>

definition room :: "string \<Rightarrow> lazybuf \<Rightarrow> string \<Rightarrow> bool" where
  "room path b rest \<longleftrightarrow> snd b + length rest \<le> length path
     \<and> (rest \<noteq> [] \<and> nonsep (hd rest) \<and> snd b \<noteq> 1 \<longrightarrow> snd b + length rest < length path)"

lemma hd_dropWhile_sep: "dropWhile nonsep s \<noteq> [] \<Longrightarrow> IsPathSeparator (hd (dropWhile nonsep s))"
  using hd_dropWhile [of nonsep s] by auto

lemma clean_push:
  assumes wf: "lb_wf path b" and st: "lb_content path b = rooted_text st"
    and ok: "\<forall>e \<in> set st. elem_ok e" and rm: "room path b rest" and ne: "rest \<noteq> []" "nonsep (hd rest)"
  defines "b1 \<equiv> if snd b \<noteq> 1 then lb_append path b bslash else b"
  defines "b2 \<equiv> lb_appends path b1 (takeWhile nonsep rest)"
  shows "lb_wf path b2 \<and> lb_content path b2 = rooted_text (st @ [takeWhile nonsep rest])
      \<and> elem_ok (takeWhile nonsep rest) \<and> room path b2 (dropWhile nonsep rest)"
proof -
  let ?e = "takeWhile nonsep rest" and ?r = "dropWhile nonsep rest"
  have len: "length rest = length ?e + length ?r"
    by (metis length_append takeWhile_dropWhile_id)
  have e: "elem_ok ?e"
    using ne by (cases rest) (auto simp: elem_ok_def dest: set_takeWhileD)
  have w1: "snd b = 1 \<longleftrightarrow> st = []"
    using length_lb_content [OF wf] st length_rooted_text_gt1 [OF ok] length_rooted_text_pos [of st]
    by auto
  have b1: "lb_wf path b1 \<and> lb_content path b1 @ ?e = rooted_text (st @ [?e]) \<and> snd b1 + length rest \<le> length path"
  proof (cases "st = []")
    case True
    with w1 st wf rm show ?thesis by (simp add: b1_def rooted_text_def room_def)
  next
    case False
    with w1 rm ne have "snd b + length rest < length path" by (simp add: room_def)
    moreover from this have "snd b < length path" by simp
    note lb_append_content [OF wf this, of bslash]
    ultimately show ?thesis
      using False w1 st by (simp add: b1_def rooted_text_snoc)
  qed
  then have "snd b1 + length ?e \<le> length path" using len by simp
  with b1 have b2: "lb_wf path b2 \<and> lb_content path b2 = rooted_text (st @ [?e]) \<and> snd b2 = snd b1 + length ?e"
    using lb_appends_content [of path b1 ?e] by (simp add: b2_def)
  moreover have "room path b2 ?r"
    using b1 b2 len hd_dropWhile_sep [of rest] by (auto simp: room_def)
  ultimately show ?thesis using e by blast
qed

lemma takeWhile_dot:
  "nonsep c \<Longrightarrow> takeWhile nonsep (c # cs) = ''.'' \<longleftrightarrow> c = CHR ''.'' \<and> (cs = [] \<or> IsPathSeparator (hd cs))"
  by (cases cs) (auto)

lemma takeWhile_dotdot:
  "nonsep c \<Longrightarrow> takeWhile nonsep (c # cs) = ''..'' \<longleftrightarrow>
     c = CHR ''.'' \<and> cs \<noteq> [] \<and> hd cs = CHR ''.'' \<and> (tl cs = [] \<or> IsPathSeparator (hd (tl cs)))"
  by (cases cs; cases "tl cs") (auto simp: IsPathSeparator_def)

lemma room_tl: "room path b (c # cs) \<Longrightarrow> IsPathSeparator c \<or> cs = [] \<or> IsPathSeparator (hd cs) \<Longrightarrow> room path b cs"
  by (auto simp: room_def)

lemma dropWhile_elem:
  assumes "takeWhile nonsep s = e"
  shows "dropWhile nonsep s = drop (length e) s"
  using assms by (simp add: dropWhile_eq_drop)

definition clean_inv :: "string \<Rightarrow> lazybuf \<Rightarrow> string list \<Rightarrow> string \<Rightarrow> bool" where
  "clean_inv path b st rest \<longleftrightarrow>
     lb_wf path b \<and> lb_content path b = rooted_text st \<and> (\<forall>e \<in> set st. elem_ok e) \<and> room path b rest
     \<and> set rest \<subseteq> set path \<and> set (lb_bytes path b) \<subseteq> set path \<union> {bslash, CHR 0x00}"

abbreviation wloop :: "string \<Rightarrow> lazybuf \<Rightarrow> string \<Rightarrow> lazybuf" where
  "wloop path b rest \<equiv> clean_loop IsPathSeparator bslash path True 1 b rest"

text \<open>Each round consumes input, keeps the invariant and does what the reference does.\<close>

definition clean_step :: "string \<Rightarrow> lazybuf \<Rightarrow> string list \<Rightarrow> string \<Rightarrow> bool" where
  "clean_step path b st rest \<longleftrightarrow>
     (\<exists>b' st' rest'. wloop path b rest = wloop path b' rest' \<and> clean_inv path b' st' rest'
        \<and> length rest' < length rest \<and> resolve st (split_seps rest) = resolve st' (split_seps rest'))"

lemma clean_step_sep:
  assumes "clean_inv path b st (c # cs)" and "IsPathSeparator c"
  shows "clean_step path b st (c # cs)"
proof -
  have "clean_inv path b st cs"
    using assms room_tl [of path b c cs] by (auto simp: clean_inv_def)
  moreover have "resolve st (split_seps (c # cs)) = resolve st (split_seps cs)"
    using assms(2) by (simp add: resolve_def push_elem_def)
  moreover have "wloop path b (c # cs) = wloop path b cs"
    using assms(2) by simp
  ultimately show ?thesis
    unfolding clean_step_def by (metis length_Cons lessI)
qed

lemma clean_step_dot:
  assumes inv: "clean_inv path b st (c # cs)" and ns: "nonsep c" and e: "takeWhile nonsep (c # cs) = ''.''"
  shows "clean_step path b st (c # cs)"
proof -
  have cs: "c = CHR ''.''" "cs = [] \<or> IsPathSeparator (hd cs)"
    using takeWhile_dot [OF ns, of cs] e by simp_all
  have "clean_inv path b st cs"
    using inv cs(2) room_tl [of path b c cs] by (auto simp: clean_inv_def)
  moreover have "dropWhile nonsep (c # cs) = cs"
    using dropWhile_elem [OF e] by simp
  then have "resolve st (split_seps (c # cs)) = resolve st (split_seps cs)"
    using resolve_split [of st "c # cs"] e by (simp add: push_elem_def)
  moreover have "wloop path b (c # cs) = wloop path b cs"
    using ns cs by simp
  ultimately show ?thesis
    unfolding clean_step_def by (metis length_Cons lessI)
qed

lemma clean_inv_pop:
  assumes inv: "clean_inv path b st rest" and st: "st \<noteq> []"
  shows "snd b > 1"
    and "lb_back IsPathSeparator (lb_bytes path b) 1 (snd b - 1) = length (rooted_text (butlast st))"
    and "length rest' + 2 \<le> length rest \<Longrightarrow> rest' = [] \<or> IsPathSeparator (hd rest') \<Longrightarrow>
           set rest' \<subseteq> set rest \<Longrightarrow> clean_inv path (fst b, length (rooted_text (butlast st))) (butlast st) rest'"
proof -
  let ?m = "length (rooted_text (butlast st))"
  have wf: "lb_wf path b" and ct: "lb_content path b = rooted_text (butlast st @ [last st])"
    and oks: "\<forall>e \<in> set st. elem_ok e" and rm: "room path b rest" and ok: "elem_ok (last st)"
    using inv st by (simp_all add: clean_inv_def)
  note popped = lb_back_pops [OF wf ct ok]
  have w: "snd b = length (rooted_text st)"
    using length_lb_content [OF wf] ct st by simp
  then show "snd b > 1"
    using length_rooted_text_gt1 [OF oks] st by simp
  show "lb_back IsPathSeparator (lb_bytes path b) 1 (snd b - 1) = ?m"
    by (rule popped(1))
  have m: "?m \<le> snd b"
    using w rooted_text_snoc [of "butlast st" "last st"] st by (simp add: rooted_text_def)
  assume rest': "length rest' + 2 \<le> length rest" "rest' = [] \<or> IsPathSeparator (hd rest')" "set rest' \<subseteq> set rest"
  have "lb_wf path (fst b, ?m)" using wf m by (simp add: lb_wf_def lb_bytes_def)
  moreover have "room path (fst b, ?m) rest'" using rm m rest' by (auto simp: room_def)
  moreover have "\<forall>e \<in> set (butlast st). elem_ok e" using oks by (meson in_set_butlastD)
  ultimately show "clean_inv path (fst b, ?m) (butlast st) rest'"
    using popped(2) inv rest'(3) by (auto simp: clean_inv_def lb_bytes_def)
qed

lemma clean_step_dotdot:
  assumes inv: "clean_inv path b st (c # cs)" and ns: "nonsep c" and e: "takeWhile nonsep (c # cs) = ''..''"
  shows "clean_step path b st (c # cs)"
proof -
  have cs: "c = CHR ''.''" "cs \<noteq> []" "hd cs = CHR ''.''" "tl cs = [] \<or> IsPathSeparator (hd (tl cs))"
    using takeWhile_dotdot [OF ns, of cs] e by simp_all
  have nsep: "\<not> (cs = [] \<or> IsPathSeparator (hd cs))"
    using cs by (simp add: IsPathSeparator_def)
  have len: "length (tl cs) + 2 \<le> length (c # cs)" using cs(2) by (cases cs) simp_all
  have tl: "set (tl cs) \<subseteq> set (c # cs)" using cs(2) by (cases cs) auto
  have "dropWhile nonsep (c # cs) = tl cs" using dropWhile_elem [OF e] cs(2) by (cases cs) simp_all
  then have res: "resolve st (split_seps (c # cs)) = resolve (butlast st) (split_seps (tl cs))"
    using resolve_split [of st "c # cs"] e by (simp add: push_elem_def)
  show ?thesis
  proof (cases "st = []")
    case True
    then have "\<not> snd b > 1"
      using inv length_lb_content [of path b] by (simp add: clean_inv_def rooted_text_def)
    then have "wloop path b (c # cs) = wloop path b (tl cs)"
      using ns cs nsep by simp
    moreover have "clean_inv path b st (tl cs)"
      using inv len cs(4) tl by (auto simp: clean_inv_def room_def)
    ultimately show ?thesis
      using True res len unfolding clean_step_def by (metis add_2_eq_Suc' butlast.simps(1) le_Suc_eq less_Suc_eq_le Suc_le_eq)
  next
    case False
    note pop = clean_inv_pop [OF inv False]
    have "wloop path b (c # cs) = wloop path (fst b, length (rooted_text (butlast st))) (tl cs)"
      using ns cs nsep pop(1,2) by simp
    with pop(3) [OF len cs(4) tl] res len show ?thesis
      unfolding clean_step_def by (metis add_2_eq_Suc' le_Suc_eq less_Suc_eq_le Suc_le_eq)
  qed
qed

lemma clean_loop_elem:
  assumes "nonsep c" and "\<not> (c = CHR ''.'' \<and> (cs = [] \<or> IsPathSeparator (hd cs)))"
    and "\<not> (c = CHR ''.'' \<and> hd cs = CHR ''.'' \<and> (tl cs = [] \<or> IsPathSeparator (hd (tl cs))))"
  shows "wloop path b (c # cs)
    = wloop path (lb_appends path (if snd b \<noteq> 1 then lb_append path b bslash else b) (takeWhile nonsep (c # cs)))
        (dropWhile nonsep (c # cs))"
  unfolding clean_loop.simps(2) if_not_P [OF assms(1)] if_not_P [OF assms(2)] if_not_P [OF assms(3)]
  by (simp only: Let_def simp_thms)

lemma clean_step_elem:
  assumes inv: "clean_inv path b st (c # cs)" and ns: "nonsep c"
    and e: "takeWhile nonsep (c # cs) \<noteq> ''.''" "takeWhile nonsep (c # cs) \<noteq> ''..''"
  shows "clean_step path b st (c # cs)"
proof -
  let ?e = "takeWhile nonsep (c # cs)" and ?r = "dropWhile nonsep (c # cs)"
  let ?b2 = "lb_appends path (if snd b \<noteq> 1 then lb_append path b bslash else b) ?e"
  have "\<not> (c = CHR ''.'' \<and> (cs = [] \<or> IsPathSeparator (hd cs)))"
    "\<not> (c = CHR ''.'' \<and> hd cs = CHR ''.'' \<and> (tl cs = [] \<or> IsPathSeparator (hd (tl cs))))"
    using takeWhile_dot [OF ns, of cs] takeWhile_dotdot [OF ns, of cs] e by auto
  note loop = clean_loop_elem [OF ns this]
  have p: "lb_wf path ?b2" "lb_content path ?b2 = rooted_text (st @ [?e])" "elem_ok ?e" "room path ?b2 ?r"
    using clean_push [of path b st "c # cs"] inv ns by (simp_all add: clean_inv_def)
  have sub: "set ?r \<subseteq> set path" "set ?e \<subseteq> set path"
    using inv set_dropWhileD [of _ nonsep "c # cs"] set_takeWhileD [of _ nonsep "c # cs"]
    unfolding clean_inv_def by blast+
  let ?b1 = "if snd b \<noteq> 1 then lb_append path b bslash else b"
  have "set (lb_bytes path ?b1) \<subseteq> set path \<union> {bslash, CHR 0x00}"
    using inv lb_append_set [of path b bslash] unfolding clean_inv_def by (cases "snd b = 1") auto
  then have "set (lb_bytes path ?b2) \<subseteq> set path \<union> {bslash, CHR 0x00}"
    using lb_appends_set [of path ?b1 ?e] sub(2) by blast
  then have "clean_inv path ?b2 (st @ [?e]) ?r"
    using inv p sub(1) unfolding clean_inv_def by simp
  moreover have "resolve st (split_seps (c # cs)) = resolve (st @ [?e]) (split_seps ?r)"
    using resolve_split [of st "c # cs"] e p(3) by (simp add: push_elem_def elem_ok_def del: takeWhile.simps dropWhile.simps split_seps.simps split_seps_Cons)
  moreover have "length ?r < length (c # cs)"
    using ns by (simp add: less_Suc_eq_le length_dropWhile_le)
  ultimately show ?thesis
    using loop unfolding clean_step_def by blast
qed

lemma clean_step_any: "clean_inv path b st rest \<Longrightarrow> rest \<noteq> [] \<Longrightarrow> clean_step path b st rest"
  by (cases rest) (auto intro: clean_step_sep clean_step_dot clean_step_dotdot clean_step_elem)

lemma clean_loop_reference:
  "clean_inv path b st rest \<Longrightarrow>
     lb_content path (wloop path b rest) = rooted_text (resolve st (split_seps rest))
     \<and> (\<forall>e \<in> set (resolve st (split_seps rest)). elem_ok e)
     \<and> set (lb_bytes path (wloop path b rest)) \<subseteq> set path \<union> {bslash, CHR 0x00}"
proof (induction "length rest" arbitrary: b st rest rule: less_induct)
  case less
  show ?case
  proof (cases "rest = []")
    case True
    with less.prems show ?thesis by (simp add: clean_inv_def resolve_def push_elem_def)
  next
    case False
    with less.prems have "clean_step path b st rest" by (rule clean_step_any)
    then show ?thesis using less.hyps unfolding clean_step_def by metis
  qed
qed

section \<open>Clean on rooted paths\<close>

lemma clean_run_rooted:
  fixes s rest
  assumes "IsPathSeparator s"
  defines "b \<equiv> clean_run IsPathSeparator bslash (s # rest)"
  shows "take (snd b) (lb_bytes (s # rest) b) = rooted_text (resolve [] (split_seps rest))"
    and "\<forall>e \<in> set (resolve [] (split_seps rest)). elem_ok e"
    and "set (lb_bytes (s # rest) b) \<subseteq> set (s # rest) \<union> {bslash, CHR 0x00}"
proof -
  let ?path = "s # rest"
  let ?b0 = "lb_append ?path (None, 0) bslash"
  have "lb_wf ?path (None, 0)" by (simp add: lb_wf_def lb_bytes_def)
  note app = lb_append_content [OF this, of bslash]
  have "clean_inv ?path ?b0 [] rest"
    using app lb_append_set [of ?path "(None, 0)" bslash]
    by (auto simp: clean_inv_def lb_content_def rooted_text_def room_def lb_bytes_def [of _ "(None, 0)"])
  note ref = clean_loop_reference [OF this]
  have ne: "rooted_text es \<noteq> []" for es
    using length_rooted_text_pos [of es] by blast
  have "snd (wloop ?path ?b0 rest) \<noteq> 0"
    using ref ne by (metis lb_content_def take0)
  then have "b = wloop ?path ?b0 rest"
    using assms(1) by (simp add: b_def clean_run_def Let_def)
  with ref show "take (snd b) (lb_bytes ?path b) = rooted_text (resolve [] (split_seps rest))"
    and "\<forall>e \<in> set (resolve [] (split_seps rest)). elem_ok e"
    and "set (lb_bytes ?path b) \<subseteq> set ?path \<union> {bslash, CHR 0x00}"
    by (simp_all add: lb_content_def)
qed

section \<open>Paths with a drive letter\<close>

definition drive :: "char \<Rightarrow> string list \<Rightarrow> string" where
  "drive c es = c # CHR '':'' # rooted_text es"

definition name_ok :: "string \<Rightarrow> bool" where
  "name_ok e \<longleftrightarrow> e \<noteq> [] \<and> e \<noteq> ''.'' \<and> e \<noteq> ''..'' \<and>
     (\<forall>c \<in> set e. \<not> IsPathSeparator c \<and> c \<noteq> CHR '':'' \<and> c \<noteq> CHR ''?'')"

lemma name_ok_elem [simp]: "name_ok e \<Longrightarrow> elem_ok e"
  by (simp add: name_ok_def elem_ok_def)

lemma FromSlash_id: "CHR ''/'' \<notin> set s \<Longrightarrow> FromSlash s = s"
  by (induction s) (auto simp: FromSlash_def)

lemma rooted_text_slashfree: "\<forall>e \<in> set es. elem_ok e \<Longrightarrow> CHR ''/'' \<notin> set (rooted_text es)"
  by (auto simp: rooted_text_def elem_ok_def IsPathSeparator_def)

lemma volumeNameLen_drive [simp]: "volumeNameLen (c # CHR '':'' # r) = 2"
  by (simp add: volumeNameLen_def)

theorem Clean_drive:
  assumes "IsPathSeparator s" and "c \<noteq> CHR ''/''"
  shows "Clean (c # CHR '':'' # s # rest) = drive c (resolve [] (split_seps rest))"
proof -
  note run = clean_run_rooted [OF assms(1), of rest]
  have "CHR ''/'' \<notin> set (c # CHR '':'' # rooted_text (resolve [] (split_seps rest)))"
    using assms(2) rooted_text_slashfree [OF run(2)] by simp
  then show ?thesis
    using run(1) FromSlash_id by (simp add: Clean_def postClean_def Let_def drive_def)
qed

lemma split_seps_append_sep:
  "IsPathSeparator s \<Longrightarrow> split_seps (xs @ s # ys) = split_seps xs @ split_seps ys"
  by (induction xs) auto

lemma split_seps_name: "elem_ok e \<or> e = [] \<Longrightarrow> split_seps e = [e]"
  by (induction e) (auto simp: elem_ok_def split: if_splits)

lemma IsPathSeparator_bslash [simp]: "IsPathSeparator bslash"
  by (simp add: IsPathSeparator_def)

lemma split_seps_rooted:
  "es \<noteq> [] \<Longrightarrow> \<forall>e \<in> set es. elem_ok e \<Longrightarrow> split_seps (tl (rooted_text es)) = es"
proof (induction es rule: rev_induct)
  case (snoc e es)
  show ?case
  proof (cases "es = []")
    case True
    with snoc show ?thesis by (simp add: rooted_text_def split_seps_name)
  next
    case False
    then have "tl (rooted_text (es @ [e])) = tl (rooted_text es) @ bslash # e"
      by (cases es) (simp_all add: rooted_text_def)
    with snoc False show ?thesis
      by (simp add: split_seps_append_sep split_seps_name)
  qed
qed simp

lemma resolve_append: "resolve st (xs @ ys) = resolve (resolve st xs) ys"
  by (simp add: resolve_def)

lemma resolve_names: "\<forall>e \<in> set es. name_ok e \<Longrightarrow> resolve st es = st @ es"
  by (induction es arbitrary: st) (auto simp: resolve_def push_elem_def name_ok_def)

lemma hd_rooted_text: "rooted_text es = bslash # tl (rooted_text es)"
  by (cases es) (simp_all add: rooted_text_def)

lemma tl_rooted_nil: "tl (rooted_text []) = []"
  by (simp add: rooted_text_def)

lemma resolve_split_rooted:
  "\<forall>e \<in> set es. name_ok e \<Longrightarrow> resolve [] (split_seps (tl (rooted_text es))) = es"
  by (cases "es = []") (simp_all add: tl_rooted_nil split_seps_rooted resolve_names, simp add: resolve_def push_elem_def)

lemma Clean_drive_id:
  assumes "\<forall>e \<in> set es. name_ok e" and "c \<noteq> CHR ''/''"
  shows "Clean (drive c es) = drive c es"
  using Clean_drive [of bslash c "tl (rooted_text es)"] assms hd_rooted_text [of es]
  by (simp add: drive_def resolve_split_rooted)

lemma last_rooted_text:
  "\<forall>e \<in> set es. name_ok e \<Longrightarrow> es \<noteq> [] \<Longrightarrow> last (rooted_text es) \<noteq> CHR '':'' \<and> \<not> IsPathSeparator (last (rooted_text es))"
  by (cases es rule: rev_cases) (auto simp: rooted_text_snoc name_ok_def)

lemma dropWhile_sep_name: "elem_ok e \<Longrightarrow> dropWhile IsPathSeparator e = e"
  by (cases e) (auto simp: elem_ok_def)

lemma join_loop_drive:
  "\<forall>e \<in> set es. name_ok e \<Longrightarrow> \<forall>e \<in> set ns. name_ok e \<Longrightarrow> join_loop (drive c es) ns = drive c (es @ ns)"
proof (induction ns arbitrary: es)
  case (Cons n ns)
  then have n: "name_ok n" by simp
  have ne: "rooted_text es \<noteq> []" using length_rooted_text_pos [of es] by blast
  have "join_loop (drive c es) (n # ns) = join_loop (drive c (es @ [n])) ns"
  proof (cases "es = []")
    case True
    then show ?thesis
      using n by (simp add: drive_def rooted_text_def dropWhile_sep_name)
  next
    case False
    with ne last_rooted_text [OF Cons.prems(1) False] show ?thesis
      by (simp add: drive_def rooted_text_snoc)
  qed
  with Cons.IH [of "es @ [n]"] Cons.prems show ?case by simp
qed simp

theorem Join_drive:
  assumes "\<forall>e \<in> set (es @ ns). name_ok e" and "c \<noteq> CHR ''/''"
  shows "Join (drive c es # ns) = drive c (es @ ns)"
proof -
  have "join_loop [] (drive c es # ns) = drive c (es @ ns)"
    using assms(1) join_loop_drive [of es ns c] by (simp add: drive_def)
  then show ?thesis
    using Clean_drive_id [OF assms] by (simp add: Join_def drive_def)
qed

lemma VolumeName_drive [simp]: "c \<noteq> CHR ''/'' \<Longrightarrow> VolumeName (drive c es) = [c, CHR '':'']"
  by (simp add: VolumeName_def drive_def FromSlash_def)

lemma drive_inject:
  assumes "drive c es = drive c' es'" and "\<forall>e \<in> set es. name_ok e" and "\<forall>e \<in> set es'. name_ok e"
  shows "c = c' \<and> es = es'"
proof -
  have "rooted_text es = rooted_text es'" and "c = c'"
    using assms(1) by (simp_all add: drive_def)
  moreover have "es = es'" if "rooted_text es = rooted_text es'"
    using that resolve_split_rooted [OF assms(2)] resolve_split_rooted [OF assms(3)] by metis
  ultimately show ?thesis by simp
qed

text \<open>Any spelling of a drive path: mixed separators, doubled separators, dots.\<close>

theorem Join_drive_any:
  assumes s: "IsPathSeparator s" and c: "c \<noteq> CHR ''/''"
    and last: "rest = [] \<or> last rest \<noteq> CHR '':''" and n: "name_ok n"
  shows "Join [c # CHR '':'' # s # rest, n] = drive c (resolve [] (split_seps rest) @ [n])"
proof -
  have push: "resolve st [n] = st @ [n]" for st
    using resolve_names [of "[n]" st] n by simp
  let ?p = "c # CHR '':'' # s # rest"
  show ?thesis
  proof (cases "IsPathSeparator (last ?p)")
    case True
    have nil: "split_seps (rest @ n) = butlast (split_seps rest) @ [n] \<and> last (split_seps rest) = []"
    proof (cases rest rule: rev_cases)
      case Nil
      with n show ?thesis by (simp add: split_seps_name)
    next
      case (snoc xs x)
      with True have "IsPathSeparator x" by (simp split: if_splits)
      with snoc n show ?thesis by (simp add: split_seps_append_sep split_seps_name)
    qed
    have "split_seps rest = butlast (split_seps rest) @ [[]]"
      using nil append_butlast_last_id [of "split_seps rest"] by simp
    then have "resolve [] (split_seps rest) = resolve [] (butlast (split_seps rest))"
      by (metis resolve_append resolve_def foldl_Cons foldl_Nil push_elem_def)
    moreover have "Join [?p, n] = Clean (c # CHR '':'' # s # (rest @ n))"
      using True n by (simp add: Join_def dropWhile_sep_name)
    ultimately show ?thesis
      using Clean_drive [OF s c, of "rest @ n"] nil push by (simp add: resolve_append)
  next
    case False
    then have "last ?p \<noteq> CHR '':''" using last s by (auto split: if_splits)
    with False have "Join [?p, n] = Clean (c # CHR '':'' # s # (rest @ bslash # n))"
      by (simp add: Join_def)
    then show ?thesis
      using Clean_drive [OF s c, of "rest @ bslash # n"] push n
      by (simp add: split_seps_append_sep split_seps_name resolve_append)
  qed
qed


section \<open>Rooted paths without a volume\<close>

theorem Clean_rooted:
  assumes s: "IsPathSeparator s" and vol: "volumeNameLen (s # rest) = 0" and q: "CHR ''?'' \<notin> set rest"
  shows "Clean (s # rest) = rooted_text (resolve [] (split_seps rest))"
proof -
  let ?path = "s # rest" and ?es = "resolve [] (split_seps rest)"
  define b where "b = clean_run IsPathSeparator bslash ?path"
  note run = clean_run_rooted [OF s, of rest, folded b_def]
  have "postClean 0 b = b"
  proof (cases "fst b")
    case (Some x)
    then have x: "lb_bytes ?path b = x" by (simp add: lb_bytes_def)
    then have "take (snd b) x = bslash # tl (rooted_text ?es)"
      using run(1) hd_rooted_text [of ?es] by simp
    then obtain y where "x = bslash # y"
      by (cases x) (auto simp: take_Cons' split: if_splits)
    moreover have "CHR ''?'' \<notin> set x"
      using run(3) x q s by (auto simp: IsPathSeparator_def)
    moreover have "\<not> (3 \<le> length x \<and> x ! 1 = CHR ''?'')"
      using calculation(2) by (metis One_nat_def Suc_le_eq numeral_3_eq_3 nth_mem Suc_lessD)
    ultimately show ?thesis
      using Some by (auto simp: postClean_def)
  qed (simp add: postClean_def)
  moreover have "FromSlash (rooted_text ?es) = rooted_text ?es"
    by (rule FromSlash_id) (rule rooted_text_slashfree [OF run(2)])
  ultimately show ?thesis
    using vol run(1) by (simp add: Clean_def Let_def b_def)
qed

lemma toUpper_question: "toUpper (CHR ''?'') = toUpper c \<Longrightarrow> c = CHR ''?''"
proof (rule ccontr)
  assume eq: "toUpper (CHR ''?'') = toUpper c" and ne: "c \<noteq> CHR ''?''"
  then have "97 \<le> (of_char c :: nat)" "(of_char c :: nat) \<le> 122" and "CHR ''?'' = char_of ((of_char c :: nat) - 32)"
    by (auto simp: toUpper_def split: if_splits)
  moreover from this(3) have "(of_char (CHR ''?'') :: nat) = (of_char c - 32) mod 256"
    by (metis of_char_of)
  moreover have "(of_char (CHR ''?'') :: nat) = 63" by simp
  moreover have "(of_char c - 32) mod 256 = (of_char c - 32 :: nat)"
    using calculation(2) by (intro mod_less) linarith
  ultimately have "(63 :: nat) = of_char c - 32" by metis
  then show False using \<open>97 \<le> of_char c\<close> by simp
qed

lemma volumeNameLen_rooted:
  assumes "IsPathSeparator s" and "rest = [] \<or> \<not> IsPathSeparator (hd rest) \<and> hd rest \<noteq> CHR '':'' \<and> hd rest \<noteq> CHR ''?''"
  shows "volumeNameLen (s # rest) = 0"
proof -
  have "\<not> pathHasPrefixFold (s # rest) (bslash # bslash # p)" for p
    using assms(2) by (cases rest) (auto simp: pathHasPrefixFold_def list_all2_Cons1 split: if_splits)
  moreover have "\<not> pathHasPrefixFold (s # rest) [bslash, CHR ''?'', CHR ''?'']"
    using assms(2) by (cases rest) (auto simp: pathHasPrefixFold_def list_all2_Cons1 IsPathSeparator_def dest: toUpper_question)
  ultimately show ?thesis
    using assms by (cases rest) (auto simp: volumeNameLen_def)
qed

end
