(* ===== verification/Filelock.thy ===== *)
theory Filelock
  imports Go_Path
begin

text \<open>
  The exclusive file lock of src/vendor/code.cloudfoundry.org/filelock, in its Windows version:
  opening the lock file, taking the lock with LockFileEx, and releasing it with UnlockFileEx. The operating-system calls are a
  parameter, the record \<open>filelock_api\<close>; the file handles are of a type the code never looks into.
\<close>

section \<open>Interfaces\<close>

record 'w LockedFile =
  lf_Close :: "('w, go_error option) io"
  lf_Read :: "nat \<Rightarrow> ('w, bytes \<times> go_error option) io"
  lf_Truncate :: "int64 \<Rightarrow> ('w, go_error option) io"
  lf_Write :: "bytes \<Rightarrow> ('w, int \<times> go_error option) io"
  lf_Seek :: "int64 \<Rightarrow> int \<Rightarrow> ('w, int64 \<times> go_error option) io"

record 'w FileLocker =
  fl_Open :: "('w, 'w LockedFile res) io"

text \<open>
  What the package calls: os, syscall and the two kernel32 procedures. LockFileEx is given the handle,
  the flags and the event of its overlapped structure; the byte range, which is the same constant
  (MaxInt32, MaxInt32) in every call, is left out.
\<close>

record ('w, 'f) filelock_api =
  fa_MkdirAll :: "string \<Rightarrow> nat \<Rightarrow> ('w, go_error option) io"
  fa_OpenFile :: "string \<Rightarrow> nat \<Rightarrow> ('w, 'f res) io"
  fa_Fd :: "'f \<Rightarrow> ('w, uint64) io"
  fa_Name :: "'f \<Rightarrow> string"
  fa_Close :: "'f \<Rightarrow> ('w, go_error option) io"
  fa_Read :: "'f \<Rightarrow> nat \<Rightarrow> ('w, bytes \<times> go_error option) io"
  fa_Truncate :: "'f \<Rightarrow> int64 \<Rightarrow> ('w, go_error option) io"
  fa_Write :: "'f \<Rightarrow> bytes \<Rightarrow> ('w, int \<times> go_error option) io"
  fa_Seek :: "'f \<Rightarrow> int64 \<Rightarrow> int \<Rightarrow> ('w, int64 \<times> go_error option) io"
  fa_Find :: "string \<Rightarrow> ('w, go_error option) io"
  fa_CreateEvent :: "('w, uint64 res) io"
  fa_CloseHandle :: "uint64 \<Rightarrow> ('w, go_error option) io"
  fa_LockFileEx :: "uint64 \<Rightarrow> uint64 \<Rightarrow> uint64 \<Rightarrow> ('w, uint64 \<times> go_error) io"
  fa_UnlockFileEx :: "uint64 \<Rightarrow> uint64 \<Rightarrow> ('w, uint64 \<times> go_error) io"

section \<open>The Windows implementation\<close>

definition InvalidHandle :: uint64 where
  "InvalidHandle = - 1"

definition LOCKFILE_EXCLUSIVE_LOCK :: uint64 where
  "LOCKFILE_EXCLUSIVE_LOCK = 2"

definition handle :: "('w, 'f) filelock_api \<Rightarrow> 'f \<Rightarrow> ('w, uint64 res) io" where
  "handle api f = go_bind (fa_Fd api f) (\<lambda>h.
     if h = InvalidHandle
     then go_ret (Inl (ErrorString (''invalid file descriptor for '' @ fa_Name api f)))
     else go_ret (Inr h))"

text \<open>\<open>int32(r0) == 0\<close> looks at the low 32 bits of the result register only.\<close>

definition int32_zero :: "uint64 \<Rightarrow> bool" where
  "int32_zero r \<longleftrightarrow> (ucast r :: 32 word) = 0"

definition lockFile :: "('w, 'f) filelock_api \<Rightarrow> uint64 \<Rightarrow> ('w, go_error option) io" where
  "lockFile api h =
     go_tryE (fa_Find api ''LockFileEx'') (\<lambda>e. go_ret (Some e))
     (go_try (fa_CreateEvent api) (\<lambda>e. go_ret (Some e)) (\<lambda>event.
       go_defer (fa_CloseHandle api event)
         (go_bind (fa_LockFileEx api h LOCKFILE_EXCLUSIVE_LOCK event) (\<lambda>(r0, err).
            if int32_zero r0 then go_ret (Some (ErrorString (''error locking file: '' @ Error err)))
            else go_ret None))))"

definition unlockFile :: "('w, 'f) filelock_api \<Rightarrow> uint64 \<Rightarrow> ('w, go_error option) io" where
  "unlockFile api h =
     go_tryE (fa_Find api ''UnlockFileEx'') (\<lambda>e. go_ret (Some e))
     (go_try (fa_CreateEvent api) (\<lambda>e. go_ret (Some e)) (\<lambda>event.
       go_defer (fa_CloseHandle api event)
         (go_bind (fa_UnlockFileEx api h event) (\<lambda>(r0, err).
            if int32_zero r0 then go_ret (Some (ErrorString (''error unlocking file: '' @ Error err)))
            else go_ret None))))"

definition lockedFile_Close :: "('w, 'f) filelock_api \<Rightarrow> 'f \<Rightarrow> ('w, go_error option) io" where
  "lockedFile_Close api f =
     go_try (handle api f) (\<lambda>e. go_ret (Some e)) (\<lambda>h.
     go_tryE (unlockFile api h) (\<lambda>e. go_ret (Some e))
     (fa_Close api f))"

definition lockedFile :: "('w, 'f) filelock_api \<Rightarrow> 'f \<Rightarrow> 'w LockedFile" where
  "lockedFile api f =
     \<lparr>lf_Close = lockedFile_Close api f, lf_Read = fa_Read api f, lf_Truncate = fa_Truncate api f,
      lf_Write = fa_Write api f, lf_Seek = fa_Seek api f\<rparr>"

definition locker_Open :: "('w, 'f) filelock_api \<Rightarrow> string \<Rightarrow> ('w, 'w LockedFile res) io" where
  "locker_Open api path =
     go_tryE (fa_MkdirAll api (filepath_Dir path) 448) (\<lambda>e. go_ret (Inl e))
     (go_try (fa_OpenFile api path 384) (\<lambda>e. go_ret (Inl e)) (\<lambda>file.
      go_try (handle api file) (\<lambda>e. go_ret (Inl e)) (\<lambda>h.
      go_tryE (lockFile api h) (\<lambda>e. go_ret (Inl e))
      (go_ret (Inr (lockedFile api file))))))"

definition NewLocker :: "('w, 'f) filelock_api \<Rightarrow> string \<Rightarrow> 'w FileLocker" where
  "NewLocker api path = \<lparr>fl_Open = locker_Open api path\<rparr>"

section \<open>Lemmas\<close>

text \<open>A lock is handed out only after LockFileEx reported success on the opened file's handle.\<close>

lemma lockFile_None:
  assumes "lockFile api h w = (Ret None, w')"
  shows "\<exists>event r0 err w1 w2. fa_LockFileEx api h LOCKFILE_EXCLUSIVE_LOCK event w1 = (Ret (r0, err), w2)
           \<and> \<not> int32_zero r0"
  using assms
  by (auto simp: lockFile_def go_simps split: prod.splits go.splits option.splits sum.splits if_splits) blast

lemma locker_Open_Inr:
  assumes "locker_Open api path w = (Ret (Inr lf), w')"
  shows "\<exists>f h w1 w2. fa_Fd api f w1 = (Ret h, w2) \<and> h \<noteq> InvalidHandle \<and> lf = lockedFile api f
           \<and> (\<exists>event r0 err w3 w4. fa_LockFileEx api h LOCKFILE_EXCLUSIVE_LOCK event w3 = (Ret (r0, err), w4)
                \<and> \<not> int32_zero r0)"
proof -
  obtain f h w1 w2 w3 w4 where "fa_Fd api f w1 = (Ret h, w2)" "h \<noteq> InvalidHandle" "lf = lockedFile api f"
    "lockFile api h w3 = (Ret None, w4)"
    using assms unfolding locker_Open_def handle_def
    by (auto simp: go_simps split: prod.splits go.splits option.splits sum.splits if_splits)
  then show ?thesis using lockFile_None by metis
qed

end
