(* ===== verification/Hcs_Client.thy ===== *)
theory Hcs_Client
  imports Filelock
begin

text \<open>
  The host-compute-service client, src/hcs/client.go, over the layer functions of the vendored
  hcsshim (src/vendor/github.com/Microsoft/hcsshim/layer.go). The layer functions take a
  directory and an identifier and call the Windows layer service with the joined path; that service
  (package wclayer) is the parameter \<open>wclayer\<close>. The interface \<open>HCSClient\<close> is the one
  src/driver/driver.go declares and the driver is written against.
\<close>

section \<open>Types\<close>

record Filetime =
  LowDateTime :: uint32
  HighDateTime :: uint32

record FileBasicInfo =
  CreationTime :: Filetime
  LastAccessTime :: Filetime
  LastWriteTime :: Filetime
  ChangeTime :: Filetime
  FileAttributes :: uint32

record DriverInfo =
  Flavour :: int
  HomeDir :: string

record 'w LayerWriter =
  lw_Add :: "string \<Rightarrow> FileBasicInfo option \<Rightarrow> ('w, go_error option) io"
  lw_AddLink :: "string \<Rightarrow> string \<Rightarrow> ('w, go_error option) io"
  lw_Remove :: "string \<Rightarrow> ('w, go_error option) io"
  lw_Write :: "bytes \<Rightarrow> ('w, int \<times> go_error option) io"
  lw_Close :: "('w, go_error option) io"

record 'w HCSClient =
  hcs_NewLayerWriter :: "DriverInfo \<Rightarrow> string \<Rightarrow> string list \<Rightarrow> ('w, 'w LayerWriter res) io"
  hcs_CreateLayer :: "DriverInfo \<Rightarrow> string \<Rightarrow> string list \<Rightarrow> ('w, go_error option) io"
  hcs_LayerExists :: "DriverInfo \<Rightarrow> string \<Rightarrow> ('w, bool res) io"
  hcs_GetLayerMountPath :: "DriverInfo \<Rightarrow> string \<Rightarrow> ('w, string res) io"
  hcs_DestroyLayer :: "DriverInfo \<Rightarrow> string \<Rightarrow> ('w, go_error option) io"

text \<open>The Windows layer service, by layer path.\<close>

record 'w wclayer =
  wc_CreateScratchLayer :: "string \<Rightarrow> string list \<Rightarrow> ('w, go_error option) io"
  wc_ActivateLayer :: "string \<Rightarrow> ('w, go_error option) io"
  wc_PrepareLayer :: "string \<Rightarrow> string list \<Rightarrow> ('w, go_error option) io"
  wc_UnprepareLayer :: "string \<Rightarrow> ('w, go_error option) io"
  wc_DeactivateLayer :: "string \<Rightarrow> ('w, go_error option) io"
  wc_DestroyLayer :: "string \<Rightarrow> ('w, go_error option) io"
  wc_LayerExists :: "string \<Rightarrow> ('w, bool res) io"
  wc_GetLayerMountPath :: "string \<Rightarrow> ('w, string res) io"
  wc_NewLayerWriter :: "string \<Rightarrow> string list \<Rightarrow> ('w, 'w LayerWriter res) io"

section \<open>hcsshim\<close>

definition layerPath :: "DriverInfo \<Rightarrow> string \<Rightarrow> string" where
  "layerPath info i = Join [HomeDir info, i]"

definition ActivateLayer :: "'w wclayer \<Rightarrow> DriverInfo \<Rightarrow> string \<Rightarrow> ('w, go_error option) io" where
  "ActivateLayer W info i = wc_ActivateLayer W (layerPath info i)"

definition CreateSandboxLayer :: "'w wclayer \<Rightarrow> DriverInfo \<Rightarrow> string \<Rightarrow> string \<Rightarrow> string list \<Rightarrow> ('w, go_error option) io" where
  "CreateSandboxLayer W info layerId parentId parentLayerPaths =
     wc_CreateScratchLayer W (layerPath info layerId) parentLayerPaths"

definition DeactivateLayer :: "'w wclayer \<Rightarrow> DriverInfo \<Rightarrow> string \<Rightarrow> ('w, go_error option) io" where
  "DeactivateLayer W info i = wc_DeactivateLayer W (layerPath info i)"

definition hcsshim_DestroyLayer :: "'w wclayer \<Rightarrow> DriverInfo \<Rightarrow> string \<Rightarrow> ('w, go_error option) io" where
  "hcsshim_DestroyLayer W info i = wc_DestroyLayer W (layerPath info i)"

definition GetLayerMountPath :: "'w wclayer \<Rightarrow> DriverInfo \<Rightarrow> string \<Rightarrow> ('w, string res) io" where
  "GetLayerMountPath W info i = wc_GetLayerMountPath W (layerPath info i)"

definition LayerExists :: "'w wclayer \<Rightarrow> DriverInfo \<Rightarrow> string \<Rightarrow> ('w, bool res) io" where
  "LayerExists W info i = wc_LayerExists W (layerPath info i)"

definition PrepareLayer :: "'w wclayer \<Rightarrow> DriverInfo \<Rightarrow> string \<Rightarrow> string list \<Rightarrow> ('w, go_error option) io" where
  "PrepareLayer W info layerId parentLayerPaths = wc_PrepareLayer W (layerPath info layerId) parentLayerPaths"

definition UnprepareLayer :: "'w wclayer \<Rightarrow> DriverInfo \<Rightarrow> string \<Rightarrow> ('w, go_error option) io" where
  "UnprepareLayer W info layerId = wc_UnprepareLayer W (layerPath info layerId)"

definition NewLayerWriter :: "'w wclayer \<Rightarrow> DriverInfo \<Rightarrow> string \<Rightarrow> string list \<Rightarrow> ('w, 'w LayerWriter res) io" where
  "NewLayerWriter W info layerID parentLayerPaths = wc_NewLayerWriter W (layerPath info layerID) parentLayerPaths"

section \<open>The client\<close>

record 'w Client =
  layerCreateLock :: "'w FileLocker"

definition NewClient :: "('w, 'f) filelock_api \<Rightarrow> 'w Client" where
  "NewClient api = \<lparr>layerCreateLock = NewLocker api
     (''C:'' @ bslash # ''var'' @ bslash # ''vcap'' @ bslash # ''data'' @ bslash # ''groot-windows'' @ bslash # ''create.lock'')\<rparr>"

definition Client_NewLayerWriter :: "'w wclayer \<Rightarrow> DriverInfo \<Rightarrow> string \<Rightarrow> string list \<Rightarrow> ('w, 'w LayerWriter res) io" where
  [simp]: "Client_NewLayerWriter W di layerID parentLayerPaths = NewLayerWriter W di layerID parentLayerPaths"

definition Client_GetLayerMountPath :: "'w wclayer \<Rightarrow> DriverInfo \<Rightarrow> string \<Rightarrow> ('w, string res) io" where
  [simp]: "Client_GetLayerMountPath W di i = GetLayerMountPath W di i"

definition Client_LayerExists :: "'w wclayer \<Rightarrow> DriverInfo \<Rightarrow> string \<Rightarrow> ('w, bool res) io" where
  [simp]: "Client_LayerExists W di i = LayerExists W di i"

definition Client_CreateLayer :: "'w wclayer \<Rightarrow> 'w Client \<Rightarrow> DriverInfo \<Rightarrow> string \<Rightarrow> string list \<Rightarrow> ('w, go_error option) io" where
  "Client_CreateLayer W c di i parentLayerPaths =
     go_try (fl_Open (layerCreateLock c)) (\<lambda>e. go_ret (Some e)) (\<lambda>f.
     go_defer (lf_Close f)
       (go_tryE (CreateSandboxLayer W di i [] parentLayerPaths) (\<lambda>e. go_ret (Some e))
       (go_tryE (ActivateLayer W di i) (\<lambda>e. go_ret (Some e))
       (PrepareLayer W di i parentLayerPaths))))"

text \<open>
  The destroy loop, three rounds. \<open>destroy_rounds n\<close> has \<open>n\<close> rounds left and carries the errors of
  the last round; after the loop the three \<open>.Error()\<close> calls panic on a nil error.
\<close>

definition destroy_failed :: "go_error option \<Rightarrow> go_error option \<Rightarrow> go_error option \<Rightarrow> ('w, go_error option) io" where
  "destroy_failed unprepareErr deactivateErr destroyErr =
     (case (unprepareErr, deactivateErr, destroyErr) of
        (Some u, Some d, Some x) \<Rightarrow>
          go_ret (Some (ErrorString (''failed to remove layer (unprepare error: '' @ Error u
            @ '', deactivate error: '' @ Error d @ '', destroy error: '' @ Error x @ '')'')))
      | _ \<Rightarrow> go_panic NilDereference)"

fun destroy_rounds :: "nat \<Rightarrow> 'w wclayer \<Rightarrow> DriverInfo \<Rightarrow> string \<Rightarrow>
    go_error option \<Rightarrow> go_error option \<Rightarrow> go_error option \<Rightarrow> ('w, go_error option) io" where
  "destroy_rounds 0 W di i u d x = destroy_failed u d x"
| "destroy_rounds (Suc n) W di i u d x =
     go_bind (UnprepareLayer W di i) (\<lambda>unprepareErr.
     go_bind (DeactivateLayer W di i) (\<lambda>deactivateErr.
     go_bind (hcsshim_DestroyLayer W di i) (\<lambda>destroyErr.
       if destroyErr = None then go_ret None
       else destroy_rounds n W di i unprepareErr deactivateErr destroyErr)))"

definition Client_DestroyLayer :: "'w wclayer \<Rightarrow> DriverInfo \<Rightarrow> string \<Rightarrow> ('w, go_error option) io" where
  "Client_DestroyLayer W di i = destroy_rounds 3 W di i None None None"

definition Client_HCS :: "'w wclayer \<Rightarrow> 'w Client \<Rightarrow> 'w HCSClient" where
  "Client_HCS W c =
     \<lparr>hcs_NewLayerWriter = Client_NewLayerWriter W, hcs_CreateLayer = Client_CreateLayer W c,
      hcs_LayerExists = Client_LayerExists W, hcs_GetLayerMountPath = Client_GetLayerMountPath W,
      hcs_DestroyLayer = Client_DestroyLayer W\<rparr>"

section \<open>The destroy loop\<close>

definition destroy_round :: "'w wclayer \<Rightarrow> DriverInfo \<Rightarrow> string \<Rightarrow>
    ('w, go_error option \<times> go_error option \<times> go_error option) io" where
  "destroy_round W di i =
     go_bind (UnprepareLayer W di i) (\<lambda>u.
     go_bind (DeactivateLayer W di i) (\<lambda>d.
     go_bind (hcsshim_DestroyLayer W di i) (\<lambda>x. go_ret (u, d, x))))"

text \<open>The world after \<open>n\<close> rounds that all failed to destroy the layer, if that is what happens.\<close>

fun after_failures :: "nat \<Rightarrow> 'w wclayer \<Rightarrow> DriverInfo \<Rightarrow> string \<Rightarrow> 'w \<Rightarrow> 'w option" where
  "after_failures 0 W di i w = Some w"
| "after_failures (Suc n) W di i w =
     (case destroy_round W di i w of (Ret (u, d, Some x), w1) \<Rightarrow> after_failures n W di i w1 | _ \<Rightarrow> None)"

lemma destroy_rounds_Suc:
  "destroy_rounds (Suc n) W di i u0 d0 x0 w =
     (case destroy_round W di i w of
        (Ret (u, d, x), w1) \<Rightarrow> (if x = None then (Ret None, w1) else destroy_rounds n W di i u d x w1)
      | (Panic p, w1) \<Rightarrow> (Panic p, w1)
      | (Diverged, w1) \<Rightarrow> (Diverged, w1))"
  by (simp add: destroy_round_def go_simps split: prod.splits go.splits option.splits)

lemma destroy_rounds_None_iff:
  "destroy_rounds n W di i u0 d0 x0 w = (Ret None, w')
     \<longleftrightarrow> (\<exists>k < n. \<exists>wk u d. after_failures k W di i w = Some wk \<and> destroy_round W di i wk = (Ret (u, d, None), w'))"
proof (induction n arbitrary: u0 d0 x0 w)
  case 0
  then show ?case
    by (auto simp: destroy_failed_def go_simps split: option.splits)
next
  case (Suc n)
  obtain r w1 where round: "destroy_round W di i w = (r, w1)" by force
  show ?case
  proof (cases "\<exists>u d x. r = Ret (u, d, Some x)")
    case True
    then obtain u d x where r: "r = Ret (u, d, Some x)" by blast
    have "destroy_rounds (Suc n) W di i u0 d0 x0 w = destroy_rounds n W di i u d (Some x) w1"
      using round r by (simp only: destroy_rounds_Suc) simp
    then show ?thesis
      using Suc.IH [of u d "Some x" w1] round r
      by (simp del: destroy_rounds.simps) (auto simp: less_Suc_eq_0_disj)
  next
    case False
    then have "after_failures (Suc k) W di i w = None" for k
      using round by (auto split: go.splits option.splits)
    moreover have "destroy_rounds (Suc n) W di i u0 d0 x0 w = (Ret None, w')
        \<longleftrightarrow> (\<exists>u d. r = Ret (u, d, None) \<and> w1 = w')"
      using round False by (simp only: destroy_rounds_Suc) (auto split: go.splits option.splits)
    ultimately show ?thesis
      using round by (auto simp: less_Suc_eq_0_disj simp del: destroy_rounds.simps after_failures.simps(2))
  qed
qed

text \<open>
  C26: DestroyLayer returns nil exactly when one of its three rounds (unprepare, deactivate, destroy)
  destroys the layer after all earlier rounds failed to, and it stops right after that round.
\<close>

theorem DestroyLayer_succeeds_iff:
  "Client_DestroyLayer W di i w = (Ret None, w')
     \<longleftrightarrow> (\<exists>k < 3. \<exists>wk u d. after_failures k W di i w = Some wk \<and> destroy_round W di i wk = (Ret (u, d, None), w'))"
  unfolding Client_DestroyLayer_def by (rule destroy_rounds_None_iff)

lemma destroy_rounds_exhausted:
  "after_failures n W di i w = Some w2 \<Longrightarrow> destroy_round W di i w2 = (Ret (u, d, Some x), w3) \<Longrightarrow>
     destroy_rounds (Suc n) W di i u0 d0 x0 w = destroy_failed u d (Some x) w3"
proof (induction n arbitrary: w u0 d0 x0)
  case 0
  then show ?case
    by (simp add: destroy_rounds_Suc del: destroy_rounds.simps(2))
next
  case (Suc n)
  from Suc.prems(1) obtain u1 d1 x1 w1 where
    r: "destroy_round W di i w = (Ret (u1, d1, Some x1), w1)" "after_failures n W di i w1 = Some w2"
    by (auto split: go.splits option.splits prod.splits)
  have "destroy_rounds (Suc (Suc n)) W di i u0 d0 x0 w = destroy_rounds (Suc n) W di i u1 d1 (Some x1) w1"
    using r(1) by (simp only: destroy_rounds_Suc [of "Suc n"]) simp
  with Suc.IH [OF r(2) Suc.prems(2)] show ?case by simp
qed

text \<open>
  C27: when all three rounds fail to destroy the layer, DestroyLayer reports the three errors of
  the last round only if all three are non-nil. If unpreparing or deactivating succeeded in the
  last round, formatting the message dereferences a nil error and the call panics.
\<close>

theorem DestroyLayer_exhausted:
  assumes "after_failures 2 W di i w = Some w2" and "destroy_round W di i w2 = (Ret (u, d, Some x), w3)"
  shows "Client_DestroyLayer W di i w =
    (case (u, d) of
       (Some eu, Some ed) \<Rightarrow>
         (Ret (Some (ErrorString (''failed to remove layer (unprepare error: '' @ Error eu
            @ '', deactivate error: '' @ Error ed @ '', destroy error: '' @ Error x @ '')''))), w3)
     | _ \<Rightarrow> (Panic NilDereference, w3))"
proof -
  have "Client_DestroyLayer W di i w = destroy_failed u d (Some x) w3"
    unfolding Client_DestroyLayer_def numeral_3_eq_3
    by (rule destroy_rounds_exhausted) (use assms in \<open>simp_all add: numeral_2_eq_2\<close>)
  then show ?thesis
    by (simp add: destroy_failed_def split: option.splits)
qed

text \<open>A layer service in which every layer can be unprepared and deactivated but none destroyed.\<close>

definition stubborn_wclayer :: "unit wclayer" where
  "stubborn_wclayer =
     \<lparr>wc_CreateScratchLayer = (\<lambda>p ps. go_ret None), wc_ActivateLayer = (\<lambda>p. go_ret None),
      wc_PrepareLayer = (\<lambda>p ps. go_ret None), wc_UnprepareLayer = (\<lambda>p. go_ret None),
      wc_DeactivateLayer = (\<lambda>p. go_ret None), wc_DestroyLayer = (\<lambda>p. go_ret (Some (ErrorString ''in use''))),
      wc_LayerExists = (\<lambda>p. go_ret (Inr True)), wc_GetLayerMountPath = (\<lambda>p. go_ret (Inr ''vol'')),
      wc_NewLayerWriter = (\<lambda>p ps. go_ret (Inl (ErrorString ''in use'')))\<rparr>"

lemma stubborn_round:
  "destroy_round stubborn_wclayer di i w = (Ret (None, None, Some (ErrorString ''in use'')), w)"
  by (simp add: destroy_round_def stubborn_wclayer_def UnprepareLayer_def DeactivateLayer_def
      hcsshim_DestroyLayer_def go_simps)

theorem DestroyLayer_exhausted_witness:
  "Client_DestroyLayer stubborn_wclayer \<lparr>Flavour = 1, HomeDir = ''v''\<rparr> ''b'' () = (Panic NilDereference, ())"
proof -
  have "after_failures 2 stubborn_wclayer \<lparr>Flavour = 1, HomeDir = ''v''\<rparr> ''b'' () = Some ()"
    by (simp add: numeral_2_eq_2 stubborn_round)
  from DestroyLayer_exhausted [OF this stubborn_round] show ?thesis by simp
qed

section \<open>Creating a layer under the lock\<close>

text \<open>
  The contract of the lock that NewClient opens: a successful Open leaves it held, a refused one does
  not take it, the layer service does not release it, and a successful Close of the opened file does.
\<close>

locale create_lock =
  fixes L :: "'w FileLocker" and W :: "'w wclayer" and held :: "'w \<Rightarrow> bool"
  assumes open_holds: "fl_Open L w = (Ret (Inr f), w') \<Longrightarrow> held w'"
    and open_refused: "\<not> held w \<Longrightarrow> fl_Open L w = (r, w') \<Longrightarrow> \<forall>f. r \<noteq> Ret (Inr f) \<Longrightarrow> \<not> held w'"
    and create_holds: "held w \<Longrightarrow> held (snd (wc_CreateScratchLayer W p ps w))"
    and activate_holds: "held w \<Longrightarrow> held (snd (wc_ActivateLayer W p w))"
    and prepare_holds: "held w \<Longrightarrow> held (snd (wc_PrepareLayer W p ps w))"
    and close_releases: "fl_Open L w = (Ret (Inr f), w') \<Longrightarrow> lf_Close f u = (Ret None, u') \<Longrightarrow> \<not> held u'"

text \<open>A layer service that refuses (by a panic) to create, activate or prepare a layer when the lock is not held.\<close>

definition guarded_wclayer :: "('w \<Rightarrow> bool) \<Rightarrow> 'w wclayer \<Rightarrow> 'w wclayer" where
  "guarded_wclayer P W =
     W\<lparr>wc_CreateScratchLayer := (\<lambda>p ps. guarded P (wc_CreateScratchLayer W p ps)),
       wc_ActivateLayer := (\<lambda>p. guarded P (wc_ActivateLayer W p)),
       wc_PrepareLayer := (\<lambda>p ps. guarded P (wc_PrepareLayer W p ps))\<rparr>"

context create_lock
begin

lemma create_layer_guarded:
  assumes "layerCreateLock c = L"
  shows "Client_CreateLayer (guarded_wclayer held W) c di i ps = Client_CreateLayer W c di i ps"
proof
  fix w
  let ?p = "layerPath di i" and ?h = "\<lambda>e. go_ret (Some e)"
  let ?body = "\<lambda>V. go_tryE (wc_CreateScratchLayer V ?p ps) ?h
      (go_tryE (wc_ActivateLayer V ?p) ?h (wc_PrepareLayer V ?p ps))"
  have "agree held (wc_CreateScratchLayer W ?p ps) (wc_CreateScratchLayer W ?p ps)"
    "agree held (wc_ActivateLayer W ?p) (wc_ActivateLayer W ?p)"
    "agree held (wc_PrepareLayer W ?p ps) (wc_PrepareLayer W ?p ps)"
    using create_holds activate_holds prepare_holds by (simp_all add: agree_def)
  then have "agree held (?body W) (?body (guarded_wclayer held W))"
    unfolding guarded_wclayer_def by (simp add: agree_intros)
  then have "go_defer d (?body (guarded_wclayer held W)) w1 = go_defer d (?body W) w1"
    if "held w1" for w1 and d :: "('w, go_error option) io"
    using that agreeD(1) by (fastforce simp: go_defer_def)
  with open_holds show "Client_CreateLayer (guarded_wclayer held W) c di i ps w = Client_CreateLayer W c di i ps w"
    using assms
    by (auto simp: Client_CreateLayer_def CreateSandboxLayer_def ActivateLayer_def PrepareLayer_def
        go_try_def go_bind_def split: prod.splits go.splits sum.splits)
qed

lemma create_layer_releases:
  assumes "layerCreateLock c = L" and "Client_CreateLayer W c di i ps w = (r, w')" and "r \<noteq> Diverged"
    and "\<And>v f v' u. fl_Open L v = (Ret (Inr f), v') \<Longrightarrow> fst (lf_Close f u) = Ret None"
    and "\<not> held w"
  shows "\<not> held w'"
proof -
  obtain q w1 where op: "fl_Open L w = (q, w1)" by force
  show ?thesis
  proof (cases "\<exists>f. q = Ret (Inr f)")
    case True
    then obtain f where f: "fl_Open L w = (Ret (Inr f), w1)" using op by blast
    from assms(2) obtain v u where "lf_Close f v = (u, w')"
      using f assms(1,3)
      by (auto simp: Client_CreateLayer_def go_defer_def split: prod.splits go.splits)
    moreover have "u = Ret None" using assms(4) [OF f, of v] calculation by simp
    ultimately show ?thesis using close_releases [OF f] by blast
  next
    case False
    then have "w' = w1" "q \<noteq> Diverged"
      using assms(1,2,3) op by (auto simp: Client_CreateLayer_def go_simps split: go.splits sum.splits)
    with False op assms(5) open_refused [of w q w1] show ?thesis by auto
  qed
qed

end

text \<open>
  C23: CreateLayer creates, activates and prepares a layer only while it holds the exclusive lock: with a layer service
  that panics when one of these calls is made without the lock it behaves the same. And it gives the lock back on every path, errors and panics
  of the layer service included, provided that closing the lock file works.
\<close>

theorem CreateLayer_locked:
  assumes "create_lock L W held" and "layerCreateLock c = L"
  shows "Client_CreateLayer (guarded_wclayer held W) c di i ps = Client_CreateLayer W c di i ps
    \<and> (\<forall>w r w'. Client_CreateLayer W c di i ps w = (r, w') \<and> r \<noteq> Diverged \<and> \<not> held w
        \<and> (\<forall>v f v' u. fl_Open L v = (Ret (Inr f), v') \<longrightarrow> fst (lf_Close f u) = Ret None) \<longrightarrow> \<not> held w')"
  using create_lock.create_layer_guarded [OF assms] create_lock.create_layer_releases [OF assms] by blast

section \<open>The contract of the client\<close>

text \<open>
  What the driver relies on: \<open>present w\<close> is the set of layer paths the service knows. Asking for a layer
  or its mount path changes nothing, creating a layer adds at most that layer, destroying one
  removes at most that one, and a call that reports success has done its work.
\<close>

definition adds_layer :: "('w \<Rightarrow> string set) \<Rightarrow> string \<Rightarrow> 'w \<Rightarrow> 'w \<Rightarrow> bool" where
  "adds_layer present p w w' \<longleftrightarrow> present w \<subseteq> present w' \<and> present w' \<subseteq> insert p (present w)"

definition drops_layer :: "('w \<Rightarrow> string set) \<Rightarrow> string \<Rightarrow> 'w \<Rightarrow> 'w \<Rightarrow> bool" where
  "drops_layer present p w w' \<longleftrightarrow> present w' \<subseteq> present w \<and> present w - {p} \<subseteq> present w'"

lemma adds_layer_order [simp]: "reflp (adds_layer present p)" "transp (adds_layer present p)"
  unfolding adds_layer_def by (rule reflpI, blast) (rule transpI, blast)

lemma drops_layer_order [simp]: "reflp (drops_layer present p)" "transp (drops_layer present p)"
  unfolding drops_layer_def by (rule reflpI, blast) (rule transpI, blast)

lemma same_adds: "within (same present) m \<Longrightarrow> within (adds_layer present p) m"
  by (erule within_mono) (auto simp: same_def adds_layer_def)

lemma same_drops: "within (same present) m \<Longrightarrow> within (drops_layer present p) m"
  by (erule within_mono) (auto simp: same_def drops_layer_def)

locale hcs_contract =
  fixes C :: "'w HCSClient" and present :: "'w \<Rightarrow> string set"
  assumes exists_frame: "within (same present) (hcs_LayerExists C di i)"
    and exists_ok: "hcs_LayerExists C di i w = (Ret (Inr b), w') \<Longrightarrow> b \<longleftrightarrow> layerPath di i \<in> present w"
    and mount_frame: "within (same present) (hcs_GetLayerMountPath C di i)"
    and create_frame: "within (adds_layer present (layerPath di i)) (hcs_CreateLayer C di i ps)"
    and create_ok: "hcs_CreateLayer C di i ps w = (Ret None, w') \<Longrightarrow> layerPath di i \<in> present w'"
    and destroy_frame: "within (drops_layer present (layerPath di i)) (hcs_DestroyLayer C di i)"
    and destroy_ok: "hcs_DestroyLayer C di i w = (Ret None, w') \<Longrightarrow> layerPath di i \<notin> present w'"

text \<open>The same for the layer service itself and the lock of the client.\<close>

locale wclayer_contract =
  fixes W :: "'w wclayer" and L :: "'w FileLocker" and present :: "'w \<Rightarrow> string set"
  assumes wc_exists_frame: "within (same present) (wc_LayerExists W p)"
    and wc_exists_ok: "wc_LayerExists W p w = (Ret (Inr b), w') \<Longrightarrow> b \<longleftrightarrow> p \<in> present w"
    and wc_mount_frame: "within (same present) (wc_GetLayerMountPath W p)"
    and wc_create_frame: "within (adds_layer present p) (wc_CreateScratchLayer W p ps)"
    and wc_create_ok: "wc_CreateScratchLayer W p ps w = (Ret None, w') \<Longrightarrow> p \<in> present w'"
    and wc_activate_frame: "within (same present) (wc_ActivateLayer W p)"
    and wc_prepare_frame: "within (same present) (wc_PrepareLayer W p ps)"
    and wc_unprepare_frame: "within (same present) (wc_UnprepareLayer W p)"
    and wc_deactivate_frame: "within (same present) (wc_DeactivateLayer W p)"
    and wc_destroy_frame: "within (drops_layer present p) (wc_DestroyLayer W p)"
    and wc_destroy_ok: "wc_DestroyLayer W p w = (Ret None, w') \<Longrightarrow> p \<notin> present w'"
    and lock_frame: "within (same present) (fl_Open L)"
    and unlock_frame: "fl_Open L w = (Ret (Inr f), w') \<Longrightarrow> within (same present) (lf_Close f)"

lemma destroy_rounds_within:
  assumes "transp R" and "reflp R" and "within R (UnprepareLayer W di i)"
    and "within R (DeactivateLayer W di i)" and "within R (hcsshim_DestroyLayer W di i)"
  shows "within R (destroy_rounds n W di i u d x)"
proof (induction n arbitrary: u d x)
  case 0
  then show ?case
    using assms(2) by (auto simp: destroy_failed_def intro: within_intros split: option.splits)
next
  case (Suc n)
  then show ?case
    using assms by (auto intro!: within_intros split: option.splits)
qed

text \<open>A client over such a layer service keeps the contract the driver relies on.\<close>

context wclayer_contract
begin

lemma client_destroy_within: "within (drops_layer present (layerPath di i)) (Client_DestroyLayer W di i)"
  unfolding Client_DestroyLayer_def
  by (rule destroy_rounds_within)
     (simp_all add: UnprepareLayer_def DeactivateLayer_def hcsshim_DestroyLayer_def
        wc_unprepare_frame wc_deactivate_frame wc_destroy_frame same_drops)

lemma client_destroy_ok:
  assumes "Client_DestroyLayer W di i w = (Ret None, w')"
  shows "layerPath di i \<notin> present w'"
proof -
  from assms obtain wk u d where "destroy_round W di i wk = (Ret (u, d, None), w')"
    unfolding Client_DestroyLayer_def destroy_rounds_None_iff by blast
  then show ?thesis
    using wc_destroy_ok
    by (auto simp: destroy_round_def hcsshim_DestroyLayer_def go_simps split: prod.splits go.splits)
qed

lemma client_create_within:
  assumes "layerCreateLock c = L"
  shows "within (adds_layer present (layerPath di i)) (Client_CreateLayer W c di i ps)"
proof (rule withinI)
  fix w r w'
  let ?R = "adds_layer present (layerPath di i)"
  let ?body = "go_tryE (CreateSandboxLayer W di i [] ps) (\<lambda>e. go_ret (Some e))
       (go_tryE (ActivateLayer W di i) (\<lambda>e. go_ret (Some e)) (PrepareLayer W di i ps))"
  assume run: "Client_CreateLayer W c di i ps w = (r, w')"
  obtain q w1 where op: "fl_Open L w = (q, w1)" by force
  then have R1: "?R w w1" by (rule withinD [OF same_adds [OF lock_frame]])
  have body: "within ?R ?body"
    unfolding CreateSandboxLayer_def ActivateLayer_def PrepareLayer_def
    by (intro within_intros wc_create_frame same_adds [OF wc_activate_frame] same_adds [OF wc_prepare_frame]) simp_all
  show "?R w w'"
  proof (cases "\<exists>f. q = Ret (Inr f)")
    case True
    then obtain f where f: "fl_Open L w = (Ret (Inr f), w1)" using op by blast
    then have "go_defer (lf_Close f) ?body w1 = (r, w')"
      using run assms by (simp add: Client_CreateLayer_def)
    moreover have "within ?R (go_defer (lf_Close f) ?body)"
      by (rule within_defer [OF adds_layer_order(2) same_adds [OF unlock_frame [OF f]] body])
    ultimately have "?R w1 w'" by (blast dest: withinD)
    with R1 show ?thesis by (meson adds_layer_order(2) transpD)
  next
    case False
    then have "w' = w1"
      using run op assms by (auto simp: Client_CreateLayer_def go_simps split: go.splits sum.splits)
    with R1 show ?thesis by simp
  qed
qed

lemma client_create_ok:
  assumes "layerCreateLock c = L" and "Client_CreateLayer W c di i ps w = (Ret None, w')"
  shows "layerPath di i \<in> present w'"
proof -
  from assms obtain f w1 w2 where f: "fl_Open L w = (Ret (Inr f), w1)"
    and cl: "\<exists>u. lf_Close f w2 = (u, w')"
    and body: "go_tryE (CreateSandboxLayer W di i [] ps) (\<lambda>e. go_ret (Some e))
       (go_tryE (ActivateLayer W di i) (\<lambda>e. go_ret (Some e)) (PrepareLayer W di i ps)) w1 = (Ret None, w2)"
    unfolding Client_CreateLayer_def go_try_def
    by (auto dest!: go_bind_RetD go_defer_RetD split: sum.splits) blast
  then obtain w3 w4 where "wc_CreateScratchLayer W (layerPath di i) ps w1 = (Ret None, w3)"
    and "wc_ActivateLayer W (layerPath di i) w3 = (Ret None, w4)"
    and "wc_PrepareLayer W (layerPath di i) ps w4 = (Ret None, w2)"
    unfolding go_tryE_def CreateSandboxLayer_def ActivateLayer_def PrepareLayer_def
    by (auto dest!: go_bind_RetD split: option.splits)
  then have "layerPath di i \<in> present w2"
    using wc_create_ok withinD [OF wc_activate_frame] withinD [OF wc_prepare_frame]
    by (metis same_def)
  moreover have "present w' = present w2"
    using withinD [OF unlock_frame [OF f]] cl by (auto simp: same_def)
  ultimately show ?thesis by simp
qed

lemma client_contract:
  assumes "layerCreateLock c = L"
  shows "hcs_contract (Client_HCS W c) present"
  by unfold_locales
     (simp_all add: Client_HCS_def LayerExists_def GetLayerMountPath_def wc_exists_frame wc_exists_ok
        wc_mount_frame client_create_within [OF assms] client_destroy_within client_destroy_ok,
      use client_create_ok [OF assms] in blast)

end

end
