(* ===== verification/Backuptar.thy ===== *)
theory Backuptar
  imports Go_Encoding Hcs_Client "HOL-Library.Signed_Division"
begin

text \<open>
  From tar entries to Win32 backup streams: the vendored go-winio (backuptar/tar.go,
  backuptar/strconv.go, backup.go, ea.go, reparse.go) as far as unpacking a layer uses it. The
  tar reader of the Go library is modelled by what it delivers: the entries of the archive with
  their contents, in the chunks in which they can be read. Converting a security descriptor from
  its textual form is done by Windows and is a parameter.
\<close>

section \<open>Tar headers and the tar reader\<close>

text \<open>Times are nanoseconds since the epoch, as exact integers; \<^verbatim>\<open>UnixNano\<close> reduces them to 64 bits.\<close>

record Header =
  hdr_Name :: string
  hdr_Linkname :: string
  hdr_Typeflag :: char
  hdr_Size :: int64
  hdr_ModTime :: int
  hdr_AccessTime :: int
  hdr_ChangeTime :: int
  hdr_PAXRecords :: "(string \<times> string) list"

definition TypeReg :: char where
  "TypeReg = CHR ''0''"

definition TypeLink :: char where
  "TypeLink = CHR ''1''"

definition TypeSymlink :: char where
  "TypeSymlink = CHR ''2''"

definition TypeDir :: char where
  "TypeDir = CHR ''5''"

text \<open>
  The state of a tar reader: the chunks of the current entry that are still to be read and the error that reading
  it ends with (\<open>EOF\<close> if the entry is complete), the entries to come, each with its chunks and its error,
  and the error of Next at the end of the archive.
\<close>

type_synonym tar_entry = "Header \<times> bytes list \<times> go_error"

record tar_Reader =
  tr_chunks :: "bytes list"
  tr_err :: go_error
  tr_entries :: "tar_entry list"
  tr_end :: go_error

definition tar_Next :: "('w, tar_Reader) ref \<Rightarrow> ('w, Header option \<times> go_error option) io" where
  "tar_Next t = go_bind (ref_read t) (\<lambda>s.
     if tr_err s \<noteq> EOF then go_ret (None, Some (tr_err s))
     else
       case tr_entries s of
         [] \<Rightarrow> go_bind (ref_modify t (\<lambda>s. s\<lparr>tr_chunks := []\<rparr>)) (\<lambda>_. go_ret (None, Some (tr_end s)))
       | (h, cs, e) # es \<Rightarrow>
           go_bind (ref_modify t (\<lambda>s. s\<lparr>tr_chunks := cs, tr_err := e, tr_entries := es\<rparr>)) (\<lambda>_.
           go_ret (Some h, None)))"

definition tar_Read :: "('w, tar_Reader) ref \<Rightarrow> ('w, bytes \<times> go_error option) io" where
  "tar_Read t = go_bind (ref_read t) (\<lambda>s.
     case tr_chunks s of
       [] \<Rightarrow> go_ret ([], Some (tr_err s))
     | c # cs \<Rightarrow> go_bind (ref_modify t (\<lambda>s. s\<lparr>tr_chunks := cs\<rparr>)) (\<lambda>_. go_ret (c, None)))"

section \<open>File information\<close>

definition UnixNano :: "int \<Rightarrow> int64" where
  "UnixNano t = word_of_int t"

definition time_Unix :: "int64 \<Rightarrow> int64 \<Rightarrow> int" where
  "time_Unix sec nsec = sint sec * 1000000000 + sint nsec"

definition NsecToFiletime :: "int64 \<Rightarrow> Filetime" where
  "NsecToFiletime nsec =
     (let t = word_of_int (sint nsec sdiv 100) + 116444736000000000 :: int64
      in \<lparr>LowDateTime = ucast t, HighDateTime = ucast (drop_bit 32 t)\<rparr>)"

definition hdrFileAttributes :: string where
  "hdrFileAttributes = ''MSWINDOWS.fileattr''"

definition hdrSecurityDescriptor :: string where
  "hdrSecurityDescriptor = ''MSWINDOWS.sd''"

definition hdrRawSecurityDescriptor :: string where
  "hdrRawSecurityDescriptor = ''MSWINDOWS.rawsd''"

definition hdrMountPoint :: string where
  "hdrMountPoint = ''MSWINDOWS.mountpoint''"

definition hdrEaPrefix :: string where
  "hdrEaPrefix = ''MSWINDOWS.xattr.''"

definition hdrCreationTime :: string where
  "hdrCreationTime = ''LIBARCHIVE.creationtime''"

definition ErrHeader :: go_error where
  "ErrHeader = ErrorString ''archive/tar: invalid tar header''"

definition parsePAXTime :: "string \<Rightarrow> int res" where
  "parsePAXTime s =
     (let (ss, sn) = (if CHR ''.'' \<in> set s then (takeWhile (\<lambda>c. c \<noteq> CHR ''.'') s, tl (dropWhile (\<lambda>c. c \<noteq> CHR ''.'') s))
                      else (s, []))
      in case ParseInt ss 64 of
           (secs, Some e) \<Rightarrow> Inl ErrHeader
         | (secs, None) \<Rightarrow>
             if sn = [] then Inr (time_Unix secs 0)
             else if \<exists>c \<in> set sn. \<not> is_digit c then Inl ErrHeader
             else
               let sn = (if length sn < 9 then sn @ replicate (9 - length sn) (CHR ''0'') else take 9 sn);
                   nsecs = fst (ParseInt sn 64)
               in if ss \<noteq> [] \<and> hd ss = CHR ''-'' then Inr (time_Unix secs (- nsecs))
                  else Inr (time_Unix secs nsecs))"

definition FILE_ATTRIBUTE_DIRECTORY :: uint32 where
  "FILE_ATTRIBUTE_DIRECTORY = 16"

definition FileInfoFromHeader :: "Header \<Rightarrow> (string \<times> int64 \<times> FileBasicInfo option) res" where
  "FileInfoFromHeader hdr =
     (let sz = (if hdr_Typeflag hdr = TypeReg then hdr_Size hdr else 0);
          fileInfo = \<lparr>CreationTime = NsecToFiletime (UnixNano (hdr_ModTime hdr)),
                      LastAccessTime = NsecToFiletime (UnixNano (hdr_AccessTime hdr)),
                      LastWriteTime = NsecToFiletime (UnixNano (hdr_ModTime hdr)),
                      ChangeTime = NsecToFiletime (UnixNano (hdr_ChangeTime hdr)),
                      FileAttributes = 0\<rparr>;
          attrs = (case map_of (hdr_PAXRecords hdr) hdrFileAttributes of
                     Some attrStr \<Rightarrow>
                       (case ParseUint attrStr 32 of
                          (attr, Some e) \<Rightarrow> Inl (NumError ''ParseUint'' attrStr e)
                        | (attr, None) \<Rightarrow> Inr (of_nat attr))
                   | None \<Rightarrow> Inr (if hdr_Typeflag hdr = TypeDir then FILE_ATTRIBUTE_DIRECTORY else 0))
      in case attrs of
           Inl e \<Rightarrow> Inl e
         | Inr attr \<Rightarrow>
             (case map_of (hdr_PAXRecords hdr) hdrCreationTime of
                None \<Rightarrow> Inr (hdr_Name hdr, sz, Some (fileInfo\<lparr>FileAttributes := attr\<rparr>))
              | Some creationTimeStr \<Rightarrow>
                  (case parsePAXTime creationTimeStr of
                     Inl e \<Rightarrow> Inl e
                   | Inr t \<Rightarrow> Inr (hdr_Name hdr, sz,
                       Some (fileInfo\<lparr>FileAttributes := attr, CreationTime := NsecToFiletime (UnixNano t)\<rparr>)))))"

section \<open>Metadata of a file\<close>

type_synonym sddl_converter = "string \<Rightarrow> bytes res"

definition SecurityDescriptorFromTarHeader :: "sddl_converter \<Rightarrow> Header \<Rightarrow> bytes res" where
  "SecurityDescriptorFromTarHeader sddl hdr =
     (case map_of (hdr_PAXRecords hdr) hdrRawSecurityDescriptor of
        Some sdraw \<Rightarrow> b64_DecodeString sdraw
      | None \<Rightarrow>
          (case map_of (hdr_PAXRecords hdr) hdrSecurityDescriptor of
             Some s \<Rightarrow> sddl s
           | None \<Rightarrow> Inr []))"

record ExtendedAttribute =
  ea_Name :: string
  ea_Value :: bytes
  ea_Flags :: nat

text \<open>One entry of a FILE\_FULL\_EA\_INFORMATION buffer: an 8-byte head, the name with a NUL, the value, padding to 4 bytes.\<close>

definition writeEa :: "ExtendedAttribute \<Rightarrow> bool \<Rightarrow> bytes res" where
  "writeEa ea last_ea =
     (if length (ea_Name ea) \<ge> 2 ^ 8 then Inl (ErrorString ''extended attribute name too large'')
      else if length (ea_Value ea) \<ge> 2 ^ 16 then Inl (ErrorString ''extended attribute value too large'')
      else
        let entrySize = 8 + length (ea_Name ea) + 1 + length (ea_Value ea);
            withPadding = (entrySize + 3) div 4 * 4;
            nextOffset = (if last_ea then 0 else withPadding)
        in Inr (le_bytes 4 nextOffset @ le_bytes 1 (ea_Flags ea) @ le_bytes 1 (length (ea_Name ea))
                @ le_bytes 2 (length (ea_Value ea)) @ ea_Name ea @ [CHR 0x00] @ ea_Value ea
                @ replicate (withPadding - entrySize) (CHR 0x00)))"

fun EncodeExtendedAttributes :: "ExtendedAttribute list \<Rightarrow> bytes res" where
  "EncodeExtendedAttributes [] = Inr []"
| "EncodeExtendedAttributes (ea # eas) =
     (case writeEa ea (eas = []) of
        Inl e \<Rightarrow> Inl e
      | Inr b \<Rightarrow> (case EncodeExtendedAttributes eas of Inl e \<Rightarrow> Inl e | Inr bs \<Rightarrow> Inr (b @ bs)))"

text \<open>
  The records are visited in the order of the list. The code visits them in the order in which Go iterates over the map, which is unspecified: what is proved
  holds for the records of a header in any order.
\<close>

fun collect_eas :: "(string \<times> string) list \<Rightarrow> ExtendedAttribute list res" where
  "collect_eas [] = Inr []"
| "collect_eas ((k, v) # rs) =
     (if take (length hdrEaPrefix) k \<noteq> hdrEaPrefix then collect_eas rs
      else
        (case b64_DecodeString v of
           Inl e \<Rightarrow> Inl e
         | Inr data \<Rightarrow>
             (case collect_eas rs of
                Inl e \<Rightarrow> Inl e
              | Inr eas \<Rightarrow> Inr (\<lparr>ea_Name = drop (length hdrEaPrefix) k, ea_Value = data, ea_Flags = 0\<rparr> # eas))))"

definition ExtendedAttributesFromTarHeader :: "Header \<Rightarrow> bytes res" where
  "ExtendedAttributesFromTarHeader hdr =
     (case collect_eas (hdr_PAXRecords hdr) of
        Inl e \<Rightarrow> Inl e
      | Inr eas \<Rightarrow> if eas \<noteq> [] then EncodeExtendedAttributes eas else Inr [])"

definition isDriveLetter :: "char \<Rightarrow> bool" where
  "isDriveLetter c \<longleftrightarrow> (let n = of_char c :: nat in (97 \<le> n \<and> n \<le> 122) \<or> (65 \<le> n \<and> n \<le> 90))"

text \<open>The NT form of a link target, and whether the target is relative.\<close>

definition ntTarget :: "string \<Rightarrow> string \<times> bool" where
  "ntTarget target =
     (if take 4 target = [bslash, bslash, CHR ''?'', bslash]
      then ([bslash, CHR ''?'', CHR ''?'', bslash] @ drop 4 target, False)
      else if take 2 target = [bslash, bslash]
      then ([bslash, CHR ''?'', CHR ''?'', bslash] @ ''UNC'' @ [bslash] @ drop 2 target, False)
      else if length target \<ge> 2 \<and> isDriveLetter (target ! 0) \<and> target ! 1 = CHR '':''
      then ([bslash, CHR ''?'', CHR ''?'', bslash] @ target, False)
      else (target, True))"

definition EncodeReparsePoint :: "string \<Rightarrow> bool \<Rightarrow> bytes" where
  "EncodeReparsePoint target isMountPoint =
     (let (nt, relative) = ntTarget target;
          target16 = utf16_Encode (target @ [CHR 0x00]);
          ntTarget16 = utf16_Encode (nt @ [CHR 0x00]);
          sz = 8 + length ntTarget16 * 2 + length target16 * 2 + (if isMountPoint then 0 else 4)
      in le_bytes 4 (if isMountPoint then 0xA0000003 else 0xA000000C) @ le_bytes 2 sz @ le_bytes 2 0
         @ le_bytes 2 0 @ le_bytes 2 ((length ntTarget16 - 1) * 2)
         @ le_bytes 2 (length ntTarget16 * 2) @ le_bytes 2 ((length target16 - 1) * 2)
         @ (if isMountPoint then [] else le_bytes 4 (if relative then 1 else 0))
         @ utf16_bytes ntTarget16 @ utf16_bytes target16)"

definition EncodeReparsePointFromTarHeader :: "Header \<Rightarrow> bytes" where
  "EncodeReparsePointFromTarHeader hdr =
     EncodeReparsePoint (FromSlash (hdr_Linkname hdr)) (map_of (hdr_PAXRecords hdr) hdrMountPoint \<noteq> None)"

section \<open>The backup stream writer\<close>

definition BackupData :: nat where "BackupData = 1"
definition BackupEaData :: nat where "BackupEaData = 2"
definition BackupSecurity :: nat where "BackupSecurity = 3"
definition BackupAlternateData :: nat where "BackupAlternateData = 4"
definition BackupReparseData :: nat where "BackupReparseData = 8"
definition BackupSparseBlock :: nat where "BackupSparseBlock = 9"

lemmas stream_ids = BackupData_def BackupEaData_def BackupSecurity_def BackupAlternateData_def BackupReparseData_def BackupSparseBlock_def

lemma not_sparse [simp]: "BackupData \<noteq> BackupSparseBlock" "BackupEaData \<noteq> BackupSparseBlock" "BackupSecurity \<noteq> BackupSparseBlock"
  "BackupAlternateData \<noteq> BackupSparseBlock" "BackupReparseData \<noteq> BackupSparseBlock"
  by (simp_all add: stream_ids)

record BackupHeader =
  bh_Id :: nat
  bh_Attributes :: nat
  bh_Size :: int64
  bh_Name :: string
  bh_Offset :: int64

type_synonym 'w writer = "bytes \<Rightarrow> ('w, int \<times> go_error option) io"

text \<open>The head of a stream: its identifier, attributes, size (with the offset of a sparse block) and the size of its name in bytes.\<close>

definition win32StreamID :: "BackupHeader \<Rightarrow> bytes" where
  "win32StreamID hdr =
     le_bytes 4 (bh_Id hdr) @ le_bytes 4 (bh_Attributes hdr)
     @ le_bytes 8 (unat (if bh_Id hdr = BackupSparseBlock then bh_Size hdr + 8 else bh_Size hdr)) @ le_bytes 4 (length (utf16_Encode (bh_Name hdr)) * 2)"

text \<open>
  The writer keeps the number of bytes the current stream still lacks, here passed on explicitly.
  \<open>binary.Write\<close> makes one write of the whole value.
\<close>

definition binary_Write :: "'w writer \<Rightarrow> bytes \<Rightarrow> ('w, go_error option) io" where
  "binary_Write out b = go_bind (out b) (\<lambda>(n, err). go_ret err)"

definition bw_WriteHeader :: "'w writer \<Rightarrow> BackupHeader \<Rightarrow> int64 \<Rightarrow> ('w, int64 res) io" where
  "bw_WriteHeader out hdr bytesLeft =
     (if bytesLeft \<noteq> 0 then go_ret (Inl (ErrorString (''missing '' @ FormatInt bytesLeft @ '' bytes'')))
      else
        let name = utf16_Encode (bh_Name hdr) in
        go_tryE (binary_Write out (win32StreamID hdr)) (\<lambda>e. go_ret (Inl e))
        (go_tryE (if name \<noteq> [] then binary_Write out (utf16_bytes name) else go_ret None) (\<lambda>e. go_ret (Inl e))
        (go_tryE (if bh_Id hdr = BackupSparseBlock then binary_Write out (le_bytes 8 (unat (bh_Offset hdr))) else go_ret None) (\<lambda>e. go_ret (Inl e))
        (go_ret (Inr (bh_Size hdr))))))"

definition bw_Write :: "'w writer \<Rightarrow> bytes \<Rightarrow> int64 \<Rightarrow> ('w, (int \<times> go_error option) \<times> int64) io" where
  "bw_Write out b bytesLeft =
     (if sint bytesLeft < int (length b)
      then go_ret ((0, Some (ErrorString (''too many bytes by '' @ show_int (int (length b) - sint bytesLeft)))), bytesLeft)
      else go_bind (out b) (\<lambda>(n, err). go_ret ((n, err), bytesLeft - word_of_int n)))"

text \<open>\<open>io.Copy\<close> from the tar reader to the stream writer.\<close>

definition ErrShortWrite :: go_error where
  "ErrShortWrite = ErrorString ''short write''"

definition errInvalidWrite :: go_error where
  "errInvalidWrite = ErrorString ''invalid write result''"

fun copy_loop :: "nat \<Rightarrow> 'w writer \<Rightarrow> ('w, tar_Reader) ref \<Rightarrow> int64 \<Rightarrow> ('w, int64 res) io" where
  "copy_loop 0 out t bytesLeft = go_diverge"
| "copy_loop (Suc fuel) out t bytesLeft =
     go_bind (tar_Read t) (\<lambda>(b, er).
       let finish = (\<lambda>left. case er of
             None \<Rightarrow> copy_loop fuel out t left
           | Some e \<Rightarrow> if e = EOF then go_ret (Inr left) else go_ret (Inl e))
       in if b = [] then finish bytesLeft
          else
            go_bind (bw_Write out b bytesLeft) (\<lambda>((nw, ew), left).
              if nw < 0 \<or> int (length b) < nw
              then go_ret (Inl (case ew of Some e \<Rightarrow> e | None \<Rightarrow> errInvalidWrite))
              else case ew of
                Some e \<Rightarrow> go_ret (Inl e)
              | None \<Rightarrow> if nw \<noteq> int (length b) then go_ret (Inl ErrShortWrite) else finish left))"

text \<open>One turn reads one chunk, so one turn more than there are chunks is enough.\<close>

definition io_Copy :: "'w writer \<Rightarrow> ('w, tar_Reader) ref \<Rightarrow> int64 \<Rightarrow> ('w, int64 res) io" where
  "io_Copy out t bytesLeft = go_bind (ref_read t) (\<lambda>s. copy_loop (Suc (length (tr_chunks s))) out t bytesLeft)"

definition write_stream :: "'w writer \<Rightarrow> nat \<Rightarrow> bytes \<Rightarrow> int64 \<Rightarrow> ('w, int64 res) io" where
  "write_stream out sid data bytesLeft =
     go_try (bw_WriteHeader out \<lparr>bh_Id = sid, bh_Attributes = 0, bh_Size = of_nat (length data), bh_Name = [], bh_Offset = 0\<rparr> bytesLeft)
       (\<lambda>e. go_ret (Inl e)) (\<lambda>left.
     go_bind (bw_Write out data left) (\<lambda>((n, err), left').
     case err of Some e \<Rightarrow> go_ret (Inl e) | None \<Rightarrow> go_ret (Inr left')))"

definition is_ads :: "Header \<Rightarrow> Header \<Rightarrow> bool" where
  "is_ads hdr ahdr \<longleftrightarrow>
     hdr_Typeflag ahdr = TypeReg \<and> take (length (hdr_Name hdr) + 1) (hdr_Name ahdr) = hdr_Name hdr @ '':''"

text \<open>The loop over the alternate data streams: it ends at the first header that is not one.\<close>

fun ads_loop :: "nat \<Rightarrow> 'w writer \<Rightarrow> ('w, tar_Reader) ref \<Rightarrow> Header \<Rightarrow> int64 \<Rightarrow>
    ('w, Header option \<times> go_error option) io" where
  "ads_loop 0 out t hdr bytesLeft = go_diverge"
| "ads_loop (Suc fuel) out t hdr bytesLeft =
     go_bind (tar_Next t) (\<lambda>(ahdr, err).
     case (ahdr, err) of
       (_, Some e) \<Rightarrow> go_ret (None, Some e)
     | (None, None) \<Rightarrow> go_panic NilDereference
     | (Some a, None) \<Rightarrow>
         if \<not> is_ads hdr a then go_ret (Some a, None)
         else
           go_try (bw_WriteHeader out \<lparr>bh_Id = BackupAlternateData, bh_Attributes = 0, bh_Size = hdr_Size a,
                                       bh_Name = drop (length (hdr_Name hdr)) (hdr_Name a) @ '':$DATA'', bh_Offset = 0\<rparr> bytesLeft)
             (\<lambda>e. go_ret (None, Some e)) (\<lambda>left.
           go_try (io_Copy out t left) (\<lambda>e. go_ret (None, Some e)) (\<lambda>left'.
           ads_loop fuel out t hdr left')))"

definition WriteBackupStreamFromTarFile :: "sddl_converter \<Rightarrow> 'w writer \<Rightarrow> ('w, tar_Reader) ref \<Rightarrow> Header \<Rightarrow>
    ('w, Header option \<times> go_error option) io" where
  "WriteBackupStreamFromTarFile sddl out t hdr =
     (case SecurityDescriptorFromTarHeader sddl hdr of
        Inl e \<Rightarrow> go_ret (None, Some e)
      | Inr sd \<Rightarrow>
          go_try (if sd \<noteq> [] then write_stream out BackupSecurity sd 0 else go_ret (Inr 0))
            (\<lambda>e. go_ret (None, Some e)) (\<lambda>left.
          case ExtendedAttributesFromTarHeader hdr of
            Inl e \<Rightarrow> go_ret (None, Some e)
          | Inr eadata \<Rightarrow>
              go_try (if eadata \<noteq> [] then write_stream out BackupEaData eadata left else go_ret (Inr left))
                (\<lambda>e. go_ret (None, Some e)) (\<lambda>left.
              go_try (if hdr_Typeflag hdr = TypeSymlink
                      then write_stream out BackupReparseData (EncodeReparsePointFromTarHeader hdr) left
                      else go_ret (Inr left))
                (\<lambda>e. go_ret (None, Some e)) (\<lambda>left.
              go_try (if hdr_Typeflag hdr = TypeReg
                      then go_try (bw_WriteHeader out \<lparr>bh_Id = BackupData, bh_Attributes = 0, bh_Size = hdr_Size hdr, bh_Name = [], bh_Offset = 0\<rparr> left)
                             (\<lambda>e. go_ret (Inl e)) (io_Copy out t)
                      else go_ret (Inr left))
                (\<lambda>e. go_ret (None, Some e)) (\<lambda>left.
              go_bind (ref_read t) (\<lambda>s. ads_loop (Suc (length (tr_entries s))) out t hdr left))))))"

end
