(* ===== verification/Go_Json.thy ===== *)
theory Go_Json
  imports Go_Strconv
begin

text \<open>
  JSON as encoding/json reads and writes it, for the one document of the program: the metadata of a volume, an object with
  the integer field \<open>size\<close> (src/driver/write_metadata.go, stats.go). The reader accepts every JSON
  document and reports the two kinds of error that json.Unmarshal has; their message texts are a parameter of the caller.
\<close>

datatype json = JNull | JBool bool | JNumber string | JString string | JArray "json list" | JObject "(string \<times> json) list"

datatype json_error = SyntaxError | UnmarshalTypeError string

section \<open>Scanning\<close>

definition json_space :: "char \<Rightarrow> bool" where
  "json_space c \<longleftrightarrow> c = CHR '' '' \<or> c = CHR 0x09 \<or> c = CHR 0x0D \<or> c = CHR 0x0A"

definition skip_space :: "string \<Rightarrow> string" where
  "skip_space s = dropWhile json_space s"

definition hex_value :: "char \<Rightarrow> nat option" where
  "hex_value c =
     (let n = of_char c :: nat in
      if 48 \<le> n \<and> n \<le> 57 then Some (n - 48)
      else if 97 \<le> n \<and> n \<le> 102 then Some (n - 87)
      else if 65 \<le> n \<and> n \<le> 70 then Some (n - 55)
      else None)"

definition dquote :: char where
  "dquote = CHR 0x22"

definition backslash :: char where
  "backslash = CHR 0x5C"

text \<open>The raw text of a string literal, up to its closing quote, and what follows.\<close>

fun scan_string :: "string \<Rightarrow> (string \<times> string) option" where
  "scan_string [] = None"
| "scan_string (c # cs) =
     (if c = dquote then Some ([], cs)
      else if c = backslash then
        (case cs of
           [] \<Rightarrow> None
         | e # es \<Rightarrow>
             if e \<in> set [dquote, backslash, CHR ''/'', CHR ''b'', CHR ''f'', CHR ''n'', CHR ''r'', CHR ''t'']
             then map_option (apfst (\<lambda>r. c # e # r)) (scan_string es)
             else if e = CHR ''u'' then
               (case es of
                  h1 # h2 # h3 # h4 # r \<Rightarrow>
                    if list_all (\<lambda>h. hex_value h \<noteq> None) [h1, h2, h3, h4]
                    then map_option (apfst (\<lambda>t. c # e # h1 # h2 # h3 # h4 # t)) (scan_string r)
                    else None
                | _ \<Rightarrow> None)
             else None)
      else if (of_char c :: nat) < 32 then None
      else map_option (apfst (\<lambda>r. c # r)) (scan_string cs))"

definition scan_digits :: "string \<Rightarrow> (string \<times> string) option" where
  "scan_digits s = (let ds = takeWhile is_digit s in if ds = [] then None else Some (ds, dropWhile is_digit s))"

definition scan_int :: "string \<Rightarrow> (string \<times> string) option" where
  "scan_int s =
     (case s of
        [] \<Rightarrow> None
      | c # cs \<Rightarrow> if c = CHR ''0'' then Some ([c], cs) else scan_digits s)"

definition scan_fraction :: "string \<Rightarrow> (string \<times> string) option" where
  "scan_fraction s =
     (case s of
        [] \<Rightarrow> Some ([], [])
      | c # cs \<Rightarrow> if c = CHR ''.'' then map_option (apfst (\<lambda>d. c # d)) (scan_digits cs) else Some ([], s))"

definition scan_exponent :: "string \<Rightarrow> (string \<times> string) option" where
  "scan_exponent s =
     (case s of
        c # cs \<Rightarrow>
          if c = CHR ''e'' \<or> c = CHR ''E'' then
            (case cs of
               sg # ds \<Rightarrow>
                 if sg = CHR ''+'' \<or> sg = CHR ''-'' then map_option (apfst (\<lambda>d. c # sg # d)) (scan_digits ds)
                 else map_option (apfst (\<lambda>d. c # d)) (scan_digits cs)
             | [] \<Rightarrow> None)
          else Some ([], s)
      | [] \<Rightarrow> Some ([], []))"

definition scan_number :: "string \<Rightarrow> (string \<times> string) option" where
  "scan_number s =
     (let (sg, s1) = (case s of c # cs \<Rightarrow> if c = CHR ''-'' then ([c], cs) else ([], s) | [] \<Rightarrow> ([], [])) in
      case scan_int s1 of
        None \<Rightarrow> None
      | Some (i, s2) \<Rightarrow>
          (case scan_fraction s2 of
             None \<Rightarrow> None
           | Some (f, s3) \<Rightarrow> map_option (apfst (\<lambda>e. sg @ i @ f @ e)) (scan_exponent s3)))"

definition scan_word :: "string \<Rightarrow> json \<Rightarrow> string \<Rightarrow> (json \<times> string) option" where
  "scan_word word v s = (if take (length word) s = word then Some (v, drop (length word) s) else None)"

definition maxNestingDepth :: nat where
  "maxNestingDepth = 10000"

text \<open>
  Values, elements and members. Every call is made on a text shorter than its caller's, so the length of the
  document is enough fuel. \<open>depth\<close> counts the arrays and objects around the value.
\<close>

fun scan_value :: "nat \<Rightarrow> nat \<Rightarrow> string \<Rightarrow> (json \<times> string) option"
  and scan_elements :: "nat \<Rightarrow> nat \<Rightarrow> string \<Rightarrow> (json list \<times> string) option"
  and scan_members :: "nat \<Rightarrow> nat \<Rightarrow> string \<Rightarrow> ((string \<times> json) list \<times> string) option" where
  "scan_value 0 depth s = None"
| "scan_value (Suc n) depth s =
     (case skip_space s of
        [] \<Rightarrow> None
      | c # cs \<Rightarrow>
          if c = CHR ''{'' then
            (if depth \<ge> maxNestingDepth then None
             else case skip_space cs of
               [] \<Rightarrow> None
             | x # xs \<Rightarrow> if x = CHR ''}'' then Some (JObject [], xs)
                        else map_option (apfst JObject) (scan_members n (Suc depth) (x # xs)))
          else if c = CHR ''['' then
            (if depth \<ge> maxNestingDepth then None
             else case skip_space cs of
               [] \<Rightarrow> None
             | x # xs \<Rightarrow> if x = CHR '']'' then Some (JArray [], xs)
                        else map_option (apfst JArray) (scan_elements n (Suc depth) (x # xs)))
          else if c = dquote then map_option (apfst JString) (scan_string cs)
          else if c = CHR ''t'' then scan_word ''true'' (JBool True) (c # cs)
          else if c = CHR ''f'' then scan_word ''false'' (JBool False) (c # cs)
          else if c = CHR ''n'' then scan_word ''null'' JNull (c # cs)
          else map_option (apfst JNumber) (scan_number (c # cs)))"
| "scan_elements 0 depth s = None"
| "scan_elements (Suc n) depth s =
     (case scan_value n depth s of
        None \<Rightarrow> None
      | Some (v, r) \<Rightarrow>
          (case skip_space r of
             [] \<Rightarrow> None
           | c # cs \<Rightarrow> if c = CHR '']'' then Some ([v], cs)
                      else if c = CHR '','' then map_option (apfst (\<lambda>vs. v # vs)) (scan_elements n depth cs)
                      else None))"
| "scan_members 0 depth s = None"
| "scan_members (Suc n) depth s =
     (case skip_space s of
        [] \<Rightarrow> None
      | q # cs \<Rightarrow>
          if q \<noteq> dquote then None
          else
            (case scan_string cs of
               None \<Rightarrow> None
             | Some (key, r) \<Rightarrow>
                 (case skip_space r of
                    [] \<Rightarrow> None
                  | k # r2 \<Rightarrow>
                      if k \<noteq> CHR '':'' then None
                      else
                        (case scan_value n depth r2 of
                           None \<Rightarrow> None
                         | Some (v, r3) \<Rightarrow>
                             (case skip_space r3 of
                                [] \<Rightarrow> None
                              | c # cs \<Rightarrow>
                                  if c = CHR ''}'' then Some ([(key, v)], cs)
                                  else if c = CHR '','' then map_option (apfst (\<lambda>ms. (key, v) # ms)) (scan_members n depth cs)
                                  else None)))))"

definition json_parse :: "string \<Rightarrow> json option" where
  "json_parse s =
     (case scan_value (length s + 1) 0 s of
        Some (v, r) \<Rightarrow> if skip_space r = [] then Some v else None
      | None \<Rightarrow> None)"

section \<open>Decoding into the struct\<close>

text \<open>
  The runes of a key, from its raw text, as far as matching it with an ASCII field name needs them, and their case
  folding (the long s and the Kelvin sign fold to S and K). Bytes of other sequences stand for themselves: they match no letter.
\<close>

definition hex4 :: "string \<Rightarrow> nat option" where
  "hex4 hs = (case map hex_value hs of
     [Some a, Some b, Some c, Some d] \<Rightarrow> Some (((a * 16 + b) * 16 + c) * 16 + d) | _ \<Rightarrow> None)"

text \<open>A surrogate that is not the first half of a pair is the replacement rune; no rune of a pair folds to a letter of the key.\<close>

fun key_runes :: "string \<Rightarrow> nat list" where
  "key_runes [] = []"
| "key_runes (c # cs) =
     (if c = backslash then
        (case cs of
           [] \<Rightarrow> []
         | e # es \<Rightarrow>
             if e = CHR ''u'' then
               (case hex4 (take 4 es) of
                  Some r \<Rightarrow> (if 0xD800 \<le> r \<and> r \<le> 0xDFFF then 0xFFFD else r) # key_runes (drop 4 es)
                | None \<Rightarrow> key_runes es)
             else (if e = CHR ''b'' then 8 else if e = CHR ''f'' then 12 else if e = CHR ''n'' then 10
                   else if e = CHR ''r'' then 13 else if e = CHR ''t'' then 9 else of_char e) # key_runes es)
      else
        (case cs of
           d # ds \<Rightarrow> if c = CHR 0xC5 \<and> d = CHR 0xBF then 0x17F # key_runes ds else of_char c # key_runes cs
         | [] \<Rightarrow> [of_char c]))"

definition fold_rune :: "nat \<Rightarrow> nat" where
  "fold_rune r = (if 97 \<le> r \<and> r \<le> 122 then r - 32 else if r = 0x17F then 83 else if r = 0x212A then 75 else r)"

definition names_field :: "string \<Rightarrow> string \<Rightarrow> bool" where
  "names_field field raw \<longleftrightarrow> map fold_rune (key_runes raw) = map (\<lambda>c. fold_rune (of_char c)) field"

text \<open>One member: the value of the field after it and the error it saves. The first saved error is the one reported.\<close>

definition store_int :: "json \<Rightarrow> int64 \<Rightarrow> int64 \<times> json_error option" where
  "store_int v old =
     (case v of
        JNull \<Rightarrow> (old, None)
      | JNumber lit \<Rightarrow> (case ParseInt lit 64 of (x, None) \<Rightarrow> (x, None) | (_, Some _) \<Rightarrow> (old, Some (UnmarshalTypeError (''number '' @ lit))))
      | JBool _ \<Rightarrow> (old, Some (UnmarshalTypeError ''bool''))
      | JString _ \<Rightarrow> (old, Some (UnmarshalTypeError ''string''))
      | JArray _ \<Rightarrow> (old, Some (UnmarshalTypeError ''array''))
      | JObject _ \<Rightarrow> (old, Some (UnmarshalTypeError ''object'')))"

fun store_members :: "string \<Rightarrow> (string \<times> json) list \<Rightarrow> int64 \<Rightarrow> json_error option \<Rightarrow> int64 \<times> json_error option" where
  "store_members field [] x err = (x, err)"
| "store_members field ((k, v) # ms) x err =
     (if names_field field k
      then (case store_int v x of (y, e) \<Rightarrow> store_members field ms y (if err = None then e else err))
      else store_members field ms x err)"

definition Unmarshal_int :: "string \<Rightarrow> bytes \<Rightarrow> json_error + int64" where
  "Unmarshal_int field data =
     (case json_parse data of
        None \<Rightarrow> Inl SyntaxError
      | Some JNull \<Rightarrow> Inr 0
      | Some (JObject ms) \<Rightarrow> (case store_members field ms 0 None of (x, None) \<Rightarrow> Inr x | (x, Some e) \<Rightarrow> Inl e)
      | Some (JBool _) \<Rightarrow> Inl (UnmarshalTypeError ''bool'')
      | Some (JNumber _) \<Rightarrow> Inl (UnmarshalTypeError ''number'')
      | Some (JString _) \<Rightarrow> Inl (UnmarshalTypeError ''string'')
      | Some (JArray _) \<Rightarrow> Inl (UnmarshalTypeError ''array''))"

definition Marshal_int :: "string \<Rightarrow> int64 \<Rightarrow> bytes" where
  "Marshal_int field x = CHR ''{'' # dquote # field @ dquote # CHR '':'' # FormatInt x @ ''}''"

section \<open>Reading back what was written\<close>

lemma dec_leading_zero: "hd (dec n) = CHR ''0'' \<Longrightarrow> n = 0"
proof (induction n rule: dec.induct)
  case (1 n)
  show ?case
  proof (cases "n < 10")
    case True
    then have "of_char (digit_char n) = (48 :: nat)" using "1.prems" by (simp add: dec.simps [of n])
    with True show ?thesis by (simp add: of_digit_char)
  next
    case False
    with "1.prems" have "hd (dec (n div 10)) = CHR ''0''" by (simp add: dec.simps [of n] hd_append)
    with False "1.IH" show ?thesis by simp
  qed
qed

lemma scan_digits_dec: "\<not> is_digit c \<Longrightarrow> scan_digits (dec n @ c # cs) = Some (dec n, c # cs)"
  by (simp add: scan_digits_def takeWhile_append dropWhile_append dec_digits list_all_iff)

lemma scan_int_dec:
  assumes "\<not> is_digit c"
  shows "scan_int (dec n @ c # cs) = Some (dec n, c # cs)"
proof (cases "n = 0")
  case True
  moreover have "digit_char 0 = CHR ''0''" by code_simp
  ultimately show ?thesis by (simp add: scan_int_def dec.simps [of 0])
next
  case False
  then have "hd (dec n) \<noteq> CHR ''0''" using dec_leading_zero by blast
  then have "scan_int (dec n @ c # cs) = scan_digits (dec n @ c # cs)"
    by (cases "dec n") (auto simp: scan_int_def)
  then show ?thesis using scan_digits_dec [OF assms] by simp
qed

lemma scan_number_show:
  "scan_number (show_int i @ ''}'') = Some (show_int i, ''}'')"
proof -
  have nd: "\<not> is_digit (CHR ''}'')" by (simp add: is_digit_def)
  have tail: "scan_fraction ''}'' = Some ([], ''}'')" "scan_exponent ''}'' = Some ([], ''}'')"
    by (simp_all add: scan_fraction_def scan_exponent_def)
  have "hd (dec n) \<noteq> CHR ''-''" for n
    using hd_dec_digit [of n] by (auto simp: is_digit_def)
  then have sgn: "(case dec n @ ''}'' of c # cs \<Rightarrow> if c = CHR ''-'' then ([c], cs) else ([], dec n @ ''}'') | [] \<Rightarrow> ([], []))
      = ([], dec n @ ''}'')" for n
    by (cases "dec n") (auto, metis list.sel(1))
  show ?thesis
    using scan_int_dec [OF nd] tail sgn by (simp add: show_int_def scan_number_def)
qed

lemma show_int_head: "hd (show_int i) = CHR ''-'' \<or> is_digit (hd (show_int i))" "show_int i \<noteq> []"
  using hd_dec_digit by (auto simp: show_int_def)

lemma scan_value_number:
  "scan_value (Suc n) depth (show_int i @ ''}'') = Some (JNumber (show_int i), ''}'')"
proof -
  obtain c cs where s: "show_int i = c # cs" using show_int_head(2) by (cases "show_int i") auto
  then have c: "c = CHR ''-'' \<or> is_digit c" using show_int_head(1) [of i] by simp
  then have "\<not> json_space c" "c \<noteq> CHR ''{''" "c \<noteq> CHR ''[''" "c \<noteq> dquote" "c \<noteq> CHR ''t''" "c \<noteq> CHR ''f''" "c \<noteq> CHR ''n''"
    by (auto simp: is_digit_def json_space_def dquote_def)
  then show ?thesis
    using scan_number_show [of i] s by (simp add: skip_space_def)
qed

lemma Unmarshal_Marshal: "Unmarshal_int ''size'' (Marshal_int ''size'' x) = Inr x"
proof -
  let ?n = "show_int (sint x)"
  have str: "scan_string (''size'' @ dquote # r) = Some (''size'', r)" for r
    by (simp add: dquote_def backslash_def)
  have mem: "scan_members (Suc (Suc n)) d (dquote # ''size'' @ dquote # CHR '':'' # ?n @ ''}'') = Some ([(''size'', JNumber ?n)], [])" for n d
    using str [of "CHR '':'' # ?n @ ''}''"] scan_value_number [of n d "sint x"]
    by (subst scan_members.simps) (simp add: skip_space_def json_space_def dquote_def)
  have "json_parse (Marshal_int ''size'' x) = Some (JObject [(''size'', JNumber ?n)])"
    using mem [of "Suc (Suc (Suc (Suc (Suc (Suc (Suc (length ?n)))))))" "Suc 0"]
    by (simp add: json_parse_def Marshal_int_def FormatInt_def skip_space_def json_space_def maxNestingDepth_def dquote_def
        del: scan_members.simps)
  moreover have "names_field ''size'' ''size''"
    by (simp add: names_field_def backslash_def)
  moreover have "ParseInt ?n 64 = (x, None)"
    using ParseInt_FormatInt [of x] by (simp add: FormatInt_def)
  ultimately show ?thesis
    by (simp add: Unmarshal_int_def store_int_def)
qed

end
