(* ===== verification/Volume_Limiter.thy ===== *)
theory Volume_Limiter
  imports Go_Path
begin

text \<open>
  The disk quota of a volume, src/volume/limiter.go: SetQuota and GetQuotaUsed call the procedures of the
  same names in quota.dll, found beside the executable. Loading the library, calling it and formatting
  a Windows error are the parameter \<open>quota_api\<close>. The interface \<open>Limiter\<close> is the one
  src/driver/driver.go declares.
\<close>

record 'w Limiter =
  lim_SetQuota :: "string \<Rightarrow> uint64 \<Rightarrow> ('w, go_error option) io"
  lim_GetQuotaUsed :: "string \<Rightarrow> ('w, uint64 res) io"

text \<open>
  Handles of libraries and procedures are numbers the code only passes on. A procedure call gives the
  result register, and for GetQuotaUsed also what the library stored in the quotaUsed variable.
  FormatMessage gives the text left in the 512-character buffer.
\<close>

record 'w quota_api =
  qa_Executable :: "('w, string res) io"
  qa_LoadDLL :: "string \<Rightarrow> ('w, nat res) io"
  qa_FindProc :: "nat \<Rightarrow> string \<Rightarrow> ('w, nat res) io"
  qa_CallSetQuota :: "nat \<Rightarrow> string \<Rightarrow> uint64 \<Rightarrow> ('w, uint64) io"
  qa_CallGetQuotaUsed :: "nat \<Rightarrow> string \<Rightarrow> ('w, uint64 \<times> uint64) io"
  qa_FormatMessage :: "uint32 \<Rightarrow> uint32 \<Rightarrow> uint32 \<Rightarrow> ('w, string res) io"

section \<open>Helpers\<close>

definition DISK_QUOTA_OVERHEAD :: uint64 where
  "DISK_QUOTA_OVERHEAD = 10 * 1024"

text \<open>A string with a NUL byte has no UTF-16 pointer; any other string is passed on as it is.\<close>

definition UTF16PtrFromString :: "string \<Rightarrow> string res" where
  "UTF16PtrFromString s = (if CHR 0x00 \<in> set s then Inl (ErrorString ''invalid argument'') else Inr s)"

definition loadProc :: "'w quota_api \<Rightarrow> string \<Rightarrow> ('w, nat res) io" where
  "loadProc api proc =
     go_try (qa_Executable api) (\<lambda>e. go_ret (Inl e)) (\<lambda>exeFile.
     go_try (qa_LoadDLL api (Join [filepath_Dir exeFile, ''quota.dll''])) (\<lambda>e. go_ret (Inl e)) (\<lambda>quota.
     qa_FindProc api quota proc))"

definition hex_digit :: "nat \<Rightarrow> char" where
  "hex_digit d = (if d < 10 then char_of (48 + d) else char_of (87 + d))"

fun hex_nat :: "nat \<Rightarrow> string" where
  "hex_nat n = (if n < 16 then [hex_digit n] else hex_nat (n div 16) @ [hex_digit (n mod 16)])"

declare hex_nat.simps [simp del]

definition is_space :: "char \<Rightarrow> bool" where
  "is_space c \<longleftrightarrow> c \<in> {CHR '' '', CHR 0x09, CHR 0x0A, CHR 0x0B, CHR 0x0C, CHR 0x0D}"

definition TrimSpace :: "string \<Rightarrow> string" where
  "TrimSpace s = rev (dropWhile is_space (rev (dropWhile is_space s)))"

text \<open>The flags are FORMAT\_MESSAGE\_FROM\_SYSTEM and FORMAT\_MESSAGE\_IGNORE\_INSERTS, the language is US English.\<close>

definition windowsErrorMessage :: "'w quota_api \<Rightarrow> uint32 \<Rightarrow> ('w, string) io" where
  "windowsErrorMessage api code =
     go_try (qa_FormatMessage api 0x1200 code 0x409)
       (\<lambda>e. go_ret (''0x'' @ hex_nat (unat code)))
       (\<lambda>buf. go_ret (TrimSpace buf))"

section \<open>The limiter\<close>

definition SetQuota :: "'w quota_api \<Rightarrow> string \<Rightarrow> uint64 \<Rightarrow> ('w, go_error option) io" where
  "SetQuota api volumePath sz =
     (if sz = 0 then go_ret None
      else
        let sz = sz + DISK_QUOTA_OVERHEAD in
        go_try (loadProc api ''SetQuota'') (\<lambda>e. go_ret (Some e)) (\<lambda>setQuota.
        case UTF16PtrFromString volumePath of
          Inl e \<Rightarrow> go_ret (Some e)
        | Inr volume \<Rightarrow>
            go_bind (qa_CallSetQuota api setQuota volume sz) (\<lambda>r0.
            if (ucast r0 :: uint32) \<noteq> 0 then
              go_bind (windowsErrorMessage api (ucast r0)) (\<lambda>msg.
              go_ret (Some (ErrorString (''error setting quota: '' @ msg))))
            else go_ret None)))"

definition GetQuotaUsed :: "'w quota_api \<Rightarrow> string \<Rightarrow> ('w, uint64 res) io" where
  "GetQuotaUsed api volumePath =
     go_try (loadProc api ''GetQuotaUsed'') (\<lambda>e. go_ret (Inl e)) (\<lambda>getQuotaUsed.
     case UTF16PtrFromString volumePath of
       Inl e \<Rightarrow> go_ret (Inl e)
     | Inr volume \<Rightarrow>
         go_bind (qa_CallGetQuotaUsed api getQuotaUsed volume) (\<lambda>(r0, quotaUsed).
         if (ucast r0 :: uint32) \<noteq> 0 then
           go_bind (windowsErrorMessage api (ucast r0)) (\<lambda>msg.
           go_ret (Inl (ErrorString (''error getting quota: '' @ msg))))
         else go_ret (Inr quotaUsed)))"

definition Limiter_Impl :: "'w quota_api \<Rightarrow> 'w Limiter" where
  "Limiter_Impl api = \<lparr>lim_SetQuota = SetQuota api, lim_GetQuotaUsed = GetQuotaUsed api\<rparr>"

section \<open>Lemmas\<close>

lemma SetQuota_zero: "SetQuota api v 0 w = (Ret None, w)"
  by (simp add: SetQuota_def)

text \<open>The limit handed to the library, when the addition of the overhead does not wrap around.\<close>

lemma unat_quota:
  assumes "uint sz < 2 ^ 64 - 10240"
  shows "uint (sz + DISK_QUOTA_OVERHEAD) = uint sz + 10240"
  using assms by (simp add: DISK_QUOTA_OVERHEAD_def uint_word_ariths)

lemma quota_of_int64:
  fixes sz :: int64
  assumes "0 \<le> sint sz"
  shows "uint (sz + DISK_QUOTA_OVERHEAD) = sint sz + 10240"
proof -
  have "uint sz < 2 ^ 64 - 10240"
    using assms sint_int64_bounds(2) [of sz] by (simp add: uint_int64_nonneg)
  then show ?thesis
    using assms by (simp add: unat_quota uint_int64_nonneg)
qed

text \<open>
  A limiter whose library records the limits it is given: what SetQuota passes on is observable.
\<close>

definition recording_api :: "'w quota_api \<Rightarrow> ('w \<times> (string \<times> uint64) list) quota_api" where
  "recording_api api =
     \<lparr>qa_Executable = (\<lambda>(w, l). apsnd (\<lambda>w'. (w', l)) (qa_Executable api w)),
      qa_LoadDLL = (\<lambda>p (w, l). apsnd (\<lambda>w'. (w', l)) (qa_LoadDLL api p w)),
      qa_FindProc = (\<lambda>d p (w, l). apsnd (\<lambda>w'. (w', l)) (qa_FindProc api d p w)),
      qa_CallSetQuota = (\<lambda>p v s (w, l). apsnd (\<lambda>w'. (w', l @ [(v, s)])) (qa_CallSetQuota api p v s w)),
      qa_CallGetQuotaUsed = (\<lambda>p v (w, l). apsnd (\<lambda>w'. (w', l)) (qa_CallGetQuotaUsed api p v w)),
      qa_FormatMessage = (\<lambda>f c g (w, l). apsnd (\<lambda>w'. (w', l)) (qa_FormatMessage api f c g w))\<rparr>"

text \<open>Looking up the procedure and formatting a message set no limit.\<close>

lemma loadProc_recording: "loadProc (recording_api api) p (w, l) = (r, (w', l')) \<Longrightarrow> l' = l"
  by (auto simp: loadProc_def recording_api_def apsnd_def map_prod_def go_simps
      split: prod.splits go.splits sum.splits)

lemma message_recording: "windowsErrorMessage (recording_api api) c (w, l) = (r, (w', l')) \<Longrightarrow> l' = l"
  by (auto simp: windowsErrorMessage_def recording_api_def apsnd_def map_prod_def go_simps
      split: prod.splits go.splits sum.splits)

text \<open>
  C30: SetQuota with a limit of zero touches nothing; with any other limit it sets at most one limit, on
  the given volume, namely the limit plus the 10 KiB overhead; and it reports success only after it
  set that limit and the library returned zero.
\<close>

theorem SetQuota_limits:
  assumes "SetQuota (recording_api api) v sz (w, []) = (r, (w', l))"
  shows "if sz = 0 then r = Ret None \<and> w' = w \<and> l = []
         else (l = [] \<or> l = [(v, sz + DISK_QUOTA_OVERHEAD)]) \<and> (r = Ret None \<longrightarrow> l \<noteq> [])"
proof (cases "sz = 0")
  case True
  with assms show ?thesis by (simp add: SetQuota_zero)
next
  case False
  obtain q w1 l1 where p: "loadProc (recording_api api) ''SetQuota'' (w, []) = (q, (w1, l1))"
    by (metis prod.collapse)
  then have l1: "l1 = []" by (rule loadProc_recording)
  show ?thesis
  proof (cases "\<exists>f. q = Ret (Inr f) \<and> CHR 0x00 \<notin> set v")
    case True
    then obtain f where f: "q = Ret (Inr f)" "UTF16PtrFromString v = Inr v"
      by (auto simp: UTF16PtrFromString_def)
    obtain c w2 where c: "qa_CallSetQuota api f v (sz + DISK_QUOTA_OVERHEAD) w1 = (c, w2)" by force
    then have call: "qa_CallSetQuota (recording_api api) f v (sz + DISK_QUOTA_OVERHEAD) (w1, [])
        = (c, (w2, [(v, sz + DISK_QUOTA_OVERHEAD)]))"
      by (simp add: recording_api_def)
    show ?thesis
      using assms False p f l1 call message_recording [of api]
      by (auto simp: SetQuota_def go_bind_def Let_def split: go.splits if_splits prod.splits)
  next
    case fails: False
    then have "l = []" and "r \<noteq> Ret None"
      using assms False p l1
      by (auto simp: SetQuota_def UTF16PtrFromString_def go_simps Let_def split: go.splits sum.splits if_splits)
    with False show ?thesis by simp
  qed
qed

end
