(* ===== verification/Privilege.thy ===== *)
theory Privilege
  imports Go_Base
begin

text \<open>
  The privilege elevator, src/privilege/elevator.go: it forwards to go-winio, whose two calls are the
  parameter. The interface is the one src/driver/driver.go declares.
\<close>

record 'w PrivilegeElevator =
  pe_Enable :: "string list \<Rightarrow> ('w, go_error option) io"
  pe_Disable :: "string list \<Rightarrow> ('w, go_error option) io"

record 'w winio_api =
  wi_EnableProcessPrivileges :: "string list \<Rightarrow> ('w, go_error option) io"
  wi_DisableProcessPrivileges :: "string list \<Rightarrow> ('w, go_error option) io"

definition EnableProcessPrivileges :: "'w winio_api \<Rightarrow> string list \<Rightarrow> ('w, go_error option) io" where
  "EnableProcessPrivileges api privileges = wi_EnableProcessPrivileges api privileges"

definition DisableProcessPrivileges :: "'w winio_api \<Rightarrow> string list \<Rightarrow> ('w, go_error option) io" where
  "DisableProcessPrivileges api privileges = wi_DisableProcessPrivileges api privileges"

definition Elevator :: "'w winio_api \<Rightarrow> 'w PrivilegeElevator" where
  "Elevator api = \<lparr>pe_Enable = EnableProcessPrivileges api, pe_Disable = DisableProcessPrivileges api\<rparr>"

text \<open>The names of the two privileges, as go-winio declares them.\<close>

definition SeBackupPrivilege :: string where
  "SeBackupPrivilege = ''SeBackupPrivilege''"

definition SeRestorePrivilege :: string where
  "SeRestorePrivilege = ''SeRestorePrivilege''"

end
