(* ===== verification/Driver.thy ===== *)
theory Driver
  imports Backuptar Go_Json Volume_Limiter Privilege
begin

text \<open>
  The image driver, src/driver: the store paths (driver.go), Unpack, Bundle, Delete, Stats and
  WriteMetadata. As in the source the driver is written against four interfaces (the layer client,
  the tar streamer, the privilege elevator and the limiter), here records of programs over an
  arbitrary world \<open>'w\<close>, and against the few functions of package os and of encoding/json it calls.
  Log messages are not modelled.
\<close>

section \<open>Interfaces\<close>

text \<open>A reader is of a type \<open>'r\<close> the driver only passes on; \<^const>\<open>None\<close> is the empty reader of the deferred call.\<close>

record ('w, 'r) TarStreamer =
  ts_SetReader :: "'r option \<Rightarrow> ('w, unit) io"
  ts_Next :: "('w, Header option \<times> go_error option) io"
  ts_FileInfoFromHeader :: "Header \<Rightarrow> ('w, (string \<times> int64 \<times> FileBasicInfo option) res) io"
  ts_WriteBackupStreamFromTarFile ::
    "'w LayerWriter \<Rightarrow> Header \<Rightarrow> string \<Rightarrow> ('w, Header option \<times> go_error option) io"

record 'w os_api =
  os_ReadFile :: "string \<Rightarrow> ('w, bytes res) io"
  os_WriteFile :: "string \<Rightarrow> bytes \<Rightarrow> nat \<Rightarrow> ('w, go_error option) io"
  os_MkdirAll :: "string \<Rightarrow> nat \<Rightarrow> ('w, go_error option) io"

definition perm755 :: nat where
  "perm755 = 493"

definition perm644 :: nat where
  "perm644 = 420"

record ('w, 'r) Driver =
  Store :: string
  hcsClient :: "'w HCSClient"
  tarStreamer :: "('w, 'r) TarStreamer"
  privilegeElevator :: "'w PrivilegeElevator"
  limiter :: "'w Limiter"

definition New :: "'w HCSClient \<Rightarrow> ('w, 'r) TarStreamer \<Rightarrow> 'w PrivilegeElevator \<Rightarrow> 'w Limiter \<Rightarrow> ('w, 'r) Driver" where
  "New c t p l = \<lparr>Store = [], hcsClient = c, tarStreamer = t, privilegeElevator = p, limiter = l\<rparr>"

section \<open>Store paths\<close>

definition toWindowsPath :: "string \<Rightarrow> string" where
  "toWindowsPath input =
     (let vol = VolumeName input;
          input = (if vol = [] then Join [''C:'' @ [bslash], input] else input)
      in Clean input)"

definition layerDir :: string where
  [simp]: "layerDir = ''layers''"

definition volumeDir :: string where
  [simp]: "volumeDir = ''volumes''"

definition LayerStore :: "('w, 'r) Driver \<Rightarrow> string" where
  "LayerStore d = toWindowsPath (Join [Store d, layerDir])"

definition VolumeStore :: "('w, 'r) Driver \<Rightarrow> string" where
  "VolumeStore d = toWindowsPath (Join [Store d, volumeDir])"

definition metadataFile :: "('w, 'r) Driver \<Rightarrow> string \<Rightarrow> string" where
  "metadataFile d bundleId = Join [VolumeStore d, bundleId, ''metadata.json'']"

definition layerSizeFile :: "('w, 'r) Driver \<Rightarrow> string \<Rightarrow> string" where
  "layerSizeFile d layerId = Join [LayerStore d, layerId, ''size'']"

section \<open>Unpack\<close>

text \<open>\<open>append([]string{p}, xs...)\<close> in a loop: the parents end up newest first.\<close>

fun prepend_paths :: "string \<Rightarrow> string list \<Rightarrow> string list \<Rightarrow> string list" where
  "prepend_paths store acc [] = acc"
| "prepend_paths store acc (i # is) = prepend_paths store (Join [store, i] # acc) is"

definition whiteout :: string where
  "whiteout = ''.wh.''"

definition is_whiteout :: "Header \<Rightarrow> bool" where
  "is_whiteout hdr \<longleftrightarrow> take (length whiteout) (path_Base (hdr_Name hdr)) = whiteout"

text \<open>
  One turn of the loop over the tar entries. It returns the next header and error with the new total,
  or the error with which Unpack returns at once.
\<close>

definition unpack_step :: "('w, 'r) Driver \<Rightarrow> 'w LayerWriter \<Rightarrow> string \<Rightarrow> Header option \<Rightarrow> int64 \<Rightarrow>
    ('w, (Header option \<times> go_error option \<times> int64) res) io" where
  "unpack_step d layerWriter layerID hdr totalSize =
     (case hdr of
        None \<Rightarrow>
          go_bind (ts_Next (tarStreamer d)) (\<lambda>(h, e). go_ret (Inr (h, e, totalSize)))
      | Some hdr \<Rightarrow>
          if is_whiteout hdr then
            let name = Join [path_Dir (hdr_Name hdr), drop (length whiteout) (path_Base (hdr_Name hdr))] in
            go_tryE (lw_Remove layerWriter name) (\<lambda>e. go_ret (Inl e))
            (go_bind (ts_Next (tarStreamer d)) (\<lambda>(h, e). go_ret (Inr (h, e, totalSize))))
          else if hdr_Typeflag hdr = TypeLink then
            go_tryE (lw_AddLink layerWriter (FromSlash (hdr_Name hdr)) (FromSlash (hdr_Linkname hdr))) (\<lambda>e. go_ret (Inl e))
            (go_bind (ts_Next (tarStreamer d)) (\<lambda>(h, e). go_ret (Inr (h, e, totalSize))))
          else
            go_try (ts_FileInfoFromHeader (tarStreamer d) hdr) (\<lambda>e. go_ret (Inl e)) (\<lambda>(name, sz, fileInfo).
            go_tryE (lw_Add layerWriter (FromSlash name) fileInfo) (\<lambda>e. go_ret (Inl e))
            (go_bind (ts_WriteBackupStreamFromTarFile (tarStreamer d) layerWriter hdr (Join [LayerStore d, layerID])) (\<lambda>(h, e).
             go_ret (Inr (h, e, totalSize + sz))))))"

text \<open>
  The loop, with fuel: it ends with the error of the stream (io.EOF at its end) and the total
  size, or with an error to return at once.
\<close>

fun unpack_loop :: "nat \<Rightarrow> ('w, 'r) Driver \<Rightarrow> 'w LayerWriter \<Rightarrow> string \<Rightarrow> Header option \<Rightarrow> int64 \<Rightarrow>
    ('w, (go_error \<times> int64) res) io" where
  "unpack_loop 0 d layerWriter layerID hdr totalSize = go_diverge"
| "unpack_loop (Suc n) d layerWriter layerID hdr totalSize =
     go_try (unpack_step d layerWriter layerID hdr totalSize) (\<lambda>e. go_ret (Inl e)) (\<lambda>(hdr', nextFileErr, total').
       case nextFileErr of
         Some e \<Rightarrow> go_ret (Inr (e, total'))
       | None \<Rightarrow> unpack_loop n d layerWriter layerID hdr' total')"

definition privileges :: "string list" where
  "privileges = [SeBackupPrivilege, SeRestorePrivilege]"

text \<open>
  The part of Unpack after the existence test, which creates the layer: the directory, the layer writer,
  the loop, and the size file. The two deferred calls run before the caller's.
\<close>

definition unpack_fresh :: "nat \<Rightarrow> 'w os_api \<Rightarrow> ('w, 'r) Driver \<Rightarrow> DriverInfo \<Rightarrow> string \<Rightarrow> string list \<Rightarrow> 'r \<Rightarrow>
    ('w, int64 \<times> go_error option) io" where
  "unpack_fresh fuel os d di layerID parentIDs layerTar =
     go_tryE (os_MkdirAll os (Join [LayerStore d, layerID]) perm755) (\<lambda>e. go_ret (0, Some e))
     (go_try (hcs_NewLayerWriter (hcsClient d) di layerID (prepend_paths (LayerStore d) [] parentIDs))
        (\<lambda>e. go_ret (0, Some e)) (\<lambda>layerWriter.
      go_defer (lw_Close layerWriter)
        (go_bind (ts_SetReader (tarStreamer d) (Some layerTar)) (\<lambda>_.
         go_defer (ts_SetReader (tarStreamer d) None)
           (go_try (unpack_loop fuel d layerWriter layerID None 0) (\<lambda>e. go_ret (0, Some e)) (\<lambda>(nextFileErr, totalSize).
              if nextFileErr \<noteq> EOF then go_ret (0, Some nextFileErr)
              else go_bind (os_WriteFile os (layerSizeFile d layerID) (FormatInt totalSize) perm644) (\<lambda>err.
                   go_ret (totalSize, err))))))))"

definition Unpack :: "nat \<Rightarrow> 'w os_api \<Rightarrow> ('w, 'r) Driver \<Rightarrow> string \<Rightarrow> string list \<Rightarrow> 'r \<Rightarrow>
    ('w, int64 \<times> go_error option) io" where
  "Unpack fuel os d layerID parentIDs layerTar =
     (if Store d = [] then go_ret (0, Some EmptyDriverStoreError)
      else
        let di = \<lparr>Flavour = 1, HomeDir = LayerStore d\<rparr> in
        go_try (hcs_LayerExists (hcsClient d) di layerID) (\<lambda>e. go_ret (0, Some e)) (\<lambda>exists.
        go_tryE (pe_Enable (privilegeElevator d) privileges) (\<lambda>e. go_ret (0, Some e))
        (go_defer (pe_Disable (privilegeElevator d) privileges)
          (if exists then
             go_try (os_ReadFile os (layerSizeFile d layerID))
               (\<lambda>e. if IsNotExist e then
                      go_tryE (hcs_DestroyLayer (hcsClient d) di layerID) (\<lambda>e. go_ret (0, Some e))
                      (unpack_fresh fuel os d di layerID parentIDs layerTar)
                    else go_ret (0, Some e))
               (\<lambda>content. go_ret (ParseInt content 64))
           else unpack_fresh fuel os d di layerID parentIDs layerTar))))"

section \<open>Bundle\<close>

text \<open>The fields of the runtime spec that Bundle sets; the version is that of the vendored runtime-spec.\<close>

record Spec =
  spec_Version :: string
  spec_RootPath :: string
  spec_LayerFolders :: "string list"

definition specs_Version :: string where
  "specs_Version = ''1.2.1''"

text \<open>\<open>cleanupLayer\<close>: the error of the destroy call is only logged.\<close>

definition cleanupLayer :: "('w, 'r) Driver \<Rightarrow> DriverInfo \<Rightarrow> string \<Rightarrow> go_error \<Rightarrow> ('w, Spec res) io" where
  "cleanupLayer d di bundleID err = go_bind (hcs_DestroyLayer (hcsClient d) di bundleID) (\<lambda>destroyErr. go_ret (Inl err))"

definition Bundle :: "'w os_api \<Rightarrow> ('w, 'r) Driver \<Rightarrow> string \<Rightarrow> string list \<Rightarrow> int64 \<Rightarrow> ('w, Spec res) io" where
  "Bundle os d bundleID layerIDs diskLimit =
     (if Store d = [] then go_ret (Inl EmptyDriverStoreError)
      else
        go_tryE (os_MkdirAll os (VolumeStore d) perm755) (\<lambda>e. go_ret (Inl e))
        (let di = \<lparr>Flavour = 1, HomeDir = VolumeStore d\<rparr>;
             layerFolders = prepend_paths (LayerStore d) [] layerIDs in
         go_try (hcs_LayerExists (hcsClient d) di bundleID) (\<lambda>e. go_ret (Inl e)) (\<lambda>exists.
         if exists then go_ret (Inl (LayerExistsError bundleID))
         else
           go_tryE (hcs_CreateLayer (hcsClient d) di bundleID layerFolders) (cleanupLayer d di bundleID)
           (go_try (hcs_GetLayerMountPath (hcsClient d) di bundleID) (cleanupLayer d di bundleID) (\<lambda>volumePath.
            if volumePath = [] then cleanupLayer d di bundleID (MissingVolumePathError bundleID)
            else
              go_tryE (lim_SetQuota (limiter d) volumePath diskLimit) (cleanupLayer d di bundleID)
              (go_ret (Inr \<lparr>spec_Version = specs_Version, spec_RootPath = volumePath,
                            spec_LayerFolders = layerFolders\<rparr>)))))))"

section \<open>Delete\<close>

definition Delete :: "('w, 'r) Driver \<Rightarrow> string \<Rightarrow> ('w, go_error option) io" where
  "Delete d bundleID =
     (if Store d = [] then go_ret (Some EmptyDriverStoreError)
      else
        let di = \<lparr>Flavour = 1, HomeDir = VolumeStore d\<rparr> in
        go_try (hcs_LayerExists (hcsClient d) di bundleID) (\<lambda>e. go_ret (Some e)) (\<lambda>exists.
        if \<not> exists then go_ret None
        else hcs_DestroyLayer (hcsClient d) di bundleID))"

section \<open>Metadata and Stats\<close>

record ImageMetadata =
  im_Size :: int64

record DiskUsage =
  TotalBytesUsed :: int64
  ExclusiveBytesUsed :: int64

text \<open>json.Marshal of the one-field struct and json.Unmarshal into it.\<close>

definition json_Marshal :: "ImageMetadata \<Rightarrow> bytes" where
  "json_Marshal m = Marshal_int ''size'' (im_Size m)"

definition json_Unmarshal :: "bytes \<Rightarrow> json_error + ImageMetadata" where
  "json_Unmarshal data =
     (case Unmarshal_int ''size'' data of Inl e \<Rightarrow> Inl e | Inr x \<Rightarrow> Inr \<lparr>im_Size = x\<rparr>)"

definition writeMetadata :: "'w os_api \<Rightarrow> string \<Rightarrow> ImageMetadata \<Rightarrow> ('w, go_error option) io" where
  "writeMetadata os file volumeData = os_WriteFile os file (json_Marshal volumeData) perm644"

definition WriteMetadata :: "'w os_api \<Rightarrow> ('w, 'r) Driver \<Rightarrow> string \<Rightarrow> ImageMetadata \<Rightarrow> ('w, go_error option) io" where
  "WriteMetadata os d bundleID volumeData =
     go_tryE (writeMetadata os (metadataFile d bundleID) volumeData)
       (\<lambda>e. go_ret (Some (ErrorString (''WriteMetadata failed: '' @ Error e))))
       (go_ret None)"

text \<open>\<open>json_msg\<close> is the text of the errors of encoding/json.\<close>

definition Stats :: "'w os_api \<Rightarrow> (json_error \<Rightarrow> string) \<Rightarrow> ('w, 'r) Driver \<Rightarrow> string \<Rightarrow> ('w, DiskUsage res) io" where
  "Stats os json_msg d bundleID =
     (let di = \<lparr>Flavour = 1, HomeDir = VolumeStore d\<rparr> in
      go_try (hcs_GetLayerMountPath (hcsClient d) di bundleID) (\<lambda>e. go_ret (Inl e)) (\<lambda>volumePath.
      if volumePath = [] then go_ret (Inl (MissingVolumePathError bundleID))
      else
        go_try (lim_GetQuotaUsed (limiter d) volumePath) (\<lambda>e. go_ret (Inl e)) (\<lambda>quotaUsed.
        go_try (os_ReadFile os (metadataFile d bundleID)) (\<lambda>e. go_ret (Inl e)) (\<lambda>data.
        case json_Unmarshal data of
          Inl e \<Rightarrow> go_ret (Inl (ErrorString (''couldn'' @ [CHR 0x27] @ ''t parse metadata.json: '' @ json_msg e)))
        | Inr volumeData \<Rightarrow>
            go_ret (Inr \<lparr>TotalBytesUsed = im_Size volumeData + quotaUsed, ExclusiveBytesUsed = quotaUsed\<rparr>)))))"

end
