(* ===== verification/Driver_Frame.thy ===== *)
theory Driver_Frame
  imports Driver
begin

text \<open>
  Frame reasoning for Unpack. If every call the driver makes through its interfaces while it unpacks (other than
  changing privileges) keeps a condition on the world, so does unpacking, and every call of the
  layer writer is made while the condition holds. The other theories about the driver use this for the
  privileges held, for the layers present and for the files.
\<close>

definition writer_agree :: "('w \<Rightarrow> bool) \<Rightarrow> 'w LayerWriter \<Rightarrow> 'w LayerWriter \<Rightarrow> bool" where
  "writer_agree P lw lw' \<longleftrightarrow>
     (\<forall>n f. agree P (lw_Add lw n f) (lw_Add lw' n f)) \<and> (\<forall>n t. agree P (lw_AddLink lw n t) (lw_AddLink lw' n t))
     \<and> (\<forall>n. agree P (lw_Remove lw n) (lw_Remove lw' n)) \<and> (\<forall>b. agree P (lw_Write lw b) (lw_Write lw' b))
     \<and> agree P (lw_Close lw) (lw_Close lw')"

text \<open>A client whose layer writers refuse (by a panic) every call made while \<open>P\<close> does not hold.\<close>

definition guarded_writer :: "('w \<Rightarrow> bool) \<Rightarrow> 'w LayerWriter \<Rightarrow> 'w LayerWriter" where
  "guarded_writer P lw =
     \<lparr>lw_Add = (\<lambda>n f. guarded P (lw_Add lw n f)), lw_AddLink = (\<lambda>n t. guarded P (lw_AddLink lw n t)),
      lw_Remove = (\<lambda>n. guarded P (lw_Remove lw n)), lw_Write = (\<lambda>b. guarded P (lw_Write lw b)),
      lw_Close = guarded P (lw_Close lw)\<rparr>"

definition guarded_driver :: "('w \<Rightarrow> bool) \<Rightarrow> ('w, 'r) Driver \<Rightarrow> ('w, 'r) Driver" where
  "guarded_driver P d = d\<lparr>hcsClient := (hcsClient d)\<lparr>hcs_NewLayerWriter := (\<lambda>di i ps.
     guarded P (go_try (hcs_NewLayerWriter (hcsClient d) di i ps) (\<lambda>e. go_ret (Inl e)) (\<lambda>lw. go_ret (Inr (guarded_writer P lw)))))\<rparr>\<rparr>"

lemma writer_agree_guarded: "writer_agree P lw lw' \<Longrightarrow> writer_agree P lw (guarded_writer P lw')"
  by (simp add: writer_agree_def guarded_writer_def agree_guarded)

lemma guarded_driver_simps [simp]:
  "Store (guarded_driver P d) = Store d" "tarStreamer (guarded_driver P d) = tarStreamer d"
  "privilegeElevator (guarded_driver P d) = privilegeElevator d"
  "LayerStore (guarded_driver P d) = LayerStore d" "layerSizeFile (guarded_driver P d) = layerSizeFile d"
  "hcs_LayerExists (hcsClient (guarded_driver P d)) = hcs_LayerExists (hcsClient d)"
  "hcs_DestroyLayer (hcsClient (guarded_driver P d)) = hcs_DestroyLayer (hcsClient d)"
  "hcs_NewLayerWriter (hcsClient (guarded_driver P d)) di i ps =
     guarded P (go_try (hcs_NewLayerWriter (hcsClient d) di i ps) (\<lambda>e. go_ret (Inl e)) (\<lambda>lw. go_ret (Inr (guarded_writer P lw))))"
  by (simp_all add: guarded_driver_def LayerStore_def layerSizeFile_def fun_eq_iff)

text \<open>The loop over the archive needs it of the streamer and the layer writers, unpacking of the directory and the size file too.\<close>

locale tar_frame =
  fixes P :: "'w \<Rightarrow> bool" and d :: "('w, 'r) Driver"
  assumes set_reader: "agree P (ts_SetReader (tarStreamer d) r) (ts_SetReader (tarStreamer d) r)"
    and next_header: "agree P (ts_Next (tarStreamer d)) (ts_Next (tarStreamer d))"
    and file_info: "agree P (ts_FileInfoFromHeader (tarStreamer d) h) (ts_FileInfoFromHeader (tarStreamer d) h)"
    and write_backup: "writer_agree P lw lw' \<Longrightarrow>
      agree P (ts_WriteBackupStreamFromTarFile (tarStreamer d) lw h p) (ts_WriteBackupStreamFromTarFile (tarStreamer d) lw' h p)"
    and new_writer: "agree P (hcs_NewLayerWriter (hcsClient d) di i ps) (hcs_NewLayerWriter (hcsClient d) di i ps)"
    and new_writer_ops: "hcs_NewLayerWriter (hcsClient d) di i ps w = (Ret (Inr lw), w') \<Longrightarrow> writer_agree P lw lw"
begin

abbreviation g :: "('w, 'r) Driver" where
  "g \<equiv> guarded_driver P d"

lemma step_agree: "writer_agree P lw lw' \<Longrightarrow> agree P (unpack_step d lw i h n) (unpack_step g lw' i h n)"
  unfolding unpack_step_def Let_def
  by (auto simp: writer_agree_def split: option.splits intro!: agree_intros next_header file_info write_backup)

lemma loop_agree: "writer_agree P lw lw' \<Longrightarrow> agree P (unpack_loop fuel d lw i h n) (unpack_loop fuel g lw' i h n)"
proof (induction fuel arbitrary: h n)
  case (Suc fuel)
  then show ?case
    by (auto split: option.splits intro!: agree_intros step_agree)
qed (simp add: agree_intros)

text \<open>So the loop keeps the condition.\<close>

lemma loop_keeps: "writer_agree P lw lw \<Longrightarrow> P w \<Longrightarrow> unpack_loop fuel d lw i h n w = (r, w') \<Longrightarrow> P w'"
  using agreeD(2) [OF loop_agree] .

end

text \<open>What Unpack does with a layer writer.\<close>

definition importing :: "nat \<Rightarrow> 'w os_api \<Rightarrow> ('w, 'r) Driver \<Rightarrow> 'w LayerWriter \<Rightarrow> string \<Rightarrow> 'r \<Rightarrow> ('w, int64 \<times> go_error option) io" where
  "importing fuel os d lw i tar = go_defer (lw_Close lw) (go_bind (ts_SetReader (tarStreamer d) (Some tar)) (\<lambda>_.
     go_defer (ts_SetReader (tarStreamer d) None)
       (go_try (unpack_loop fuel d lw i None 0) (\<lambda>e. go_ret (0, Some e)) (\<lambda>(nextFileErr, totalSize).
          if nextFileErr \<noteq> EOF then go_ret (0, Some nextFileErr)
          else go_bind (os_WriteFile os (layerSizeFile d i) (FormatInt totalSize) perm644) (\<lambda>err. go_ret (totalSize, err))))))"

lemma fresh_importing: "unpack_fresh fuel os d di i ps tar =
   go_tryE (os_MkdirAll os (Join [LayerStore d, i]) perm755) (\<lambda>e. go_ret (0, Some e))
     (go_try (hcs_NewLayerWriter (hcsClient d) di i (prepend_paths (LayerStore d) [] ps)) (\<lambda>e. go_ret (0, Some e))
       (\<lambda>lw. importing fuel os d lw i tar))"
  by (simp add: unpack_fresh_def importing_def)

locale tar_guard = tar_frame P d
  for P :: "'w \<Rightarrow> bool" and os :: "'w os_api" and d :: "('w, 'r) Driver" +
  assumes write_file: "agree P (os_WriteFile os p b m) (os_WriteFile os p b m)"
    and mkdir: "agree P (os_MkdirAll os p m) (os_MkdirAll os p m)"
begin

definition writing :: "nat \<Rightarrow> ('w, 'r) Driver \<Rightarrow> 'w LayerWriter \<Rightarrow> string \<Rightarrow> 'r \<Rightarrow> ('w, int64 \<times> go_error option) io" where
  "writing fuel c lw i tar = go_defer (lw_Close lw)
        (go_bind (ts_SetReader (tarStreamer d) (Some tar)) (\<lambda>_.
         go_defer (ts_SetReader (tarStreamer d) None)
           (go_try (unpack_loop fuel c lw i None 0) (\<lambda>e. go_ret (0, Some e)) (\<lambda>(e, n).
              if e \<noteq> EOF then go_ret (0, Some e)
              else go_bind (os_WriteFile os (layerSizeFile d i) (FormatInt n) perm644) (\<lambda>err. go_ret (n, err))))))"

lemma writing_agree:
  assumes "writer_agree P lw lw'"
  shows "agree P (writing fuel d lw i tar) (writing fuel g lw' i tar)"
  using assms unfolding writing_def writer_agree_def
  by (auto split: prod.splits intro!: agree_intros set_reader write_file loop_agree [OF assms])

lemma fresh_agree: "agree P (unpack_fresh fuel os d di i ps tar) (unpack_fresh fuel os g di i ps tar)"
proof -
  let ?new = "hcs_NewLayerWriter (hcsClient d) di i (prepend_paths (LayerStore d) [] ps)"
  have "agree P (go_try ?new (\<lambda>e. go_ret (0, Some e)) (\<lambda>lw. writing fuel d lw i tar))
     (go_try (guarded P (go_try ?new (\<lambda>e. go_ret (Inl e)) (\<lambda>lw. go_ret (Inr (guarded_writer P lw)))))
        (\<lambda>e. go_ret (0, Some e)) (\<lambda>lw. writing fuel g lw i tar))" (is "agree P ?m ?n")
    unfolding agree_def
  proof (intro allI impI)
    fix w
    assume P: "P w"
    obtain s w2 where nw: "?new w = (s, w2)" by force
    have P2: "P w2" using agreeD(2) [OF new_writer P nw] .
    show "?n w = ?m w \<and> P (snd (?m w))"
    proof (cases "\<exists>lw. s = Ret (Inr lw)")
      case True
      then obtain lw where lw: "s = Ret (Inr lw)" by blast
      with nw have "writer_agree P lw (guarded_writer P lw)" using new_writer_ops writer_agree_guarded by blast
      from writing_agree [OF this, of fuel i tar] P2 nw lw P show ?thesis
        by (auto simp: agree_def guarded_def)
    next
      case False
      then show ?thesis
        using nw P P2 by (auto simp: guarded_def go_simps split: go.splits sum.splits)
    qed
  qed
  then have "agree P (go_tryE (os_MkdirAll os (Join [LayerStore d, i]) perm755) (\<lambda>e. go_ret (0, Some e)) ?m)
     (go_tryE (os_MkdirAll os (Join [LayerStore d, i]) perm755) (\<lambda>e. go_ret (0, Some e)) ?n)"
    by (rule agree_tryE [OF mkdir agree_ret])
  then show ?thesis
    unfolding unpack_fresh_def writing_def guarded_driver_simps .
qed

text \<open>So the condition is kept.\<close>

lemma fresh_keeps: "P w \<Longrightarrow> unpack_fresh fuel os d di i ps tar w = (r, w') \<Longrightarrow> P w'"
  using agreeD(2) [OF fresh_agree] .

end

end
