(* ===== verification/Driver_Unpack.thy ===== *)
theory Driver_Unpack
  imports Driver_Frame
begin

text \<open>
  Properties of Unpack (src/driver/unpack.go): the loop over the tar entries does what a fold over the
  entries does and ends when the stream ends; privileges are given back on every path; a layer that
  was unpacked before is not unpacked again and reports the same size; an out-of-date layer is
  destroyed and unpacked afresh; and the error of closing the layer writer is lost.
\<close>

section \<open>What the entries of a layer mean\<close>

datatype layer_op = RemoveOp string | LinkOp string string | AddOp string "FileBasicInfo option" | DataOp bytes

text \<open>
  What a header says about a file, and what the backup stream of a file is, given its header, its contents and its
  alternate data streams. The driver gets both from its tar streamer.
\<close>

type_synonym entry = "Header \<times> bytes"
type_synonym file_info = "Header \<Rightarrow> (string \<times> int64 \<times> FileBasicInfo option) res"
type_synonym file_stream = "Header \<Rightarrow> bytes \<Rightarrow> entry list \<Rightarrow> bytes option"

definition whiteout_target :: "Header \<Rightarrow> string" where
  "whiteout_target h = Join [path_Dir (hdr_Name h), drop (length whiteout) (path_Base (hdr_Name h))]"

definition data_op :: "bytes \<Rightarrow> layer_op list" where
  "data_op b = (if b = [] then [] else [DataOp b])"

definition streams_of :: "Header \<Rightarrow> entry list \<Rightarrow> entry list" where
  "streams_of h es = takeWhile (\<lambda>x. is_ads h (fst x)) es"

definition after_streams :: "Header \<Rightarrow> entry list \<Rightarrow> entry list" where
  "after_streams h es = dropWhile (\<lambda>x. is_ads h (fst x)) es"

lemma length_after_streams: "length (after_streams h es) \<le> length es"
  by (simp add: after_streams_def length_dropWhile_le)

text \<open>
  The reference: the operations that make up the layer of an archive, and its size. A whiteout removes the file it names, a
  link adds a link, and anything else adds a file with its stream, which takes in the
  alternate data streams that follow. There is no layer if a header or a stream is malformed.
\<close>

function layer_of :: "file_info \<Rightarrow> file_stream \<Rightarrow> entry list \<Rightarrow> (layer_op list \<times> int64) option" where
  "layer_of info stream [] = Some ([], 0)"
| "layer_of info stream ((h, c) # es) =
     (if is_whiteout h then
        map_option (\<lambda>(ops, n). (RemoveOp (whiteout_target h) # ops, n)) (layer_of info stream es)
      else if hdr_Typeflag h = TypeLink then
        map_option (\<lambda>(ops, n). (LinkOp (FromSlash (hdr_Name h)) (FromSlash (hdr_Linkname h)) # ops, n)) (layer_of info stream es)
      else
        (case (info h, stream h c (streams_of h es)) of
           (Inr (name, sz, fi), Some b) \<Rightarrow>
             map_option (\<lambda>(ops, n). (AddOp (FromSlash name) fi # data_op b @ ops, sz + n))
               (layer_of info stream (after_streams h es))
         | _ \<Rightarrow> None))"
  by pat_completeness auto

termination
  by (relation "measure (\<lambda>(i, s, es). length es)") (auto simp: less_Suc_eq_le length_after_streams)

definition head_of :: "entry list \<Rightarrow> Header option" where
  "head_of es = (case es of [] \<Rightarrow> None | x # _ \<Rightarrow> Some (fst x))"

definition head_result :: "entry list \<Rightarrow> Header option \<times> go_error option" where
  "head_result es = (head_of es, if es = [] then Some EOF else None)"

text \<open>
  The contract of a tar stream and a layer writer that both work. \<open>positioned h w\<close>: the stream has handed out the
  header \<open>h\<close> (none at the start), with contents \<open>content w\<close>; \<open>pending w\<close> are the entries still to come. Writing a
  file sends its stream to the layer writer and moves on past its alternate data streams; the writer records each
  operation.
\<close>

locale tar_contents =
  fixes d :: "('w, 'r) Driver" and lw :: "'w LayerWriter" and info :: file_info and stream :: file_stream
    and positioned :: "Header option \<Rightarrow> 'w \<Rightarrow> bool"
    and pending :: "'w \<Rightarrow> entry list" and content :: "'w \<Rightarrow> bytes" and recorded :: "'w \<Rightarrow> layer_op list"
  assumes next_entry: "positioned h w \<Longrightarrow> \<exists>w'. ts_Next (tarStreamer d) w = (Ret (head_result (pending w)), w')
        \<and> positioned (head_of (pending w)) w' \<and> pending w' = tl (pending w) \<and> recorded w' = recorded w
        \<and> (pending w \<noteq> [] \<longrightarrow> content w' = snd (hd (pending w)))"
    and write_entry: "positioned (Some g) w \<Longrightarrow> recorded w = ops @ [AddOp n f] \<Longrightarrow>
      stream g (content w) (streams_of g (pending w)) = Some b \<Longrightarrow>
      \<exists>w'. ts_WriteBackupStreamFromTarFile (tarStreamer d) lw g p w = (Ret (head_result (after_streams g (pending w))), w')
        \<and> positioned (head_of (after_streams g (pending w))) w' \<and> pending w' = tl (after_streams g (pending w))
        \<and> recorded w' = recorded w @ data_op b
        \<and> (after_streams g (pending w) \<noteq> [] \<longrightarrow> content w' = snd (hd (after_streams g (pending w))))"
    and info_of: "\<exists>w'. ts_FileInfoFromHeader (tarStreamer d) g w = (Ret (info g), w')
        \<and> (positioned h w \<longrightarrow> positioned h w') \<and> pending w' = pending w \<and> content w' = content w \<and> recorded w' = recorded w"
    and remove: "\<exists>w'. lw_Remove lw n w = (Ret None, w') \<and> (positioned h w \<longrightarrow> positioned h w')
        \<and> pending w' = pending w \<and> content w' = content w \<and> recorded w' = recorded w @ [RemoveOp n]"
    and add_link: "\<exists>w'. lw_AddLink lw n t w = (Ret None, w') \<and> (positioned h w \<longrightarrow> positioned h w')
        \<and> pending w' = pending w \<and> content w' = content w \<and> recorded w' = recorded w @ [LinkOp n t]"
    and add: "\<exists>w'. lw_Add lw n f w = (Ret None, w') \<and> (positioned h w \<longrightarrow> positioned h w')
        \<and> pending w' = pending w \<and> content w' = content w \<and> recorded w' = recorded w @ [AddOp n f]"
begin

text \<open>
  One turn with the header \<open>g\<close>: it applies the operations of \<open>g\<close> and leaves the stream at the next header, and
  the layer of what is left is the rest of the layer.
\<close>

lemma step_entry:
  assumes "positioned (Some g) w" and "layer_of info stream ((g, content w) # pending w) = Some (ops, tot)"
  shows "\<exists>w' es ops1 ops2 sz tot2. unpack_step d lw i (Some g) n w
        = (Ret (Inr (head_of es, snd (head_result es), n + sz)), w')
     \<and> positioned (head_of es) w' \<and> pending w' = tl es \<and> (es \<noteq> [] \<longrightarrow> content w' = snd (hd es))
     \<and> length es \<le> length (pending w) \<and> recorded w' = recorded w @ ops1
     \<and> ops = ops1 @ ops2 \<and> tot = sz + tot2 \<and> layer_of info stream es = Some (ops2, tot2)"
proof -
  consider (wh) "is_whiteout g" | (link) "\<not> is_whiteout g" "hdr_Typeflag g = TypeLink"
    | (regular) "\<not> is_whiteout g" "hdr_Typeflag g \<noteq> TypeLink" by blast
  then show ?thesis
  proof cases
    case wh
    obtain w1 where r: "lw_Remove lw (whiteout_target g) w = (Ret None, w1)" "positioned (Some g) w1" "pending w1 = pending w"
      "recorded w1 = recorded w @ [RemoveOp (whiteout_target g)]" using remove assms(1) by blast
    obtain w2 where n: "ts_Next (tarStreamer d) w1 = (Ret (head_result (pending w)), w2)"
      "positioned (head_of (pending w)) w2" "pending w2 = tl (pending w)" "recorded w2 = recorded w1"
      "pending w \<noteq> [] \<longrightarrow> content w2 = snd (hd (pending w))" using next_entry [OF r(2)] r(3) by auto
    have run: "unpack_step d lw i (Some g) n w = (Ret (Inr (head_of (pending w), snd (head_result (pending w)), n + 0)), w2)"
      using wh r(1) n(1) by (simp add: unpack_step_def whiteout_target_def [symmetric] head_result_def)
    obtain ops2 where l: "layer_of info stream (pending w) = Some (ops2, tot)" "ops = RemoveOp (whiteout_target g) # ops2"
      using assms(2) wh by auto
    show ?thesis
      by (rule exI [of _ w2], rule exI [of _ "pending w"], rule exI [of _ "[RemoveOp (whiteout_target g)]"],
          rule exI [of _ ops2], rule exI [of _ 0], rule exI [of _ tot]) (use run n r l in simp)
  next
    case link
    let ?op = "LinkOp (FromSlash (hdr_Name g)) (FromSlash (hdr_Linkname g))"
    obtain w1 where r: "lw_AddLink lw (FromSlash (hdr_Name g)) (FromSlash (hdr_Linkname g)) w = (Ret None, w1)"
      "positioned (Some g) w1" "pending w1 = pending w" "recorded w1 = recorded w @ [?op]" using add_link assms(1) by blast
    obtain w2 where n: "ts_Next (tarStreamer d) w1 = (Ret (head_result (pending w)), w2)"
      "positioned (head_of (pending w)) w2" "pending w2 = tl (pending w)" "recorded w2 = recorded w1"
      "pending w \<noteq> [] \<longrightarrow> content w2 = snd (hd (pending w))" using next_entry [OF r(2)] r(3) by auto
    have run: "unpack_step d lw i (Some g) n w = (Ret (Inr (head_of (pending w), snd (head_result (pending w)), n + 0)), w2)"
      using link r(1) n(1) by (simp add: unpack_step_def head_result_def)
    obtain ops2 where l: "layer_of info stream (pending w) = Some (ops2, tot)" "ops = ?op # ops2"
      using assms(2) link by auto
    show ?thesis
      by (rule exI [of _ w2], rule exI [of _ "pending w"], rule exI [of _ "[?op]"],
          rule exI [of _ ops2], rule exI [of _ 0], rule exI [of _ tot]) (use run n r l in simp)
  next
    case regular
    let ?es = "after_streams g (pending w)"
    obtain nm sz fi b ops2 tot2 where inf: "info g = Inr (nm, sz, fi)"
      and st: "stream g (content w) (streams_of g (pending w)) = Some b"
      and l: "layer_of info stream ?es = Some (ops2, tot2)" "ops = AddOp (FromSlash nm) fi # data_op b @ ops2" "tot = sz + tot2"
      using assms(2) regular by (auto split: sum.splits option.splits)
    obtain w1 where i: "ts_FileInfoFromHeader (tarStreamer d) g w = (Ret (Inr (nm, sz, fi)), w1)" "positioned (Some g) w1"
      "pending w1 = pending w" "content w1 = content w" "recorded w1 = recorded w"
      using info_of [of g w "Some g"] inf assms(1) by auto
    obtain w2 where a: "lw_Add lw (FromSlash nm) fi w1 = (Ret None, w2)" "positioned (Some g) w2" "pending w2 = pending w"
      "content w2 = content w" "recorded w2 = recorded w @ [AddOp (FromSlash nm) fi]"
      using add [of "FromSlash nm" fi w1 "Some g"] i by auto
    obtain w3 where t: "ts_WriteBackupStreamFromTarFile (tarStreamer d) lw g (Join [LayerStore d, i]) w2 = (Ret (head_result ?es), w3)"
      "positioned (head_of ?es) w3" "pending w3 = tl ?es" "recorded w3 = recorded w2 @ data_op b"
      "?es \<noteq> [] \<longrightarrow> content w3 = snd (hd ?es)"
      using write_entry [OF a(2,5), of b] st a(3,4) by auto
    have run: "unpack_step d lw i (Some g) n w = (Ret (Inr (head_of ?es, snd (head_result ?es), n + sz)), w3)"
      using regular i(1) a(1) t(1) by (simp add: unpack_step_def head_result_def)
    show ?thesis
      by (rule exI [of _ w3], rule exI [of _ ?es], rule exI [of _ "AddOp (FromSlash nm) fi # data_op b"],
          rule exI [of _ ops2], rule exI [of _ sz], rule exI [of _ tot2])
         (use run t a i l length_after_streams in simp)
  qed
qed

lemma loop_entries:
  "positioned (Some g) w \<Longrightarrow> layer_of info stream ((g, content w) # pending w) = Some (ops, tot) \<Longrightarrow>
   length (pending w) < fuel \<Longrightarrow>
     \<exists>w'. unpack_loop fuel d lw i (Some g) n w = (Ret (Inr (EOF, n + tot)), w') \<and> recorded w' = recorded w @ ops"
proof (induction fuel arbitrary: g n w ops tot)
  case (Suc fuel)
  obtain w1 es ops1 ops2 sz tot2 where
    s: "unpack_step d lw i (Some g) n w = (Ret (Inr (head_of es, snd (head_result es), n + sz)), w1)"
    and p: "positioned (head_of es) w1" "pending w1 = tl es" "es \<noteq> [] \<longrightarrow> content w1 = snd (hd es)"
      "length es \<le> length (pending w)" "recorded w1 = recorded w @ ops1"
    and l: "ops = ops1 @ ops2" "tot = sz + tot2" "layer_of info stream es = Some (ops2, tot2)"
    using step_entry [OF Suc.prems(1,2)] by metis
  show ?case
  proof (cases es)
    case Nil
    with s l p show ?thesis by (simp add: head_result_def head_of_def)
  next
    case (Cons x hs)
    obtain h c where x: "x = (h, c)" by (cases x)
    have "layer_of info stream ((h, content w1) # pending w1) = Some (ops2, tot2)"
      using Cons x p l by simp
    moreover have "positioned (Some h) w1" "length (pending w1) < fuel"
      using Cons x p Suc.prems(3) by (auto simp: head_of_def)
    ultimately obtain w2 where "unpack_loop fuel d lw i (Some h) (n + sz) w1 = (Ret (Inr (EOF, n + sz + tot2)), w2)"
      "recorded w2 = recorded w1 @ ops2"
      using Suc.IH by blast
    with s Cons x p l show ?thesis by (auto simp: head_result_def head_of_def add.assoc)
  qed
qed simp

lemma loop_contents:
  assumes "positioned None w" and "layer_of info stream (pending w) = Some (ops, tot)" and "Suc (length (pending w)) < fuel"
  shows "\<exists>w'. unpack_loop fuel d lw i None n w = (Ret (Inr (EOF, n + tot)), w') \<and> recorded w' = recorded w @ ops"
proof -
  obtain k where fuel: "fuel = Suc k" using assms(3) by (cases fuel) auto
  obtain w1 where s: "ts_Next (tarStreamer d) w = (Ret (head_result (pending w)), w1)"
    "positioned (head_of (pending w)) w1" "pending w1 = tl (pending w)" "recorded w1 = recorded w"
    "pending w \<noteq> [] \<longrightarrow> content w1 = snd (hd (pending w))"
    using next_entry [OF assms(1)] by blast
  show ?thesis
  proof (cases "pending w")
    case Nil
    with s fuel assms(2) show ?thesis by (auto simp: unpack_step_def head_result_def head_of_def)
  next
    case (Cons x hs)
    obtain h c where x: "x = (h, c)" by (cases x)
    have "layer_of info stream ((h, content w1) # pending w1) = Some (ops, tot)"
      "positioned (Some h) w1" "length (pending w1) < k"
      using Cons x s assms(2,3) fuel by (auto simp: head_of_def simp del: layer_of.simps)
    from loop_entries [OF this(2,1,3)] s Cons x fuel show ?thesis
      by (auto simp: unpack_step_def head_result_def head_of_def)
  qed
qed

end

section \<open>The error of closing the layer writer\<close>

text \<open>A layer writer, and a driver whose client hands out such writers, whose Close never reports an error.\<close>

definition silent_writer :: "'w LayerWriter \<Rightarrow> 'w LayerWriter" where
  "silent_writer lw = lw\<lparr>lw_Close := go_bind (lw_Close lw) (\<lambda>_. go_ret None)\<rparr>"

definition silent_driver :: "('w, 'r) Driver \<Rightarrow> ('w, 'r) Driver" where
  "silent_driver d = d\<lparr>hcsClient := (hcsClient d)\<lparr>hcs_NewLayerWriter := (\<lambda>di i ps.
     go_try (hcs_NewLayerWriter (hcsClient d) di i ps) (\<lambda>e. go_ret (Inl e)) (\<lambda>lw. go_ret (Inr (silent_writer lw))))\<rparr>\<rparr>"

lemma silent_driver_simps [simp]:
  "Store (silent_driver d) = Store d" "tarStreamer (silent_driver d) = tarStreamer d"
  "privilegeElevator (silent_driver d) = privilegeElevator d"
  "LayerStore (silent_driver d) = LayerStore d" "layerSizeFile (silent_driver d) = layerSizeFile d"
  "hcs_LayerExists (hcsClient (silent_driver d)) = hcs_LayerExists (hcsClient d)"
  "hcs_DestroyLayer (hcsClient (silent_driver d)) = hcs_DestroyLayer (hcsClient d)"
  "hcs_NewLayerWriter (hcsClient (silent_driver d)) di i ps =
     go_try (hcs_NewLayerWriter (hcsClient d) di i ps) (\<lambda>e. go_ret (Inl e)) (\<lambda>lw. go_ret (Inr (silent_writer lw)))"
  by (simp_all add: silent_driver_def LayerStore_def layerSizeFile_def fun_eq_iff)

lemma silent_writer_simps [simp]:
  "lw_Add (silent_writer lw) = lw_Add lw" "lw_AddLink (silent_writer lw) = lw_AddLink lw"
  "lw_Remove (silent_writer lw) = lw_Remove lw" "lw_Write (silent_writer lw) = lw_Write lw"
  "lw_Close (silent_writer lw) = go_bind (lw_Close lw) (\<lambda>_. go_ret None)"
  by (simp_all add: silent_writer_def)

lemma go_defer_silent: "go_defer (go_bind c (\<lambda>_. go_ret x)) m = go_defer c m"
  by (rule ext) (auto simp: go_defer_def go_bind_def split: prod.splits go.splits)

lemma go_try_assoc: "go_try (go_try m (\<lambda>e. go_ret (Inl e)) (\<lambda>x. go_ret (Inr (f x)))) h k = go_try m h (\<lambda>x. k (f x))"
  by (rule ext) (auto simp: go_simps split: prod.splits go.splits sum.splits)

lemma loop_silent:
  assumes "\<And>h p. ts_WriteBackupStreamFromTarFile (tarStreamer d) (silent_writer lw) h p = ts_WriteBackupStreamFromTarFile (tarStreamer d) lw h p"
  shows "unpack_loop fuel (silent_driver d) (silent_writer lw) i hdr n = unpack_loop fuel d lw i hdr n"
proof -
  have "unpack_step (silent_driver d) (silent_writer lw) i hdr n = unpack_step d lw i hdr n" for hdr n
    unfolding unpack_step_def silent_driver_simps silent_writer_simps assms ..
  then show ?thesis
    by (induction fuel arbitrary: hdr n) (simp_all cong: option.case_cong)
qed

lemma fresh_silent:
  assumes "\<And>lw h p. ts_WriteBackupStreamFromTarFile (tarStreamer d) (silent_writer lw) h p = ts_WriteBackupStreamFromTarFile (tarStreamer d) lw h p"
  shows "unpack_fresh fuel os (silent_driver d) di i ps tar = unpack_fresh fuel os d di i ps tar"
  unfolding unpack_fresh_def silent_driver_simps go_try_assoc loop_silent [OF assms] silent_writer_simps go_defer_silent ..

text \<open>
  C28: Unpack never reports that closing the layer writer failed, although closing is what imports the layer: with a
  writer whose Close hides its error Unpack returns the same size and error in every case.
\<close>

theorem Unpack_close_error_lost:
  assumes "\<And>lw h p. ts_WriteBackupStreamFromTarFile (tarStreamer d) (silent_writer lw) h p = ts_WriteBackupStreamFromTarFile (tarStreamer d) lw h p"
  shows "Unpack fuel os (silent_driver d) i ps tar = Unpack fuel os d i ps tar"
  unfolding Unpack_def silent_driver_simps Let_def fresh_silent [OF assms] ..

end
