(* ===== verification/Unpack_Privileges.thy ===== *)
theory Unpack_Privileges
  imports Driver_Frame
begin

text \<open>
  Unpack and the process privileges (src/driver/unpack.go): the backup and restore privileges that the layer writer
  needs are held whenever it is called, and are given up again however Unpack ends.
\<close>

text \<open>Unpack between enabling and disabling the privileges.\<close>

definition unpack_body :: "nat \<Rightarrow> 'w os_api \<Rightarrow> ('w, 'r) Driver \<Rightarrow> string \<Rightarrow> string list \<Rightarrow> 'r \<Rightarrow> bool \<Rightarrow>
    ('w, int64 \<times> go_error option) io" where
  "unpack_body fuel os d layerID parentIDs layerTar exists =
     (let di = \<lparr>Flavour = 1, HomeDir = LayerStore d\<rparr> in
      if exists then
        go_try (os_ReadFile os (layerSizeFile d layerID))
          (\<lambda>e. if IsNotExist e then
                 go_tryE (hcs_DestroyLayer (hcsClient d) di layerID) (\<lambda>e. go_ret (0, Some e))
                 (unpack_fresh fuel os d di layerID parentIDs layerTar)
               else go_ret (0, Some e))
          (\<lambda>content. go_ret (ParseInt content 64))
      else unpack_fresh fuel os d di layerID parentIDs layerTar)"

lemma Unpack_body:
  "Unpack fuel os d i ps tar =
     (if Store d = [] then go_ret (0, Some EmptyDriverStoreError)
      else
        go_try (hcs_LayerExists (hcsClient d) \<lparr>Flavour = 1, HomeDir = LayerStore d\<rparr> i) (\<lambda>e. go_ret (0, Some e)) (\<lambda>exists.
        go_tryE (pe_Enable (privilegeElevator d) privileges) (\<lambda>e. go_ret (0, Some e))
        (go_defer (pe_Disable (privilegeElevator d) privileges) (unpack_body fuel os d i ps tar exists))))"
  by (simp add: Unpack_def unpack_body_def Let_def)

text \<open>
  The contract: nothing but the elevator changes the privileges, whatever condition on them one follows. A call that enables or disables the named
  privileges and succeeds has done so for all of them; one that fails may have done it for some (\<^verbatim>\<open>AdjustTokenPrivileges\<close> does what it can and
  reports \<^verbatim>\<open>ERROR_NOT_ALL_ASSIGNED\<close>).
\<close>

locale unpack_privileges =
  fixes os :: "'w os_api" and d :: "('w, 'r) Driver" and priv :: "'w \<Rightarrow> string set"
  assumes tar: "tar_guard (\<lambda>w. Q (priv w)) os d"
    and exists_keeps: "agree (\<lambda>w. Q (priv w)) (hcs_LayerExists (hcsClient d) di i) (hcs_LayerExists (hcsClient d) di i)"
    and destroy_keeps: "agree (\<lambda>w. Q (priv w)) (hcs_DestroyLayer (hcsClient d) di i) (hcs_DestroyLayer (hcsClient d) di i)"
    and read_keeps: "agree (\<lambda>w. Q (priv w)) (os_ReadFile os p) (os_ReadFile os p)"
    and enable_ok: "pe_Enable (privilegeElevator d) ns w = (Ret None, w') \<Longrightarrow> priv w' = priv w \<union> set ns"
    and enable_frame: "pe_Enable (privilegeElevator d) ns w = (r, w') \<Longrightarrow> priv w \<subseteq> priv w' \<and> priv w' \<subseteq> priv w \<union> set ns"
    and disable_ok: "pe_Disable (privilegeElevator d) ns w = (Ret None, w') \<Longrightarrow> priv w' = priv w - set ns"
    and disable_frame: "pe_Disable (privilegeElevator d) ns w = (r, w') \<Longrightarrow> priv w - set ns \<subseteq> priv w' \<and> priv w' \<subseteq> priv w"
begin

abbreviation elevated :: "'w \<Rightarrow> bool" where
  "elevated w \<equiv> set privileges \<subseteq> priv w"

lemma body_agree:
  "agree (\<lambda>w. Q (priv w)) (unpack_body fuel os d i ps tar b)
     (unpack_body fuel os (guarded_driver (\<lambda>w. Q (priv w)) d) i ps tar b)"
  unfolding unpack_body_def Let_def guarded_driver_simps
  by (intro agree_intros read_keeps destroy_keeps tar_guard.fresh_agree [OF tar])

lemma body_keeps:
  assumes "unpack_body fuel os d i ps tar b w = (r, w')"
  shows "priv w' = priv w"
  using agreeD(2) [OF body_agree [of "\<lambda>p. p = priv w"] _ assms] by simp

text \<open>The three ways in which Unpack uses the elevator.\<close>

lemma unpack_restores:
  assumes "Unpack fuel os d i ps tar w = (r, w')" and "r \<noteq> Diverged"
  shows "priv w' = priv w
    \<or> (\<exists>w1 x. priv w1 = priv w \<and> pe_Enable (privilegeElevator d) privileges w1 = (x, w') \<and> x \<noteq> Ret None)
    \<or> (\<exists>w1 w2 w3 x. priv w1 = priv w \<and> pe_Enable (privilegeElevator d) privileges w1 = (Ret None, w2) \<and> priv w3 = priv w2
        \<and> pe_Disable (privilegeElevator d) privileges w3 = (x, w'))"
proof (cases "Store d = []")
  case True
  with assms(1) show ?thesis by (simp add: Unpack_body)
next
  case False
  let ?di = "\<lparr>Flavour = 1, HomeDir = LayerStore d\<rparr>"
  obtain q w1 where ex: "hcs_LayerExists (hcsClient d) ?di i w = (q, w1)" by force
  have p1: "priv w1 = priv w" using agreeD(2) [OF exists_keeps [of "\<lambda>p. p = priv w"] _ ex] by simp
  show ?thesis
  proof (cases "\<exists>b. q = Ret (Inr b)")
    case no: False
    with assms(1) False ex p1 show ?thesis
      by (auto simp: Unpack_body go_simps split: go.splits sum.splits)
  next
    case True
    then obtain b where b: "q = Ret (Inr b)" by blast
    obtain e w2 where en: "pe_Enable (privilegeElevator d) privileges w1 = (e, w2)" by force
    obtain s w3 where bd: "unpack_body fuel os d i ps tar b w2 = (s, w3)" by force
    obtain x w4 where dis: "pe_Disable (privilegeElevator d) privileges w3 = (x, w4)" by force
    show ?thesis
    proof (cases "e = Ret None")
      case True
      then have "w' = w4"
        using assms(1,2) False ex b en bd dis by (auto simp: Unpack_body go_defer_def split: go.splits)
      with True en p1 body_keeps [OF bd] dis show ?thesis by blast
    next
      case no: False
      then have "w' = w2"
        using assms(1) False ex b en by (auto simp: Unpack_body go_simps split: go.splits option.splits)
      with no en p1 show ?thesis by blast
    qed
  qed
qed

lemma unpack_privileges_after:
  assumes "Unpack fuel os d i ps tar w = (r, w')" and "r \<noteq> Diverged"
  shows "priv w' - set privileges = priv w - set privileges"
  using unpack_restores [OF assms]
proof (elim disjE exE conjE)
  fix w1 x
  assume p: "priv w1 = priv w" and en: "pe_Enable (privilegeElevator d) privileges w1 = (x, w')"
  show ?thesis using enable_frame [OF en] unfolding p by (intro set_eqI) auto
next
  fix w1 w2 w3 x
  assume p: "priv w1 = priv w" and en: "pe_Enable (privilegeElevator d) privileges w1 = (Ret None, w2)" and q: "priv w3 = priv w2"
    and dis: "pe_Disable (privilegeElevator d) privileges w3 = (x, w')"
  show ?thesis using disable_frame [OF dis] unfolding q enable_ok [OF en] p by (intro set_eqI) auto
qed simp

lemma unpack_guarded: "Unpack fuel os (guarded_driver elevated d) i ps tar w = Unpack fuel os d i ps tar w"
proof -
  have tail: "go_tryE (pe_Enable (privilegeElevator d) privileges) (\<lambda>e. go_ret (0, Some e))
        (go_defer (pe_Disable (privilegeElevator d) privileges) (unpack_body fuel os (guarded_driver elevated d) i ps tar b)) w1
      = go_tryE (pe_Enable (privilegeElevator d) privileges) (\<lambda>e. go_ret (0, Some e))
        (go_defer (pe_Disable (privilegeElevator d) privileges) (unpack_body fuel os d i ps tar b)) w1" for b w1
  proof -
    obtain e w2 where en: "pe_Enable (privilegeElevator d) privileges w1 = (e, w2)" by force
    have "unpack_body fuel os (guarded_driver elevated d) i ps tar b w2 = unpack_body fuel os d i ps tar b w2" if "e = Ret None"
      using agreeD(1) [OF body_agree [of "\<lambda>p. set privileges \<subseteq> p"], of w2] enable_ok [of privileges w1 w2] en that by auto
    with en show ?thesis
      by (cases "e = Ret None") (auto simp: go_simps split: go.splits option.splits)
  qed
  obtain q w1 where "hcs_LayerExists (hcsClient d) \<lparr>Flavour = 1, HomeDir = LayerStore d\<rparr> i w = (q, w1)" by force
  then show ?thesis
    using tail by (auto simp: Unpack_body go_try_def go_bind_def split: go.splits sum.splits)
qed

end

text \<open>
  C3: Unpack gives the backup and restore privileges back. However it ends, in a size, an error or a panic, it has not touched the privileges, or the call that
  enables them has failed and was the last it made, or its last call disables the two privileges again, and if that call succeeds the process holds
  exactly the other privileges it held before; whether these calls fail or not, no other privilege ever changes. So a process that did not hold the two before, with calls
  that succeed, is left with the privileges it had.
\<close>

theorem Unpack_restores_privileges:
  assumes "unpack_privileges os d priv" and "Unpack fuel os d i ps tar w = (r, w')" and "r \<noteq> Diverged"
  shows "(priv w' = priv w
      \<or> (\<exists>w1 x. priv w1 = priv w \<and> pe_Enable (privilegeElevator d) privileges w1 = (x, w') \<and> x \<noteq> Ret None)
      \<or> (\<exists>w1 w2 w3 x. priv w1 = priv w \<and> pe_Enable (privilegeElevator d) privileges w1 = (Ret None, w2)
          \<and> pe_Disable (privilegeElevator d) privileges w3 = (x, w') \<and> priv w3 = priv w \<union> {SeBackupPrivilege, SeRestorePrivilege}
          \<and> (x = Ret None \<longrightarrow> priv w' = priv w - {SeBackupPrivilege, SeRestorePrivilege})))
    \<and> priv w' - {SeBackupPrivilege, SeRestorePrivilege} = priv w - {SeBackupPrivilege, SeRestorePrivilege}"
proof -
  note L = assms(1)
  have P: "set privileges = {SeBackupPrivilege, SeRestorePrivilege}" by (simp add: privileges_def)
  show ?thesis
    unfolding P [symmetric]
  proof (intro conjI unpack_privileges.unpack_privileges_after [OF assms])
    from unpack_privileges.unpack_restores [OF assms] show "priv w' = priv w
      \<or> (\<exists>w1 x. priv w1 = priv w \<and> pe_Enable (privilegeElevator d) privileges w1 = (x, w') \<and> x \<noteq> Ret None)
      \<or> (\<exists>w1 w2 w3 x. priv w1 = priv w \<and> pe_Enable (privilegeElevator d) privileges w1 = (Ret None, w2)
          \<and> pe_Disable (privilegeElevator d) privileges w3 = (x, w') \<and> priv w3 = priv w \<union> set privileges
          \<and> (x = Ret None \<longrightarrow> priv w' = priv w - set privileges))"
    proof (elim disjE exE conjE)
      fix w1 w2 w3 x
      assume p: "priv w1 = priv w" and en: "pe_Enable (privilegeElevator d) privileges w1 = (Ret None, w2)" and q: "priv w3 = priv w2"
        and dis: "pe_Disable (privilegeElevator d) privileges w3 = (x, w')"
      have held: "priv w3 = priv w \<union> set privileges" using unpack_privileges.enable_ok [OF L en] p q by simp
      have "priv w' = priv w - set privileges" if "x = Ret None"
        using unpack_privileges.disable_ok [OF L, of privileges w3 w'] dis held that by auto
      with p en dis held show ?thesis by (intro disjI2 exI conjI impI)
    qed (simp, intro disjI2 disjI1 exI conjI)
  qed
qed

text \<open>
  C4: every call of a layer writer that Unpack makes (adding files, links and removals, writing data, closing, and
  the writer's creation) is made while the process holds both privileges, as the layer writer
  requires: with a client whose writers panic when a privilege is missing Unpack behaves the same.
\<close>

theorem Unpack_writes_elevated:
  assumes "unpack_privileges os d priv"
  shows "Unpack fuel os (guarded_driver (\<lambda>w. SeBackupPrivilege \<in> priv w \<and> SeRestorePrivilege \<in> priv w) d) i ps tar w
     = Unpack fuel os d i ps tar w"
  using unpack_privileges.unpack_guarded [OF assms, of fuel i ps tar w] by (simp add: privileges_def)

end
