(* ===== verification/Driver_Stats.thy ===== *)
theory Driver_Stats
  imports Driver
begin

text \<open>
  Properties of WriteMetadata and Stats (src/driver/write_metadata.go, stats.go): Stats reports the size that
  WriteMetadata recorded plus the quota used, as 64-bit numbers, and every failure on the way is reported.
\<close>

text \<open>
  The contract of the files of package os: what was written successfully is what is read, a file that does not exist is
  reported as such, and reading changes nothing.
\<close>

locale file_contract =
  fixes os :: "'w os_api" and files :: "'w \<Rightarrow> string \<Rightarrow> bytes option"
  assumes write_ok: "os_WriteFile os p b m w = (Ret None, w') \<Longrightarrow> files w' = (files w)(p := Some b)"
    and read_some: "files w p = Some b \<Longrightarrow> \<exists>w'. os_ReadFile os p w = (Ret (Inr b), w') \<and> files w' = files w"
    and read_none: "files w p = None \<Longrightarrow> \<exists>w' s. os_ReadFile os p w = (Ret (Inl (NotExist s)), w') \<and> files w' = files w"
begin

lemma metadata_written:
  assumes "WriteMetadata os d i m w = (Ret None, w')"
  shows "files w' = (files w)(metadataFile d i := Some (json_Marshal m))"
  using assms write_ok
  by (auto simp: WriteMetadata_def writeMetadata_def go_simps split: prod.splits go.splits option.splits)

lemma stats_found:
  assumes "hcs_GetLayerMountPath (hcsClient d) \<lparr>Flavour = 1, HomeDir = VolumeStore d\<rparr> i w = (Ret (Inr v), w1)" and "v \<noteq> []"
    and "lim_GetQuotaUsed (limiter d) v w1 = (Ret (Inr q), w2)"
    and "files w2 (metadataFile d i) = Some (json_Marshal m)"
  shows "\<exists>w'. Stats os msg d i w = (Ret (Inr \<lparr>TotalBytesUsed = im_Size m + q, ExclusiveBytesUsed = q\<rparr>), w')"
  using assms read_some [OF assms(4)]
  by (auto simp: Stats_def json_Unmarshal_def json_Marshal_def Unmarshal_Marshal)

end

lemma sint_add_used:
  fixes n :: int64 and q :: uint64
  assumes "0 \<le> sint n" and "sint n + uint q < 2 ^ 63"
  shows "sint (n + q) = sint n + uint q" and "sint q = uint q"
proof -
  have q: "0 \<le> uint q" "uint q < 2 ^ 63" using assms by simp_all
  then have "signed_take_bit 63 (uint q) = uint q" by (intro signed_take_bit_int_eq_self) linarith+
  then show sq: "sint q = uint q" by (simp add: sint_uint)
  have "signed_take_bit 63 (sint n + sint q) = sint n + sint q"
    using assms q sq by (intro signed_take_bit_int_eq_self) linarith+
  then show "sint (n + q) = sint n + uint q" using sq by (simp add: sint_word_ariths)
qed

text \<open>
  After WriteMetadata recorded the image size, Stats of that bundle reports the recorded size plus the
  quota used as the total and the quota used as the exclusive usage; when the sum is below \<open>2 ^ 63\<close> it
  is the exact, unwrapped sum.
\<close>

theorem Stats_after_WriteMetadata:
  assumes "file_contract os files" and "WriteMetadata os d i m w0 = (Ret None, w)"
    and "hcs_GetLayerMountPath (hcsClient d) \<lparr>Flavour = 1, HomeDir = VolumeStore d\<rparr> i w = (Ret (Inr v), w1)" and "v \<noteq> []"
    and "lim_GetQuotaUsed (limiter d) v w1 = (Ret (Inr q), w2)"
    and "files w2 (metadataFile d i) = files w (metadataFile d i)"
    and "0 \<le> sint (im_Size m)" and "sint (im_Size m) + uint q < 2 ^ 63"
  shows "\<exists>w' u. Stats os msg d i w = (Ret (Inr u), w')
    \<and> sint (TotalBytesUsed u) = sint (im_Size m) + uint q \<and> sint (ExclusiveBytesUsed u) = uint q"
proof -
  have "files w2 (metadataFile d i) = Some (json_Marshal m)"
    using assms(6) file_contract.metadata_written [OF assms(1,2)] by simp
  from file_contract.stats_found [OF assms(1,3,4,5) this, of msg] sint_add_used [OF assms(7,8)]
  show ?thesis by auto
qed

text \<open>
  Stats of a bundle without metadata fails with a not-exist error, of a bundle whose volume is not mounted with the
  missing-volume-path error, and of one with malformed metadata with an error that says so; in none of these cases it
  reports a usage.
\<close>

theorem Stats_errors:
  assumes "file_contract os files"
    and "hcs_GetLayerMountPath (hcsClient d) \<lparr>Flavour = 1, HomeDir = VolumeStore d\<rparr> i w = (Ret (Inr v), w1)"
    and "v \<noteq> [] \<longrightarrow> lim_GetQuotaUsed (limiter d) v w1 = (Ret (Inr q), w2)"
  shows "\<exists>w' r. Stats os msg d i w = (Ret r, w') \<and>
    (if v = [] then r = Inl (MissingVolumePathError i)
     else case files w2 (metadataFile d i) of
       None \<Rightarrow> \<exists>e. r = Inl e \<and> IsNotExist e
     | Some b \<Rightarrow>
         (case json_Unmarshal b of
            Inl e \<Rightarrow> r = Inl (ErrorString (''couldn'' @ [CHR 0x27] @ ''t parse metadata.json: '' @ msg e))
          | Inr m \<Rightarrow> r = Inr \<lparr>TotalBytesUsed = im_Size m + q, ExclusiveBytesUsed = q\<rparr>))"
proof (cases "v = []")
  case True
  with assms(2) show ?thesis by (auto simp: Stats_def)
next
  case False
  show ?thesis
  proof (cases "files w2 (metadataFile d i)")
    case None
    from file_contract.read_none [OF assms(1) this] show ?thesis
      using assms(2,3) False None by (auto simp: Stats_def)
  next
    case (Some b)
    from file_contract.read_some [OF assms(1) this] show ?thesis
      using assms(2,3) False Some by (cases "json_Unmarshal b") (auto simp: Stats_def)
  qed
qed

end
