(* ===== verification/Unpack_Layer.thy ===== *)
theory Unpack_Layer
  imports Driver_Unpack Unpack_Privileges Driver_Stats
begin

text \<open>
  Unpack as a whole (src/driver/unpack.go), over a platform whose calls work: a layer that is not there is unpacked to exactly
  the layer its archive stands for and its size is recorded; unpacking it again is a no-op that reports the same size.
\<close>

section \<open>Layers that exist\<close>

text \<open>Calls that succeed and keep the files, the layers present and the operations recorded so far.\<close>

definition quietly :: "('w \<Rightarrow> 'x) \<Rightarrow> ('w, 'a) io \<Rightarrow> 'a \<Rightarrow> bool" where
  "quietly obs m x \<longleftrightarrow> (\<forall>w. \<exists>w'. m w = (Ret x, w') \<and> obs w' = obs w)"

lemma quietlyE:
  assumes "quietly obs m x"
  obtains w' where "m w = (Ret x, w')" "obs w' = obs w"
  using assms unfolding quietly_def by blast

locale layer_cache = file_contract os files
  for os :: "'w os_api" and files :: "'w \<Rightarrow> string \<Rightarrow> bytes option" +
  fixes d :: "('w, 'r) Driver" and present :: "'w \<Rightarrow> string set"
  assumes exists: "\<exists>w'. hcs_LayerExists (hcsClient d) di i w = (Ret (Inr (layerPath di i \<in> present w)), w')
      \<and> files w' = files w \<and> present w' = present w"
    and enable: "quietly (\<lambda>w. (files w, present w)) (pe_Enable (privilegeElevator d) ns) None"
    and disable: "quietly (\<lambda>w. (files w, present w)) (pe_Disable (privilegeElevator d) ns) None"
    and read_present: "os_ReadFile os p w = (r, w') \<Longrightarrow> present w' = present w"
    and writer_present: "hcs_NewLayerWriter (hcsClient d) di i ps w = (Ret (Inr lw), w') \<Longrightarrow> layerPath di i \<in> present w'"
    and tar_keeps: "tar_guard (\<lambda>w. A \<subseteq> present w) os d"
    and close_keeps: "hcs_NewLayerWriter (hcsClient d) di i ps w = (Ret (Inr lw), w') \<Longrightarrow> lw_Close lw u = (c, u') \<Longrightarrow>
      files u' (layerSizeFile d i) = files u (layerSizeFile d i)"
    and reset_keeps: "ts_SetReader (tarStreamer d) None u = (s, u') \<Longrightarrow> files u' = files u"
begin

abbreviation path :: "string \<Rightarrow> string" where
  "path i \<equiv> Join [LayerStore d, i]"

lemma fresh_recorded:
  assumes run: "unpack_fresh fuel os d di i ps tar w = (Ret (n, None), w')" and di: "HomeDir di = LayerStore d"
  shows "files w' (layerSizeFile d i) = Some (FormatInt n) \<and> path i \<in> present w'"
proof -
  from run obtain w1 where mk: "os_MkdirAll os (path i) perm755 w = (Ret None, w1)"
    unfolding unpack_fresh_def go_tryE_def by (auto dest!: go_bind_RetD split: option.splits)
  from run mk obtain lw w2 w3 w4 w5 e where
    nw: "hcs_NewLayerWriter (hcsClient d) di i (prepend_paths (LayerStore d) [] ps) w1 = (Ret (Inr lw), w2)"
    and wf: "os_WriteFile os (layerSizeFile d i) (FormatInt n) perm644 w3 = (Ret None, w4)"
    and sr: "\<exists>r. ts_SetReader (tarStreamer d) None w4 = (r, w5)" and cl: "\<exists>r. lw_Close lw w5 = (r, w')"
    unfolding unpack_fresh_def go_try_def
    by (auto dest!: go_bind_RetD go_defer_RetD split: sum.splits if_splits)
  have "files w' (layerSizeFile d i) = files w4 (layerSizeFile d i)"
    using close_keeps [OF nw] reset_keeps sr cl by metis
  moreover have "path i \<in> present w'"
  proof -
    have "go_try (hcs_NewLayerWriter (hcsClient d) di i (prepend_paths (LayerStore d) [] ps)) (\<lambda>e. go_ret (0, Some e))
        (\<lambda>lw. tar_guard.writing os d fuel d lw i tar) w1 = (Ret (n, None), w')"
      using run mk by (simp add: unpack_fresh_def tar_guard.writing_def [OF tar_keeps])
    then have "tar_guard.writing os d fuel d lw i tar w2 = (Ret (n, None), w')" using nw by simp
    moreover have "{path i} \<subseteq> present w2"
      using writer_present [OF nw] di by (simp add: layerPath_def)
    ultimately show ?thesis
      using agreeD(2) [OF tar_guard.writing_agree [OF tar_keeps [of "{path i}"] tar_frame.new_writer_ops [OF tar_guard.axioms(1) [OF tar_keeps] nw]]]
      by simp
  qed
  ultimately show ?thesis using write_ok [OF wf] by simp
qed

lemma body_cached:
  assumes "files w (layerSizeFile d i) = Some b"
  shows "\<exists>w'. unpack_body fuel os d i ps tar True w = (Ret (ParseInt b 64), w') \<and> files w' = files w \<and> present w' = present w"
proof -
  obtain w' where "os_ReadFile os (layerSizeFile d i) w = (Ret (Inr b), w')" "files w' = files w"
    using read_some [OF assms] by blast
  then show ?thesis using read_present by (auto simp: unpack_body_def Let_def)
qed

text \<open>How a run of Unpack looks: the layer is looked up, and the body runs between enabling and disabling the privileges.\<close>

lemma unpack_run:
  assumes "Store d \<noteq> []"
  shows "\<exists>w2. files w2 = files w \<and> present w2 = present w
    \<and> Unpack fuel os d i ps tar w = go_defer (pe_Disable (privilegeElevator d) privileges) (unpack_body fuel os d i ps tar (path i \<in> present w)) w2"
proof -
  let ?di = "\<lparr>Flavour = 1, HomeDir = LayerStore d\<rparr>"
  obtain w1 where ex: "hcs_LayerExists (hcsClient d) ?di i w = (Ret (Inr (path i \<in> present w)), w1)"
    and k1: "files w1 = files w" "present w1 = present w"
    using exists [of ?di i w] by (auto simp: layerPath_def)
  obtain w2 where en: "pe_Enable (privilegeElevator d) privileges w1 = (Ret None, w2)"
    and k2: "files w2 = files w1" "present w2 = present w1"
    using enable by (rule quietlyE) auto
  have "Unpack fuel os d i ps tar w = go_defer (pe_Disable (privilegeElevator d) privileges) (unpack_body fuel os d i ps tar (path i \<in> present w)) w2"
    using assms ex en by (cases "path i \<in> present w") (simp_all add: Unpack_body)
  with k1 k2 show ?thesis by auto
qed

lemma disabled_run:
  "go_defer (pe_Disable (privilegeElevator d) privileges) m w = (Ret r, w') \<Longrightarrow>
     \<exists>w3. m w = (Ret r, w3) \<and> files w' = files w3 \<and> present w' = present w3"
  "m w = (Ret r, w3) \<Longrightarrow>
     \<exists>w'. go_defer (pe_Disable (privilegeElevator d) privileges) m w = (Ret r, w') \<and> files w' = files w3 \<and> present w' = present w3"
proof -
  assume "go_defer (pe_Disable (privilegeElevator d) privileges) m w = (Ret r, w')"
  then obtain w3 u where m: "m w = (Ret r, w3)" and dis: "pe_Disable (privilegeElevator d) privileges w3 = (Ret u, w')"
    by (auto dest!: go_defer_RetD)
  obtain w4 where "pe_Disable (privilegeElevator d) privileges w3 = (Ret None, w4)" "files w4 = files w3" "present w4 = present w3"
    using disable by (rule quietlyE) auto
  with dis m show "\<exists>w3. m w = (Ret r, w3) \<and> files w' = files w3 \<and> present w' = present w3" by auto
next
  assume m: "m w = (Ret r, w3)"
  obtain w4 where "pe_Disable (privilegeElevator d) privileges w3 = (Ret None, w4)" "files w4 = files w3" "present w4 = present w3"
    using disable by (rule quietlyE) auto
  with m show "\<exists>w'. go_defer (pe_Disable (privilegeElevator d) privileges) m w = (Ret r, w') \<and> files w' = files w3 \<and> present w' = present w3"
    by (simp add: go_defer_def)
qed

text \<open>A successful Unpack leaves the layer with a size file that reads as the size it returned.\<close>

lemma unpack_recorded:
  assumes run: "Unpack fuel os d i ps tar w = (Ret (n, None), w')"
  shows "Store d \<noteq> [] \<and> path i \<in> present w' \<and> (\<exists>b. files w' (layerSizeFile d i) = Some b \<and> ParseInt b 64 = (n, None))"
proof -
  have store: "Store d \<noteq> []" using run by (auto simp: Unpack_def)
  let ?di = "\<lparr>Flavour = 1, HomeDir = LayerStore d\<rparr>" and ?done = "\<lambda>w'. path i \<in> present w' \<and> (\<exists>b. files w' (layerSizeFile d i) = Some b \<and> ParseInt b 64 = (n, None))"
  have fresh: "?done v'" if "unpack_fresh fuel os d ?di i ps tar v = (Ret (n, None), v')" for v v'
    using fresh_recorded [OF that] ParseInt_FormatInt by auto
  obtain w2 where k2: "files w2 = files w" "present w2 = present w"
    and r2: "Unpack fuel os d i ps tar w = go_defer (pe_Disable (privilegeElevator d) privileges) (unpack_body fuel os d i ps tar (path i \<in> present w)) w2"
    using unpack_run [OF store] by blast
  obtain w3 where m: "unpack_body fuel os d i ps tar (path i \<in> present w) w2 = (Ret (n, None), w3)"
    and k: "files w' = files w3" "present w' = present w3"
    using disabled_run(1) [OF trans [OF r2 [symmetric] run]] by blast
  have "?done w3"
  proof (cases "path i \<in> present w")
    case False
    then show ?thesis using m fresh by (simp add: unpack_body_def)
  next
    case True
    show ?thesis
    proof (cases "files w2 (layerSizeFile d i)")
      case None
      then obtain s w4 where "os_ReadFile os (layerSizeFile d i) w2 = (Ret (Inl (NotExist s)), w4)" using read_none by blast
      with m True have "go_tryE (hcs_DestroyLayer (hcsClient d) ?di i) (\<lambda>e. go_ret (0, Some e))
          (unpack_fresh fuel os d ?di i ps tar) w4 = (Ret (n, None), w3)"
        by (simp add: unpack_body_def Let_def)
      then show ?thesis using fresh by (auto simp: go_tryE_def dest!: go_bind_RetD split: option.splits)
    next
      case (Some b)
      with body_cached [OF Some, of fuel ps tar] m True k2 show ?thesis by auto
    qed
  qed
  with k store show ?thesis by simp
qed

lemma unpack_reads:
  assumes store: "Store d \<noteq> []" and p: "path i \<in> present w" and b: "files w (layerSizeFile d i) = Some b"
  shows "\<exists>w'. Unpack fuel os d i ps tar w = (Ret (ParseInt b 64), w') \<and> files w' = files w \<and> present w' = present w"
proof -
  obtain w2 where k2: "files w2 = files w" "present w2 = present w"
    and r2: "Unpack fuel os d i ps tar w = go_defer (pe_Disable (privilegeElevator d) privileges) (unpack_body fuel os d i ps tar (path i \<in> present w)) w2"
    using unpack_run [OF store] by blast
  obtain w3 where m: "unpack_body fuel os d i ps tar True w2 = (Ret (ParseInt b 64), w3)" and k3: "files w3 = files w2" "present w3 = present w2"
    using body_cached [of w2 i b fuel ps tar] b k2 by auto
  from disabled_run(2) [of "unpack_body fuel os d i ps tar True", OF m] r2 p k2 k3 show ?thesis by auto
qed

lemma unpack_again:
  assumes "Unpack fuel os d i ps tar w = (Ret (n, None), w1)"
  shows "\<exists>w2. Unpack fuel' os d i ps' tar' w1 = (Ret (n, None), w2) \<and> files w2 = files w1 \<and> present w2 = present w1"
  using unpack_recorded [OF assms] unpack_reads [of i w1 _ fuel' ps' tar'] by auto

end

section \<open>Layers that are unpacked\<close>

text \<open>
  A platform on which the calls of a fresh unpack succeed. \<open>entries tar\<close> are the entries of a readable archive, \<open>recorded w\<close> the
  operations on the layer that is being or was last written.
\<close>

locale layer_unpack = layer_cache os files d present
  for os :: "'w os_api" and files :: "'w \<Rightarrow> string \<Rightarrow> bytes option" and d :: "('w, 'r) Driver" and present :: "'w \<Rightarrow> string set" +
  fixes info :: file_info and stream :: file_stream and positioned :: "Header option \<Rightarrow> 'w \<Rightarrow> bool"
    and pending :: "'w \<Rightarrow> entry list" and content :: "'w \<Rightarrow> bytes" and recorded :: "'w \<Rightarrow> layer_op list"
    and entries :: "'r \<Rightarrow> entry list option"
  assumes mkdir_works: "\<exists>w'. os_MkdirAll os p m w = (Ret None, w')"
    and new_writer_works: "\<exists>lw w'. hcs_NewLayerWriter (hcsClient d) di i ps w = (Ret (Inr lw), w') \<and> recorded w' = []"
    and writer_contents: "hcs_NewLayerWriter (hcsClient d) di i ps w = (Ret (Inr lw), w') \<Longrightarrow>
      tar_contents d lw info stream positioned pending content recorded"
    and set_reader_works: "entries tar = Some es \<Longrightarrow> \<exists>w'. ts_SetReader (tarStreamer d) (Some tar) w = (Ret (), w')
      \<and> positioned None w' \<and> pending w' = es \<and> recorded w' = recorded w"
    and reset_works: "\<exists>w'. ts_SetReader (tarStreamer d) None w = (Ret (), w') \<and> recorded w' = recorded w"
    and write_works: "\<exists>w'. os_WriteFile os p b m w = (Ret None, w') \<and> recorded w' = recorded w"
    and close_works: "hcs_NewLayerWriter (hcsClient d) di i ps w = (Ret (Inr lw), w') \<Longrightarrow>
      \<exists>c u'. lw_Close lw u = (Ret c, u') \<and> recorded u' = recorded u"
    and disable_recorded: "pe_Disable (privilegeElevator d) ns u = (Ret x, u') \<Longrightarrow> recorded u' = recorded u"
begin

lemma fresh_works:
  assumes es: "entries tar = Some es" and layer: "layer_of info stream es = Some (ops, n)" and fuel: "Suc (length es) < fuel"
  shows "\<exists>w'. unpack_fresh fuel os d di i ps tar w = (Ret (n, None), w') \<and> recorded w' = ops"
proof -
  obtain w1 where mk: "os_MkdirAll os (path i) perm755 w = (Ret None, w1)" using mkdir_works by blast
  obtain lw w2 where nw: "hcs_NewLayerWriter (hcsClient d) di i (prepend_paths (LayerStore d) [] ps) w1 = (Ret (Inr lw), w2)"
    "recorded w2 = []" using new_writer_works by blast
  obtain w3 where sr: "ts_SetReader (tarStreamer d) (Some tar) w2 = (Ret (), w3)" "positioned None w3" "pending w3 = es"
    "recorded w3 = []" using set_reader_works [OF es, of w2] nw(2) by auto
  obtain w4 where lp: "unpack_loop fuel d lw i None 0 w3 = (Ret (Inr (EOF, n)), w4)" "recorded w4 = ops"
    using tar_contents.loop_contents [OF writer_contents [OF nw(1)] sr(2), of ops n fuel i 0] layer fuel sr(3,4) by auto
  obtain w5 where wf: "os_WriteFile os (layerSizeFile d i) (FormatInt n) perm644 w4 = (Ret None, w5)" "recorded w5 = ops"
    using write_works [of "layerSizeFile d i" "FormatInt n" perm644 w4] lp(2) by auto
  obtain w6 where rs: "ts_SetReader (tarStreamer d) None w5 = (Ret (), w6)" "recorded w6 = ops"
    using reset_works [of w5] wf(2) by auto
  obtain c w7 where cl: "lw_Close lw w6 = (Ret c, w7)" "recorded w7 = ops"
    using close_works [OF nw(1), of w6] rs(2) by auto
  have "unpack_fresh fuel os d di i ps tar w = (Ret (n, None), w7)"
    using mk nw(1) sr(1) lp(1) wf(1) rs(1) cl(1) by (simp add: unpack_fresh_def go_defer_def)
  with cl(2) show ?thesis by blast
qed

lemma unpack_works:
  assumes store: "Store d \<noteq> []" and es: "entries tar = Some es" and layer: "layer_of info stream es = Some (ops, n)"
    and fuel: "Suc (length es) < fuel"
    and absent: "path i \<in> present w \<longrightarrow> files w (layerSizeFile d i) = None
      \<and> (\<forall>u. \<exists>u'. hcs_DestroyLayer (hcsClient d) \<lparr>Flavour = 1, HomeDir = LayerStore d\<rparr> i u = (Ret None, u'))"
  shows "\<exists>w'. Unpack fuel os d i ps tar w = (Ret (n, None), w') \<and> recorded w' = ops
    \<and> files w' (layerSizeFile d i) = Some (FormatInt n)"
proof -
  let ?di = "\<lparr>Flavour = 1, HomeDir = LayerStore d\<rparr>" and ?m = "unpack_body fuel os d i ps tar (path i \<in> present w)"
  obtain w2 where k2: "files w2 = files w" "present w2 = present w"
    and r2: "Unpack fuel os d i ps tar w = go_defer (pe_Disable (privilegeElevator d) privileges) ?m w2"
    using unpack_run [OF store] by blast
  have "\<exists>v. ?m w2 = unpack_fresh fuel os d ?di i ps tar v"
  proof (cases "path i \<in> present w")
    case True
    with absent obtain s w3 where "os_ReadFile os (layerSizeFile d i) w2 = (Ret (Inl (NotExist s)), w3)"
      using read_none [of w2 "layerSizeFile d i"] k2(1) by auto
    moreover obtain w4 where "hcs_DestroyLayer (hcsClient d) ?di i w3 = (Ret None, w4)" using True absent by blast
    ultimately show ?thesis using True by (auto simp: unpack_body_def Let_def)
  qed (auto simp: unpack_body_def)
  then obtain v w3 where m: "?m w2 = (Ret (n, None), w3)" "unpack_fresh fuel os d ?di i ps tar v = (Ret (n, None), w3)" "recorded w3 = ops"
    using fresh_works [OF es layer fuel, of ?di i ps] by metis
  obtain w4 where d4: "pe_Disable (privilegeElevator d) privileges w3 = (Ret None, w4)" "files w4 = files w3"
    using disable by (rule quietlyE) auto
  have "Unpack fuel os d i ps tar w = (Ret (n, None), w4)" using r2 m(1) d4(1) by (simp add: go_defer_def)
  then show ?thesis
    using disable_recorded [OF d4(1)] m(3) fresh_recorded [OF m(2)] d4(2) by simp
qed

end

text \<open>
  C1: unpacking a layer that does not exist, or that an older version left without a size file, makes it the layer its
  archive stands for (\<open>layer_of\<close>): the same removals, links, files and backup streams in the order of the archive, and it returns
  and records the total size of the files. The loop over the entries takes one turn more than there are entries.
\<close>

theorem Unpack_contents:
  assumes "layer_unpack os files d present info stream positioned pending content recorded entries"
    and "Store d \<noteq> []" and "entries tar = Some es" and "layer_of info stream es = Some (ops, n)" and "Suc (length es) < fuel"
    and "Join [LayerStore d, i] \<in> present w \<longrightarrow> files w (layerSizeFile d i) = None
      \<and> (\<forall>u. \<exists>u'. hcs_DestroyLayer (hcsClient d) \<lparr>Flavour = 1, HomeDir = LayerStore d\<rparr> i u = (Ret None, u'))"
  shows "\<exists>w'. Unpack fuel os d i ps tar w = (Ret (n, None), w') \<and> recorded w' = ops
    \<and> files w' (layerSizeFile d i) = Some (FormatInt n)"
  using layer_unpack.unpack_works [OF assms] .

text \<open>
  C2: unpacking is cached: after a successful Unpack of a layer, unpacking the same layer again, with whatever archive and
  parents, succeeds, returns the same size and changes no file and no layer.
\<close>

theorem Unpack_cached:
  assumes "layer_cache os files d present" and "Unpack fuel os d i ps tar w = (Ret (n, None), w1)"
  shows "\<exists>w2. Unpack fuel' os d i ps' tar' w1 = (Ret (n, None), w2) \<and> files w2 = files w1 \<and> present w2 = present w1"
  using layer_cache.unpack_again [OF assms] .

text \<open>
  For a layer that is there with a size file Unpack returns what that file reads as, a size or the error of a malformed one, never
  looks at the archive, and changes no file and no layer: a malformed size file is not repaired.
\<close>

theorem Unpack_reads_size:
  assumes "layer_cache os files d present" and "Store d \<noteq> []" and "Join [LayerStore d, i] \<in> present w"
    and "files w (layerSizeFile d i) = Some b"
  shows "\<exists>w'. Unpack fuel os d i ps tar w = (Ret (ParseInt b 64), w') \<and> files w' = files w \<and> present w' = present w"
  using layer_cache.unpack_reads [OF assms] .

end
