(* ===== verification/Backup_Stream.thy ===== *)
theory Backup_Stream
  imports Backuptar
begin

text \<open>
  What the backup stream of a tar entry is, as a function of the entry and its alternate data streams
  (\<open>backup_stream\<close>), and that WriteBackupStreamFromTarFile sends exactly that to a destination that
  accepts it, in however many chunks the entry is read, and moves the tar reader on to the next
  entry that is not an alternate data stream of the file.
\<close>

section \<open>What the stream of a file is\<close>

definition stream :: "nat \<Rightarrow> string \<Rightarrow> bytes \<Rightarrow> bytes" where
  "stream sid name data =
     win32StreamID \<lparr>bh_Id = sid, bh_Attributes = 0, bh_Size = of_nat (length data), bh_Name = name, bh_Offset = 0\<rparr> @ utf16_bytes (utf16_Encode name) @ data"

definition opt_stream :: "nat \<Rightarrow> bytes \<Rightarrow> bytes" where
  "opt_stream sid data = (if data = [] then [] else stream sid [] data)"

definition small :: "bytes \<Rightarrow> bool" where
  "small b \<longleftrightarrow> length b < 2 ^ 63"

definition ads_stream :: "Header \<Rightarrow> Header \<times> bytes \<Rightarrow> bytes" where
  "ads_stream h a = stream BackupAlternateData (drop (length (hdr_Name h)) (hdr_Name (fst a)) @ '':$DATA'') (snd a)"

text \<open>
  The backup stream of a file, from its header, its contents and its alternate data streams; there is none
  if the metadata cannot be decoded.
\<close>

definition backup_stream :: "sddl_converter \<Rightarrow> Header \<Rightarrow> bytes \<Rightarrow> (Header \<times> bytes) list \<Rightarrow> bytes option" where
  "backup_stream sddl h data ads =
     (case (SecurityDescriptorFromTarHeader sddl h, ExtendedAttributesFromTarHeader h) of
        (Inr sd, Inr ea) \<Rightarrow>
          if small sd \<and> small ea \<and> small (EncodeReparsePointFromTarHeader h)
          then Some (opt_stream BackupSecurity sd @ opt_stream BackupEaData ea
            @ (if hdr_Typeflag h = TypeSymlink then stream BackupReparseData [] (EncodeReparsePointFromTarHeader h) else [])
            @ (if hdr_Typeflag h = TypeReg then stream BackupData [] data else [])
            @ concat (map (ads_stream h) ads))
          else None
      | _ \<Rightarrow> None)"

text \<open>A complete entry: reading it ends without an error, and a regular file has the size its header says.\<close>

definition complete :: "tar_entry \<Rightarrow> bool" where
  "complete x = (case x of (h, cs, e) \<Rightarrow>
     e = EOF \<and> small (concat cs) \<and> (hdr_Typeflag h = TypeReg \<longrightarrow> hdr_Size h = of_nat (length (concat cs))))"

definition contents :: "tar_entry \<Rightarrow> Header \<times> bytes" where
  "contents x = (case x of (h, cs, e) \<Rightarrow> (h, concat cs))"

text \<open>The reader after Next has returned the first of the entries \<open>es\<close>, or the end.\<close>

definition advance :: "tar_entry list \<Rightarrow> tar_Reader \<Rightarrow> tar_Reader" where
  "advance es s =
     (case es of
        [] \<Rightarrow> s\<lparr>tr_chunks := [], tr_err := EOF, tr_entries := []\<rparr>
      | (h, cs, e) # es' \<Rightarrow> s\<lparr>tr_chunks := cs, tr_err := e, tr_entries := es'\<rparr>)"

definition next_of :: "tar_entry list \<Rightarrow> tar_Reader \<Rightarrow> Header option \<times> go_error option" where
  "next_of es s = (case es of [] \<Rightarrow> (None, Some (tr_end s)) | x # _ \<Rightarrow> (Some (fst x), None))"

definition ads_of :: "Header \<Rightarrow> tar_entry list \<Rightarrow> tar_entry list" where
  "ads_of h es = takeWhile (\<lambda>x. is_ads h (fst x)) es"

definition after_ads :: "Header \<Rightarrow> tar_entry list \<Rightarrow> tar_entry list" where
  "after_ads h es = dropWhile (\<lambda>x. is_ads h (fst x)) es"

lemma ads_simps [simp]:
  "ads_of h [] = []" "ads_of h (x # es) = (if is_ads h (fst x) then x # ads_of h es else [])"
  "after_ads h [] = []" "after_ads h (x # es) = (if is_ads h (fst x) then after_ads h es else x # es)"
  by (simp_all add: ads_of_def after_ads_def)

section \<open>Writing it\<close>

text \<open>
  The contract of a destination that accepts what it is given: \<open>good\<close> holds of it throughout, and \<open>sink\<close> is
  what it received. The reader is another object, which writing does not touch.
\<close>

locale backup_sink =
  fixes out :: "'w writer" and t :: "('w, tar_Reader) ref" and good :: "'w \<Rightarrow> bool" and sink :: "'w \<Rightarrow> bytes"
  assumes accepts: "good w \<Longrightarrow>
      \<exists>w'. out b w = (Ret (int (length b), None), w') \<and> good w' \<and> sink w' = sink w @ b \<and> ref_get t w' = ref_get t w"
    and get_put: "ref_get t (ref_put t s w) = s"
    and good_put: "good (ref_put t s w) = good w"
    and sink_put: "sink (ref_put t s w) = sink w"
begin

lemmas put_simps = get_put good_put sink_put

text \<open>
  \<open>adds m w x b s\<close>: the program returns \<open>x\<close>, has sent \<open>b\<close> to the sink and left the reader as \<open>s\<close>.
\<close>

definition adds :: "('w, 'a) io \<Rightarrow> 'w \<Rightarrow> 'a \<Rightarrow> bytes \<Rightarrow> tar_Reader \<Rightarrow> bool" where
  "adds m w x b s \<longleftrightarrow> (\<exists>w'. m w = (Ret x, w') \<and> good w' \<and> sink w' = sink w @ b \<and> ref_get t w' = s)"

lemma adds_ret: "good w \<Longrightarrow> adds (go_ret x) w x [] (ref_get t w)"
  by (simp add: adds_def)

lemma adds_bind:
  assumes "adds m w x b s"
    and "\<And>w'. good w' \<Longrightarrow> ref_get t w' = s \<Longrightarrow> adds (f x) w' y b' s'"
  shows "adds (go_bind m f) w y (b @ b') s'"
  using assms unfolding adds_def by fastforce

lemma adds_try:
  assumes "adds m w (Inr x) b s"
    and "\<And>w'. good w' \<Longrightarrow> ref_get t w' = s \<Longrightarrow> adds (k x) w' y b' s'"
  shows "adds (go_try m h k) w y (b @ b') s'"
  unfolding go_try_def by (rule adds_bind [OF assms(1)]) (simp add: assms(2))

lemma adds_out: "good w \<Longrightarrow> adds (out b) w (int (length b), None) b (ref_get t w)"
  using accepts unfolding adds_def by blast

lemma adds_binary: "good w \<Longrightarrow> adds (binary_Write out b) w None b (ref_get t w)"
  using accepts [of w b] by (auto simp: adds_def binary_Write_def)

lemma adds_tryE:
  assumes "adds m w None b s" and "\<And>w'. good w' \<Longrightarrow> ref_get t w' = s \<Longrightarrow> adds k w' y b' s'"
  shows "adds (go_tryE m h k) w y (b @ b') s'"
  unfolding go_tryE_def by (rule adds_bind [OF assms(1)]) (simp add: assms(2))

lemma adds_binary_if: "good w \<Longrightarrow> adds (if c then binary_Write out b else go_ret None) w None (if c then b else []) (ref_get t w)"
  by (simp add: adds_binary adds_ret)

lemma adds_header:
  assumes "good w" and "bh_Id hdr \<noteq> BackupSparseBlock"
  shows "adds (bw_WriteHeader out hdr 0) w (Inr (bh_Size hdr))
           (win32StreamID hdr @ utf16_bytes (utf16_Encode (bh_Name hdr))) (ref_get t w)"
proof -
  let ?name = "utf16_Encode (bh_Name hdr)"
  have name: "(if ?name \<noteq> [] then utf16_bytes ?name else []) = utf16_bytes ?name" by (simp add: utf16_bytes_def)
  have rest: "adds (go_tryE (if ?name \<noteq> [] then binary_Write out (utf16_bytes ?name) else go_ret None) (\<lambda>e. go_ret (Inl e))
      (go_ret (Inr (bh_Size hdr)))) w' (Inr (bh_Size hdr)) (utf16_bytes ?name @ []) (ref_get t w')" if "good w'" for w'
    using adds_tryE [OF adds_binary_if [OF that, of "?name \<noteq> []" "utf16_bytes ?name"]] adds_ret unfolding name by metis
  have "adds (go_tryE (binary_Write out (win32StreamID hdr)) (\<lambda>e. go_ret (Inl e))
      (go_tryE (if ?name \<noteq> [] then binary_Write out (utf16_bytes ?name) else go_ret None) (\<lambda>e. go_ret (Inl e))
      (go_ret (Inr (bh_Size hdr))))) w (Inr (bh_Size hdr)) (win32StreamID hdr @ utf16_bytes ?name @ []) (ref_get t w)"
    using rest by (intro adds_tryE [OF adds_binary [OF assms(1)]]) metis
  moreover have "go_tryE (go_ret None) h k = k" for h and k :: "('w, int64 res) io" by (simp add: go_simps)
  ultimately show ?thesis using assms(2) by (simp add: bw_WriteHeader_def Let_def)
qed

lemma adds_write:
  assumes "good w" and "small b" and "left = of_nat (length b) + rest" and "int (length b) \<le> sint left"
  shows "adds (bw_Write out b left) w ((int (length b), None), rest) b (ref_get t w)"
  using accepts [OF assms(1), of b] assms(3,4)
  by (auto simp: adds_def bw_Write_def)

end

context backup_sink
begin

lemma adds_read:
  assumes "good w" and "ref_get t w = s"
  shows "adds (tar_Read t) w
    (case tr_chunks s of [] \<Rightarrow> ([], Some (tr_err s)) | c # cs \<Rightarrow> (c, None)) [] (s\<lparr>tr_chunks := tl (tr_chunks s)\<rparr>)"
  using assms by (cases "tr_chunks s") (auto simp: adds_def tar_Read_def put_simps ref_read_def ref_modify_def)

lemma adds_copy_loop:
  "good w \<Longrightarrow> ref_get t w = s \<Longrightarrow> tr_err s = EOF \<Longrightarrow> small (concat (tr_chunks s)) \<Longrightarrow>
     left = of_nat (length (concat (tr_chunks s))) \<Longrightarrow> length (tr_chunks s) < fuel \<Longrightarrow>
     adds (copy_loop fuel out t left) w (Inr 0) (concat (tr_chunks s)) (s\<lparr>tr_chunks := []\<rparr>)"
proof (induction fuel arbitrary: w s left)
  case (Suc fuel)
  note read = adds_read [OF Suc.prems(1,2)]
  show ?case
  proof (cases "tr_chunks s")
    case Nil
    have "adds (copy_loop (Suc fuel) out t left) w (Inr 0) ([] @ []) (s\<lparr>tr_chunks := []\<rparr>)"
      unfolding copy_loop.simps
      by (rule adds_bind [OF read]) (use Nil Suc.prems adds_ret in fastforce)
    with Nil show ?thesis by simp
  next
    case (Cons c cs)
    let ?s = "s\<lparr>tr_chunks := cs\<rparr>"
    have sm: "small c" "small (concat cs)" using Suc.prems(4) Cons by (auto simp: small_def)
    have left: "left = of_nat (length c) + of_nat (length (concat cs))"
      "int (length c) \<le> sint left"
      using Suc.prems(4,5) Cons by (auto simp: small_def sint_of_nat_int64 simp flip: of_nat_add)
    have IH: "adds (copy_loop fuel out t (of_nat (length (concat cs)))) w' (Inr 0) (concat cs) (s\<lparr>tr_chunks := []\<rparr>)"
      if "good w'" "ref_get t w' = ?s" for w'
      using Suc.IH [OF that _ _ refl] Suc.prems(3,6) sm Cons by simp
    have "adds (copy_loop (Suc fuel) out t left) w (Inr 0) ([] @ c @ concat cs) (s\<lparr>tr_chunks := []\<rparr>)"
      unfolding copy_loop.simps
    proof (rule adds_bind [OF read])
      fix w'
      assume w': "good w'" "ref_get t w' = s\<lparr>tr_chunks := tl (tr_chunks s)\<rparr>"
      then have r: "ref_get t w' = ?s" using Cons by simp
      show "adds (case case tr_chunks s of [] \<Rightarrow> ([], Some (tr_err s)) | c # cs \<Rightarrow> (c, None) of (b, er) \<Rightarrow>
         let finish = (\<lambda>left. case er of None \<Rightarrow> copy_loop fuel out t left
             | Some e \<Rightarrow> if e = EOF then go_ret (Inr left) else go_ret (Inl e))
         in if b = [] then finish left
          else go_bind (bw_Write out b left) (\<lambda>((nw, ew), left).
              if nw < 0 \<or> int (length b) < nw
              then go_ret (Inl (case ew of Some e \<Rightarrow> e | None \<Rightarrow> errInvalidWrite))
              else case ew of
                Some e \<Rightarrow> go_ret (Inl e)
              | None \<Rightarrow> if nw \<noteq> int (length b) then go_ret (Inl ErrShortWrite) else finish left))
           w' (Inr 0) (c @ concat cs) (s\<lparr>tr_chunks := []\<rparr>)"
      proof (cases "c = []")
        case True
        with IH [OF w'(1) r] Cons left(1) show ?thesis by simp
      next
        case False
        then show ?thesis
          unfolding Cons list.case prod.case Let_def option.case if_not_P [OF False]
          by (intro adds_bind [OF adds_write [OF w'(1) sm(1) left]]) (use IH r in simp)
      qed
    qed
    with Cons show ?thesis by simp
  qed
qed simp

lemma adds_copy:
  assumes "good w" and "ref_get t w = s" and "tr_err s = EOF" and "small (concat (tr_chunks s))"
    and "left = of_nat (length (concat (tr_chunks s)))"
  shows "adds (io_Copy out t left) w (Inr 0) (concat (tr_chunks s)) (s\<lparr>tr_chunks := []\<rparr>)"
  using adds_copy_loop [OF assms, of "Suc (length (tr_chunks s))"] assms(2)
  by (simp add: io_Copy_def ref_read_def adds_def)

lemma adds_stream:
  assumes "good w" and "small data" and "sid \<noteq> BackupSparseBlock"
  shows "adds (write_stream out sid data 0) w (Inr 0) (stream sid [] data) (ref_get t w)"
proof -
  have "int (length data) \<le> sint (of_nat (length data) :: int64)"
    using assms(2) by (simp add: small_def sint_of_nat_int64)
  note wr = adds_write [OF _ assms(2), of _ "of_nat (length data)" 0, simplified, OF _ this]
  have "adds (write_stream out sid data 0) w (Inr 0)
      ((win32StreamID \<lparr>bh_Id = sid, bh_Attributes = 0, bh_Size = of_nat (length data), bh_Name = [], bh_Offset = 0\<rparr> @ utf16_bytes (utf16_Encode [])) @ data @ []) (ref_get t w)"
    unfolding write_stream_def
    apply (rule adds_try)
     apply (use assms(3) adds_header [OF assms(1), of "\<lparr>bh_Id = sid, bh_Attributes = 0, bh_Size = of_nat (length data), bh_Name = [], bh_Offset = 0\<rparr>"] in simp)
    apply (rule adds_bind [OF wr])
     apply assumption
    apply (use adds_ret in force)
    done
  then show ?thesis by (simp add: stream_def)
qed

lemma adds_next:
  assumes "good w" and "ref_get t w = s" and "tr_err s = EOF"
  shows "adds (tar_Next t) w (next_of (tr_entries s) s) [] (advance (tr_entries s) s)"
  using assms
  by (cases "tr_entries s")
     (auto simp: adds_def tar_Next_def next_of_def advance_def put_simps ref_read_def ref_modify_def)

end

context backup_sink
begin

lemma adds_ads_entry:
  assumes "good w" and "ref_get t w = s" and "complete (a, tr_chunks s, tr_err s)" and "is_ads h a"
    and "\<And>w'. good w' \<Longrightarrow> ref_get t w' = s\<lparr>tr_chunks := []\<rparr> \<Longrightarrow> adds (k 0) w' y b s'"
  shows "adds (go_try (bw_WriteHeader out \<lparr>bh_Id = BackupAlternateData, bh_Attributes = 0, bh_Size = hdr_Size a,
                       bh_Name = drop (length (hdr_Name h)) (hdr_Name a) @ '':$DATA'', bh_Offset = 0\<rparr> 0)
             f (\<lambda>left. go_try (io_Copy out t left) g k)) w y (ads_stream h (a, concat (tr_chunks s)) @ b) s'"
proof -
  let ?bh = "\<lparr>bh_Id = BackupAlternateData, bh_Attributes = 0, bh_Size = hdr_Size a,
              bh_Name = drop (length (hdr_Name h)) (hdr_Name a) @ '':$DATA'', bh_Offset = 0\<rparr>"
  have c: "tr_err s = EOF" "small (concat (tr_chunks s))" "hdr_Size a = of_nat (length (concat (tr_chunks s)))"
    using assms(3,4) by (auto simp: complete_def is_ads_def)
  have "adds (go_try (bw_WriteHeader out ?bh 0) f (\<lambda>left. go_try (io_Copy out t left) g k)) w y
     ((win32StreamID ?bh @ utf16_bytes (utf16_Encode (bh_Name ?bh))) @ (concat (tr_chunks s) @ b)) s'"
    apply (rule adds_try [OF adds_header [OF assms(1)]])
     apply simp
    apply (rule adds_try [OF adds_copy])
         apply (use assms c in simp_all)
    done
  then show ?thesis using c(3) by (simp add: ads_stream_def stream_def)
qed

lemma adds_ads_loop:
  "good w \<Longrightarrow> ref_get t w = s \<Longrightarrow> tr_err s = EOF \<Longrightarrow> list_all complete (ads_of h (tr_entries s)) \<Longrightarrow>
     length (tr_entries s) < fuel \<Longrightarrow>
     adds (ads_loop fuel out t h 0) w (next_of (after_ads h (tr_entries s)) s)
       (concat (map (\<lambda>a. ads_stream h (contents a)) (ads_of h (tr_entries s))))
       (advance (after_ads h (tr_entries s)) s)"
proof (induction fuel arbitrary: w s)
  case (Suc fuel)
  note nxt = adds_next [OF Suc.prems(1,2,3)]
  show ?case
  proof (cases "tr_entries s")
    case Nil
    have "adds (ads_loop (Suc fuel) out t h 0) w (None, Some (tr_end s)) ([] @ []) (advance [] s)"
      unfolding ads_loop.simps
      by (rule adds_bind [OF nxt]) (use Nil adds_ret in \<open>force simp: next_of_def\<close>)
    with Nil show ?thesis by (simp add: next_of_def)
  next
    case (Cons x es)
    obtain a cs e where x: "x = (a, cs, e)" by (cases x)
    let ?s1 = "s\<lparr>tr_chunks := cs, tr_err := e, tr_entries := es\<rparr>"
    have adv: "advance (tr_entries s) s = ?s1" "next_of (tr_entries s) s = (Some a, None)"
      using Cons x by (simp_all add: advance_def next_of_def)
    show ?thesis
    proof (cases "is_ads h a")
      case False
      have "adds (ads_loop (Suc fuel) out t h 0) w (Some a, None) ([] @ []) ?s1"
        unfolding ads_loop.simps
        by (rule adds_bind [OF nxt]) (use adv False adds_ret in force)
      with False Cons x adv show ?thesis by simp
    next
      case True
      then have comp: "complete (a, cs, e)" "list_all complete (ads_of h es)"
        using Suc.prems(4) Cons x by auto
      then have e: "e = EOF" by (simp add: complete_def)
      let ?s2 = "?s1\<lparr>tr_chunks := []\<rparr>"
      have IH: "adds (ads_loop fuel out t h 0) w' (next_of (after_ads h es) s)
          (concat (map (\<lambda>a. ads_stream h (contents a)) (ads_of h es))) (advance (after_ads h es) s)"
        if "good w'" "ref_get t w' = ?s2" for w'
        using Suc.IH [OF that] comp e Suc.prems(5) Cons
        by (auto simp: next_of_def advance_def split: list.splits prod.splits)
      have "adds (ads_loop (Suc fuel) out t h 0) w (next_of (after_ads h es) s)
        ([] @ ads_stream h (a, concat cs) @ concat (map (\<lambda>a. ads_stream h (contents a)) (ads_of h es)))
        (advance (after_ads h es) s)"
        unfolding ads_loop.simps
      proof (rule adds_bind [OF nxt])
        fix w'
        assume w': "good w'" "ref_get t w' = advance (tr_entries s) s"
        then have r: "ref_get t w' = ?s1" using adv by simp
        have ok: "complete (a, tr_chunks ?s1, tr_err ?s1)" using comp by simp
        have "adds (go_try (bw_WriteHeader out \<lparr>bh_Id = BackupAlternateData, bh_Attributes = 0, bh_Size = hdr_Size a,
                       bh_Name = drop (length (hdr_Name h)) (hdr_Name a) @ '':$DATA'', bh_Offset = 0\<rparr> 0)
             (\<lambda>e. go_ret (None, Some e)) (\<lambda>left. go_try (io_Copy out t left) (\<lambda>e. go_ret (None, Some e))
               (\<lambda>left'. ads_loop fuel out t h left'))) w' (next_of (after_ads h es) s)
           (ads_stream h (a, concat (tr_chunks ?s1)) @ concat (map (\<lambda>a. ads_stream h (contents a)) (ads_of h es)))
           (advance (after_ads h es) s)"
          by (rule adds_ads_entry [OF w'(1) r ok True]) (use IH in simp)
        then show "adds (case next_of (tr_entries s) s of (ahdr, err) \<Rightarrow>
           case (ahdr, err) of
             (_, Some e) \<Rightarrow> go_ret (None, Some e)
           | (None, None) \<Rightarrow> go_panic NilDereference
           | (Some a, None) \<Rightarrow>
               if \<not> is_ads h a then go_ret (Some a, None)
               else go_try (bw_WriteHeader out \<lparr>bh_Id = BackupAlternateData, bh_Attributes = 0, bh_Size = hdr_Size a,
                         bh_Name = drop (length (hdr_Name h)) (hdr_Name a) @ '':$DATA'', bh_Offset = 0\<rparr> 0)
                   (\<lambda>e. go_ret (None, Some e)) (\<lambda>left. go_try (io_Copy out t left) (\<lambda>e. go_ret (None, Some e))
                   (\<lambda>left'. ads_loop fuel out t h left'))) w' (next_of (after_ads h es) s)
           (ads_stream h (a, concat cs) @ concat (map (\<lambda>a. ads_stream h (contents a)) (ads_of h es)))
           (advance (after_ads h es) s)"
          using adv True by simp
      qed
      with True Cons x show ?thesis by (simp add: contents_def)
    qed
  qed
qed simp

lemma adds_opt_stream:
  assumes "good w" and "small data" and "sid \<noteq> BackupSparseBlock"
  shows "adds (if data \<noteq> [] then write_stream out sid data 0 else go_ret (Inr 0)) w (Inr 0)
     (opt_stream sid data) (ref_get t w)"
  using assms by (auto simp: opt_stream_def intro: adds_stream adds_ret)

lemma adds_data:
  assumes "good w" and "ref_get t w = s" and "complete (h, tr_chunks s, tr_err s)"
  shows "adds (if hdr_Typeflag h = TypeReg
      then go_try (bw_WriteHeader out \<lparr>bh_Id = BackupData, bh_Attributes = 0, bh_Size = hdr_Size h, bh_Name = [], bh_Offset = 0\<rparr> 0)
             (\<lambda>e. go_ret (Inl e)) (io_Copy out t)
      else go_ret (Inr 0)) w (Inr 0)
    (if hdr_Typeflag h = TypeReg then stream BackupData [] (concat (tr_chunks s)) else [])
    (if hdr_Typeflag h = TypeReg then s\<lparr>tr_chunks := []\<rparr> else s)"
proof (cases "hdr_Typeflag h = TypeReg")
  case True
  let ?bh = "\<lparr>bh_Id = BackupData, bh_Attributes = 0, bh_Size = hdr_Size h, bh_Name = [], bh_Offset = 0\<rparr>"
  have c: "tr_err s = EOF" "small (concat (tr_chunks s))" "hdr_Size h = of_nat (length (concat (tr_chunks s)))"
    using assms(3) True by (auto simp: complete_def)
  have "adds (go_try (bw_WriteHeader out ?bh 0) (\<lambda>e. go_ret (Inl e)) (io_Copy out t)) w (Inr 0)
     ((win32StreamID ?bh @ utf16_bytes (utf16_Encode (bh_Name ?bh))) @ concat (tr_chunks s)) (s\<lparr>tr_chunks := []\<rparr>)"
    by (rule adds_try [OF adds_header [OF assms(1)]], simp, rule adds_copy) (use assms c in simp_all)
  with True c(3) show ?thesis by (simp add: stream_def)
qed (use assms adds_ret in auto)

lemma adds_backup_stream:
  assumes "good w" and "ref_get t w = s" and "complete (h, tr_chunks s, tr_err s)"
    and "list_all complete (ads_of h (tr_entries s))"
    and "backup_stream sddl h (concat (tr_chunks s)) (map contents (ads_of h (tr_entries s))) = Some bs"
  shows "adds (WriteBackupStreamFromTarFile sddl out t h) w (next_of (after_ads h (tr_entries s)) s) bs
     (advance (after_ads h (tr_entries s)) s)"
proof -
  obtain sd ea where sd: "SecurityDescriptorFromTarHeader sddl h = Inr sd" "ExtendedAttributesFromTarHeader h = Inr ea"
    "small sd" "small ea" "small (EncodeReparsePointFromTarHeader h)"
    and bs: "bs = opt_stream BackupSecurity sd @ (opt_stream BackupEaData ea
            @ ((if hdr_Typeflag h = TypeSymlink then stream BackupReparseData [] (EncodeReparsePointFromTarHeader h) else [])
            @ ((if hdr_Typeflag h = TypeReg then stream BackupData [] (concat (tr_chunks s)) else [])
            @ concat (map (\<lambda>a. ads_stream h (contents a)) (ads_of h (tr_entries s))))))"
    using assms(5) by (auto simp: backup_stream_def comp_def split: sum.splits if_splits)
  let ?s1 = "if hdr_Typeflag h = TypeReg then s\<lparr>tr_chunks := []\<rparr> else s"
  have err: "tr_err ?s1 = EOF" "tr_entries ?s1 = tr_entries s" using assms(3) by (auto simp: complete_def)
  have fin: "next_of es ?s1 = next_of es s" "advance es ?s1 = advance es s" for es
    by (auto simp: next_of_def advance_def split: list.splits)
  have loop: "adds (go_bind (ref_read t) (\<lambda>s. ads_loop (Suc (length (tr_entries s))) out t h 0)) w'
      (next_of (after_ads h (tr_entries s)) s) (concat (map (\<lambda>a. ads_stream h (contents a)) (ads_of h (tr_entries s))))
      (advance (after_ads h (tr_entries s)) s)" if "good w'" "ref_get t w' = ?s1" for w'
    using adds_ads_loop [OF that err(1), of h "Suc (length (tr_entries s))"] that err(2) assms(4) fin
    by (simp add: ref_read_def adds_def del: ads_loop.simps)
  have rp: "adds (if hdr_Typeflag h = TypeSymlink
         then write_stream out BackupReparseData (EncodeReparsePointFromTarHeader h) 0 else go_ret (Inr 0)) w' (Inr 0)
      (if hdr_Typeflag h = TypeSymlink then stream BackupReparseData [] (EncodeReparsePointFromTarHeader h) else [])
      (ref_get t w')" if "good w'" for w'
    using that sd(5) adds_stream [OF that sd(5) not_sparse(5)] by (auto intro: adds_ret)
  show ?thesis
    unfolding WriteBackupStreamFromTarFile_def sd sum.case bs
    apply (rule adds_try [OF adds_opt_stream [OF assms(1) sd(3) not_sparse(3)]])
    apply (rule adds_try [OF adds_opt_stream [OF _ sd(4) not_sparse(2)]], assumption)
    apply (rule adds_try [OF rp], assumption)
    apply (rule adds_try [OF adds_data [OF _ _ assms(3)]], assumption)
     apply (use assms(2) loop in simp_all)
    done
qed

end

end
