(* ===== verification/Tarstream.thy ===== *)
theory Tarstream
  imports Driver Backup_Stream
begin

text \<open>
  The tar streamer, src/tarstream/tarstream.go: the implementation of the driver's \<open>TarStreamer\<close>. It
  owns a tar reader and a buffered writer; a file is written through the buffer to the layer
  writer, and for the four boot files of the utility VM to a backup file in the layer directory too.
  Modelled with it is what it uses of package bufio and \<^verbatim>\<open>io.MultiWriter\<close>. Creating the backup file and
  go-winio's \<open>BackupFileWriter\<close>, which call Windows, are the parameter \<open>backup_file_api\<close>; how an
  \<^verbatim>\<open>io.Reader\<close> is read as a tar archive is the parameter \<open>tar_of\<close>.
\<close>

section \<open>Buffered writers\<close>

text \<open>The bytes in the buffer and the error that sticks to the writer. The destination is passed to each call.\<close>

record bufio =
  bb_buf :: bytes
  bb_err :: "go_error option"

definition bufio_size :: nat where
  "bufio_size = 4096"

definition bufio_Reset :: "('w, bufio) ref \<Rightarrow> ('w, unit) io" where
  "bufio_Reset b = ref_modify b (\<lambda>_. \<lparr>bb_buf = [], bb_err = None\<rparr>)"

definition bufio_Flush :: "'w writer \<Rightarrow> ('w, bufio) ref \<Rightarrow> ('w, go_error option) io" where
  "bufio_Flush wr b = go_bind (ref_read b) (\<lambda>st.
     case bb_err st of
       Some e \<Rightarrow> go_ret (Some e)
     | None \<Rightarrow>
         if bb_buf st = [] then go_ret None
         else go_bind (wr (bb_buf st)) (\<lambda>(n, err).
           case (if n < int (length (bb_buf st)) \<and> err = None then Some ErrShortWrite else err) of
             Some e \<Rightarrow> go_bind (ref_modify b (\<lambda>s. \<lparr>bb_buf = drop (nat n) (bb_buf s), bb_err = Some e\<rparr>)) (\<lambda>_. go_ret (Some e))
           | None \<Rightarrow> go_bind (ref_modify b (\<lambda>s. s\<lparr>bb_buf := []\<rparr>)) (\<lambda>_. go_ret None)))"

text \<open>
  The loop of Write. A turn either hands a large write to the destination directly or fills the
  buffer and flushes it; with a destination that reports short writes as errors there are at most
  two turns, and with one that takes at least one byte each time at most \<open>length p + 2\<close>.
\<close>

fun bufio_write_loop :: "nat \<Rightarrow> 'w writer \<Rightarrow> ('w, bufio) ref \<Rightarrow> bytes \<Rightarrow> int \<Rightarrow> ('w, int \<times> go_error option) io" where
  "bufio_write_loop 0 wr b p nn = go_diverge"
| "bufio_write_loop (Suc fuel) wr b p nn = go_bind (ref_read b) (\<lambda>st.
     if length p > bufio_size - length (bb_buf st) \<and> bb_err st = None then
       if bb_buf st = [] then
         go_bind (wr p) (\<lambda>(n, err).
         go_bind (ref_modify b (\<lambda>s. s\<lparr>bb_err := err\<rparr>)) (\<lambda>_.
         if n < 0 \<or> int (length p) < n then go_panic SliceBounds
         else bufio_write_loop fuel wr b (drop (nat n) p) (nn + n)))
       else
         let n = bufio_size - length (bb_buf st) in
         go_bind (ref_modify b (\<lambda>s. s\<lparr>bb_buf := bb_buf s @ take n p\<rparr>)) (\<lambda>_.
         go_bind (bufio_Flush wr b) (\<lambda>_.
         bufio_write_loop fuel wr b (drop n p) (nn + int n)))
     else
       case bb_err st of
         Some e \<Rightarrow> go_ret (nn, Some e)
       | None \<Rightarrow> go_bind (ref_modify b (\<lambda>s. s\<lparr>bb_buf := bb_buf s @ p\<rparr>)) (\<lambda>_. go_ret (nn + int (length p), None)))"

definition bufio_Write :: "'w writer \<Rightarrow> ('w, bufio) ref \<Rightarrow> 'w writer" where
  "bufio_Write wr b p = bufio_write_loop (length p + 3) wr b p 0"

fun MultiWriter :: "'w writer list \<Rightarrow> 'w writer" where
  "MultiWriter [] p = go_ret (int (length p), None)"
| "MultiWriter (wr # ws) p = go_bind (wr p) (\<lambda>(n, err).
     case err of
       Some e \<Rightarrow> go_ret (n, Some e)
     | None \<Rightarrow> if n \<noteq> int (length p) then go_ret (n, Some ErrShortWrite) else MultiWriter ws p)"

section \<open>The streamer\<close>

record Streamer =
  st_r :: tar_Reader
  st_buf :: bufio

definition reader_of :: "('w, Streamer) ref \<Rightarrow> ('w, tar_Reader) ref" where
  "reader_of s = \<lparr>ref_get = (\<lambda>w. st_r (ref_get s w)), ref_put = (\<lambda>r w. ref_put s (ref_get s w\<lparr>st_r := r\<rparr>) w)\<rparr>"

definition buffer_of :: "('w, Streamer) ref \<Rightarrow> ('w, bufio) ref" where
  "buffer_of s = \<lparr>ref_get = (\<lambda>w. st_buf (ref_get s w)), ref_put = (\<lambda>b w. ref_put s (ref_get s w\<lparr>st_buf := b\<rparr>) w)\<rparr>"

definition empty_tar :: tar_Reader where
  "empty_tar = \<lparr>tr_chunks = [], tr_err = EOF, tr_entries = [], tr_end = EOF\<rparr>"

definition Streamer_New :: Streamer where
  "Streamer_New = \<lparr>st_r = empty_tar, st_buf = \<lparr>bb_buf = [], bb_err = None\<rparr>\<rparr>"

definition boot_dir :: string where
  "boot_dir = ''UtilityVM/Files/EFI/Microsoft/Boot/''"

definition mutatedFiles :: "(string \<times> string) list" where
  "mutatedFiles =
     [(boot_dir @ ''BCD'', ''bcd.bak''), (boot_dir @ ''BCD.LOG'', ''bcd.log.bak''),
      (boot_dir @ ''BCD.LOG1'', ''bcd.log1.bak''), (boot_dir @ ''BCD.LOG2'', ''bcd.log2.bak'')]"

record ('w, 'f, 'b) backup_file_api =
  bf_Create :: "string \<Rightarrow> ('w, 'f res) io"
  bf_Close :: "'f \<Rightarrow> ('w, go_error option) io"
  bf_NewBackupFileWriter :: "'f \<Rightarrow> ('w, 'b) io"
  bf_Write :: "'b \<Rightarrow> 'w writer"
  bf_CloseWriter :: "'b \<Rightarrow> ('w, go_error option) io"

definition SetReader :: "('r \<Rightarrow> tar_Reader) \<Rightarrow> ('w, Streamer) ref \<Rightarrow> 'r option \<Rightarrow> ('w, unit) io" where
  "SetReader tar_of s r =
     ref_modify s (\<lambda>st. st\<lparr>st_r := (case r of Some x \<Rightarrow> tar_of x | None \<Rightarrow> empty_tar)\<rparr>)"

definition Streamer_Next :: "('w, Streamer) ref \<Rightarrow> ('w, Header option \<times> go_error option) io" where
  "Streamer_Next s = tar_Next (reader_of s)"

definition Streamer_FileInfoFromHeader :: "Header \<Rightarrow> ('w, (string \<times> int64 \<times> FileBasicInfo option) res) io" where
  "Streamer_FileInfoFromHeader hdr = go_ret (FileInfoFromHeader hdr)"

text \<open>The deferred flush overrides the error; the deferred closes set it only if it is nil.\<close>

definition flushing :: "('w, Streamer) ref \<Rightarrow> 'w writer \<Rightarrow> ('w, Header option \<times> go_error option) io \<Rightarrow>
    ('w, Header option \<times> go_error option) io" where
  "flushing s wr m = go_defer_result (bufio_Flush wr (buffer_of s)) (\<lambda>ferr (h, err). (h, if ferr \<noteq> None then ferr else err)) m"

definition closing :: "('w, go_error option) io \<Rightarrow> ('w, Header option \<times> go_error option) io \<Rightarrow>
    ('w, Header option \<times> go_error option) io" where
  "closing c m = go_defer_result c (\<lambda>cerr (h, err). (h, if err = None then cerr else err)) m"

definition stream_to :: "sddl_converter \<Rightarrow> ('w, Streamer) ref \<Rightarrow> 'w writer \<Rightarrow> Header \<Rightarrow>
    ('w, Header option \<times> go_error option) io" where
  "stream_to sddl s wr hdr =
     go_bind (bufio_Reset (buffer_of s)) (\<lambda>_.
     flushing s wr (WriteBackupStreamFromTarFile sddl (bufio_Write wr (buffer_of s)) (reader_of s) hdr))"

definition Streamer_WriteBackupStreamFromTarFile ::
    "sddl_converter \<Rightarrow> ('w, 'f, 'b) backup_file_api \<Rightarrow> ('w, Streamer) ref \<Rightarrow> 'w LayerWriter \<Rightarrow> Header \<Rightarrow> string \<Rightarrow>
     ('w, Header option \<times> go_error option) io" where
  "Streamer_WriteBackupStreamFromTarFile sddl api s lw hdr layer_path =
     (case map_of mutatedFiles (hdr_Name hdr) of
        Some backupPath \<Rightarrow>
          go_try (bf_Create api (Join [layer_path, backupPath])) (\<lambda>e. go_ret (None, Some e)) (\<lambda>backupFile.
          closing (bf_Close api backupFile)
            (go_bind (bf_NewBackupFileWriter api backupFile) (\<lambda>backupWriter.
             closing (bf_CloseWriter api backupWriter)
               (stream_to sddl s (MultiWriter [lw_Write lw, bf_Write api backupWriter]) hdr))))
      | None \<Rightarrow> stream_to sddl s (lw_Write lw) hdr)"

definition Streamer_Impl :: "('r \<Rightarrow> tar_Reader) \<Rightarrow> sddl_converter \<Rightarrow> ('w, 'f, 'b) backup_file_api \<Rightarrow> ('w, Streamer) ref \<Rightarrow>
    ('w, 'r) TarStreamer" where
  "Streamer_Impl tar_of sddl api s =
     \<lparr>ts_SetReader = SetReader tar_of s, ts_Next = Streamer_Next s,
      ts_FileInfoFromHeader = Streamer_FileInfoFromHeader,
      ts_WriteBackupStreamFromTarFile = Streamer_WriteBackupStreamFromTarFile sddl api s\<rparr>"

section \<open>Buffering is transparent\<close>

text \<open>
  The contract of the destination of a streamer: while it is \<open>ok\<close> it accepts every write, \<open>dest\<close> is what it
  received, and writing to it does not touch the streamer.
\<close>

locale streamer_sink =
  fixes wr :: "'w writer" and s :: "('w, Streamer) ref" and ok :: "'w \<Rightarrow> bool" and dest :: "'w \<Rightarrow> bytes"
  assumes wr_accepts: "ok w \<Longrightarrow>
      \<exists>w'. wr b w = (Ret (int (length b), None), w') \<and> ok w' \<and> dest w' = dest w @ b \<and> ref_get s w' = ref_get s w"
    and s_get_put: "ref_get s (ref_put s x w) = x"
    and ok_put: "ok (ref_put s x w) = ok w"
    and dest_put: "dest (ref_put s x w) = dest w"

definition buffered :: "('w, Streamer) ref \<Rightarrow> 'w \<Rightarrow> bytes" where
  "buffered s w = bb_buf (st_buf (ref_get s w))"

definition buffering :: "('w \<Rightarrow> bool) \<Rightarrow> ('w, Streamer) ref \<Rightarrow> 'w \<Rightarrow> bool" where
  "buffering ok s w \<longleftrightarrow> ok w \<and> bb_err (st_buf (ref_get s w)) = None \<and> length (buffered s w) \<le> bufio_size"

context streamer_sink
begin

lemmas s_simps = s_get_put ok_put dest_put reader_of_def buffer_of_def ref_read_def ref_modify_def

lemma flush_buffer:
  assumes "buffering ok s w"
  shows "\<exists>w'. bufio_Flush wr (buffer_of s) w = (Ret None, w') \<and> ok w' \<and> dest w' = dest w @ buffered s w
     \<and> ref_get s w' = (ref_get s w)\<lparr>st_buf := \<lparr>bb_buf = [], bb_err = None\<rparr>\<rparr>"
proof (cases "buffered s w = []")
  case True
  with assms show ?thesis
    by (cases "st_buf (ref_get s w)") (auto simp: bufio_Flush_def buffering_def buffered_def s_simps)
next
  case False
  obtain w1 where "wr (buffered s w) w = (Ret (int (length (buffered s w)), None), w1)"
    "ok w1" "dest w1 = dest w @ buffered s w" "ref_get s w1 = ref_get s w"
    using wr_accepts assms unfolding buffering_def by blast
  with False assms show ?thesis
    by (auto simp: bufio_Flush_def buffering_def buffered_def s_simps)
qed

text \<open>What one call of Write amounts to.\<close>

definition wrote :: "bytes \<Rightarrow> 'w \<Rightarrow> 'w \<Rightarrow> bool" where
  "wrote p w w' \<longleftrightarrow> buffering ok s w' \<and> dest w' @ buffered s w' = dest w @ buffered s w @ p
     \<and> st_r (ref_get s w') = st_r (ref_get s w)"

lemma write_fits:
  assumes "buffering ok s w" and "length p \<le> bufio_size - length (buffered s w)"
  shows "\<exists>w'. bufio_write_loop (Suc k) wr (buffer_of s) p nn w = (Ret (nn + int (length p), None), w') \<and> wrote p w w'"
  using assms by (auto simp: wrote_def buffering_def buffered_def s_simps)

lemma write_direct:
  assumes "buffering ok s w" and "buffered s w = []" and "bufio_size < length p"
  shows "\<exists>w'. bufio_write_loop (Suc (Suc k)) wr (buffer_of s) p nn w = (Ret (nn + int (length p), None), w') \<and> wrote p w w'"
proof -
  obtain w1 where w1: "wr p w = (Ret (int (length p), None), w1)"
    "ok w1" "dest w1 = dest w @ p" "ref_get s w1 = ref_get s w"
    using wr_accepts assms(1) unfolding buffering_def by blast
  define w2 where "w2 = ref_put s (ref_get s w1\<lparr>st_buf := st_buf (ref_get s w1)\<lparr>bb_err := None\<rparr>\<rparr>) w1"
  have w2: "buffering ok s w2" "buffered s w2 = []" "dest w2 = dest w @ p" "st_r (ref_get s w2) = st_r (ref_get s w)"
    using assms w1 by (auto simp: w2_def buffering_def buffered_def s_simps)
  have "bufio_write_loop (Suc (Suc k)) wr (buffer_of s) p nn w
      = bufio_write_loop (Suc k) wr (buffer_of s) [] (nn + int (length p)) w2"
    using assms w1
    by (subst bufio_write_loop.simps) (simp add: w2_def buffering_def buffered_def s_simps del: bufio_write_loop.simps)
  with write_fits [OF w2(1), of "[]" k "nn + int (length p)"] w2 assms(2) show ?thesis
    by (auto simp: wrote_def)
qed

lemma write_loop:
  assumes "buffering ok s w"
  shows "\<exists>w'. bufio_write_loop (Suc (Suc (Suc k))) wr (buffer_of s) p nn w = (Ret (nn + int (length p), None), w') \<and> wrote p w w'"
proof (cases "length p \<le> bufio_size - length (buffered s w)")
  case False
  show ?thesis
  proof (cases "buffered s w = []")
    case True
    with False assms write_direct show ?thesis by simp
  next
    case nonempty: False
    let ?n = "bufio_size - length (buffered s w)"
    define w1 where "w1 = ref_put s (ref_get s w\<lparr>st_buf := st_buf (ref_get s w)\<lparr>bb_buf := buffered s w @ take ?n p\<rparr>\<rparr>) w"
    have w1: "buffering ok s w1" "buffered s w1 = buffered s w @ take ?n p" "dest w1 = dest w"
      "st_r (ref_get s w1) = st_r (ref_get s w)"
      using assms by (auto simp: w1_def buffering_def buffered_def s_simps)
    obtain w2 where fl: "bufio_Flush wr (buffer_of s) w1 = (Ret None, w2)" "ok w2" "dest w2 = dest w1 @ buffered s w1"
      "ref_get s w2 = (ref_get s w1)\<lparr>st_buf := \<lparr>bb_buf = [], bb_err = None\<rparr>\<rparr>"
      using flush_buffer [OF w1(1)] by blast
    then have w2: "buffering ok s w2" "buffered s w2 = []" "st_r (ref_get s w2) = st_r (ref_get s w)"
      using w1 by (auto simp: buffering_def buffered_def)
    have step: "bufio_write_loop (Suc (Suc (Suc k))) wr (buffer_of s) p nn w
        = bufio_write_loop (Suc (Suc k)) wr (buffer_of s) (drop ?n p) (nn + int ?n) w2"
      using False nonempty assms fl(1)
      by (subst bufio_write_loop.simps)
         (simp add: w1_def buffering_def buffered_def s_simps Let_def del: bufio_write_loop.simps)
    have "\<exists>w'. bufio_write_loop (Suc (Suc k)) wr (buffer_of s) (drop ?n p) (nn + int ?n) w2
        = (Ret (nn + int ?n + int (length (drop ?n p)), None), w') \<and> wrote (drop ?n p) w2 w'"
      using write_fits [OF w2(1), of "drop ?n p" "Suc k" "nn + int ?n"]
        write_direct [OF w2(1,2), of "drop ?n p" k "nn + int ?n"] w2(2) by fastforce
    moreover have "wrote p w w'" if "wrote (drop ?n p) w2 w'" for w'
      using that w1 w2 fl by (simp add: wrote_def)
    moreover have "nn + int ?n + int (length (drop ?n p)) = nn + int (length p)"
      using False by simp
    ultimately show ?thesis using step by auto
  qed
qed (use assms write_fits in blast)

end

sublocale streamer_sink \<subseteq>
  backup_sink "bufio_Write wr (buffer_of s)" "reader_of s" "buffering ok s" "\<lambda>w. dest w @ buffered s w"
proof
  fix w b
  assume "buffering ok s w"
  from write_loop [OF this, of "length b" b 0]
  show "\<exists>w'. bufio_Write wr (buffer_of s) b w = (Ret (int (length b), None), w') \<and> buffering ok s w' \<and>
      dest w' @ buffered s w' = (dest w @ buffered s w) @ b \<and> ref_get (reader_of s) w' = ref_get (reader_of s) w"
    by (auto simp: bufio_Write_def wrote_def reader_of_def numeral_3_eq_3 simp del: bufio_write_loop.simps)
qed (auto simp: reader_of_def buffering_def buffered_def s_get_put ok_put dest_put)

context streamer_sink
begin

lemma stream_to_accepted:
  assumes "ok w" and r: "st_r (ref_get s w) = r" and "complete (h, tr_chunks r, tr_err r)"
    and "list_all complete (ads_of h (tr_entries r))"
    and "backup_stream sddl h (concat (tr_chunks r)) (map contents (ads_of h (tr_entries r))) = Some bs"
  shows "\<exists>w'. stream_to sddl s wr h w = (Ret (next_of (after_ads h (tr_entries r)) r), w') \<and> ok w'
     \<and> dest w' = dest w @ bs \<and> st_r (ref_get s w') = advance (after_ads h (tr_entries r)) r"
proof -
  define w0 where "w0 = ref_put s (ref_get s w\<lparr>st_buf := \<lparr>bb_buf = [], bb_err = None\<rparr>\<rparr>) w"
  have w0: "buffering ok s w0" "buffered s w0 = []" "dest w0 = dest w" "ref_get (reader_of s) w0 = r"
    using assms(1) r by (auto simp: w0_def buffering_def buffered_def s_simps)
  obtain w1 where run: "WriteBackupStreamFromTarFile sddl (bufio_Write wr (buffer_of s)) (reader_of s) h w0
        = (Ret (next_of (after_ads h (tr_entries r)) r), w1)"
    and w1: "buffering ok s w1" "dest w1 @ buffered s w1 = dest w @ bs"
      "ref_get (reader_of s) w1 = advance (after_ads h (tr_entries r)) r"
    using adds_backup_stream [OF w0(1,4) assms(3,4,5)] w0(2,3) by (auto simp: adds_def)
  obtain w2 where fl: "bufio_Flush wr (buffer_of s) w1 = (Ret None, w2)" "ok w2" "dest w2 = dest w1 @ buffered s w1"
    "ref_get s w2 = (ref_get s w1)\<lparr>st_buf := \<lparr>bb_buf = [], bb_err = None\<rparr>\<rparr>"
    using flush_buffer [OF w1(1)] by blast
  have reset: "bufio_Reset (buffer_of s) w = (Ret (), w0)"
    by (simp add: bufio_Reset_def w0_def s_simps)
  have "stream_to sddl s wr h w = (Ret (next_of (after_ads h (tr_entries r)) r), w2)"
    using reset run fl(1)
    by (simp add: stream_to_def flushing_def go_defer_result_def split: prod.splits)
  moreover have "dest w2 = dest w @ bs" "st_r (ref_get s w2) = advance (after_ads h (tr_entries r)) r"
    using fl w1 by (simp_all add: reader_of_def)
  ultimately show ?thesis using fl(2) by blast
qed

end

section \<open>Backups of the boot files\<close>

text \<open>
  The contract of the backup files, beside a destination for the layer. A go-winio \<open>BackupFileWriter\<close> restores its file from the backup stream that is
  written to it (\<^verbatim>\<open>BackupWrite\<close>); \<open>restored w p\<close> is that stream for the file at the path \<open>p\<close>, as far as it was written. A new file has
  none yet, a write continues it, and neither writer disturbs the other or the streamer. What the file then holds is up to Windows.
\<close>

locale boot_backup = streamer_sink "lw_Write lw" s ok dest
  for lw :: "'w LayerWriter" and s :: "('w, Streamer) ref" and ok :: "'w \<Rightarrow> bool" and dest :: "'w \<Rightarrow> bytes" +
  fixes api :: "('w, 'f, 'b) backup_file_api" and restored :: "'w \<Rightarrow> string \<Rightarrow> bytes"
    and fpath :: "'f \<Rightarrow> string" and bpath :: "'b \<Rightarrow> string"
  assumes create: "ok w \<Longrightarrow> \<exists>f w'. bf_Create api p w = (Ret (Inr f), w') \<and> fpath f = p \<and> ok w' \<and> dest w' = dest w
      \<and> restored w' p = [] \<and> ref_get s w' = ref_get s w"
    and new_writer: "ok w \<Longrightarrow> \<exists>b w'. bf_NewBackupFileWriter api f w = (Ret b, w') \<and> bpath b = fpath f \<and> ok w'
      \<and> dest w' = dest w \<and> restored w' = restored w \<and> ref_get s w' = ref_get s w"
    and backup_write: "ok w \<Longrightarrow> \<exists>w'. bf_Write api b p w = (Ret (int (length p), None), w') \<and> ok w' \<and> dest w' = dest w
      \<and> restored w' (bpath b) = restored w (bpath b) @ p \<and> ref_get s w' = ref_get s w"
    and layer_write: "ok w \<Longrightarrow> restored (snd (lw_Write lw p w)) = restored w"
    and close_writer: "ok w \<Longrightarrow> \<exists>w'. bf_CloseWriter api b w = (Ret None, w') \<and> ok w' \<and> dest w' = dest w
      \<and> restored w' = restored w \<and> ref_get s w' = ref_get s w"
    and close_file: "ok w \<Longrightarrow> \<exists>w'. bf_Close api f w = (Ret None, w') \<and> ok w' \<and> dest w' = dest w
      \<and> restored w' = restored w \<and> ref_get s w' = ref_get s w"
    and restored_put: "restored (ref_put s x w) = restored w"
begin

lemma both_accept:
  assumes "ok w"
  shows "\<exists>w'. MultiWriter [lw_Write lw, bf_Write api b] p w = (Ret (int (length p), None), w') \<and> ok w'
     \<and> dest w' = dest w @ p \<and> restored w' (bpath b) = restored w (bpath b) @ p \<and> ref_get s w' = ref_get s w"
proof -
  obtain w1 where w1: "lw_Write lw p w = (Ret (int (length p), None), w1)" "ok w1" "dest w1 = dest w @ p"
    "ref_get s w1 = ref_get s w"
    using wr_accepts [OF assms] by blast
  have "restored w1 = restored w" using layer_write [OF assms, of p] w1(1) by simp
  with backup_write [OF w1(2), of b p] w1 show ?thesis by auto
qed

lemma both_sinks:
  "streamer_sink (MultiWriter [lw_Write lw, bf_Write api b]) s ok dest"
  "streamer_sink (MultiWriter [lw_Write lw, bf_Write api b]) s ok (\<lambda>w. restored w (bpath b))"
  by (unfold_locales, use both_accept s_get_put ok_put dest_put restored_put in \<open>blast | simp\<close>)+

lemma backup_copied:
  assumes "ok w" and r: "st_r (ref_get s w) = r" and "complete (h, tr_chunks r, tr_err r)"
    and "list_all complete (ads_of h (tr_entries r))"
    and "backup_stream sddl h (concat (tr_chunks r)) (map contents (ads_of h (tr_entries r))) = Some bs"
    and mut: "map_of mutatedFiles (hdr_Name h) = Some p"
  shows "\<exists>w'. Streamer_WriteBackupStreamFromTarFile sddl api s lw h layer w
       = (Ret (next_of (after_ads h (tr_entries r)) r), w') \<and> ok w' \<and> dest w' = dest w @ bs
     \<and> restored w' (Join [layer, p]) = bs \<and> st_r (ref_get s w') = advance (after_ads h (tr_entries r)) r"
proof -
  let ?p = "Join [layer, p]"
  obtain f w1 where f: "bf_Create api ?p w = (Ret (Inr f), w1)" "fpath f = ?p" "ok w1" "dest w1 = dest w"
    "restored w1 ?p = []" "ref_get s w1 = ref_get s w"
    using create [OF assms(1)] by blast
  obtain b w2 where b: "bf_NewBackupFileWriter api f w1 = (Ret b, w2)" "bpath b = ?p" "ok w2" "dest w2 = dest w1"
    "restored w2 = restored w1" "ref_get s w2 = ref_get s w1"
    using new_writer [OF f(3)] f(2) by metis
  have r2: "st_r (ref_get s w2) = r" using b f r by simp
  let ?m = "stream_to sddl s (MultiWriter [lw_Write lw, bf_Write api b]) h"
  obtain w3 where m: "?m w2 = (Ret (next_of (after_ads h (tr_entries r)) r), w3)" "ok w3" "dest w3 = dest w2 @ bs"
    "st_r (ref_get s w3) = advance (after_ads h (tr_entries r)) r"
    using streamer_sink.stream_to_accepted [OF both_sinks(1) b(3) r2 assms(3,4,5)] by blast
  have c3: "restored w3 ?p = bs"
    using streamer_sink.stream_to_accepted [OF both_sinks(2) [of b] b(3) r2 assms(3,4,5)] m(1) b f by auto
  obtain w4 where cw: "bf_CloseWriter api b w3 = (Ret None, w4)" "ok w4" "dest w4 = dest w3" "restored w4 = restored w3"
    "ref_get s w4 = ref_get s w3" using close_writer [OF m(2)] by blast
  obtain w5 where cf: "bf_Close api f w4 = (Ret None, w5)" "ok w5" "dest w5 = dest w4" "restored w5 = restored w4"
    "ref_get s w5 = ref_get s w4" using close_file [OF cw(2)] by blast
  have "Streamer_WriteBackupStreamFromTarFile sddl api s lw h layer w
      = (Ret (next_of (after_ads h (tr_entries r)) r), w5)"
    using mut f(1) b(1) m(1) cw(1) cf(1)
    by (simp add: Streamer_WriteBackupStreamFromTarFile_def closing_def go_defer_result_def split: prod.splits)
  with m cw cf c3 b f show ?thesis by auto
qed

end

text \<open>
  C21: for a file that is not one of the boot files, the streamer sends exactly the file's backup stream (security
  descriptor, extended attributes, reparse point, data and alternate data streams) to the layer writer, in however
  many chunks the archive is read and whatever the buffer holds, and returns the next header that is not an alternate data stream.
\<close>

theorem Streamer_streams_file:
  assumes "streamer_sink (lw_Write lw) s ok dest" and "ok w" and "st_r (ref_get s w) = r" and "complete (h, tr_chunks r, tr_err r)"
    and "list_all complete (ads_of h (tr_entries r))"
    and "backup_stream sddl h (concat (tr_chunks r)) (map contents (ads_of h (tr_entries r))) = Some bs"
    and "map_of mutatedFiles (hdr_Name h) = None"
  shows "\<exists>w'. Streamer_WriteBackupStreamFromTarFile sddl api s lw h layer w = (Ret (next_of (after_ads h (tr_entries r)) r), w')
    \<and> dest w' = dest w @ bs \<and> st_r (ref_get s w') = advance (after_ads h (tr_entries r)) r"
  using streamer_sink.stream_to_accepted [OF assms(1-6)] assms(7)
  by (auto simp: Streamer_WriteBackupStreamFromTarFile_def)

text \<open>
  C22: for each of the four boot files the layer writer gets the backup stream as for any other file, and the named backup file
  in the layer directory is restored from exactly the same stream.
\<close>

theorem Streamer_backs_up_boot_file:
  assumes "boot_backup lw s ok dest api restored fpath bpath" and "ok w" and "st_r (ref_get s w) = r"
    and "complete (h, tr_chunks r, tr_err r)" and "list_all complete (ads_of h (tr_entries r))"
    and "backup_stream sddl h (concat (tr_chunks r)) (map contents (ads_of h (tr_entries r))) = Some bs"
    and "map_of mutatedFiles (hdr_Name h) = Some p"
  shows "\<exists>w'. Streamer_WriteBackupStreamFromTarFile sddl api s lw h layer w = (Ret (next_of (after_ads h (tr_entries r)) r), w')
    \<and> dest w' = dest w @ bs \<and> restored w' (Join [layer, p]) = bs"
  using boot_backup.backup_copied [OF assms] by blast

text \<open>
  C29: an error of closing the backup file or its writer is dropped when the stream already ended with an error, and the end
  of the archive counts as one: for the last file of an archive the caller sees only io.EOF.
\<close>

theorem Streamer_close_error_lost:
  assumes "map_of mutatedFiles (hdr_Name h) = Some p" and "bf_Create api (Join [layer, p]) w = (Ret (Inr f), w1)"
    and "bf_NewBackupFileWriter api f w1 = (Ret b, w2)"
    and "stream_to sddl s (MultiWriter [lw_Write lw, bf_Write api b]) h w2 = (Ret (None, Some EOF), w3)"
    and "bf_CloseWriter api b w3 = (Ret e1, w4)" and "bf_Close api f w4 = (Ret e2, w5)"
  shows "Streamer_WriteBackupStreamFromTarFile sddl api s lw h layer w = (Ret (None, Some EOF), w5)"
  using assms by (simp add: Streamer_WriteBackupStreamFromTarFile_def closing_def go_defer_result_def)

end
