(* ===== verification/Unpack_Stream.thy ===== *)
theory Unpack_Stream
  imports Unpack_Layer Tarstream
begin

text \<open>
  The tar streamer (src/tarstream/tarstream.go) keeps the contracts the driver's theorems rely on: with a layer
  writer that records what it is given it unpacks entries the way \<open>layer_of\<close> says, with the file information
  and the backup streams of go-winio, and it keeps every condition that the layer writer and the backup files keep.
\<close>

section \<open>The position in the archive\<close>

definition at_header :: "('w, Streamer) ref \<Rightarrow> Header option \<Rightarrow> 'w \<Rightarrow> bool" where
  "at_header s h w \<longleftrightarrow>
     (let r = st_r (ref_get s w) in
      tr_err r = EOF \<and> list_all complete (tr_entries r) \<and> tr_end r = EOF
      \<and> (case h of Some g \<Rightarrow> complete (g, tr_chunks r, tr_err r) | None \<Rightarrow> True))"

definition to_come :: "('w, Streamer) ref \<Rightarrow> 'w \<Rightarrow> entry list" where
  "to_come s w = map contents (tr_entries (st_r (ref_get s w)))"

definition current :: "('w, Streamer) ref \<Rightarrow> 'w \<Rightarrow> bytes" where
  "current s w = concat (tr_chunks (st_r (ref_get s w)))"

lemma fst_contents [simp]: "fst (contents x) = fst x"
  by (simp add: contents_def split: prod.splits)

lemma contents_streams:
  "map contents (ads_of g es) = streams_of g (map contents es)"
  "map contents (after_ads g es) = after_streams g (map contents es)"
  by (simp_all add: ads_of_def after_ads_def streams_of_def after_streams_def takeWhile_map dropWhile_map comp_def)

text \<open>The position after Next, in terms of the entries to come.\<close>

lemma advance_position:
  assumes "st_r (ref_get s w') = advance es (st_r (ref_get s w))" and "list_all complete es" and "tr_end (st_r (ref_get s w)) = EOF"
  shows "at_header s (head_of (map contents es)) w'" and "to_come s w' = tl (map contents es)"
    and "map contents es \<noteq> [] \<longrightarrow> current s w' = snd (hd (map contents es))"
    and "next_of es (st_r (ref_get s w)) = head_result (map contents es)"
  using assms
  by (auto simp: at_header_def to_come_def current_def advance_def next_of_def head_of_def head_result_def Let_def
      complete_def contents_def split: list.splits prod.splits)

section \<open>A layer writer that records\<close>

definition add_data :: "bytes \<Rightarrow> layer_op list \<Rightarrow> layer_op list" where
  "add_data b ops =
     (if b = [] then ops
      else case rev ops of DataOp c # rs \<Rightarrow> rev rs @ [DataOp (c @ b)] | _ \<Rightarrow> ops @ [DataOp b])"

lemma add_data_fresh: "add_data b ((ops @ [AddOp n f]) @ data_op c) = (ops @ [AddOp n f]) @ data_op (c @ b)"
  by (simp add: add_data_def data_op_def)

definition data_of :: "layer_op \<Rightarrow> bytes" where
  "data_of x = (case x of DataOp b \<Rightarrow> b | _ \<Rightarrow> [])"

lemma data_of_data_op [simp]: "concat (map data_of (data_op b)) = b"
  by (simp add: data_op_def data_of_def)

text \<open>
  The contract: the layer writer records every operation and accepts all data, the backup files of the boot
  configuration can be written, and each leaves the others and the streamer alone.
\<close>

locale layer_recorder =
  fixes lw :: "'w LayerWriter" and s :: "('w, Streamer) ref" and recorded :: "'w \<Rightarrow> layer_op list"
    and api :: "('w, 'f, 'b) backup_file_api" and backup :: "'w \<Rightarrow> string \<Rightarrow> bytes"
    and fpath :: "'f \<Rightarrow> string" and bpath :: "'b \<Rightarrow> string"
  assumes rec_write: "\<exists>w'. lw_Write lw b w = (Ret (int (length b), None), w') \<and> recorded w' = add_data b (recorded w)
      \<and> ref_get s w' = ref_get s w \<and> backup w' = backup w"
    and rec_add: "\<exists>w'. lw_Add lw n i w = (Ret None, w') \<and> recorded w' = recorded w @ [AddOp n i] \<and> ref_get s w' = ref_get s w"
    and rec_link: "\<exists>w'. lw_AddLink lw n t w = (Ret None, w') \<and> recorded w' = recorded w @ [LinkOp n t] \<and> ref_get s w' = ref_get s w"
    and rec_remove: "\<exists>w'. lw_Remove lw n w = (Ret None, w') \<and> recorded w' = recorded w @ [RemoveOp n] \<and> ref_get s w' = ref_get s w"
    and rec_get_put: "ref_get s (ref_put s x w) = x"
    and rec_put: "recorded (ref_put s x w) = recorded w" "backup (ref_put s x w) = backup w"
    and bak_create: "\<exists>f w'. bf_Create api p w = (Ret (Inr f), w') \<and> fpath f = p \<and> recorded w' = recorded w
      \<and> backup w' p = [] \<and> ref_get s w' = ref_get s w"
    and bak_writer: "\<exists>b w'. bf_NewBackupFileWriter api f w = (Ret b, w') \<and> bpath b = fpath f \<and> recorded w' = recorded w
      \<and> backup w' = backup w \<and> ref_get s w' = ref_get s w"
    and bak_write: "\<exists>w'. bf_Write api bw b w = (Ret (int (length b), None), w') \<and> recorded w' = recorded w
      \<and> backup w' (bpath bw) = backup w (bpath bw) @ b \<and> ref_get s w' = ref_get s w"
    and bak_close_writer: "\<exists>w'. bf_CloseWriter api bw w = (Ret None, w') \<and> recorded w' = recorded w
      \<and> backup w' = backup w \<and> ref_get s w' = ref_get s w"
    and bak_close: "\<exists>w'. bf_Close api f w = (Ret None, w') \<and> recorded w' = recorded w
      \<and> backup w' = backup w \<and> ref_get s w' = ref_get s w"
begin

text \<open>The data of the file that is being written, after the operations \<open>R0\<close>.\<close>

definition data_since :: "layer_op list \<Rightarrow> 'w \<Rightarrow> bytes" where
  "data_since R0 w = concat (map data_of (drop (length R0) (recorded w)))"

definition appending :: "layer_op list \<Rightarrow> 'w \<Rightarrow> bool" where
  "appending R0 w \<longleftrightarrow> (\<exists>ops n f b. R0 = ops @ [AddOp n f] \<and> recorded w = R0 @ data_op b)"

lemma appending_data: "appending R0 w \<Longrightarrow> recorded w = R0 @ data_op (data_since R0 w)"
  by (auto simp: appending_def data_since_def)

lemma recorder_backup: "boot_backup lw s (appending R0) (data_since R0) api backup fpath bpath"
proof -
  have same: "appending R0 v' \<longleftrightarrow> appending R0 v" "data_since R0 v' = data_since R0 v" if "recorded v' = recorded v" for v v'
    using that by (simp_all add: appending_def data_since_def)
  show ?thesis
  proof
    fix w b
    assume "appending R0 w"
    then obtain ops n f c where R0: "R0 = ops @ [AddOp n f]" and r: "recorded w = R0 @ data_op c"
      by (auto simp: appending_def)
    obtain w' where w': "lw_Write lw b w = (Ret (int (length b), None), w')" "recorded w' = add_data b (recorded w)"
      "ref_get s w' = ref_get s w" using rec_write by blast
    then have "recorded w' = R0 @ data_op (c @ b)" using r R0 add_data_fresh by simp
    then have "appending R0 w'" "data_since R0 w' = data_since R0 w @ b"
      using R0 r by (auto simp: appending_def data_since_def)
    with w' show "\<exists>w'. lw_Write lw b w = (Ret (int (length b), None), w') \<and> appending R0 w'
        \<and> data_since R0 w' = data_since R0 w @ b \<and> ref_get s w' = ref_get s w" by blast
  next
    fix w p
    assume "appending R0 w"
    then show "\<exists>f w'. bf_Create api p w = (Ret (Inr f), w') \<and> fpath f = p \<and> appending R0 w' \<and> data_since R0 w' = data_since R0 w
        \<and> backup w' p = [] \<and> ref_get s w' = ref_get s w"
      using bak_create [of p w] same by metis
  next
    fix w f
    assume "appending R0 w"
    then show "\<exists>b w'. bf_NewBackupFileWriter api f w = (Ret b, w') \<and> bpath b = fpath f \<and> appending R0 w'
        \<and> data_since R0 w' = data_since R0 w \<and> backup w' = backup w \<and> ref_get s w' = ref_get s w"
      using bak_writer [of f w] same by metis
  next
    fix w b p
    assume "appending R0 w"
    then show "\<exists>w'. bf_Write api b p w = (Ret (int (length p), None), w') \<and> appending R0 w' \<and> data_since R0 w' = data_since R0 w
        \<and> backup w' (bpath b) = backup w (bpath b) @ p \<and> ref_get s w' = ref_get s w"
      using bak_write [of b p w] same by metis
  next
    fix w p
    show "backup (snd (lw_Write lw p w)) = backup w" using rec_write [of p w] by auto
  next
    fix w b
    assume "appending R0 w"
    then show "\<exists>w'. bf_CloseWriter api b w = (Ret None, w') \<and> appending R0 w' \<and> data_since R0 w' = data_since R0 w
        \<and> backup w' = backup w \<and> ref_get s w' = ref_get s w"
      using bak_close_writer [of b w] same by metis
  next
    fix w f
    assume "appending R0 w"
    then show "\<exists>w'. bf_Close api f w = (Ret None, w') \<and> appending R0 w' \<and> data_since R0 w' = data_since R0 w
        \<and> backup w' = backup w \<and> ref_get s w' = ref_get s w"
      using bak_close [of f w] same by metis
  qed (simp_all add: rec_get_put rec_put appending_def data_since_def)
qed

lemma file_written:
  assumes at: "at_header s (Some g) w" and rec: "recorded w = ops @ [AddOp n f]"
    and bs: "backup_stream sddl g (current s w) (streams_of g (to_come s w)) = Some b"
  shows "\<exists>w'. Streamer_WriteBackupStreamFromTarFile sddl api s lw g p w = (Ret (head_result (after_streams g (to_come s w))), w')
     \<and> at_header s (head_of (after_streams g (to_come s w))) w' \<and> to_come s w' = tl (after_streams g (to_come s w))
     \<and> recorded w' = recorded w @ data_op b
     \<and> (after_streams g (to_come s w) \<noteq> [] \<longrightarrow> current s w' = snd (hd (after_streams g (to_come s w))))"
proof -
  let ?R0 = "ops @ [AddOp n f]" and ?r = "st_r (ref_get s w)"
  let ?es = "after_ads g (tr_entries ?r)"
  have r: "complete (g, tr_chunks ?r, tr_err ?r)" "list_all complete (tr_entries ?r)" "tr_end ?r = EOF"
    using at by (auto simp: at_header_def Let_def)
  then have ads: "list_all complete (ads_of g (tr_entries ?r))" "list_all complete ?es"
    by (auto simp: list_all_iff ads_of_def after_ads_def dest: set_takeWhileD set_dropWhileD)
  have bs': "backup_stream sddl g (concat (tr_chunks ?r)) (map contents (ads_of g (tr_entries ?r))) = Some b"
    using bs by (simp add: current_def to_come_def contents_streams)
  have ok: "appending ?R0 w" "data_since ?R0 w = []"
    using rec by (auto simp: appending_def data_since_def data_op_def intro!: exI [of _ "[]"])
  have "\<exists>w'. Streamer_WriteBackupStreamFromTarFile sddl api s lw g p w = (Ret (next_of ?es ?r), w') \<and> appending ?R0 w'
     \<and> data_since ?R0 w' = b \<and> st_r (ref_get s w') = advance ?es ?r"
  proof (cases "map_of mutatedFiles (hdr_Name g)")
    case None
    have "streamer_sink (lw_Write lw) s (appending ?R0) (data_since ?R0)"
      using recorder_backup by (rule boot_backup.axioms(1))
    from streamer_sink.stream_to_accepted [OF this ok(1) refl r(1) ads(1) bs'] None ok(2) show ?thesis
      by (simp add: Streamer_WriteBackupStreamFromTarFile_def)
  next
    case (Some m)
    from boot_backup.backup_copied [OF recorder_backup ok(1) refl r(1) ads(1) bs' Some, of p] ok(2) show ?thesis by auto
  qed
  then obtain w' where w': "Streamer_WriteBackupStreamFromTarFile sddl api s lw g p w = (Ret (next_of ?es ?r), w')"
    "appending ?R0 w'" "data_since ?R0 w' = b" "st_r (ref_get s w') = advance ?es ?r" by blast
  have "recorded w' = recorded w @ data_op b" using appending_data [OF w'(2)] w'(3) rec by simp
  with advance_position [OF w'(4) ads(2) r(3)] w'(1) show ?thesis
    by (auto simp: contents_streams to_come_def)
qed

lemma next_header:
  assumes "at_header s h w"
  shows "\<exists>w'. Streamer_Next s w = (Ret (head_result (to_come s w)), w') \<and> at_header s (head_of (to_come s w)) w'
     \<and> to_come s w' = tl (to_come s w) \<and> recorded w' = recorded w \<and> (to_come s w \<noteq> [] \<longrightarrow> current s w' = snd (hd (to_come s w)))"
proof -
  let ?r = "st_r (ref_get s w)"
  have r: "tr_err ?r = EOF" "list_all complete (tr_entries ?r)" "tr_end ?r = EOF"
    using assms by (simp_all add: at_header_def Let_def)
  obtain w' where w': "Streamer_Next s w = (Ret (next_of (tr_entries ?r) ?r), w')" "recorded w' = recorded w"
    "st_r (ref_get s w') = advance (tr_entries ?r) ?r"
    using r(1) rec_get_put rec_put
    by (cases "tr_entries ?r")
       (auto simp: Streamer_Next_def tar_Next_def reader_of_def ref_read_def ref_modify_def next_of_def advance_def)
  from advance_position [OF w'(3) r(2,3)] w' show ?thesis by (auto simp: to_come_def)
qed

lemma streamer_contents:
  assumes "tarStreamer d = Streamer_Impl tar_of sddl api s"
  shows "tar_contents d lw FileInfoFromHeader (backup_stream sddl) (at_header s) (to_come s) (current s) recorded"
proof -
  have same: "at_header s h v' \<longleftrightarrow> at_header s h v" "to_come s v' = to_come s v" "current s v' = current s v"
    if "ref_get s v' = ref_get s v" for h v v'
    using that by (simp_all add: at_header_def to_come_def current_def)
  show ?thesis
  proof
    fix h w
    assume "at_header s h w"
    from next_header [OF this] show "\<exists>w'. ts_Next (tarStreamer d) w = (Ret (head_result (to_come s w)), w')
        \<and> at_header s (head_of (to_come s w)) w' \<and> to_come s w' = tl (to_come s w) \<and> recorded w' = recorded w
        \<and> (to_come s w \<noteq> [] \<longrightarrow> current s w' = snd (hd (to_come s w)))"
      by (simp add: assms Streamer_Impl_def)
  next
    fix g w ops n f b p
    assume "at_header s (Some g) w" "recorded w = ops @ [AddOp n f]" "backup_stream sddl g (current s w) (streams_of g (to_come s w)) = Some b"
    from file_written [OF this, of p] show "\<exists>w'. ts_WriteBackupStreamFromTarFile (tarStreamer d) lw g p w = (Ret (head_result (after_streams g (to_come s w))), w')
        \<and> at_header s (head_of (after_streams g (to_come s w))) w' \<and> to_come s w' = tl (after_streams g (to_come s w))
        \<and> recorded w' = recorded w @ data_op b
        \<and> (after_streams g (to_come s w) \<noteq> [] \<longrightarrow> current s w' = snd (hd (after_streams g (to_come s w))))"
      by (simp add: assms Streamer_Impl_def)
  next
    fix g w h
    show "\<exists>w'. ts_FileInfoFromHeader (tarStreamer d) g w = (Ret (FileInfoFromHeader g), w')
        \<and> (at_header s h w \<longrightarrow> at_header s h w') \<and> to_come s w' = to_come s w \<and> current s w' = current s w \<and> recorded w' = recorded w"
      by (simp add: assms Streamer_Impl_def Streamer_FileInfoFromHeader_def)
  next
    fix n w h
    show "\<exists>w'. lw_Remove lw n w = (Ret None, w') \<and> (at_header s h w \<longrightarrow> at_header s h w')
        \<and> to_come s w' = to_come s w \<and> current s w' = current s w \<and> recorded w' = recorded w @ [RemoveOp n]"
      using rec_remove [of n w] same by metis
  next
    fix n t w h
    show "\<exists>w'. lw_AddLink lw n t w = (Ret None, w') \<and> (at_header s h w \<longrightarrow> at_header s h w')
        \<and> to_come s w' = to_come s w \<and> current s w' = current s w \<and> recorded w' = recorded w @ [LinkOp n t]"
      using rec_link [of n t w] same by metis
  next
    fix n f w h
    show "\<exists>w'. lw_Add lw n f w = (Ret None, w') \<and> (at_header s h w \<longrightarrow> at_header s h w')
        \<and> to_come s w' = to_come s w \<and> current s w' = current s w \<and> recorded w' = recorded w @ [AddOp n f]"
      using rec_add [of n f w] same by metis
  qed
qed

end

text \<open>The streamer uses of a layer writer only its Write.\<close>

lemma streamer_silent:
  assumes "tarStreamer d = Streamer_Impl tar_of sddl api s"
  shows "ts_WriteBackupStreamFromTarFile (tarStreamer d) (silent_writer lw) h p = ts_WriteBackupStreamFromTarFile (tarStreamer d) lw h p"
  unfolding assms Streamer_Impl_def TarStreamer.simps Streamer_WriteBackupStreamFromTarFile_def silent_writer_simps ..

end
