(* ===== verification/Stream_Frame.thy ===== *)
theory Stream_Frame
  imports Tarstream Driver_Frame
begin

text \<open>
  The tar streamer keeps every condition on the world that its layer writer, its backup files and updates of its own
  state keep, and calls the layer writer only while the condition holds: it satisfies what \<open>tar_frame\<close>
  asks of a tar streamer.
\<close>

text \<open>An object whose updates keep the condition.\<close>

definition keeps :: "('w \<Rightarrow> bool) \<Rightarrow> ('w, 'a) ref \<Rightarrow> bool" where
  "keeps P r \<longleftrightarrow> (\<forall>w x. P w \<longrightarrow> P (ref_put r x w))"

lemma agree_read [agree_intros]: "agree P (ref_read r) (ref_read r)"
  by (simp add: agree_def ref_read_def)

lemma agree_modify [agree_intros]: "keeps P r \<Longrightarrow> agree P (ref_modify r f) (ref_modify r f)"
  by (simp add: agree_def ref_modify_def keeps_def)

definition writers :: "('w \<Rightarrow> bool) \<Rightarrow> 'w writer \<Rightarrow> 'w writer \<Rightarrow> bool" where
  "writers P wr wr' \<longleftrightarrow> (\<forall>b. agree P (wr b) (wr' b))"

lemma writersD: "writers P wr wr' \<Longrightarrow> agree P (wr b) (wr' b)"
  by (simp add: writers_def)

section \<open>Reading and writing\<close>

lemma agree_tar: "keeps P t \<Longrightarrow> agree P (tar_Next t) (tar_Next t)" "keeps P t \<Longrightarrow> agree P (tar_Read t) (tar_Read t)"
  unfolding tar_Next_def tar_Read_def by (auto intro!: agree_intros split: list.splits prod.splits)

lemma agree_bw:
  assumes "writers P wr wr'"
  shows "agree P (bw_WriteHeader wr h n) (bw_WriteHeader wr' h n)" and "agree P (bw_Write wr b n) (bw_Write wr' b n)"
  unfolding bw_WriteHeader_def bw_Write_def binary_Write_def Let_def
  by (auto intro!: agree_intros writersD [OF assms] split: option.splits prod.splits)

lemma agree_copy_loop:
  assumes "writers P wr wr'" and "keeps P t"
  shows "agree P (copy_loop fuel wr t n) (copy_loop fuel wr' t n)"
proof (induction fuel arbitrary: n)
  case (Suc fuel)
  then show ?case
    unfolding copy_loop.simps Let_def
    by (auto intro!: agree_intros agree_tar(2) [OF assms(2)] agree_bw(2) [OF assms(1)] split: option.splits prod.splits)
qed (simp add: agree_intros)

lemma agree_copy:
  assumes "writers P wr wr'" and "keeps P t"
  shows "agree P (io_Copy wr t n) (io_Copy wr' t n)"
  unfolding io_Copy_def by (intro agree_intros agree_copy_loop [OF assms])

lemma agree_ads_loop:
  assumes "writers P wr wr'" and "keeps P t"
  shows "agree P (ads_loop fuel wr t h n) (ads_loop fuel wr' t h n)"
proof (induction fuel arbitrary: n)
  case (Suc fuel)
  then show ?case
    unfolding ads_loop.simps
    by (auto intro!: agree_intros agree_tar(1) [OF assms(2)] agree_bw(1) [OF assms(1)] agree_copy [OF assms]
        split: option.splits prod.splits)
qed (simp add: agree_intros)

lemma agree_stream:
  assumes "writers P wr wr'"
  shows "agree P (write_stream wr k b n) (write_stream wr' k b n)"
  unfolding write_stream_def by (auto intro!: agree_intros agree_bw [OF assms] split: option.splits prod.splits)

lemma agree_backup_stream:
  assumes "writers P wr wr'" and "keeps P t"
  shows "agree P (WriteBackupStreamFromTarFile sddl wr t h) (WriteBackupStreamFromTarFile sddl wr' t h)"
proof -
  have data: "agree P (if hdr_Typeflag h = TypeReg
        then go_try (bw_WriteHeader wr bh n) (\<lambda>e. go_ret (Inl e)) (io_Copy wr t) else go_ret (Inr n))
      (if hdr_Typeflag h = TypeReg
        then go_try (bw_WriteHeader wr' bh n) (\<lambda>e. go_ret (Inl e)) (io_Copy wr' t) else go_ret (Inr n))" for bh n
    by (intro agree_intros agree_bw(1) [OF assms(1)] agree_copy [OF assms])
  have opt: "agree P (if b then write_stream wr k x n else go_ret (Inr n)) (if b then write_stream wr' k x n else go_ret (Inr n))" for b k x n
    by (intro agree_intros agree_stream [OF assms(1)])
  have tail: "agree P (go_bind (ref_read t) (\<lambda>s. ads_loop (Suc (length (tr_entries s))) wr t h n))
      (go_bind (ref_read t) (\<lambda>s. ads_loop (Suc (length (tr_entries s))) wr' t h n))" for n
    by (intro agree_intros agree_ads_loop [OF assms])
  show ?thesis
    unfolding WriteBackupStreamFromTarFile_def
    by (cases "SecurityDescriptorFromTarHeader sddl h"; cases "ExtendedAttributesFromTarHeader h";
        simp only: sum.case; intro agree_ret agree_try opt data tail)
qed

section \<open>Buffering\<close>

lemma agree_flush:
  assumes "writers P wr wr'" and "keeps P b"
  shows "agree P (bufio_Flush wr b) (bufio_Flush wr' b)"
  unfolding bufio_Flush_def
  by (auto intro!: agree_intros writersD [OF assms(1)] assms(2) split: option.splits prod.splits)

lemma agree_write_loop:
  assumes "writers P wr wr'" and "keeps P b"
  shows "agree P (bufio_write_loop fuel wr b p n) (bufio_write_loop fuel wr' b p n)"
proof (induction fuel arbitrary: p n)
  case (Suc fuel)
  then show ?case
    unfolding bufio_write_loop.simps Let_def
    by (auto intro!: agree_intros writersD [OF assms(1)] agree_flush [OF assms] assms(2) split: option.splits prod.splits)
qed (simp add: agree_intros)

lemma writers_buffered: "writers P wr wr' \<Longrightarrow> keeps P b \<Longrightarrow> writers P (bufio_Write wr b) (bufio_Write wr' b)"
  by (simp add: writers_def bufio_Write_def agree_write_loop [unfolded writers_def])

lemma writers_multi: "list_all2 (writers P) ws ws' \<Longrightarrow> writers P (MultiWriter ws) (MultiWriter ws')"
proof (induction ws ws' rule: list_all2_induct)
  case (Cons w ws w' ws')
  then show ?case
    by (auto simp: writers_def intro!: agree_intros split: option.splits prod.splits)
qed (simp add: writers_def agree_def)

section \<open>The streamer\<close>

lemma keeps_parts: "keeps P s \<Longrightarrow> keeps P (reader_of s)" "keeps P s \<Longrightarrow> keeps P (buffer_of s)"
  by (simp_all add: keeps_def reader_of_def buffer_of_def)

lemma agree_stream_to:
  assumes "writers P wr wr'" and "keeps P s"
  shows "agree P (stream_to sddl s wr h) (stream_to sddl s wr' h)"
  unfolding stream_to_def flushing_def bufio_Reset_def
  by (intro agree_intros keeps_parts [OF assms(2)] agree_flush assms(1)
      agree_backup_stream writers_buffered)

text \<open>The backup files keep the condition too.\<close>

definition backups_keep :: "('w \<Rightarrow> bool) \<Rightarrow> ('w, 'f, 'b) backup_file_api \<Rightarrow> bool" where
  "backups_keep P api \<longleftrightarrow>
     (\<forall>p. agree P (bf_Create api p) (bf_Create api p)) \<and> (\<forall>f. agree P (bf_Close api f) (bf_Close api f))
     \<and> (\<forall>f. agree P (bf_NewBackupFileWriter api f) (bf_NewBackupFileWriter api f))
     \<and> (\<forall>b. writers P (bf_Write api b) (bf_Write api b)) \<and> (\<forall>b. agree P (bf_CloseWriter api b) (bf_CloseWriter api b))"

lemma streamer_write_agree:
  assumes "writer_agree P lw lw'" and "keeps P s" and "backups_keep P api"
  shows "agree P (Streamer_WriteBackupStreamFromTarFile sddl api s lw h p) (Streamer_WriteBackupStreamFromTarFile sddl api s lw' h p)"
proof -
  have w: "writers P (lw_Write lw) (lw_Write lw')" using assms(1) by (simp add: writers_def writer_agree_def)
  have b: "writers P (MultiWriter [lw_Write lw, bf_Write api b]) (MultiWriter [lw_Write lw', bf_Write api b])" for b
    by (rule writers_multi) (use w assms(3) in \<open>simp add: backups_keep_def\<close>)
  show ?thesis
    using assms(3) unfolding Streamer_WriteBackupStreamFromTarFile_def closing_def backups_keep_def
    by (auto split: option.splits intro!: agree_intros agree_stream_to w b assms(2))
qed

lemma streamer_calls_agree:
  assumes "keeps P s"
  shows "agree P (SetReader tar_of s r) (SetReader tar_of s r)" and "agree P (Streamer_Next s) (Streamer_Next s)"
    and "agree P (Streamer_FileInfoFromHeader h) (Streamer_FileInfoFromHeader h)"
  unfolding SetReader_def Streamer_Next_def Streamer_FileInfoFromHeader_def
  by (intro agree_intros assms, intro agree_tar keeps_parts assms, intro agree_intros)

text \<open>A driver with the streamer satisfies the contract of the frame theory if its other parts do.\<close>

lemma streamer_frame:
  assumes "tarStreamer d = Streamer_Impl tar_of sddl api s" and "keeps P s" and "backups_keep P api"
    and "\<And>di i ps. agree P (hcs_NewLayerWriter (hcsClient d) di i ps) (hcs_NewLayerWriter (hcsClient d) di i ps)"
    and "\<And>di i ps w lw w'. hcs_NewLayerWriter (hcsClient d) di i ps w = (Ret (Inr lw), w') \<Longrightarrow> writer_agree P lw lw"
  shows "tar_frame P d"
  by unfold_locales
     (use assms(4,5) streamer_calls_agree [OF assms(2)] streamer_write_agree [OF _ assms(2,3)]
      in \<open>simp_all add: assms(1) Streamer_Impl_def\<close>)

end
