(* ===== verification/Go_Stops.thy ===== *)
theory Go_Stops
  imports Go_Base
begin

text \<open>
  Programs that end: \<open>stops R m\<close> says that \<open>m\<close> returns or panics from every world, and that the world it leaves is related
  by \<open>R\<close> to the one it started in. As for \<^const>\<open>within\<close>, the combinators keep it when \<open>R\<close> is reflexive and transitive
  (collection \<open>stops_intros\<close>); the relations used are \<^const>\<open>same\<close> and \<open>fewer\<close>, which compares a measure.
\<close>

named_theorems stops_intros \<open>rules for programs that end\<close>

definition stops :: "('w \<Rightarrow> 'w \<Rightarrow> bool) \<Rightarrow> ('w, 'a) io \<Rightarrow> bool" where
  "stops R m \<longleftrightarrow> (\<forall>w. fst (m w) \<noteq> Diverged) \<and> within R m"

definition fewer :: "('w \<Rightarrow> nat) \<Rightarrow> 'w \<Rightarrow> 'w \<Rightarrow> bool" where
  "fewer f w w' \<longleftrightarrow> f w' \<le> f w"

lemma fewer_order [simp]: "reflp (fewer f)" "transp (fewer f)"
  by (auto simp: fewer_def intro!: reflpI transpI)

lemma stopsI: "(\<And>w r w'. m w = (r, w') \<Longrightarrow> r \<noteq> Diverged \<and> R w w') \<Longrightarrow> stops R m"
  unfolding stops_def within_def by (metis prod.collapse)

lemma stopsD: "stops R m \<Longrightarrow> m w = (r, w') \<Longrightarrow> r \<noteq> Diverged" "stops R m \<Longrightarrow> m w = (r, w') \<Longrightarrow> R w w'"
  unfolding stops_def within_def by (metis fst_conv, metis snd_conv)

lemma stops_mono: "stops R m \<Longrightarrow> (\<And>w w'. R w w' \<Longrightarrow> S w w') \<Longrightarrow> stops S m"
  unfolding stops_def by (blast intro: within_mono)

lemma stops_fewer: "stops (same f) m \<Longrightarrow> stops (fewer (\<lambda>w. g (f w))) m"
  by (erule stops_mono) (simp add: same_def fewer_def)

lemma stops_same: "stops (same f) m \<Longrightarrow> stops (same (\<lambda>w. g (f w))) m"
  by (erule stops_mono) (simp add: same_def)

lemma stops_ret [stops_intros]: "reflp R \<Longrightarrow> stops R (go_ret x)"
  by (simp add: stops_def within_ret)

lemma stops_panic [stops_intros]: "reflp R \<Longrightarrow> stops R (go_panic p)"
  by (simp add: stops_def within_panic)

lemma stops_bind [stops_intros]:
  assumes "transp R" and "stops R m" and "\<And>x. stops R (f x)"
  shows "stops R (go_bind m f)"
  unfolding stops_def
proof
  show "\<forall>w. fst (go_bind m f w) \<noteq> Diverged"
    using assms(2,3) by (auto simp: stops_def go_bind_def split: prod.split go.split) (metis fst_conv)
  show "within R (go_bind m f)" using assms by (auto simp: stops_def intro!: within_bind)
qed

lemma stops_defer_result [stops_intros]:
  assumes "transp R" and "stops R d" and "stops R m"
  shows "stops R (go_defer_result d upd m)"
  unfolding stops_def
proof
  show "\<forall>w. fst (go_defer_result d upd m w) \<noteq> Diverged"
    using assms(2,3) by (auto simp: stops_def go_defer_result_def split: prod.split go.split) (metis fst_conv)+
  show "within R (go_defer_result d upd m)" using assms by (auto simp: stops_def intro!: within_defer_result)
qed

lemma stops_defer [stops_intros]: "transp R \<Longrightarrow> stops R d \<Longrightarrow> stops R m \<Longrightarrow> stops R (go_defer d m)"
  unfolding go_defer_is_result by (rule stops_defer_result)

lemma stops_try [stops_intros]:
  "transp R \<Longrightarrow> stops R m \<Longrightarrow> (\<And>e. stops R (h e)) \<Longrightarrow> (\<And>x. stops R (k x)) \<Longrightarrow> stops R (go_try m h k)"
  unfolding go_try_def by (rule stops_bind) (auto split: sum.splits)

lemma stops_tryE [stops_intros]:
  "transp R \<Longrightarrow> stops R m \<Longrightarrow> (\<And>e. stops R (h e)) \<Longrightarrow> stops R k \<Longrightarrow> stops R (go_tryE m h k)"
  unfolding go_tryE_def by (rule stops_bind) (auto split: option.splits)

lemma stops_if [stops_intros]: "(b \<Longrightarrow> stops R m) \<Longrightarrow> (\<not> b \<Longrightarrow> stops R n) \<Longrightarrow> stops R (if b then m else n)"
  by simp

lemma stops_read [stops_intros]: "reflp R \<Longrightarrow> stops R (ref_read p)"
  by (simp add: stops_def within_def ref_read_def reflpD)

text \<open>
  A call that uses up some of the measure \<open>f\<close> whenever it returns without an error, as a reader that delivers another header.
\<close>

definition eats :: "('w \<Rightarrow> nat) \<Rightarrow> ('w, 'a \<times> go_error option) io \<Rightarrow> bool" where
  "eats f m \<longleftrightarrow> stops (fewer f) m \<and> (\<forall>w h w'. m w = (Ret (h, None), w') \<longrightarrow> f w' < f w)"

lemma eats_stops: "eats f m \<Longrightarrow> stops (fewer f) m"
  by (simp add: eats_def)

lemma eats_error: "eats f (go_ret (h, Some e))"
  by (simp add: eats_def stops_intros)

lemma eats_bind:
  assumes m: "stops (fewer f) m" and k: "\<And>x. eats f (k x)"
  shows "eats f (go_bind m k)"
  unfolding eats_def
proof (intro conjI allI impI)
  show "stops (fewer f) (go_bind m k)" using m k by (auto intro!: stops_intros simp: eats_stops)
  fix w h w'
  assume "go_bind m k w = (Ret (h, None), w')"
  then obtain x w1 where x: "m w = (Ret x, w1)" "k x w1 = (Ret (h, None), w')" by (blast dest: go_bind_RetD)
  have "f w1 \<le> f w" using stopsD(2) [OF m x(1)] by (simp add: fewer_def)
  moreover have "f w' < f w1" using k x(2) unfolding eats_def by blast
  ultimately show "f w' < f w" by simp
qed

lemma eats_try:
  "stops (fewer f) m \<Longrightarrow> (\<And>e. eats f (h e)) \<Longrightarrow> (\<And>x. eats f (k x)) \<Longrightarrow> eats f (go_try m h k)"
  unfolding go_try_def by (rule eats_bind) (auto split: sum.splits)

text \<open>A deferred call that never clears the error.\<close>

lemma eats_defer_result:
  assumes d: "stops (fewer f) d" and m: "eats f m" and upd: "\<And>y h e h'. upd y (h, e) = (h', None) \<Longrightarrow> e = None"
  shows "eats f (go_defer_result d upd m)"
  unfolding eats_def
proof (intro conjI allI impI)
  show "stops (fewer f) (go_defer_result d upd m)" using d m by (intro stops_intros) (simp_all add: eats_stops)
  fix w h w'
  assume run: "go_defer_result d upd m w = (Ret (h, None), w')"
  obtain r w1 where r: "m w = (r, w1)" by force
  obtain q w2 where q: "d w1 = (q, w2)" by force
  from run r q obtain h0 e0 y where "r = Ret (h0, e0)" "q = Ret y" "upd y (h0, e0) = (h, None)" "w' = w2"
    by (auto simp: go_defer_result_def split: go.splits)
  with upd m r have "f w1 < f w" unfolding eats_def by blast
  moreover have "f w2 \<le> f w1" using stopsD(2) [OF d q] by (simp add: fewer_def)
  ultimately show "f w' < f w" using \<open>w' = w2\<close> by simp
qed

end
