(* ===== verification/Stream_Stops.thy ===== *)
theory Stream_Stops
  imports Tarstream Go_Stops
begin

text \<open>
  Every loop of the streamer ends (src/tarstream/tarstream.go and the vendored backuptar below it), for every archive, truncated or
  malformed ones included, as long as the writers it writes to return and report short writes, which is the documented contract of
  \<^verbatim>\<open>io.Writer\<close>. Each call that delivers another header uses up entries of the archive.
\<close>

section \<open>Reading\<close>

text \<open>A pointer that reads back what was written through it.\<close>

definition lawful :: "('w, 'a) ref \<Rightarrow> bool" where
  "lawful p \<longleftrightarrow> (\<forall>x w. ref_get p (ref_put p x w) = x)"

lemma lawful_parts: "lawful s \<Longrightarrow> lawful (reader_of s)" "lawful s \<Longrightarrow> lawful (buffer_of s)"
  by (simp_all add: lawful_def reader_of_def buffer_of_def)

definition entries_left :: "('w, tar_Reader) ref \<Rightarrow> 'w \<Rightarrow> nat" where
  "entries_left t w = length (tr_entries (ref_get t w))"

lemma Next_eats: "lawful t \<Longrightarrow> eats (entries_left t) (tar_Next t)"
  by (auto simp: eats_def stops_def within_def fewer_def entries_left_def tar_Next_def lawful_def go_simps split: list.split prod.split if_splits)

lemma Read_stops: "lawful t \<Longrightarrow> stops (fewer (entries_left t)) (tar_Read t)"
  by (auto simp: stops_def within_def fewer_def entries_left_def tar_Read_def lawful_def go_simps split: list.split prod.split)

section \<open>Copying\<close>

text \<open>A writer that returns and leaves the reader alone.\<close>

definition returning :: "('w \<Rightarrow> 'x) \<Rightarrow> 'w writer \<Rightarrow> bool" where
  "returning f out \<longleftrightarrow> (\<forall>b. stops (same f) (out b))"

lemma bw_stops:
  assumes "returning f out"
  shows "stops (same f) (bw_WriteHeader out h n)" and "stops (same f) (bw_Write out b n)" and "stops (same f) (write_stream out sid data n)"
  using assms unfolding bw_WriteHeader_def bw_Write_def binary_Write_def write_stream_def Let_def returning_def
  by (auto intro!: stops_intros split: option.splits prod.splits)

lemma copy_loop_ends:
  assumes "lawful t" and "returning (ref_get t) out"
  shows "length (tr_chunks (ref_get t w)) < fuel \<Longrightarrow> copy_loop fuel out t n w = (r, w') \<Longrightarrow> r \<noteq> Diverged \<and> entries_left t w' = entries_left t w"
proof (induction fuel arbitrary: n w)
  case (Suc fuel)
  show ?case
  proof (cases "tr_chunks (ref_get t w)")
    case Nil
    with Suc.prems(2) show ?thesis by (auto simp: tar_Read_def go_simps Let_def split: if_splits)
  next
    case (Cons c cs)
    let ?w1 = "ref_put t (ref_get t w\<lparr>tr_chunks := cs\<rparr>) w"
    have w1: "ref_get t ?w1 = ref_get t w\<lparr>tr_chunks := cs\<rparr>" using assms(1) by (simp add: lawful_def)
    have go_on: "r \<noteq> Diverged \<and> entries_left t w' = entries_left t w"
      if "copy_loop fuel out t m w2 = (r, w')" and "ref_get t w2 = ref_get t ?w1" for m w2
      using Suc.IH [OF _ that(1)] Suc.prems(1) Cons that(2) w1 by (simp add: entries_left_def)
    show ?thesis
    proof (cases "c = []")
      case True
      with Suc.prems(2) Cons go_on show ?thesis by (auto simp: tar_Read_def go_simps Let_def)
    next
      case False
      obtain q w2 where q: "bw_Write out c n ?w1 = (q, w2)" by force
      from stopsD [OF bw_stops(2) [OF assms(2)] q] have "q \<noteq> Diverged" and g2: "ref_get t w2 = ref_get t ?w1" by (auto simp: same_def)
      with Suc.prems(2) Cons False q go_on [OF _ g2] w1 show ?thesis
        by (auto simp: tar_Read_def go_simps Let_def entries_left_def split: go.splits prod.splits option.splits if_splits)
    qed
  qed
qed simp

lemma Copy_stops:
  assumes "lawful t" and "returning (ref_get t) out"
  shows "stops (fewer (entries_left t)) (io_Copy out t n)"
proof (rule stopsI)
  fix w r w'
  assume "io_Copy out t n w = (r, w')"
  then have "copy_loop (Suc (length (tr_chunks (ref_get t w)))) out t n w = (r, w')"
    by (simp add: io_Copy_def ref_read_def del: copy_loop.simps)
  from copy_loop_ends [OF assms _ this] show "r \<noteq> Diverged \<and> fewer (entries_left t) w w'" by (simp add: fewer_def)
qed

lemma ads_loop_ends:
  assumes "lawful t" and "returning (ref_get t) out"
  shows "entries_left t w < fuel \<Longrightarrow> ads_loop fuel out t h n w = (r, w') \<Longrightarrow>
    r \<noteq> Diverged \<and> entries_left t w' \<le> entries_left t w \<and> (\<forall>g. r = Ret (g, None) \<longrightarrow> entries_left t w' < entries_left t w)"
proof (induction fuel arbitrary: n w)
  case (Suc fuel)
  obtain q w1 where q: "tar_Next t w = (q, w1)" by force
  note N = Next_eats [OF assms(1)]
  have q1: "q \<noteq> Diverged" "entries_left t w1 \<le> entries_left t w"
    using stopsD [OF eats_stops [OF N] q] by (auto simp: fewer_def)
  show ?case
  proof (cases "\<exists>a. q = Ret (Some a, None) \<and> is_ads h a")
    case False
    with Suc.prems(2) q q1 N show ?thesis
      by (cases q) (auto simp: eats_def split: option.splits)
  next
    case True
    then obtain a where a: "q = Ret (Some a, None)" "is_ads h a" by blast
    with N q have less: "entries_left t w1 < entries_left t w" by (auto simp: eats_def)
    let ?head = "\<lparr>bh_Id = BackupAlternateData, bh_Attributes = 0, bh_Size = hdr_Size a, bh_Name = drop (length (hdr_Name h)) (hdr_Name a) @ '':$DATA'', bh_Offset = 0\<rparr>"
    obtain q2 w2 where q2: "bw_WriteHeader out ?head n w1 = (q2, w2)" by force
    from stopsD [OF bw_stops(1) [OF assms(2)] q2] have g2: "q2 \<noteq> Diverged" "entries_left t w2 = entries_left t w1"
      by (auto simp: same_def entries_left_def)
    show ?thesis
    proof (cases "\<exists>l. q2 = Ret (Inr l)")
      case False
      with Suc.prems(2) q a q2 g2 less show ?thesis by (cases q2) (auto simp: go_try_def split: sum.splits)
    next
      case True
      then obtain l where l: "q2 = Ret (Inr l)" by blast
      obtain q3 w3 where q3: "io_Copy out t l w2 = (q3, w3)" by force
      from stopsD [OF Copy_stops [OF assms] q3] have g3: "q3 \<noteq> Diverged" "entries_left t w3 \<le> entries_left t w2"
        by (auto simp: fewer_def)
      show ?thesis
      proof (cases "\<exists>l'. q3 = Ret (Inr l')")
        case False
        with Suc.prems(2) q a q2 l q3 g2 g3 less show ?thesis by (cases q3) (auto simp: go_try_def split: sum.splits)
      next
        case True
        then obtain l' where l': "q3 = Ret (Inr l')" by blast
        with Suc.prems(2) q a q2 l q3 have "ads_loop fuel out t h l' w3 = (r, w')" by simp
        from Suc.IH [OF _ this] Suc.prems(1) g2 g3 less show ?thesis by force
      qed
    qed
  qed
qed simp

lemma ads_eats:
  assumes "lawful t" and "returning (ref_get t) out"
  shows "eats (entries_left t) (go_bind (ref_read t) (\<lambda>s. ads_loop (Suc (length (tr_entries s))) out t h n))"
    (is "eats _ ?m")
proof -
  have "r \<noteq> Diverged \<and> entries_left t w' \<le> entries_left t w \<and> (\<forall>g. r = Ret (g, None) \<longrightarrow> entries_left t w' < entries_left t w)"
    if "?m w = (r, w')" for w r w'
  proof -
    from that have "ads_loop (Suc (entries_left t w)) out t h n w = (r, w')"
      by (simp add: ref_read_def entries_left_def del: ads_loop.simps)
    from ads_loop_ends [OF assms _ this] show ?thesis by simp
  qed
  then show ?thesis unfolding eats_def by (auto intro!: stopsI simp: fewer_def)
qed

text \<open>The conversion of a file to its backup stream uses up the entry it stops at.\<close>

lemma reader_fewer: "stops (same (ref_get t)) m \<Longrightarrow> stops (fewer (entries_left t)) m"
  by (erule stops_mono) (simp add: same_def fewer_def entries_left_def)

lemma backup_stream_eats:
  assumes "lawful t" and "returning (ref_get t) out"
  shows "eats (entries_left t) (WriteBackupStreamFromTarFile sddl out t h)"
proof -
  have opt: "stops (fewer (entries_left t)) (if b then write_stream out k x n else go_ret (Inr n))" for b k x n
    by (intro stops_intros reader_fewer bw_stops(3) assms(2)) simp
  have data: "stops (fewer (entries_left t)) (if b then go_try (bw_WriteHeader out bh n) (\<lambda>e. go_ret (Inl e)) (io_Copy out t) else go_ret (Inr n))" for b bh n
    by (intro stops_intros reader_fewer bw_stops(1) Copy_stops assms) simp_all
  show ?thesis
    unfolding WriteBackupStreamFromTarFile_def
    by (cases "SecurityDescriptorFromTarHeader sddl h"; cases "ExtendedAttributesFromTarHeader h";
        simp only: sum.case; intro eats_error eats_try opt data ads_eats assms)
qed

section \<open>Buffering\<close>

text \<open>
  The contract of \<^verbatim>\<open>io.Writer\<close>: a write returns, leaves the streamer alone, and reports between 0 and all bytes written, with an
  error if not all.
\<close>

definition conforming :: "('w \<Rightarrow> 'x) \<Rightarrow> 'w writer \<Rightarrow> bool" where
  "conforming f wr \<longleftrightarrow> returning f wr \<and> (\<forall>b w n err w'. wr b w = (Ret (n, err), w') \<longrightarrow>
     0 \<le> n \<and> n \<le> int (length b) \<and> (n < int (length b) \<longrightarrow> err \<noteq> None))"

lemma conformingD:
  assumes "conforming f wr" and "wr b w = (Ret (n, err), w')"
  shows "0 \<le> n" and "n \<le> int (length b)" and "err = None \<Longrightarrow> n = int (length b)"
  using assms unfolding conforming_def by (blast, blast, force)

lemma conforming_stops: "conforming f wr \<Longrightarrow> stops (same f) (wr b)"
  by (simp add: conforming_def returning_def)

lemma conforming_Multi: "(\<And>wr. wr \<in> set ws \<Longrightarrow> conforming f wr) \<Longrightarrow> conforming f (MultiWriter ws)"
proof (induction ws)
  case Nil
  show ?case by (auto simp: conforming_def returning_def stops_def within_def same_def)
next
  case (Cons v ws)
  then have v: "conforming f v" and ws: "conforming f (MultiWriter ws)" by simp_all
  have "stops (same f) (MultiWriter (v # ws) b)" for b
    using conforming_stops [OF v] conforming_stops [OF ws] by (auto intro!: stops_intros split: prod.splits option.splits)
  moreover have "0 \<le> n \<and> n \<le> int (length b) \<and> (n < int (length b) \<longrightarrow> err \<noteq> None)"
    if run: "MultiWriter (v # ws) b w = (Ret (n, err), w')" for b w n err w'
  proof -
    from run obtain m e w1 where "v b w = (Ret (m, e), w1)"
      and "(e \<noteq> None \<and> n = m \<and> err = e) \<or> (e = None \<and> m \<noteq> int (length b) \<and> n = m \<and> err = Some ErrShortWrite)
        \<or> MultiWriter ws b w1 = (Ret (n, err), w')"
      by (auto simp: go_bind_def split: prod.splits go.splits option.splits if_splits)
    then show ?thesis using conformingD [OF v] conformingD [OF ws] by fastforce
  qed
  ultimately show ?case unfolding conforming_def returning_def by blast
qed

lemma buffer_stops:
  assumes "lawful s"
  shows "stops (same (\<lambda>w. st_r (ref_get s w))) (ref_modify (buffer_of s) f)"
  using assms by (simp add: stops_def within_def same_def ref_modify_def buffer_of_def lawful_def)

lemma Flush_stops:
  assumes "lawful s" and "conforming (ref_get s) wr"
  shows "stops (same (\<lambda>w. st_r (ref_get s w))) (bufio_Flush wr (buffer_of s))"
proof -
  have "stops (same (\<lambda>w. st_r (ref_get s w))) (wr b)" for b
    using assms(2) by (auto simp: conforming_def returning_def intro: stops_same)
  then show ?thesis
    unfolding bufio_Flush_def using buffer_stops [OF assms(1)] by (auto intro!: stops_intros split: option.splits prod.splits)
qed

text \<open>After a flush the buffer is empty or the error sticks, so that a write takes at most three turns.\<close>

lemma Flush_empties:
  assumes "lawful s" and "conforming (ref_get s) wr" and "bufio_Flush wr (buffer_of s) w = (Ret r, w')"
  shows "bb_buf (st_buf (ref_get s w')) = [] \<or> bb_err (st_buf (ref_get s w')) \<noteq> None"
  using assms by (auto simp: bufio_Flush_def lawful_def buffer_of_def go_simps split: option.splits prod.splits go.splits if_splits)

text \<open>One turn with an empty buffer, and the last turn.\<close>

lemma write_ends_last:
  assumes "lawful s" and "length p \<le> bufio_size - length (bb_buf (st_buf (ref_get s w))) \<or> bb_err (st_buf (ref_get s w)) \<noteq> None"
    and "bufio_write_loop (Suc k) wr (buffer_of s) p nn w = (r, w')"
  shows "r \<noteq> Diverged \<and> st_r (ref_get s w') = st_r (ref_get s w)"
  using assms by (auto simp: go_simps buffer_of_def lawful_def split: option.splits)

lemma write_ends_direct:
  assumes "lawful s" and "conforming (ref_get s) wr" and "bb_buf (st_buf (ref_get s w)) = [] \<or> bb_err (st_buf (ref_get s w)) \<noteq> None"
    and "bufio_write_loop (Suc (Suc k)) wr (buffer_of s) p nn w = (r, w')"
  shows "r \<noteq> Diverged \<and> st_r (ref_get s w') = st_r (ref_get s w)"
proof (cases "length p \<le> bufio_size - length (bb_buf (st_buf (ref_get s w))) \<or> bb_err (st_buf (ref_get s w)) \<noteq> None")
  case True
  from write_ends_last [OF assms(1) this assms(4)] show ?thesis .
next
  case False
  obtain q w1 where q: "wr p w = (q, w1)" by force
  from stopsD [OF conforming_stops [OF assms(2)] q] have d: "q \<noteq> Diverged" "ref_get s w1 = ref_get s w" by (auto simp: same_def)
  show ?thesis
  proof (cases q)
    case (Ret x)
    obtain n err where x: "x = (n, err)" by (cases x)
    let ?w2 = "ref_put s (ref_get s w1\<lparr>st_buf := st_buf (ref_get s w1)\<lparr>bb_err := err\<rparr>\<rparr>) w1"
    have w2: "ref_get s ?w2 = ref_get s w1\<lparr>st_buf := st_buf (ref_get s w1)\<lparr>bb_err := err\<rparr>\<rparr>" using assms(1) by (simp add: lawful_def)
    have n: "0 \<le> n" "n \<le> int (length p)" "err = None \<Longrightarrow> n = int (length p)" using conformingD [OF assms(2)] q Ret x by auto
    have "bufio_write_loop (Suc k) wr (buffer_of s) (drop (nat n) p) (nn + n) ?w2 = (r, w')"
      using assms(3,4) False q Ret x n
      by (subst (asm) bufio_write_loop.simps) (auto simp: go_simps buffer_of_def simp del: bufio_write_loop.simps)
    from write_ends_last [OF assms(1) _ this] n(3) w2 d show ?thesis by (cases err) auto
  qed (use assms(3,4) False q d in \<open>auto simp: go_simps buffer_of_def\<close>)
qed

lemma write_ends:
  assumes "lawful s" and "conforming (ref_get s) wr" and "bufio_write_loop (Suc (Suc (Suc k))) wr (buffer_of s) p nn w = (r, w')"
  shows "r \<noteq> Diverged \<and> st_r (ref_get s w') = st_r (ref_get s w)"
proof (cases "bb_buf (st_buf (ref_get s w)) = [] \<or> bb_err (st_buf (ref_get s w)) \<noteq> None
      \<or> length p \<le> bufio_size - length (bb_buf (st_buf (ref_get s w)))")
  case True
  then show ?thesis using write_ends_direct [OF assms(1,2) _ assms(3)] write_ends_last [OF assms(1) _ assms(3)] by blast
next
  case False
  let ?n = "bufio_size - length (bb_buf (st_buf (ref_get s w)))"
  let ?w1 = "ref_put s (ref_get s w\<lparr>st_buf := st_buf (ref_get s w)\<lparr>bb_buf := bb_buf (st_buf (ref_get s w)) @ take ?n p\<rparr>\<rparr>) w"
  have w1: "st_r (ref_get s ?w1) = st_r (ref_get s w)" using assms(1) by (simp add: lawful_def)
  obtain q w2 where q: "bufio_Flush wr (buffer_of s) ?w1 = (q, w2)" by force
  from stopsD [OF Flush_stops [OF assms(1,2)] q] have d: "q \<noteq> Diverged" "st_r (ref_get s w2) = st_r (ref_get s w)"
    using w1 by (auto simp: same_def)
  show ?thesis
  proof (cases q)
    case (Ret x)
    have "bufio_write_loop (Suc (Suc k)) wr (buffer_of s) (drop ?n p) (nn + int ?n) w2 = (r, w')"
      using assms(3) False q Ret
      by (subst (asm) bufio_write_loop.simps) (auto simp: go_simps buffer_of_def Let_def simp del: bufio_write_loop.simps)
    from write_ends_direct [OF assms(1,2) _ this] Flush_empties [OF assms(1,2)] q Ret d show ?thesis by auto
  qed (use assms(3) False q d in \<open>auto simp: go_simps buffer_of_def Let_def\<close>)
qed

lemma buffered_returning:
  assumes "lawful s" and "conforming (ref_get s) wr"
  shows "returning (ref_get (reader_of s)) (bufio_Write wr (buffer_of s))"
  unfolding returning_def bufio_Write_def
proof (intro allI stopsI)
  fix p w r w'
  assume "bufio_write_loop (length p + 3) wr (buffer_of s) p 0 w = (r, w')"
  then have "bufio_write_loop (Suc (Suc (Suc (length p)))) wr (buffer_of s) p 0 w = (r, w')"
    by (simp add: eval_nat_numeral del: bufio_write_loop.simps)
  from write_ends [OF assms this] show "r \<noteq> Diverged \<and> same (ref_get (reader_of s)) w w'" by (simp add: same_def reader_of_def)
qed

section \<open>The streamer\<close>

text \<open>Creating, writing and closing backup files returns and does not touch the streamer.\<close>

definition backups_return :: "('w \<Rightarrow> 'x) \<Rightarrow> ('w, 'f, 'b) backup_file_api \<Rightarrow> bool" where
  "backups_return f api \<longleftrightarrow> (\<forall>p. stops (same f) (bf_Create api p)) \<and> (\<forall>x. stops (same f) (bf_Close api x))
     \<and> (\<forall>x. stops (same f) (bf_NewBackupFileWriter api x)) \<and> (\<forall>b. conforming f (bf_Write api b)) \<and> (\<forall>b. stops (same f) (bf_CloseWriter api b))"

abbreviation archive_left :: "('w, Streamer) ref \<Rightarrow> 'w \<Rightarrow> nat" where
  "archive_left s \<equiv> entries_left (reader_of s)"

lemma streamer_fewer: "stops (same (ref_get s)) m \<Longrightarrow> stops (fewer (archive_left s)) m"
  by (erule stops_mono) (simp add: same_def fewer_def entries_left_def reader_of_def)

lemma part_fewer: "stops (same (\<lambda>w. st_r (ref_get s w))) m \<Longrightarrow> stops (fewer (archive_left s)) m"
  by (erule stops_mono) (simp add: same_def fewer_def entries_left_def reader_of_def)

lemma stream_to_eats:
  assumes "lawful s" and "conforming (ref_get s) wr"
  shows "eats (archive_left s) (stream_to sddl s wr h)"
  unfolding stream_to_def flushing_def bufio_Reset_def
  by (intro eats_bind part_fewer buffer_stops eats_defer_result Flush_stops backup_stream_eats buffered_returning lawful_parts assms)
     (auto split: if_splits)

lemma closing_eats: "stops (fewer f) c \<Longrightarrow> eats f m \<Longrightarrow> eats f (closing c m)"
  unfolding closing_def by (rule eats_defer_result) (auto split: if_splits)

lemma streamer_write_eats:
  assumes "lawful s" and "conforming (ref_get s) (lw_Write lw)" and "backups_return (ref_get s) api"
  shows "eats (archive_left s) (Streamer_WriteBackupStreamFromTarFile sddl api s lw h p)"
proof -
  have multi: "conforming (ref_get s) (MultiWriter [lw_Write lw, bf_Write api b])" for b
    using assms by (intro conforming_Multi) (auto simp: backups_return_def)
  show ?thesis
    unfolding Streamer_WriteBackupStreamFromTarFile_def
    using assms by (auto simp: backups_return_def split: option.split
        intro!: eats_try eats_bind eats_error closing_eats stream_to_eats streamer_fewer multi)
qed

end
