(* ===== verification/Unpack_Returns.thy ===== *)
theory Unpack_Returns
  imports Unpack_Privileges Stream_Stops
begin

text \<open>
  Unpack returns (src/driver/unpack.go): its loop has no bound in the code, but every turn that goes on uses up an entry of the
  archive. So it ends for every archive, well-formed or not, and whatever fails, provided that the calls it makes
  return; the streamer of the program is such that they do.
\<close>

section \<open>The contract\<close>

abbreviation ends :: "('w, 'a) io \<Rightarrow> bool" where
  "ends m \<equiv> stops (\<lambda>_ _. True) m"

lemma trivial_order [simp]: "reflp (\<lambda>_ _. True)" "transp (\<lambda>_ _. True)"
  by (auto intro: reflpI transpI)

lemma ends_if_stops: "stops R m \<Longrightarrow> ends m"
  by (erule stops_mono) simp

text \<open>The calls on a layer writer that a turn of the loop makes.\<close>

definition loop_calls_end :: "('w \<Rightarrow> nat) \<Rightarrow> ('w, 'r) Driver \<Rightarrow> 'w LayerWriter \<Rightarrow> bool" where
  "loop_calls_end left d lw \<longleftrightarrow>
     (\<forall>h p. eats left (ts_WriteBackupStreamFromTarFile (tarStreamer d) lw h p))
     \<and> (\<forall>n. stops (fewer left) (lw_Remove lw n)) \<and> (\<forall>n t. stops (fewer left) (lw_AddLink lw n t))
     \<and> (\<forall>n f. stops (fewer left) (lw_Add lw n f)) \<and> ends (lw_Close lw)"

locale unpack_ends =
  fixes os :: "'w os_api" and d :: "('w, 'r) Driver" and left :: "'w \<Rightarrow> nat" and start :: "'r \<Rightarrow> nat"
  assumes next_eats: "eats left (ts_Next (tarStreamer d))"
    and info_stops: "stops (fewer left) (ts_FileInfoFromHeader (tarStreamer d) h)"
    and reader_set: "ends (ts_SetReader (tarStreamer d) x)"
    and reader_start: "ts_SetReader (tarStreamer d) (Some tar) w = (Ret (), w') \<Longrightarrow> left w' \<le> start tar"
    and writer_ends: "ends (hcs_NewLayerWriter (hcsClient d) di i ps)"
    and writer_calls: "hcs_NewLayerWriter (hcsClient d) di i ps v = (Ret (Inr lw), v') \<Longrightarrow> loop_calls_end left d lw"
    and client_ends: "ends (hcs_LayerExists (hcsClient d) di i)" "ends (hcs_DestroyLayer (hcsClient d) di i)"
    and elevator_ends: "ends (pe_Enable (privilegeElevator d) ns)" "ends (pe_Disable (privilegeElevator d) ns)"
    and os_ends: "ends (os_ReadFile os p)" "ends (os_WriteFile os p b m)" "ends (os_MkdirAll os p m)"
begin

text \<open>A turn of the loop ends, and if the loop goes on it used up an entry.\<close>

definition advances :: "('w, (Header option \<times> go_error option \<times> int64) res) io \<Rightarrow> bool" where
  "advances m \<longleftrightarrow> stops (fewer left) m \<and> (\<forall>w h n w'. m w = (Ret (Inr (h, None, n)), w') \<longrightarrow> left w' < left w)"

lemma advances_error: "advances (go_ret (Inl e))"
  by (simp add: advances_def stops_intros)

lemma advances_eats: "eats left m \<Longrightarrow> advances (go_bind m (\<lambda>(h, e). go_ret (Inr (h, e, n))))"
  unfolding advances_def
  by (auto simp: eats_def intro!: stops_intros split: prod.splits dest!: go_bind_RetD)

lemma advances_bind:
  assumes "stops (fewer left) m" and "\<And>x. advances (k x)"
  shows "advances (go_bind m k)"
  unfolding advances_def
proof (intro conjI allI impI)
  show "stops (fewer left) (go_bind m k)" using assms by (auto simp: advances_def intro!: stops_intros)
  fix w h n w'
  assume "go_bind m k w = (Ret (Inr (h, None, n)), w')"
  then obtain x w1 where x: "m w = (Ret x, w1)" "k x w1 = (Ret (Inr (h, None, n)), w')" by (blast dest: go_bind_RetD)
  have "left w1 \<le> left w" using stopsD(2) [OF assms(1) x(1)] by (simp add: fewer_def)
  moreover have "left w' < left w1" using assms(2) x(2) unfolding advances_def by blast
  ultimately show "left w' < left w" by simp
qed

lemma advances_tryE: "stops (fewer left) m \<Longrightarrow> advances k \<Longrightarrow> advances (go_tryE m (\<lambda>e. go_ret (Inl e)) k)"
  unfolding go_tryE_def by (rule advances_bind) (auto simp: advances_error split: option.splits)

lemma step_advances:
  assumes "loop_calls_end left d lw"
  shows "advances (unpack_step d lw i hdr n)"
proof (cases hdr)
  case None
  then show ?thesis by (simp add: unpack_step_def advances_eats next_eats)
next
  case (Some g)
  have regular: "advances (go_try (ts_FileInfoFromHeader (tarStreamer d) g) (\<lambda>e. go_ret (Inl e)) (\<lambda>(name, sz, fileInfo).
      go_tryE (lw_Add lw (FromSlash name) fileInfo) (\<lambda>e. go_ret (Inl e))
        (go_bind (ts_WriteBackupStreamFromTarFile (tarStreamer d) lw g (Join [LayerStore d, i])) (\<lambda>(h, e). go_ret (Inr (h, e, n + sz))))))"
    using assms unfolding go_try_def loop_calls_end_def
    by (auto intro!: advances_bind info_stops advances_tryE advances_eats advances_error split: sum.splits)
  show ?thesis
    using Some assms regular
    by (auto simp: unpack_step_def loop_calls_end_def Let_def intro!: advances_tryE advances_eats next_eats)
qed

lemma loop_ends:
  assumes "loop_calls_end left d lw"
  shows "left w < fuel \<Longrightarrow> fst (unpack_loop fuel d lw i hdr n w) \<noteq> Diverged"
proof (induction fuel arbitrary: hdr n w)
  case (Suc fuel)
  obtain r w1 where s: "unpack_step d lw i hdr n w = (r, w1)" by force
  have a: "advances (unpack_step d lw i hdr n)" by (rule step_advances [OF assms])
  then have "r \<noteq> Diverged" using s by (auto simp: advances_def dest: stopsD)
  show ?case
  proof (cases "\<exists>h m. r = Ret (Inr (h, None, m))")
    case True
    then obtain h m where r: "r = Ret (Inr (h, None, m))" by blast
    with a s have "left w1 < left w" unfolding advances_def by blast
    with Suc.prems Suc.IH s r show ?thesis by simp
  next
    case False
    with s \<open>r \<noteq> Diverged\<close> show ?thesis by (auto simp: go_simps split: go.splits sum.splits option.splits)
  qed
qed simp

lemma ends_run: "ends m \<Longrightarrow> fst (m w) \<noteq> Diverged"
  by (simp add: stops_def)

lemma bind_ends_at: "ends m \<Longrightarrow> (\<And>x w1. m w = (Ret x, w1) \<Longrightarrow> fst (k x w1) \<noteq> Diverged) \<Longrightarrow> fst (go_bind m k w) \<noteq> Diverged"
  by (auto simp: stops_def go_bind_def split: prod.splits go.splits) (metis fst_conv)

lemma defer_ends_at: "ends c \<Longrightarrow> fst (m w) \<noteq> Diverged \<Longrightarrow> fst (go_defer c m w) \<noteq> Diverged"
  by (auto simp: stops_def go_defer_def split: prod.splits go.splits) (metis fst_conv)+

lemma importing_ends:
  assumes "start tar < fuel" and "loop_calls_end left d lw"
  shows "fst (importing fuel os d lw i tar w) \<noteq> Diverged"
proof -
  have tail: "ends (if e \<noteq> EOF then go_ret (0, Some e)
      else go_bind (os_WriteFile os (layerSizeFile d i) (FormatInt n) perm644) (\<lambda>err. go_ret (n, err)))" for e n
    by (intro stops_intros os_ends) simp_all
  have "fst (go_try (unpack_loop fuel d lw i None 0) (\<lambda>e. go_ret (0, Some e)) (\<lambda>(nextFileErr, totalSize).
      if nextFileErr \<noteq> EOF then go_ret (0, Some nextFileErr)
      else go_bind (os_WriteFile os (layerSizeFile d i) (FormatInt totalSize) perm644) (\<lambda>err. go_ret (totalSize, err))) u) \<noteq> Diverged"
    if "left u \<le> start tar" for u
    using loop_ends [OF assms(2), of u fuel i None 0] that assms(1) ends_run [OF tail]
    by (auto simp: go_try_def go_bind_def split: prod.splits go.splits sum.splits)
  then show ?thesis
    unfolding importing_def using assms(2) reader_start
    by (intro defer_ends_at bind_ends_at reader_set) (auto simp: loop_calls_end_def)
qed

lemma fresh_ends:
  assumes "start tar < fuel"
  shows "fst (unpack_fresh fuel os d di i ps tar w) \<noteq> Diverged"
proof -
  have "fst (go_try (hcs_NewLayerWriter (hcsClient d) di i ps') (\<lambda>e. go_ret (0, Some e)) (\<lambda>lw. importing fuel os d lw i tar) u) \<noteq> Diverged" for ps' u
    unfolding go_try_def
  proof (rule bind_ends_at [OF writer_ends])
    fix x w1
    assume "hcs_NewLayerWriter (hcsClient d) di i ps' u = (Ret x, w1)"
    then show "fst ((case x of Inl e \<Rightarrow> go_ret (0, Some e) | Inr lw \<Rightarrow> importing fuel os d lw i tar) w1) \<noteq> Diverged"
      using importing_ends [OF assms] writer_calls by (cases x) auto
  qed
  then show ?thesis
    unfolding fresh_importing go_tryE_def by (intro bind_ends_at os_ends) (auto split: option.splits)
qed

lemma Unpack_ends:
  assumes "start tar < fuel"
  shows "fst (Unpack fuel os d i ps tar w) \<noteq> Diverged"
proof -
  have again: "fst (go_tryE (hcs_DestroyLayer (hcsClient d) di i) (\<lambda>e. go_ret (0, Some e)) (unpack_fresh fuel os d di i ps tar) u) \<noteq> Diverged" for di u
    unfolding go_tryE_def using fresh_ends [OF assms] by (intro bind_ends_at client_ends) (simp split: option.split)
  have body: "fst (unpack_body fuel os d i ps tar b u) \<noteq> Diverged" for b u
    unfolding unpack_body_def Let_def go_try_def [of "os_ReadFile _ _"]
    using fresh_ends [OF assms] again by (auto intro!: bind_ends_at [OF os_ends(1)] split: sum.splits if_splits)
  have elevated: "fst (go_tryE (pe_Enable (privilegeElevator d) ns) (\<lambda>e. go_ret (0, Some e))
      (go_defer (pe_Disable (privilegeElevator d) ns) (unpack_body fuel os d i ps tar b)) u) \<noteq> Diverged" for ns b u
    unfolding go_tryE_def using defer_ends_at [OF elevator_ends(2) body]
    by (intro bind_ends_at elevator_ends) (simp split: option.split)
  show ?thesis
    unfolding Unpack_body go_try_def [of "hcs_LayerExists _ _ _"]
    using elevated by (auto intro!: bind_ends_at [OF client_ends(1)] split: sum.splits)
qed

end

section \<open>The program's streamer\<close>

text \<open>The calls Unpack makes outside the streamer return, do not touch the streamer, and the writer keeps the contract of
  \<^verbatim>\<open>io.Writer\<close>.\<close>

definition writer_returns :: "('w \<Rightarrow> 'x) \<Rightarrow> 'w LayerWriter \<Rightarrow> bool" where
  "writer_returns f lw \<longleftrightarrow> (\<forall>n. stops (same f) (lw_Remove lw n)) \<and> (\<forall>n t. stops (same f) (lw_AddLink lw n t))
     \<and> (\<forall>n i. stops (same f) (lw_Add lw n i)) \<and> conforming f (lw_Write lw) \<and> ends (lw_Close lw)"

definition calls_return :: "('w \<Rightarrow> 'x) \<Rightarrow> 'w os_api \<Rightarrow> ('w, 'r) Driver \<Rightarrow> bool" where
  "calls_return f os d \<longleftrightarrow>
     (\<forall>di i ps. ends (hcs_NewLayerWriter (hcsClient d) di i ps))
     \<and> (\<forall>di i ps v lw v'. hcs_NewLayerWriter (hcsClient d) di i ps v = (Ret (Inr lw), v') \<longrightarrow> writer_returns f lw)
     \<and> (\<forall>di i. ends (hcs_LayerExists (hcsClient d) di i) \<and> ends (hcs_DestroyLayer (hcsClient d) di i))
     \<and> (\<forall>ns. ends (pe_Enable (privilegeElevator d) ns) \<and> ends (pe_Disable (privilegeElevator d) ns))
     \<and> (\<forall>p. ends (os_ReadFile os p)) \<and> (\<forall>p b m. ends (os_WriteFile os p b m)) \<and> (\<forall>p m. ends (os_MkdirAll os p m))"

lemma streamer_ends:
  assumes streamer: "tarStreamer d = Streamer_Impl tar_of sddl api s" and law: "lawful s"
    and api: "backups_return (ref_get s) api" and calls: "calls_return (ref_get s) os d"
  shows "unpack_ends os d (archive_left s) (\<lambda>tar. length (tr_entries (tar_of tar)))"
proof (rule unpack_ends.intro)
  show "eats (archive_left s) (ts_Next (tarStreamer d))"
    by (simp add: streamer Streamer_Impl_def Streamer_Next_def Next_eats lawful_parts law)
  show "stops (fewer (archive_left s)) (ts_FileInfoFromHeader (tarStreamer d) h)" for h
    by (simp add: streamer Streamer_Impl_def Streamer_FileInfoFromHeader_def stops_intros)
  show "ends (ts_SetReader (tarStreamer d) x)" for x
    by (simp add: streamer Streamer_Impl_def SetReader_def ref_modify_def stops_def within_def)
  show "archive_left s w' \<le> length (tr_entries (tar_of tar))" if "ts_SetReader (tarStreamer d) (Some tar) w = (Ret (), w')" for tar w w'
    using that law by (auto simp: streamer Streamer_Impl_def SetReader_def ref_modify_def entries_left_def reader_of_def lawful_def)
  show "loop_calls_end (archive_left s) d lw" if "hcs_NewLayerWriter (hcsClient d) di i ps v = (Ret (Inr lw), v')" for di i ps v lw v'
  proof -
    from calls that have "writer_returns (ref_get s) lw" unfolding calls_return_def by blast
    then show ?thesis using streamer_write_eats [OF law _ api]
      by (auto simp: writer_returns_def loop_calls_end_def streamer Streamer_Impl_def intro: streamer_fewer)
  qed
qed (use calls in \<open>simp_all add: calls_return_def\<close>)

text \<open>
  C5: Unpack always ends, in a return or a panic: for every archive, complete, truncated or malformed, and whatever its calls answer,
  as long as these calls themselves end and its writers keep the contract of io.Writer. The unbounded loop of unpack.go and the
  loops of the streamer below it need one turn more than the archive has entries.
\<close>

theorem Unpack_returns:
  assumes "tarStreamer d = Streamer_Impl tar_of sddl api s" and "lawful s"
    and "backups_return (ref_get s) api" and "calls_return (ref_get s) os d"
    and "length (tr_entries (tar_of tar)) < fuel"
  shows "fst (Unpack fuel os d i ps tar w) \<noteq> Diverged"
  by (rule unpack_ends.Unpack_ends [OF streamer_ends [OF assms(1-4)] assms(5)])

end
