(* ===== verification/Unpack_Failure.thy ===== *)
theory Unpack_Failure
  imports Unpack_Privileges
begin

text \<open>
  A failed Unpack is not taken for a cached layer (src/driver/unpack.go): the size file, whose presence makes a later Unpack
  return without reading the archive, is written last, so that an Unpack that returns an error leaves it
  absent, unless writing that file is what failed.
\<close>

text \<open>The contract: no call but \<^verbatim>\<open>os.WriteFile\<close> makes the size file of a layer.\<close>

locale size_file_frame =
  fixes os :: "'w os_api" and d :: "('w, 'r) Driver" and files :: "'w \<Rightarrow> string \<Rightarrow> bytes option"
  assumes tar_unsized: "tar_frame (\<lambda>w. files w (layerSizeFile d i) = None) d"
    and mkdir_unsized: "os_MkdirAll os p m w = (r, w') \<Longrightarrow> files w (layerSizeFile d i) = None \<Longrightarrow> files w' (layerSizeFile d i) = None"
    and read_unsized: "os_ReadFile os p w = (q, w') \<Longrightarrow> files w (layerSizeFile d i) = None \<Longrightarrow> files w' (layerSizeFile d i) = None"
    and read_sized: "os_ReadFile os p w = (Ret (Inr c), w') \<Longrightarrow> files w p \<noteq> None"
    and exists_unsized: "hcs_LayerExists (hcsClient d) di j w = (b, w') \<Longrightarrow> files w (layerSizeFile d i) = None \<Longrightarrow> files w' (layerSizeFile d i) = None"
    and destroy_unsized: "hcs_DestroyLayer (hcsClient d) di j w = (r, w') \<Longrightarrow> files w (layerSizeFile d i) = None \<Longrightarrow> files w' (layerSizeFile d i) = None"
    and enable_unsized: "pe_Enable (privilegeElevator d) ns w = (r, w') \<Longrightarrow> files w (layerSizeFile d i) = None \<Longrightarrow> files w' (layerSizeFile d i) = None"
    and disable_unsized: "pe_Disable (privilegeElevator d) ns w = (r, w') \<Longrightarrow> files w (layerSizeFile d i) = None \<Longrightarrow> files w' (layerSizeFile d i) = None"
begin

abbreviation unsized :: "string \<Rightarrow> 'w \<Rightarrow> bool" where
  "unsized i \<equiv> \<lambda>w. files w (layerSizeFile d i) = None"

text \<open>An error of writing the size.\<close>

definition write_failed :: "string \<Rightarrow> int64 \<Rightarrow> go_error \<Rightarrow> bool" where
  "write_failed i n e \<longleftrightarrow> (\<exists>u u'. os_WriteFile os (layerSizeFile d i) (FormatInt n) perm644 u = (Ret (Some e), u'))"

lemma writer_unsized:
  assumes "hcs_NewLayerWriter (hcsClient d) di i ps v = (Ret (Inr lw), v')"
  shows "writer_agree (unsized j) lw lw" and "unsized j v \<Longrightarrow> unsized j v'"
  by (rule tar_frame.new_writer_ops [OF tar_unsized assms], rule agreeD(2) [OF tar_frame.new_writer [OF tar_unsized] _ assms])

lemma reader_unsized: "ts_SetReader (tarStreamer d) x w = (r, w') \<Longrightarrow> unsized i w \<Longrightarrow> unsized i w'"
  by (rule agreeD(2) [OF tar_frame.set_reader [OF tar_unsized]])

lemma close_unsized:
  assumes "writer_agree (unsized i) lw lw" and "lw_Close lw w = (r, w')"
  shows "unsized i w \<Longrightarrow> unsized i w'"
  using agreeD(2) [of "unsized i" "lw_Close lw" "lw_Close lw" w r w'] assms unfolding writer_agree_def by blast

lemma loop_unsized:
  assumes "writer_agree (unsized i) lw lw" and "unpack_loop fuel d lw j h n w = (r, w')"
  shows "unsized i w \<Longrightarrow> unsized i w'"
  by (rule tar_frame.loop_keeps [OF tar_unsized assms(1) _ assms(2)])

lemma fresh_unsized:
  assumes run: "unpack_fresh fuel os d di i ps tar w = (Ret (n, Some e), w')" and w: "unsized i w"
  shows "unsized i w' \<or> write_failed i n e"
proof -
  obtain x w1 where mk: "os_MkdirAll os (Join [LayerStore d, i]) perm755 w = (Ret x, w1)"
    using run unfolding unpack_fresh_def go_tryE_def by (auto dest!: go_bind_RetD)
  have w1: "unsized i w1" by (rule mkdir_unsized [OF mk w])
  show ?thesis
  proof (cases x)
    case (Some e')
    with run mk w1 show ?thesis by (simp add: unpack_fresh_def)
  next
    case None
    let ?new = "hcs_NewLayerWriter (hcsClient d) di i (prepend_paths (LayerStore d) [] ps)"
    obtain y w2 where nw: "?new w1 = (Ret y, w2)" using run mk None unfolding unpack_fresh_def go_try_def by (auto dest!: go_bind_RetD)
    show ?thesis
    proof (cases y)
      case (Inl e')
      have "unsized i w2" by (rule agreeD(2) [OF tar_frame.new_writer [OF tar_unsized] w1 nw])
      with run mk None nw Inl show ?thesis by (simp add: unpack_fresh_def)
    next
      case (Inr lw)
      note lw = writer_unsized [OF nw [unfolded Inr]]
      obtain c w3 z w4 q w5 where sr: "ts_SetReader (tarStreamer d) (Some tar) w2 = (Ret (), w3)"
        and lp: "unpack_loop fuel d lw i None 0 w3 = (Ret z, w4)" and res: "ts_SetReader (tarStreamer d) None q = (Ret (), w5)"
        and cl: "lw_Close lw w5 = (Ret c, w')"
        and z: "(\<exists>e'. z = Inl e' \<or> (\<exists>m. z = Inr (e', m) \<and> e' \<noteq> EOF)) \<and> q = w4
          \<or> z = Inr (EOF, n) \<and> os_WriteFile os (layerSizeFile d i) (FormatInt n) perm644 w4 = (Ret (Some e), q)"
        using run mk None nw Inr unfolding unpack_fresh_def go_try_def
        by (auto dest!: go_bind_RetD go_defer_RetD split: sum.splits if_splits prod.splits)
      show ?thesis
        using z reader_unsized [OF sr lw(2) [OF w1]] loop_unsized [OF lw(1) lp] reader_unsized [OF res] close_unsized [OF lw(1) cl]
        unfolding write_failed_def by blast
    qed
  qed
qed

lemma body_unsized:
  assumes run: "unpack_body fuel os d i ps tar b w = (Ret (n, Some e), w')" and w: "unsized i w"
  shows "unsized i w' \<or> write_failed i n e"
proof (cases b)
  case False
  with run w fresh_unsized show ?thesis by (simp add: unpack_body_def)
next
  case True
  obtain x w1 where rd: "os_ReadFile os (layerSizeFile d i) w = (Ret x, w1)"
    using run True unfolding unpack_body_def Let_def go_try_def by (auto dest!: go_bind_RetD)
  have w1: "unsized i w1" by (rule read_unsized [OF rd w])
  show ?thesis
  proof (cases x)
    case (Inr r)
    with rd have "os_ReadFile os (layerSizeFile d i) w = (Ret (Inr r), w1)" by simp
    with read_sized w show ?thesis by blast
  next
    case (Inl e')
    show ?thesis
    proof (cases "IsNotExist e'")
      case absent: True
      obtain y w2 where ds: "hcs_DestroyLayer (hcsClient d) \<lparr>Flavour = 1, HomeDir = LayerStore d\<rparr> i w1 = (Ret y, w2)"
        using run True rd Inl absent unfolding unpack_body_def Let_def go_tryE_def by (auto dest!: go_bind_RetD)
      have w2: "unsized i w2" by (rule destroy_unsized [OF ds w1])
      show ?thesis using run True rd Inl absent ds w2 fresh_unsized [OF _ w2]
        by (cases y) (simp_all add: unpack_body_def Let_def)
    next
      case False
      with run True rd Inl w1 show ?thesis by (simp add: unpack_body_def Let_def)
    qed
  qed
qed

lemma unpack_unsized:
  assumes run: "Unpack fuel os d i ps tar w = (Ret (n, Some e), w')" and w: "unsized i w"
  shows "unsized i w' \<or> write_failed i n e"
proof (cases "Store d = []")
  case True
  with run w show ?thesis by (simp add: Unpack_body)
next
  case False
  obtain x w1 where ex: "hcs_LayerExists (hcsClient d) \<lparr>Flavour = 1, HomeDir = LayerStore d\<rparr> i w = (Ret x, w1)"
    using run False unfolding Unpack_body go_try_def by (auto dest!: go_bind_RetD)
  have w1: "unsized i w1" by (rule exists_unsized [OF ex w])
  show ?thesis
  proof (cases x)
    case (Inl e')
    with run False ex w1 show ?thesis by (simp add: Unpack_body)
  next
    case (Inr b)
    obtain y w2 where en: "pe_Enable (privilegeElevator d) privileges w1 = (Ret y, w2)"
      using run False ex Inr unfolding Unpack_body go_tryE_def by (auto dest!: go_bind_RetD)
    have w2: "unsized i w2" by (rule enable_unsized [OF en w1])
    show ?thesis
    proof (cases y)
      case (Some e')
      with run False ex Inr en w2 show ?thesis by (simp add: Unpack_body)
    next
      case None
      with run False ex Inr en obtain w3 z where "unpack_body fuel os d i ps tar b w2 = (Ret (n, Some e), w3)"
        and dis: "pe_Disable (privilegeElevator d) privileges w3 = (Ret z, w')"
        by (auto simp: Unpack_body dest!: go_defer_RetD)
      with body_unsized w2 disable_unsized [OF dis] show ?thesis by blast
    qed
  qed
qed

end

text \<open>
  C6: a failed Unpack is not cached: if Unpack returns an error and the layer had no size file, it still has none, so that the
  next Unpack unpacks it again; the only exception is an error of os.WriteFile itself, which Unpack then returns.
\<close>

theorem Unpack_failure_not_cached:
  assumes "size_file_frame os d files" and "Unpack fuel os d i ps tar w = (Ret (n, Some e), w')" and "files w (layerSizeFile d i) = None"
  shows "files w' (layerSizeFile d i) = None
    \<or> (\<exists>u u'. os_WriteFile os (layerSizeFile d i) (FormatInt n) perm644 u = (Ret (Some e), u'))"
  using size_file_frame.unpack_unsized [OF assms] unfolding size_file_frame.write_failed_def [OF assms(1)] .

end
