(* ===== verification/Groot.thy ===== *)
theory Groot
  imports Driver
begin

text \<open>
  The library that calls the driver, src/vendor/code.cloudfoundry.org/groot: the image puller (imagepuller/image\_puller.go), which
  unpacks the layers of an image one on top of the other, the on-demand reader of their blobs (imagepuller/ondemand/reader.go), and the
  commands create, pull, delete and stats (create.go, pull.go, delete.go, stats.go). The fetcher of images is a value of type
  \<open>Fetcher\<close>, the interface that image\_puller.go declares; theory Fetchers has its two implementations and theory Command\_Line the
  command line (groot.go).
\<close>

section \<open>Errors\<close>

text \<open>\<^verbatim>\<open>errors.Wrap\<close> of github.com/pkg/errors, for an error that is not nil.\<close>

definition Wrap :: "go_error \<Rightarrow> string \<Rightarrow> go_error" where
  "Wrap err message = ErrorString (message @ '': '' @ Error err)"

section \<open>The on-demand reader\<close>

text \<open>
  A reader that opens its stream at the first read. Streams are of type \<open>'s\<close>; reading and closing them are the operations of
  their \<^verbatim>\<open>io.ReadCloser\<close>.
\<close>

record ('w, 's) stream_api =
  st_Read :: "'s \<Rightarrow> nat \<Rightarrow> ('w, bytes \<times> go_error option) io"
  st_Close :: "'s \<Rightarrow> ('w, go_error option) io"

record ('w, 's) OnDemand =
  od_Create :: "('w, 's res) io"
  od_reader :: "('w, 's option) ref"

definition OnDemand_Read :: "('w, 's) stream_api \<Rightarrow> ('w, 's) OnDemand \<Rightarrow> nat \<Rightarrow> ('w, bytes \<times> go_error option) io" where
  "OnDemand_Read api d n =
     go_bind (ref_read (od_reader d)) (\<lambda>reader.
     case reader of
       Some s \<Rightarrow> st_Read api s n
     | None \<Rightarrow>
         go_try (od_Create d) (\<lambda>e. go_ret ([], Some e)) (\<lambda>s.
         go_bind (ref_modify (od_reader d) (\<lambda>_. Some s)) (\<lambda>_. st_Read api s n)))"

definition OnDemand_Close :: "('w, 's) stream_api \<Rightarrow> ('w, 's) OnDemand \<Rightarrow> ('w, go_error option) io" where
  "OnDemand_Close api d =
     go_bind (ref_read (od_reader d)) (\<lambda>reader. case reader of None \<Rightarrow> go_ret None | Some s \<Rightarrow> st_Close api s)"

section \<open>The image puller\<close>

record LayerInfo =
  BlobID :: string
  ChainID :: string
  DiffID :: string
  ParentChainID :: string
  li_Size :: int64
  li_URLs :: "string list"
  li_MediaType :: string

text \<open>Of the configuration of an image the code reads the environment.\<close>

record ImageInfo =
  LayerInfos :: "LayerInfo list"
  ii_Env :: "string list"

record Image =
  img_Env :: "string list"
  img_ChainIDs :: "string list"
  img_Size :: int64

record ImageSpec =
  is_DiskLimit :: int64
  is_ExcludeImageFromQuota :: bool

record ('w, 's) Fetcher =
  ft_ImageInfo :: "('w, ImageInfo res) io"
  ft_StreamBlob :: "LayerInfo \<Rightarrow> ('w, ('s \<times> int64) res) io"
  ft_Close :: "('w, go_error option) io"

definition chainIDs :: "LayerInfo list \<Rightarrow> string list" where
  "chainIDs layerInfos = foldl (\<lambda>ids layerInfo. ids @ [ChainID layerInfo]) [] layerInfos"

definition layersSize :: "LayerInfo list \<Rightarrow> int64" where
  "layersSize layerInfos = foldl (\<lambda>totalSize layerInfo. totalSize + li_Size layerInfo) 0 layerInfos"

definition quotaExceeded :: "LayerInfo list \<Rightarrow> ImageSpec \<Rightarrow> go_error option" where
  "quotaExceeded layerInfos spec =
     (if is_ExcludeImageFromQuota spec \<or> is_DiskLimit spec = 0 then None
      else
        let totalSize = layersSize layerInfos in
        if sint totalSize > sint (is_DiskLimit spec)
        then Some (ErrorString (''layers exceed disk quota '' @ FormatInt totalSize @ ''/'' @ FormatInt (is_DiskLimit spec) @ '' bytes''))
        else None)"

text \<open>
  What the commands run on: the driver with the operating system it uses, the fuel of its loop, the fetcher and its streams, and the
  variable in which the on-demand reader of the layer being built keeps its stream; a new reader has none.
\<close>

record ('w, 's) Groot =
  g_fuel :: nat
  g_os :: "'w os_api"
  g_Driver :: "('w, ('w, 's) OnDemand) Driver"
  g_fetcher :: "('w, 's) Fetcher"
  g_streams :: "('w, 's) stream_api"
  g_reader :: "('w, 's option) ref"

definition onDemandReader :: "('w, 's) Groot \<Rightarrow> LayerInfo \<Rightarrow> ('w, 's) OnDemand" where
  "onDemandReader g layerInfo =
     \<lparr>od_Create =
        go_try (ft_StreamBlob (g_fetcher g) layerInfo)
          (\<lambda>e. go_ret (Inl (Wrap e (''opening stream for blob `'' @ BlobID layerInfo @ ''`''))))
          (\<lambda>(stream, blobSize). go_ret (Inr stream)),
      od_reader = g_reader g\<rparr>"

definition buildLayer :: "('w, 's) Groot \<Rightarrow> LayerInfo \<Rightarrow> string list \<Rightarrow> ('w, int64 \<times> go_error option) io" where
  "buildLayer g layerInfo parentChainIDs =
     go_bind (ref_modify (g_reader g) (\<lambda>_. None)) (\<lambda>_.
     go_defer (OnDemand_Close (g_streams g) (onDemandReader g layerInfo))
       (Unpack (g_fuel g) (g_os g) (g_Driver g) (ChainID layerInfo) parentChainIDs (onDemandReader g layerInfo)))"

text \<open>The loop of buildLayers; \<open>below\<close> are the layers built already, \<^verbatim>\<open>layerInfos[0:i]\<close>.\<close>

fun build_loop :: "('w, 's) Groot \<Rightarrow> LayerInfo list \<Rightarrow> LayerInfo list \<Rightarrow> int64 \<Rightarrow> ('w, int64 res) io" where
  "build_loop g below [] totalBytes = go_ret (Inr totalBytes)"
| "build_loop g below (layerInfo # rest) totalBytes =
     go_bind (buildLayer g layerInfo (chainIDs below)) (\<lambda>(builtBytes, err).
     case err of
       Some e \<Rightarrow> go_ret (Inl e)
     | None \<Rightarrow> build_loop g (below @ [layerInfo]) rest (totalBytes + builtBytes))"

definition buildLayers :: "('w, 's) Groot \<Rightarrow> LayerInfo list \<Rightarrow> ('w, int64 res) io" where
  "buildLayers g layerInfos = build_loop g [] layerInfos 0"

definition ImagePuller_Pull :: "('w, 's) Groot \<Rightarrow> ImageSpec \<Rightarrow> ('w, Image res) io" where
  "ImagePuller_Pull g spec =
     go_try (ft_ImageInfo (g_fetcher g)) (\<lambda>e. go_ret (Inl (Wrap e ''fetching list of layer infos''))) (\<lambda>imageInfo.
     case quotaExceeded (LayerInfos imageInfo) spec of
       Some e \<Rightarrow> go_ret (Inl e)
     | None \<Rightarrow>
         go_try (buildLayers g (LayerInfos imageInfo)) (\<lambda>e. go_ret (Inl e)) (\<lambda>imageSize.
         go_ret (Inr \<lparr>img_Env = ii_Env imageInfo, img_ChainIDs = chainIDs (LayerInfos imageInfo), img_Size = imageSize\<rparr>)))"

section \<open>The commands\<close>

text \<open>The runtime spec with the environment of its process; \<^const>\<open>None\<close> while there is no process.\<close>

record RuntimeSpec = Spec +
  spec_ProcessEnv :: "string list option"

text \<open>
  Create returns the spec along with the error of writing the metadata; where it returns the zero spec with an error
  the model has \<^const>\<open>None\<close>. Bundle leaves the process nil.
\<close>

definition Groot_Create :: "('w, 's) Groot \<Rightarrow> string \<Rightarrow> int64 \<Rightarrow> bool \<Rightarrow> ('w, RuntimeSpec option \<times> go_error option) io" where
  "Groot_Create g bundleID diskLimit excludeImageFromQuota =
     (if sint diskLimit < 0 then go_ret (None, Some (ErrorString (''invalid disk limit: '' @ FormatInt diskLimit)))
      else
        go_try (ImagePuller_Pull g \<lparr>is_DiskLimit = diskLimit, is_ExcludeImageFromQuota = excludeImageFromQuota\<rparr>)
          (\<lambda>e. go_ret (None, Some (Wrap e ''pulling image''))) (\<lambda>image.
        let counted = diskLimit \<noteq> 0 \<and> \<not> excludeImageFromQuota;
            quota = (if counted then diskLimit - img_Size image else diskLimit) in
        if counted \<and> sint quota \<le> 0 then
          go_ret (None, Some (ErrorString (''disk limit '' @ FormatInt diskLimit @ '' must be larger than image size '' @ FormatInt (img_Size image))))
        else
          go_try (Bundle (g_os g) (g_Driver g) bundleID (img_ChainIDs image) quota)
            (\<lambda>e. go_ret (None, Some (Wrap e ''creating bundle''))) (\<lambda>bundle.
          go_bind (WriteMetadata (g_os g) (g_Driver g) bundleID \<lparr>im_Size = img_Size image\<rparr>) (\<lambda>err.
          go_ret (Some (Spec.extend bundle
            \<lparr>spec_ProcessEnv = (if img_Env image \<noteq> [] then Some (img_Env image) else None)\<rparr>), err)))))"

definition Groot_Pull :: "('w, 's) Groot \<Rightarrow> ('w, go_error option) io" where
  "Groot_Pull g =
     go_try (ImagePuller_Pull g \<lparr>is_DiskLimit = 0, is_ExcludeImageFromQuota = False\<rparr>)
       (\<lambda>e. go_ret (Some (Wrap e ''pulling image''))) (\<lambda>image. go_ret None)"

definition Groot_Delete :: "('w, 's) Groot \<Rightarrow> string \<Rightarrow> ('w, go_error option) io" where
  "Groot_Delete g bundleID = Delete (g_Driver g) bundleID"

definition Groot_Stats :: "('w, 's) Groot \<Rightarrow> (json_error \<Rightarrow> string) \<Rightarrow> string \<Rightarrow> ('w, DiskUsage res) io" where
  "Groot_Stats g json_msg bundleID = Stats (g_os g) json_msg (g_Driver g) bundleID"

section \<open>Lemmas\<close>

lemma chainIDs_map: "chainIDs ls = map ChainID ls"
proof -
  have "foldl (\<lambda>ids l. ids @ [ChainID l]) acc ls = acc @ map ChainID ls" for acc
    by (induction ls arbitrary: acc) simp_all
  then show ?thesis by (simp add: chainIDs_def)
qed

text \<open>Opening the blob: the stream is created at the first read, and only once.\<close>

lemma OnDemand_reads:
  assumes "od_Create d w = (Ret (Inr s), w1)" and "ref_get (od_reader d) w = None"
  shows "OnDemand_Read api d n w = st_Read api s n (ref_put (od_reader d) (Some s) w1)"
    and "ref_get (od_reader d) v = Some s \<Longrightarrow> OnDemand_Read api d n v = st_Read api s n v"
  using assms by (simp_all add: OnDemand_Read_def go_simps)

text \<open>A negative limit is refused before anything happens; so is an image whose layers are too large in sum.\<close>

lemma Create_negative: "sint diskLimit < 0 \<Longrightarrow> snd (Groot_Create g bundleID diskLimit ex w) = w"
  by (simp add: Groot_Create_def)

text \<open>Create after the image is pulled.\<close>

definition create_quota :: "int64 \<Rightarrow> bool \<Rightarrow> Image \<Rightarrow> int64" where
  "create_quota diskLimit ex img = (if diskLimit \<noteq> 0 \<and> \<not> ex then diskLimit - img_Size img else diskLimit)"

definition bundle_image :: "('w, 's) Groot \<Rightarrow> string \<Rightarrow> int64 \<Rightarrow> Image \<Rightarrow> ('w, RuntimeSpec option \<times> go_error option) io" where
  "bundle_image g bundleID quota img =
     go_try (Bundle (g_os g) (g_Driver g) bundleID (img_ChainIDs img) quota)
       (\<lambda>e. go_ret (None, Some (Wrap e ''creating bundle''))) (\<lambda>bundle.
     go_bind (WriteMetadata (g_os g) (g_Driver g) bundleID \<lparr>im_Size = img_Size img\<rparr>) (\<lambda>err.
     go_ret (Some (Spec.extend bundle
       \<lparr>spec_ProcessEnv = (if img_Env img \<noteq> [] then Some (img_Env img) else None)\<rparr>), err)))"

lemma Create_split:
  assumes "0 \<le> sint diskLimit" and "ImagePuller_Pull g \<lparr>is_DiskLimit = diskLimit, is_ExcludeImageFromQuota = ex\<rparr> w = (Ret (Inr img), w1)"
  shows "Groot_Create g bundleID diskLimit ex w =
    (if diskLimit \<noteq> 0 \<and> \<not> ex \<and> sint (create_quota diskLimit ex img) \<le> 0
     then (Ret (None, Some (ErrorString (''disk limit '' @ FormatInt diskLimit @ '' must be larger than image size '' @ FormatInt (img_Size img)))), w1)
     else bundle_image g bundleID (create_quota diskLimit ex img) img w1)"
  using assms by (auto simp: Groot_Create_def bundle_image_def create_quota_def)

lemma sint_diff_pos:
  fixes a b :: int64
  assumes "0 \<le> sint a" and "0 < sint (a - b)"
  shows "sint (a - b) = sint a - sint b"
proof -
  let ?k = "sint a - sint b"
  have r: "- (2 ^ 63) \<le> sint x" "sint x < 2 ^ 63" for x :: int64
    using sint_ge [of x] sint_lt [of x] by simp_all
  have e: "sint (a - b) = signed_take_bit 63 ?k" by (simp add: sint_word_ariths)
  have "?k < 2 ^ 63"
  proof (rule ccontr)
    assume "\<not> ?k < 2 ^ 63"
    moreover have "?k < 2 ^ 64" using r [of a] r [of b] by simp
    ultimately have "0 \<le> ?k + 2 ^ 63 - 2 ^ 64" "?k + 2 ^ 63 - 2 ^ 64 < 2 ^ 64" by simp_all
    then have "(?k + 2 ^ 63) mod 2 ^ 64 = ?k + 2 ^ 63 - 2 ^ 64"
      by (metis minus_mod_self2 mod_pos_pos_trivial)
    then have "signed_take_bit 63 ?k < 0"
      using \<open>?k < 2 ^ 64\<close> by (simp add: signed_take_bit_eq_take_bit_shift take_bit_eq_mod)
    with e assms(2) show False by simp
  qed
  moreover have "- (2 ^ 63) \<le> ?k" using assms(1) r [of b] by simp
  ultimately show ?thesis using e by (simp add: signed_take_bit_int_eq_self)
qed

end
