(* ===== verification/Driver_Paths.thy ===== *)
theory Driver_Paths
  imports Driver
begin

text \<open>
  Where the driver keeps things: for a store on a drive (in any spelling), or a rooted store without a
  drive (which is put on C:), the layer and volume directories and the files in them are computed in
  closed form, and different identifiers and kinds of file never share a path.
\<close>

section \<open>Elements of a resolved path\<close>

lemma resolve_elems:
  "e \<in> set (resolve st es) \<Longrightarrow> e \<in> set st \<or> e \<in> set es \<and> e \<noteq> [] \<and> e \<noteq> ''.'' \<and> e \<noteq> ''..''"
proof (induction es arbitrary: st)
  case (Cons x xs)
  then have "e \<in> set (resolve (push_elem st x) xs)" by (simp add: resolve_def)
  from Cons.IH [OF this] show ?case
    by (auto simp: push_elem_def split: if_splits dest: in_set_butlastD)
qed (simp add: resolve_def)

lemma split_seps_chars: "e \<in> set (split_seps s) \<Longrightarrow> x \<in> set e \<Longrightarrow> x \<in> set s \<and> \<not> IsPathSeparator x"
proof (induction s arbitrary: e)
  case (Cons c s)
  obtain h t where ht: "split_seps s = h # t" by (cases "split_seps s") auto
  show ?case
    using Cons.prems Cons.IH [of h] Cons.IH [of e] ht by (auto split: if_splits)
qed simp

lemma resolved_names:
  assumes "CHR '':'' \<notin> set rest" and "CHR ''?'' \<notin> set rest"
  shows "\<forall>e \<in> set (resolve [] (split_seps rest)). name_ok e"
proof
  fix e assume "e \<in> set (resolve [] (split_seps rest))"
  then have e: "e \<in> set (split_seps rest)" "e \<noteq> []" "e \<noteq> ''.''" "e \<noteq> ''..''"
    using resolve_elems [of e "[]" "split_seps rest"] by auto
  with assms show "name_ok e"
    using split_seps_chars [OF e(1)] by (auto simp: name_ok_def)
qed

lemma std_names [simp]: "name_ok ''layers''" "name_ok ''volumes''" "name_ok ''metadata.json''" "name_ok ''size''"
  by (simp_all add: name_ok_def IsPathSeparator_def)

section \<open>Stores\<close>

text \<open>A store the path lemmas cover, and the drive and elements it stands for.\<close>

definition drive_store :: "string \<Rightarrow> char \<Rightarrow> string list \<Rightarrow> bool" where
  "drive_store store c es \<longleftrightarrow>
     (\<exists>s rest. IsPathSeparator s \<and> CHR '':'' \<notin> set rest \<and> CHR ''?'' \<notin> set rest
        \<and> es = resolve [] (split_seps rest)
        \<and> (store = c # CHR '':'' # s # rest \<and> c \<noteq> CHR ''/''
           \<or> store = s # rest \<and> c = CHR ''C'' \<and> (rest = [] \<or> \<not> IsPathSeparator (hd rest))))"

lemma toWindowsPath_drive:
  assumes "\<forall>e \<in> set es. name_ok e" and "c \<noteq> CHR ''/''"
  shows "toWindowsPath (drive c es) = drive c es"
  using assms by (simp add: toWindowsPath_def Clean_drive_id)

lemma last_not_colon: "CHR '':'' \<notin> set rest \<Longrightarrow> rest = [] \<or> last rest \<noteq> CHR '':''"
  using last_in_set by metis

lemma Join_rooted:
  assumes s: "IsPathSeparator s" and rest: "CHR '':'' \<notin> set rest" "CHR ''?'' \<notin> set rest"
    and head: "rest = [] \<or> \<not> IsPathSeparator (hd rest)" and n: "name_ok n"
  shows "Join [s # rest, n] = rooted_text (resolve [] (split_seps rest) @ [n])"
proof -
  let ?tail = "if IsPathSeparator (last (s # rest)) then rest @ n else rest @ bslash # n"
  have n': "hd n \<noteq> CHR '':''" "hd n \<noteq> CHR ''?''" "\<not> IsPathSeparator (hd n)" "n \<noteq> []" "CHR ''?'' \<notin> set n"
    using n hd_in_set [of n] by (auto simp: name_ok_def)
  have q: "take 2 n \<noteq> ''??''" using n'(2,4) by (cases n) auto
  have lc: "last (s # rest) \<noteq> CHR '':''"
    using s last_not_colon [OF rest(1)] by (auto simp: IsPathSeparator_def)
  have "join_loop [] [s # rest, n] = s # ?tail"
    using lc n q by (auto simp: dropWhile_sep_name)
  moreover have "volumeNameLen (s # ?tail) = 0"
    using volumeNameLen_rooted [OF s, of ?tail] head n' rest s by (cases rest) (auto simp: IsPathSeparator_def)
  moreover have "CHR ''?'' \<notin> set ?tail" using rest n'(5) by auto
  ultimately have "Join [s # rest, n] = rooted_text (resolve [] (split_seps ?tail))"
    using Clean_rooted [OF s] by (simp add: Join_def)
  moreover have "drive (CHR ''C'') (resolve [] (split_seps ?tail)) = drive (CHR ''C'') (resolve [] (split_seps rest) @ [n])"
    using Clean_drive [OF s, of "CHR ''C''" ?tail] Join_drive_any [OF s, of "CHR ''C''" rest n]
      last_not_colon [OF rest(1)] n lc
    by (auto simp: Join_def dropWhile_sep_name split: if_splits)
  ultimately show ?thesis by (simp add: drive_def)
qed

lemma toWindowsPath_rooted:
  assumes "\<forall>e \<in> set es. name_ok e" and "es \<noteq> []"
  shows "toWindowsPath (rooted_text es) = drive (CHR ''C'') es"
proof -
  let ?t = "tl (rooted_text es)"
  have t: "?t \<noteq> [] \<and> \<not> IsPathSeparator (hd ?t) \<and> hd ?t \<noteq> CHR '':'' \<and> hd ?t \<noteq> CHR ''?''"
    using assms by (cases es) (auto simp: rooted_text_def name_ok_def dest: hd_in_set)
  have rt: "rooted_text es = bslash # ?t" by (rule hd_rooted_text)
  have "VolumeName (rooted_text es) = []"
    using volumeNameLen_rooted [of bslash ?t] t rt by (simp add: VolumeName_def FromSlash_def)
  moreover have "join_loop [] [''C:'' @ [bslash], rooted_text es] = drive (CHR ''C'') es"
  proof -
    have "dropWhile IsPathSeparator (rooted_text es) = ?t"
      using t by (subst rt) (cases "?t", auto)
    then show ?thesis
      using rt by (simp add: drive_def)
  qed
  moreover have "drive (CHR ''C'') es \<noteq> []" by (simp add: drive_def)
  ultimately show ?thesis
    using Clean_drive_id [OF assms(1), of "CHR ''C''"]
    by (simp add: toWindowsPath_def Join_def Let_def)
qed

lemma store_path:
  assumes "drive_store store c es" and "name_ok n"
  shows "toWindowsPath (Join [store, n]) = drive c (es @ [n])"
    and "\<forall>e \<in> set es. name_ok e" and "c \<noteq> CHR ''/''"
proof -
  obtain s rest where s: "IsPathSeparator s" and r: "CHR '':'' \<notin> set rest" "CHR ''?'' \<notin> set rest"
    and es: "es = resolve [] (split_seps rest)"
    and shape: "store = c # CHR '':'' # s # rest \<and> c \<noteq> CHR ''/''
       \<or> store = s # rest \<and> c = CHR ''C'' \<and> (rest = [] \<or> \<not> IsPathSeparator (hd rest))"
    using assms(1) unfolding drive_store_def by blast
  show names: "\<forall>e \<in> set es. name_ok e" using resolved_names [OF r] es by simp
  show c: "c \<noteq> CHR ''/''" using shape by auto
  have names': "\<forall>e \<in> set (es @ [n]). name_ok e" using names assms(2) by simp
  from shape show "toWindowsPath (Join [store, n]) = drive c (es @ [n])"
  proof
    assume "store = c # CHR '':'' # s # rest \<and> c \<noteq> CHR ''/''"
    then have "Join [store, n] = drive c (es @ [n])"
      using Join_drive_any [OF s c last_not_colon [OF r(1)] assms(2)] es by simp
    then show ?thesis using toWindowsPath_drive [OF names' c] by simp
  next
    assume "store = s # rest \<and> c = CHR ''C'' \<and> (rest = [] \<or> \<not> IsPathSeparator (hd rest))"
    then have "Join [store, n] = rooted_text (es @ [n])" "c = CHR ''C''"
      using Join_rooted [OF s r _ assms(2)] es by simp_all
    then show ?thesis using toWindowsPath_rooted [OF names'] by simp
  qed
qed

lemma store_dirs:
  assumes "drive_store (Store d) c es" and "name_ok i"
  shows "Join [LayerStore d, i] = drive c (es @ [''layers'', i])"
    and "layerSizeFile d i = drive c (es @ [''layers'', i, ''size''])"
    and "layerPath \<lparr>Flavour = 1, HomeDir = VolumeStore d\<rparr> i = drive c (es @ [''volumes'', i])"
    and "metadataFile d i = drive c (es @ [''volumes'', i, ''metadata.json''])"
proof -
  note p = store_path [OF assms(1)]
  have L: "LayerStore d = drive c (es @ [''layers''])" and V: "VolumeStore d = drive c (es @ [''volumes''])"
    using p(1) by (simp_all add: LayerStore_def VolumeStore_def)
  have ok: "\<forall>e \<in> set es. name_ok e" "c \<noteq> CHR ''/''" using p(2,3) [of i] assms(2) by simp_all
  show "Join [LayerStore d, i] = drive c (es @ [''layers'', i])"
    and "layerSizeFile d i = drive c (es @ [''layers'', i, ''size''])"
    and "layerPath \<lparr>Flavour = 1, HomeDir = VolumeStore d\<rparr> i = drive c (es @ [''volumes'', i])"
    and "metadataFile d i = drive c (es @ [''volumes'', i, ''metadata.json''])"
    using Join_drive [OF _ ok(2)] ok(1) assms(2)
    by (simp_all add: L V layerSizeFile_def metadataFile_def layerPath_def)
qed

text \<open>
  For a store on a drive (any mixture of separators, doubled separators and dot elements), or a
  rooted store without a drive, which is taken to be on C:, the driver's directories and files are the
  normalised store followed by the documented names.
\<close>

theorem store_layout:
  assumes "drive_store (Store d) c es" and "name_ok i"
  shows "Join [LayerStore d, i] = drive c (es @ [''layers'', i])
    \<and> layerSizeFile d i = drive c (es @ [''layers'', i, ''size''])
    \<and> layerPath \<lparr>Flavour = 1, HomeDir = VolumeStore d\<rparr> i = drive c (es @ [''volumes'', i])
    \<and> metadataFile d i = drive c (es @ [''volumes'', i, ''metadata.json''])"
  using store_dirs [OF assms] by blast

definition example_driver :: "string \<Rightarrow> (unit, unit) Driver" where
  "example_driver store = \<lparr>Store = store,
     hcsClient = \<lparr>hcs_NewLayerWriter = (\<lambda>di i ps. go_ret (Inl EOF)), hcs_CreateLayer = (\<lambda>di i ps. go_ret None),
       hcs_LayerExists = (\<lambda>di i. go_ret (Inr False)), hcs_GetLayerMountPath = (\<lambda>di i. go_ret (Inr [])),
       hcs_DestroyLayer = (\<lambda>di i. go_ret None)\<rparr>,
     tarStreamer = \<lparr>ts_SetReader = (\<lambda>r. go_ret ()), ts_Next = go_ret (None, Some EOF),
       ts_FileInfoFromHeader = (\<lambda>h. go_ret (Inl EOF)),
       ts_WriteBackupStreamFromTarFile = (\<lambda>lw h p. go_ret (None, Some EOF))\<rparr>,
     privilegeElevator = \<lparr>pe_Enable = (\<lambda>ps. go_ret None), pe_Disable = (\<lambda>ps. go_ret None)\<rparr>,
     limiter = \<lparr>lim_SetQuota = (\<lambda>v n. go_ret None), lim_GetQuotaUsed = (\<lambda>v. go_ret (Inr 0))\<rparr>\<rparr>"

lemma drive_storeI:
  assumes "resolve [] (split_seps rest) = es" and "CHR '':'' \<notin> set rest \<and> CHR ''?'' \<notin> set rest"
  shows "c \<noteq> CHR ''/'' \<Longrightarrow> drive_store (c # CHR '':'' # CHR ''/'' # rest) c es"
    and "\<not> IsPathSeparator (hd rest) \<Longrightarrow> drive_store (CHR ''/'' # rest) (CHR ''C'') es"
  using assms unfolding drive_store_def by (auto simp: IsPathSeparator_def)

lemma example_stores:
  "drive_store (''c:/ProgramData/./x/../groot'') (CHR ''c'') [''ProgramData'', ''groot'']"
  "drive_store (''/var/vcap/groot'') (CHR ''C'') [''var'', ''vcap'', ''groot'']"
proof -
  have "resolve [] (split_seps ''ProgramData/./x/../groot'') = [''ProgramData'', ''groot'']"
    and "resolve [] (split_seps ''var/vcap/groot'') = [''var'', ''vcap'', ''groot'']"
    by code_simp+
  from drive_storeI(1) [OF this(1)] drive_storeI(2) [OF this(2)]
  show "drive_store (''c:/ProgramData/./x/../groot'') (CHR ''c'') [''ProgramData'', ''groot'']"
    and "drive_store (''/var/vcap/groot'') (CHR ''C'') [''var'', ''vcap'', ''groot'']"
    by (simp_all add: IsPathSeparator_def)
qed

lemma example_name: "name_ok ''abc''"
  by (simp add: name_ok_def IsPathSeparator_def)

theorem store_layout_witness:
  "Join [LayerStore (example_driver ''c:/ProgramData/./x/../groot''), ''abc'']
     = drive (CHR ''c'') [''ProgramData'', ''groot'', ''layers'', ''abc'']
   \<and> metadataFile (example_driver ''/var/vcap/groot'') ''abc''
     = drive (CHR ''C'') [''var'', ''vcap'', ''groot'', ''volumes'', ''abc'', ''metadata.json'']"
  using store_layout [of "example_driver ''c:/ProgramData/./x/../groot''", OF _ example_name]
    store_layout [of "example_driver ''/var/vcap/groot''", OF _ example_name] example_stores
  by (fastforce simp: example_driver_def)

section \<open>Separation\<close>

text \<open>
  When a file system takes two paths for the same, as one that ignores case does: the canonical form \<open>canon\<close> of a path is made element by element, and the
  names of the two directories of a store do not have the same one.
\<close>

definition elementwise :: "(string \<Rightarrow> string) \<Rightarrow> bool" where
  "elementwise canon \<longleftrightarrow> (\<forall>a b. canon (a @ bslash # b) = canon a @ bslash # canon b)
     \<and> (\<forall>n. bslash \<notin> set n \<longrightarrow> bslash \<notin> set (canon n)) \<and> canon ''layers'' \<noteq> canon ''volumes''"

lemma drive_snoc: "drive c (es @ [e]) = (if es = [] then [c, CHR '':''] else drive c es) @ bslash # e"
  by (simp add: drive_def rooted_text_snoc)

lemma canon_child:
  assumes "elementwise canon"
  shows "canon (drive c (es @ [e, n])) = canon (drive c (es @ [e])) @ bslash # canon n"
  using assms drive_snoc [of c "es @ [e]" n] by (simp add: elementwise_def)

lemma canon_dir:
  assumes "elementwise canon"
  shows "canon (drive c (es @ [e])) = canon (if es = [] then [c, CHR '':''] else drive c es) @ bslash # canon e"
  using assms drive_snoc [of c es e] by (simp add: elementwise_def)

lemma canon_dirs_differ:
  assumes "elementwise canon"
  shows "canon (drive c (es @ [''layers''])) @ bslash # x \<noteq> canon (drive c (es @ [''volumes''])) @ bslash # y"
proof
  assume "canon (drive c (es @ [''layers''])) @ bslash # x = canon (drive c (es @ [''volumes''])) @ bslash # y"
  then have "canon ''layers'' @ bslash # x = canon ''volumes'' @ bslash # y" by (simp add: canon_dir [OF assms])
  then have "takeWhile (\<lambda>ch. ch \<noteq> bslash) (canon ''layers'' @ bslash # x) = takeWhile (\<lambda>ch. ch \<noteq> bslash) (canon ''volumes'' @ bslash # y)"
    by simp
  moreover have "bslash \<notin> set (canon ''layers'')" "bslash \<notin> set (canon ''volumes'')" using assms by (simp_all add: elementwise_def)
  ultimately have "canon ''layers'' = canon ''volumes''" by (auto simp: takeWhile_append takeWhile_eq_all_conv split: if_splits)
  with assms show False by (simp add: elementwise_def)
qed

lemma Join_parent:
  assumes "\<forall>e \<in> set es. name_ok e" and "c \<noteq> CHR ''/''" and "name_ok i" and "name_ok n"
  shows "Join [drive c (es @ [''volumes'']), ''..'' @ bslash # n @ bslash # i] = drive c (es @ [n, i])"
proof -
  let ?es = "es @ [''volumes'']" and ?h = "''..'' @ bslash # n @ bslash # i"
  have ok: "\<forall>e \<in> set ?es. name_ok e" "\<forall>e \<in> set ?es. elem_ok e" using assms(1) by auto
  have ne: "rooted_text ?es \<noteq> []" using length_rooted_text_pos [of ?es] by blast
  have "last (drive c ?es) \<noteq> CHR '':'' \<and> \<not> IsPathSeparator (last (drive c ?es))"
    using last_rooted_text [OF ok(1)] ne by (simp add: drive_def)
  then have "join_loop [] [drive c ?es, ?h] = drive c ?es @ bslash # ?h" by (simp add: drive_def)
  also have "\<dots> = c # CHR '':'' # bslash # (tl (rooted_text ?es) @ bslash # ?h)"
    using hd_rooted_text [of ?es] by (simp add: drive_def)
  finally have "Join [drive c ?es, ?h] = drive c (resolve [] (split_seps (tl (rooted_text ?es) @ bslash # ?h)))"
    using Clean_drive [OF IsPathSeparator_bslash assms(2)] by (simp add: Join_def)
  also have "split_seps (tl (rooted_text ?es) @ bslash # ?h) = ?es @ [''..'', n, i]"
    using ok(2) assms(3,4) split_seps_append_sep [OF IsPathSeparator_bslash, of "''..''" "n @ bslash # i"]
    by (simp add: split_seps_append_sep split_seps_rooted split_seps_name IsPathSeparator_def)
  also have "resolve [] (?es @ [''..'', n, i]) = es @ [n, i]"
    using resolve_names [OF ok(1), of "[]"] resolve_names [of "[n, i]" es] assms(3,4)
    by (simp add: resolve_append) (simp add: resolve_def push_elem_def)
  finally show ?thesis .
qed

text \<open>
  C31: in a store on a drive, or a rooted one without a drive, and for identifiers that are plain names, no two layers share a size file, no two volumes share a
  metadata file or a layer path, and nothing of a layer is ever a path of a volume, also where names that differ in case (or in what else the file system ignores in an element)
  are the same. A handle that is not a plain name is not kept apart: the one that leads from the volumes to a layer names this layer, and the program does not refuse it.
\<close>

theorem store_separation:
  assumes "drive_store (Store d) c es" and "name_ok i" and "name_ok j" and "elementwise canon"
  shows "(canon (layerSizeFile d i) = canon (layerSizeFile d j) \<longleftrightarrow> canon i = canon j)
    \<and> (canon (metadataFile d i) = canon (metadataFile d j) \<longleftrightarrow> canon i = canon j)
    \<and> (canon (layerPath \<lparr>Flavour = 1, HomeDir = VolumeStore d\<rparr> i) = canon (layerPath \<lparr>Flavour = 1, HomeDir = VolumeStore d\<rparr> j) \<longleftrightarrow> canon i = canon j)
    \<and> canon (layerPath \<lparr>Flavour = 1, HomeDir = VolumeStore d\<rparr> i) \<noteq> canon (layerPath \<lparr>Flavour = 1, HomeDir = LayerStore d\<rparr> j)
    \<and> canon (layerSizeFile d i) \<noteq> canon (metadataFile d j)
    \<and> layerPath \<lparr>Flavour = 1, HomeDir = VolumeStore d\<rparr> (''..'' @ bslash # ''layers'' @ bslash # i) = layerPath \<lparr>Flavour = 1, HomeDir = LayerStore d\<rparr> i"
proof -
  note dirs = store_dirs [OF assms(1,2)] store_dirs [OF assms(1,3)]
  note child = canon_child [OF assms(4)] and differ = canon_dirs_differ [OF assms(4), of c es]
  have size: "canon (layerSizeFile d k) = canon (drive c (es @ [''layers''])) @ bslash # canon k @ bslash # canon ''size''"
    and meta: "canon (metadataFile d k) = canon (drive c (es @ [''volumes''])) @ bslash # canon k @ bslash # canon ''metadata.json''"
    if "k = i \<or> k = j" for k
    using that dirs child [of c "es @ [''layers'']" k "''size''"] child [of c es "''layers''" k]
      child [of c "es @ [''volumes'']" k "''metadata.json''"] child [of c es "''volumes''" k] by auto
  have layer: "layerPath \<lparr>Flavour = 1, HomeDir = LayerStore d\<rparr> k = drive c (es @ [''layers'', k])"
    and volume: "layerPath \<lparr>Flavour = 1, HomeDir = VolumeStore d\<rparr> k = drive c (es @ [''volumes'', k])" if "k = i \<or> k = j" for k
    using that dirs by (auto simp: layerPath_def)
  have V: "VolumeStore d = drive c (es @ [''volumes''])" using store_path(1) [OF assms(1)] by (simp add: VolumeStore_def)
  have escape: "layerPath \<lparr>Flavour = 1, HomeDir = VolumeStore d\<rparr> (''..'' @ bslash # ''layers'' @ bslash # i) = drive c (es @ [''layers'', i])"
    using Join_parent [OF store_path(2,3) [OF assms(1,2)] assms(2), of "''layers''"] by (simp add: layerPath_def V)
  show ?thesis
    unfolding escape using differ differ [symmetric]
    by (simp add: size meta layer volume child)
qed

lemma elementwise_toUpper: "elementwise (map toUpper)"
proof -
  have low: "char_of (of_char ch - 32 :: nat) \<noteq> bslash" if "(of_char ch :: nat) \<le> 122" for ch
  proof
    assume "char_of (of_char ch - 32 :: nat) = bslash"
    then have "(of_char (char_of (of_char ch - 32 :: nat)) :: nat) = of_char bslash" by (simp only:)
    with that show False by simp
  qed
  have up: "toUpper ch = bslash \<longleftrightarrow> ch = bslash" for ch
  proof (cases "97 \<le> (of_char ch :: nat) \<and> (of_char ch :: nat) \<le> 122")
    case True
    then show ?thesis using low [of ch] by (auto simp: toUpper_def)
  qed (auto simp: toUpper_def)
  have "map toUpper (a @ bslash # b) = map toUpper a @ bslash # map toUpper b" for a b
    using up [of bslash] by simp
  moreover have "bslash \<notin> set (map toUpper n)" if "bslash \<notin> set n" for n
  proof
    assume "bslash \<in> set (map toUpper n)"
    then obtain ch where ch: "bslash = toUpper ch" "ch \<in> set n" unfolding set_map by (rule imageE)
    from ch(1) [symmetric] have "ch = bslash" by (simp only: up)
    with ch(2) that show False by simp
  qed
  moreover have "map toUpper ''layers'' \<noteq> map toUpper ''volumes''"
    by (rule notI, drule map_eq_imp_length_eq) simp
  ultimately show ?thesis unfolding elementwise_def by blast
qed

theorem store_separation_witness:
  "map toUpper (layerSizeFile (example_driver ''/var/vcap/groot'') ''abc'') \<noteq> map toUpper (metadataFile (example_driver ''/var/vcap/groot'') ''ABC'')
   \<and> map toUpper (layerSizeFile (example_driver ''/var/vcap/groot'') ''abc'') = map toUpper (layerSizeFile (example_driver ''/var/vcap/groot'') ''ABC'')"
proof -
  have "name_ok ''ABC''" by (simp add: name_ok_def IsPathSeparator_def)
  moreover have "map toUpper ''abc'' = map toUpper ''ABC''" by code_simp
  ultimately show ?thesis
    using store_separation [of "example_driver ''/var/vcap/groot''", OF _ example_name _ elementwise_toUpper, of "CHR ''C''" _ "''ABC''"] example_stores(2)
    by (fastforce simp: example_driver_def)
qed

end
