(* ===== verification/Driver_Bundle.thy ===== *)
theory Driver_Bundle
  imports Driver
begin

text \<open>
  Properties of Bundle, Delete, WriteMetadata and Stats (src/driver/bundle.go, delete.go, write_metadata.go, stats.go)
  over the contract of the layer client (\<open>hcs_contract\<close>): which layers exist afterwards on success, on every error and after a
  panic, the order of the layer folders, the quota that is set, and the disk usage that is reported.
\<close>

section \<open>Parents are listed newest first\<close>

lemma prepend_paths_rev: "prepend_paths store acc is = rev (map (\<lambda>i. Join [store, i]) is) @ acc"
  by (induction "is" arbitrary: acc) simp_all

section \<open>Layers\<close>

text \<open>Making the volume directory and setting a quota create and remove no layers.\<close>

locale bundle_contract = hcs_contract "hcsClient d" present
  for d :: "('w, 'r) Driver" and present :: "'w \<Rightarrow> string set" +
  fixes os :: "'w os_api"
  assumes mkdir_keeps: "within (same present) (os_MkdirAll os p m)"
    and quota_keeps: "within (same present) (lim_SetQuota (limiter d) v n)"
begin

definition volume :: "string \<Rightarrow> string" where
  "volume i = layerPath \<lparr>Flavour = 1, HomeDir = VolumeStore d\<rparr> i"

lemma cleanup_drops: "within (drops_layer present (volume i)) (cleanupLayer d \<lparr>Flavour = 1, HomeDir = VolumeStore d\<rparr> i e)"
  unfolding cleanupLayer_def volume_def by (intro within_intros destroy_frame) simp_all

text \<open>The part of Bundle after the existence test.\<close>

definition creating :: "string \<Rightarrow> string list \<Rightarrow> int64 \<Rightarrow> ('w, Spec res) io" where
  "creating i ls n =
     (let di = \<lparr>Flavour = 1, HomeDir = VolumeStore d\<rparr>; fs = prepend_paths (LayerStore d) [] ls in
      go_tryE (hcs_CreateLayer (hcsClient d) di i fs) (cleanupLayer d di i)
      (go_try (hcs_GetLayerMountPath (hcsClient d) di i) (cleanupLayer d di i) (\<lambda>volumePath.
       if volumePath = [] then cleanupLayer d di i (MissingVolumePathError i)
       else
         go_tryE (lim_SetQuota (limiter d) volumePath n) (cleanupLayer d di i)
         (go_ret (Inr \<lparr>spec_Version = specs_Version, spec_RootPath = volumePath,
                       spec_LayerFolders = fs\<rparr>)))))"

lemma Bundle_creating:
  "Bundle os d i ls n =
     (if Store d = [] then go_ret (Inl EmptyDriverStoreError)
      else go_tryE (os_MkdirAll os (VolumeStore d) perm755) (\<lambda>e. go_ret (Inl e))
        (go_try (hcs_LayerExists (hcsClient d) \<lparr>Flavour = 1, HomeDir = VolumeStore d\<rparr> i) (\<lambda>e. go_ret (Inl e)) (\<lambda>exists.
         if exists then go_ret (Inl (LayerExistsError i)) else creating i ls n)))"
  unfolding Bundle_def creating_def Let_def ..

text \<open>Worlds that differ at most in the one volume.\<close>

definition but :: "string \<Rightarrow> 'w \<Rightarrow> 'w \<Rightarrow> bool" where
  "but p w w' \<longleftrightarrow> present w' - {p} = present w - {p}"

lemma but_order [simp]: "reflp (but p)" "transp (but p)"
  by (auto simp: but_def intro!: reflpI transpI)

lemma creating_but: "within (but (volume i)) (creating i ls n)"
proof -
  have sub: "within (but (volume i)) m" if "within (same present) m" for m :: "('w, 'x) io"
    using that by (rule within_mono) (simp add: same_def but_def)
  have cl: "within (but (volume i)) (cleanupLayer d \<lparr>Flavour = 1, HomeDir = VolumeStore d\<rparr> i e)" for e
    using cleanup_drops by (rule within_mono) (auto simp: but_def drops_layer_def)
  have cr: "within (but (volume i)) (hcs_CreateLayer (hcsClient d) \<lparr>Flavour = 1, HomeDir = VolumeStore d\<rparr> i fs)" for fs
    using create_frame unfolding volume_def by (rule within_mono) (auto simp: but_def adds_layer_def)
  show ?thesis
    unfolding creating_def Let_def
    by (intro within_intros cl cr sub [OF mount_frame] sub [OF quota_keeps]) simp_all
qed

lemma creating_ok:
  assumes "creating i ls n w = (Ret (Inr sp), w')"
  shows "volume i \<in> present w' \<and> spec_RootPath sp \<noteq> [] \<and> spec_LayerFolders sp = rev (map (\<lambda>l. Join [LayerStore d, l]) ls)
    \<and> (\<exists>w0 w1 u. hcs_CreateLayer (hcsClient d) \<lparr>Flavour = 1, HomeDir = VolumeStore d\<rparr> i (spec_LayerFolders sp) w0 = (Ret None, w1)
        \<and> hcs_GetLayerMountPath (hcsClient d) \<lparr>Flavour = 1, HomeDir = VolumeStore d\<rparr> i w1 = (Ret (Inr (spec_RootPath sp)), u)
        \<and> lim_SetQuota (limiter d) (spec_RootPath sp) n u = (Ret None, w'))"
proof -
  let ?di = "\<lparr>Flavour = 1, HomeDir = VolumeStore d\<rparr>" and ?fs = "prepend_paths (LayerStore d) [] ls"
  have no: "cleanupLayer d ?di i e v \<noteq> (Ret (Inr sp), v')" for e v v'
    by (auto simp: cleanupLayer_def go_simps split: prod.splits go.splits)
  from assms obtain w1 w2 v where cr: "hcs_CreateLayer (hcsClient d) ?di i ?fs w = (Ret None, w1)"
    and mp: "hcs_GetLayerMountPath (hcsClient d) ?di i w1 = (Ret (Inr v), w2)" "v \<noteq> []"
    and q: "lim_SetQuota (limiter d) v n w2 = (Ret None, w')"
    and sp: "sp = \<lparr>spec_Version = specs_Version, spec_RootPath = v, spec_LayerFolders = ?fs\<rparr>"
    using no unfolding creating_def Let_def go_tryE_def go_try_def
    by (auto dest!: go_bind_RetD split: option.splits sum.splits if_splits)
  have "present w' = present w1"
    using withinD [OF mount_frame mp(1)] withinD [OF quota_keeps q] by (simp add: same_def)
  then have "volume i \<in> present w'" using create_ok [OF cr] by (simp add: volume_def)
  moreover have "spec_LayerFolders sp = ?fs" "spec_RootPath sp = v" using sp by simp_all
  ultimately show ?thesis using cr mp q by (auto simp: prepend_paths_rev)
qed

lemma creating_failed:
  assumes "creating i ls n w = (Ret (Inl e), w')" and destroys: "\<And>w. \<exists>u. hcs_DestroyLayer (hcsClient d) \<lparr>Flavour = 1, HomeDir = VolumeStore d\<rparr> i w = (Ret None, u)"
  shows "volume i \<notin> present w'"
proof -
  let ?di = "\<lparr>Flavour = 1, HomeDir = VolumeStore d\<rparr>"
  have "\<exists>f v. cleanupLayer d ?di i f v = (Ret (Inl e), w')"
    using assms(1) unfolding creating_def Let_def go_tryE_def go_try_def
    by (auto dest!: go_bind_RetD split: option.splits sum.splits if_splits) blast+
  then obtain v where "hcs_DestroyLayer (hcsClient d) ?di i v = (Ret None, w')"
    using destroys by (auto simp: cleanupLayer_def dest!: go_bind_RetD) (metis Pair_inject go.inject)
  then show ?thesis using destroy_ok by (simp add: volume_def)
qed

text \<open>How a run of Bundle looks: it ends before it creates anything, or it found no such volume and creates it.\<close>

lemma Bundle_cases:
  assumes "Bundle os d i ls n w = (r, w')"
  obtains (early) "present w' = present w" "\<And>sp. r \<noteq> Ret (Inr sp)"
    | (create) w1 where "volume i \<notin> present w" "present w1 = present w" "creating i ls n w1 = (r, w')"
proof -
  let ?di = "\<lparr>Flavour = 1, HomeDir = VolumeStore d\<rparr>"
  obtain q w1 where mk: "os_MkdirAll os (VolumeStore d) perm755 w = (q, w1)" by force
  obtain x w2 where ex: "hcs_LayerExists (hcsClient d) ?di i w1 = (x, w2)" by force
  have p: "present w1 = present w" "present w2 = present w"
    using withinD [OF mkdir_keeps mk] withinD [OF exists_frame ex] by (simp_all add: same_def)
  show thesis
  proof (cases "Store d \<noteq> [] \<and> q = Ret None \<and> x = Ret (Inr False)")
    case True
    then have "Bundle os d i ls n w = creating i ls n w2" using mk ex by (simp add: Bundle_creating)
    with assms have "creating i ls n w2 = (r, w')" by simp
    moreover have "volume i \<notin> present w" using exists_ok [of _ i w1 False w2] ex True p by (simp add: volume_def)
    ultimately show thesis using create p by blast
  next
    case False
    then have "w' \<in> {w, w1, w2}" "\<And>sp. r \<noteq> Ret (Inr sp)"
      using assms mk ex by (auto simp: Bundle_creating go_simps split: if_splits go.splits option.splits sum.splits bool.splits)
    then show thesis using early p by blast
  qed
qed

lemma bundle_ok:
  assumes "Bundle os d i ls n w = (Ret (Inr sp), w')"
  shows "volume i \<notin> present w \<and> present w' = insert (volume i) (present w) \<and> spec_RootPath sp \<noteq> []
    \<and> spec_LayerFolders sp = rev (map (\<lambda>l. Join [LayerStore d, l]) ls)
    \<and> (\<exists>w0 w1 u. hcs_CreateLayer (hcsClient d) \<lparr>Flavour = 1, HomeDir = VolumeStore d\<rparr> i (spec_LayerFolders sp) w0 = (Ret None, w1)
        \<and> hcs_GetLayerMountPath (hcsClient d) \<lparr>Flavour = 1, HomeDir = VolumeStore d\<rparr> i w1 = (Ret (Inr (spec_RootPath sp)), u)
        \<and> lim_SetQuota (limiter d) (spec_RootPath sp) n u = (Ret None, w'))"
  using assms
proof (cases rule: Bundle_cases)
  case (create w1)
  from withinD [OF creating_but create(3)] have "present w' - {volume i} = present w1 - {volume i}" by (simp add: but_def)
  with create creating_ok [OF create(3)] show ?thesis by blast
qed blast

lemma bundle_frame:
  assumes "Bundle os d i ls n w = (r, w')"
  shows "present w \<subseteq> present w' \<and> present w' \<subseteq> insert (volume i) (present w)"
  using assms
proof (cases rule: Bundle_cases)
  case (create w1)
  from withinD [OF creating_but create(3)] have "present w' - {volume i} = present w1 - {volume i}" by (simp add: but_def)
  with create show ?thesis by auto
qed auto

lemma bundle_atomic:
  assumes "Bundle os d i ls n w = (Ret (Inl e), w')"
    and "\<And>w. \<exists>u. hcs_DestroyLayer (hcsClient d) \<lparr>Flavour = 1, HomeDir = VolumeStore d\<rparr> i w = (Ret None, u)"
  shows "present w' = present w"
  using assms(1)
proof (cases rule: Bundle_cases)
  case (create w1)
  from withinD [OF creating_but create(3)] have "present w' - {volume i} = present w1 - {volume i}" by (simp add: but_def)
  with create creating_failed [OF create(3) assms(2)] show ?thesis by auto
qed auto

lemma delete_cases:
  assumes "Delete d i w = (r, w')" and "Store d \<noteq> []"
  obtains (unknown) "r \<noteq> Ret None" "present w' = present w"
    | (absent) "r = Ret None" "volume i \<notin> present w" "present w' = present w"
    | (destroy) w1 where "volume i \<in> present w" "present w1 = present w"
        "hcs_DestroyLayer (hcsClient d) \<lparr>Flavour = 1, HomeDir = VolumeStore d\<rparr> i w1 = (r, w')"
proof -
  obtain x w1 where ex: "hcs_LayerExists (hcsClient d) \<lparr>Flavour = 1, HomeDir = VolumeStore d\<rparr> i w = (x, w1)" by force
  have p: "present w1 = present w" using withinD [OF exists_frame ex] by (simp add: same_def)
  consider "x = Ret (Inr True)" | "x = Ret (Inr False)" | "\<forall>b. x \<noteq> Ret (Inr b)" by blast
  then show thesis
  proof cases
    case 1
    then have "volume i \<in> present w" using exists_ok [of _ i w True] ex by (simp add: volume_def)
    with 1 show thesis using assms ex p destroy by (simp add: Delete_def Let_def)
  next
    case 2
    then have "volume i \<notin> present w" using exists_ok [of _ i w False] ex by (simp add: volume_def)
    with 2 show thesis using assms ex p absent by (simp add: Delete_def Let_def)
  next
    case 3
    then show thesis using assms ex p unknown by (auto simp: Delete_def Let_def go_simps split: go.splits sum.splits)
  qed
qed

lemma delete_ok:
  assumes "Delete d i w = (Ret None, w')" and "Store d \<noteq> []"
  shows "present w' = present w - {volume i}"
  using assms
proof (cases rule: delete_cases)
  case (destroy w1)
  then show ?thesis
    using destroy_ok withinD [OF destroy_frame destroy(3)] by (fastforce simp: volume_def drops_layer_def)
qed auto

lemma delete_frame:
  assumes "Delete d i w = (r, w')"
  shows "present w - {volume i} \<subseteq> present w' \<and> present w' \<subseteq> present w"
proof (cases "Store d = []")
  case False
  with assms show ?thesis
  proof (cases rule: delete_cases)
    case (destroy w1)
    then show ?thesis using withinD [OF destroy_frame destroy(3)] by (auto simp: volume_def drops_layer_def)
  qed auto
qed (use assms in \<open>auto simp: Delete_def\<close>)

end

text \<open>
  C18: when Bundle succeeds, the volume did not exist before and is the only layer added; the specification's layer folders
  are the directories of the given layers, newest first, with which the volume was created; its root is the mount path (never empty) that the
  client then gave for the volume; and the last call made was the one that set the given disk limit on that mount path.
\<close>

theorem Bundle_success:
  assumes "bundle_contract d present os" and "Bundle os d i ls n w = (Ret (Inr sp), w')"
  shows "layerPath \<lparr>Flavour = 1, HomeDir = VolumeStore d\<rparr> i \<notin> present w
    \<and> present w' = insert (layerPath \<lparr>Flavour = 1, HomeDir = VolumeStore d\<rparr> i) (present w)
    \<and> spec_RootPath sp \<noteq> [] \<and> spec_LayerFolders sp = rev (map (\<lambda>l. Join [LayerStore d, l]) ls)
    \<and> (\<exists>w0 w1 u. hcs_CreateLayer (hcsClient d) \<lparr>Flavour = 1, HomeDir = VolumeStore d\<rparr> i (spec_LayerFolders sp) w0 = (Ret None, w1)
        \<and> hcs_GetLayerMountPath (hcsClient d) \<lparr>Flavour = 1, HomeDir = VolumeStore d\<rparr> i w1 = (Ret (Inr (spec_RootPath sp)), u)
        \<and> lim_SetQuota (limiter d) (spec_RootPath sp) n u = (Ret None, w'))"
  using bundle_contract.bundle_ok [OF assms] unfolding bundle_contract.volume_def [OF assms(1)] .

text \<open>
  C17: Bundle is atomic: if it reports an error, whichever call failed, and the volume can be destroyed, then exactly the
  layers that existed before exist afterwards; in particular a volume of that name that existed before survives.
\<close>

theorem Bundle_atomic:
  assumes "bundle_contract d present os" and "Bundle os d i ls n w = (Ret (Inl e), w')"
    and "\<And>w. \<exists>u. hcs_DestroyLayer (hcsClient d) \<lparr>Flavour = 1, HomeDir = VolumeStore d\<rparr> i w = (Ret None, u)"
  shows "present w' = present w"
  using bundle_contract.bundle_atomic [OF assms] .

text \<open>
  C19: whatever happens in Bundle (success, any error, a destroy call that fails or panics), no layer that existed before is
  removed and no layer other than the volume is added.
\<close>

theorem Bundle_frame:
  assumes "bundle_contract d present os" and "Bundle os d i ls n w = (r, w')"
  shows "present w \<subseteq> present w' \<and> present w' \<subseteq> insert (layerPath \<lparr>Flavour = 1, HomeDir = VolumeStore d\<rparr> i) (present w)"
  using bundle_contract.bundle_frame [OF assms] by (simp add: bundle_contract.volume_def [OF assms(1)])

text \<open>
  C20: Delete after Bundle never removes a layer from before Bundle and adds none, and when it succeeds it brings back exactly the layers
  from before Bundle.
\<close>

theorem Delete_undoes_Bundle:
  assumes "bundle_contract d present os" and "Bundle os d i ls n w = (Ret (Inr sp), w1)" and "Delete d i w1 = (r, w')"
  shows "present w \<subseteq> present w' \<and> present w' \<subseteq> present w1 \<and> (r = Ret None \<longrightarrow> present w' = present w)"
proof -
  have "Store d \<noteq> []" using assms(2) by (auto simp: Bundle_def)
  then show ?thesis
    using bundle_contract.bundle_ok [OF assms(1,2)] bundle_contract.delete_frame [OF assms(1,3)]
      bundle_contract.delete_ok [OF assms(1)] assms(3) by auto
qed

text \<open>
  Delete of a volume that does not exist succeeds without a call to destroy anything, and a successful Delete
  removes exactly the named volume.
\<close>

theorem Delete_success:
  assumes "bundle_contract d present os" and "Store d \<noteq> []" and "Delete d i w = (Ret None, w')"
  shows "present w' = present w - {layerPath \<lparr>Flavour = 1, HomeDir = VolumeStore d\<rparr> i}
    \<and> (layerPath \<lparr>Flavour = 1, HomeDir = VolumeStore d\<rparr> i \<notin> present w \<longrightarrow>
        hcs_LayerExists (hcsClient d) \<lparr>Flavour = 1, HomeDir = VolumeStore d\<rparr> i w = (Ret (Inr False), w'))"
proof -
  let ?di = "\<lparr>Flavour = 1, HomeDir = VolumeStore d\<rparr>"
  note c = bundle_contract.axioms(1) [OF assms(1)]
  obtain x w1 where ex: "hcs_LayerExists (hcsClient d) ?di i w = (x, w1)" by force
  have "hcs_LayerExists (hcsClient d) ?di i w = (Ret (Inr False), w')" if "layerPath ?di i \<notin> present w"
  proof -
    have "x \<noteq> Ret (Inr True)" using hcs_contract.exists_ok [OF c, of ?di i w True] ex that by auto
    then show ?thesis
      using assms(2,3) ex by (auto simp: Delete_def Let_def go_simps split: go.splits sum.splits bool.splits)
  qed
  then show ?thesis
    using bundle_contract.delete_ok [OF assms(1,3,2)] by (simp add: bundle_contract.volume_def [OF assms(1)])
qed

end
