(* ===== verification/Image_Store.thy ===== *)
theory Image_Store
  imports Groot Unpack_Layer Driver_Paths Driver_Bundle
begin

text \<open>
  Images in the store: how pulling an image (Groot) and unpacking its layers (Unpack\_Layer) work together. A layer is complete if it is
  present and has a size file; unpacking one layer keeps every other one complete, whatever happens. So the layers of an image become
  complete from the bottom up, each is written on top of complete ones, and pulling a complete image does nothing.
\<close>

section \<open>What Unpack keeps\<close>

text \<open>A condition that every call of Unpack keeps, where only the size file of the layer itself is written and only that layer destroyed.\<close>

locale unpack_frame = tar_frame P d
  for P :: "'w \<Rightarrow> bool" and os :: "'w os_api" and d :: "('w, 'r) Driver" and j :: string +
  assumes mkdir_keeps: "agree P (os_MkdirAll os p m) (os_MkdirAll os p m)"
    and write_keeps: "agree P (os_WriteFile os (layerSizeFile d j) b m) (os_WriteFile os (layerSizeFile d j) b m)"
    and read_keeps: "agree P (os_ReadFile os p) (os_ReadFile os p)"
    and exists_keeps: "agree P (hcs_LayerExists (hcsClient d) di i) (hcs_LayerExists (hcsClient d) di i)"
    and destroy_keeps: "agree P (hcs_DestroyLayer (hcsClient d) \<lparr>Flavour = 1, HomeDir = LayerStore d\<rparr> j)
      (hcs_DestroyLayer (hcsClient d) \<lparr>Flavour = 1, HomeDir = LayerStore d\<rparr> j)"
    and enable_keeps: "agree P (pe_Enable (privilegeElevator d) ns) (pe_Enable (privilegeElevator d) ns)"
    and disable_keeps: "agree P (pe_Disable (privilegeElevator d) ns) (pe_Disable (privilegeElevator d) ns)"
begin

lemma importing_keeps:
  assumes "writer_agree P lw lw"
  shows "agree P (importing fuel os d lw j tar) (importing fuel os d lw j tar)"
proof -
  have "agree P (unpack_loop fuel d lw j None 0) (unpack_loop fuel d lw j None 0)"
    using loop_keeps [OF assms] unfolding agree_def by (metis prod.collapse)
  with assms show ?thesis
    unfolding importing_def writer_agree_def by (auto split: prod.splits intro!: agree_intros set_reader write_keeps)
qed

lemma fresh_keeps: "agree P (unpack_fresh fuel os d di j ps tar) (unpack_fresh fuel os d di j ps tar)"
  unfolding fresh_importing go_try_def
  by (intro agree_tryE agree_bind_at mkdir_keeps new_writer agree_ret)
     (auto split: sum.splits intro!: agree_intros importing_keeps dest: new_writer_ops)

lemma unpack_keeps:
  assumes "P w" and "Unpack fuel os d j ps tar w = (r, w')"
  shows "P w'"
proof -
  have "agree P (Unpack fuel os d j ps tar) (Unpack fuel os d j ps tar)"
    unfolding Unpack_body unpack_body_def Let_def
    by (intro agree_intros exists_keeps enable_keeps disable_keeps read_keeps destroy_keeps fresh_keeps)
  from agreeD(2) [OF this assms] show ?thesis .
qed

end

section \<open>Complete layers\<close>

text \<open>
  The contract of the store: writing a layer does not touch size files, destroying one leaves the others and their size files, and a
  write to a file leaves the other files.
\<close>

locale layer_store = layer_cache os files d present
  for os :: "'w os_api" and files :: "'w \<Rightarrow> string \<Rightarrow> bytes option" and d :: "('w, 'r) Driver" and present :: "'w \<Rightarrow> string set" +
  assumes tar_sizes: "tar_frame (\<lambda>w. files w (layerSizeFile d i) = Some b) d"
    and mkdir_files: "within (same files) (os_MkdirAll os p m)"
    and write_others: "q \<noteq> p \<Longrightarrow> within (same (\<lambda>w. files w q)) (os_WriteFile os p b m)"
    and read_files: "within (same files) (os_ReadFile os p)"
    and destroy_present: "layerPath di i \<noteq> layerPath di j \<Longrightarrow> layerPath di i \<in> present w \<Longrightarrow>
      layerPath di i \<in> present (snd (hcs_DestroyLayer (hcsClient d) di j w))"
    and destroy_sizes: "layerPath di i \<noteq> layerPath di j \<Longrightarrow> HomeDir di = LayerStore d \<Longrightarrow>
      within (same (\<lambda>w. files w (layerSizeFile d i))) (hcs_DestroyLayer (hcsClient d) di j)"
begin

definition complete :: "string \<Rightarrow> int64 \<Rightarrow> 'w \<Rightarrow> bool" where
  "complete i n w \<longleftrightarrow> path i \<in> present w \<and> (\<exists>b. files w (layerSizeFile d i) = Some b \<and> ParseInt b 64 = (n, None))"

definition apart :: "string \<Rightarrow> string \<Rightarrow> bool" where
  "apart i j \<longleftrightarrow> path i \<noteq> path j \<and> layerSizeFile d i \<noteq> layerSizeFile d j"

lemma quiet_agree:
  "agree (\<lambda>w. Q (files w) (present w)) (hcs_LayerExists (hcsClient d) di i) (hcs_LayerExists (hcsClient d) di i)"
  "agree (\<lambda>w. Q (files w) (present w)) (pe_Enable (privilegeElevator d) ns) (pe_Enable (privilegeElevator d) ns)"
  "agree (\<lambda>w. Q (files w) (present w)) (pe_Disable (privilegeElevator d) ns) (pe_Disable (privilegeElevator d) ns)"
  "agree (\<lambda>w. Q (files w) (present w)) (os_ReadFile os p) (os_ReadFile os p)"
proof -
  show "agree (\<lambda>w. Q (files w) (present w)) (hcs_LayerExists (hcsClient d) di i) (hcs_LayerExists (hcsClient d) di i)"
    unfolding agree_def using exists [of di i] by (metis snd_conv)
  show "agree (\<lambda>w. Q (files w) (present w)) (pe_Enable (privilegeElevator d) ns) (pe_Enable (privilegeElevator d) ns)"
    unfolding agree_def using enable [unfolded quietly_def, of ns] by (metis prod.inject snd_conv)
  show "agree (\<lambda>w. Q (files w) (present w)) (pe_Disable (privilegeElevator d) ns) (pe_Disable (privilegeElevator d) ns)"
    unfolding agree_def using disable [unfolded quietly_def, of ns] by (metis prod.inject snd_conv)
  show "agree (\<lambda>w. Q (files w) (present w)) (os_ReadFile os p) (os_ReadFile os p)"
    unfolding agree_def using read_present [of p] within_sameD [OF read_files, of p] by (metis prod.collapse)
qed

lemma present_frame:
  assumes "path i \<noteq> path j"
  shows "unpack_frame (\<lambda>w. path i \<in> present w) os d j"
proof -
  have g: "tar_guard (\<lambda>w. path i \<in> present w) os d" using tar_keeps [of "{path i}"] by simp
  show ?thesis
    using assms destroy_present [of "\<lparr>Flavour = 1, HomeDir = LayerStore d\<rparr>" i j] quiet_agree [of "\<lambda>f p. path i \<in> p"]
    by (intro unpack_frame.intro unpack_frame_axioms.intro tar_guard.axioms(1) [OF g] tar_guard.mkdir [OF g] tar_guard.write_file [OF g])
       (auto simp: layerPath_def agree_def)
qed

lemma size_frame:
  assumes "apart i j"
  shows "unpack_frame (\<lambda>w. files w (layerSizeFile d i) = Some b) os d j"
proof -
  have same_agree: "agree (\<lambda>w. f w = x) m m" if "within (same f) m" for f :: "'w \<Rightarrow> 'x" and x and m :: "('w, 'y) io"
    using that by (simp add: agree_def within_def same_def)
  have mk: "within (same (\<lambda>w. files w q)) (os_MkdirAll os p m)" for q p m using mkdir_files by (rule within_mono) (simp add: same_def)
  have wr: "within (same (\<lambda>w. files w (layerSizeFile d i))) (os_WriteFile os (layerSizeFile d j) c m)" for c m
    using assms by (intro write_others) (simp add: apart_def)
  have ds: "within (same (\<lambda>w. files w (layerSizeFile d i))) (hcs_DestroyLayer (hcsClient d) \<lparr>Flavour = 1, HomeDir = LayerStore d\<rparr> j)"
    using assms by (intro destroy_sizes) (simp_all add: apart_def layerPath_def)
  note q = quiet_agree [of "\<lambda>f p. f (layerSizeFile d i) = Some b"]
  show ?thesis
    by (intro unpack_frame.intro unpack_frame_axioms.intro; rule tar_sizes q same_agree [OF mk] same_agree [OF wr] same_agree [OF ds])
qed

text \<open>Unpacking one layer keeps the others complete, whatever its outcome, and a successful Unpack completes its layer.\<close>

lemma complete_kept:
  assumes "complete i n w" and "apart i j" and "Unpack fuel os d j ps tar w = (r, w')"
  shows "complete i n w'"
  using assms(1) unpack_frame.unpack_keeps [OF present_frame _ assms(3)] unpack_frame.unpack_keeps [OF size_frame [OF assms(2)] _ assms(3)] assms(2)
  unfolding complete_def apart_def by blast

lemma completed: "Unpack fuel os d j ps tar w = (Ret (n, None), w') \<Longrightarrow> complete j n w'"
  unfolding complete_def using unpack_recorded by blast

lemma complete_cached:
  assumes "Store d \<noteq> []" and "complete j n w"
  shows "\<exists>w'. Unpack fuel os d j ps tar w = (Ret (n, None), w') \<and> files w' = files w \<and> present w' = present w"
  using assms unpack_reads [OF assms(1), of j w] unfolding complete_def by metis

lemma complete_cong: "files w' = files w \<Longrightarrow> present w' = present w \<Longrightarrow> complete i n w' = complete i n w"
  by (simp add: complete_def)

end

section \<open>Writing on top of layers that are there\<close>

text \<open>A client that refuses (by a panic) to write or create a layer on top of one that is not present.\<close>

definition on_present :: "('w \<Rightarrow> string set) \<Rightarrow> ('w, 'r) Driver \<Rightarrow> ('w, 'r) Driver" where
  "on_present present d = d\<lparr>hcsClient := (hcsClient d)
     \<lparr>hcs_NewLayerWriter := (\<lambda>di i ps. guarded (\<lambda>w. set ps \<subseteq> present w) (hcs_NewLayerWriter (hcsClient d) di i ps)),
      hcs_CreateLayer := (\<lambda>di i ps. guarded (\<lambda>w. set ps \<subseteq> present w) (hcs_CreateLayer (hcsClient d) di i ps))\<rparr>\<rparr>"

lemma on_present_simps [simp]:
  "Store (on_present p d) = Store d" "tarStreamer (on_present p d) = tarStreamer d" "limiter (on_present p d) = limiter d"
  "privilegeElevator (on_present p d) = privilegeElevator d" "LayerStore (on_present p d) = LayerStore d" "VolumeStore (on_present p d) = VolumeStore d"
  "layerSizeFile (on_present p d) = layerSizeFile d" "metadataFile (on_present p d) = metadataFile d"
  "hcs_LayerExists (hcsClient (on_present p d)) = hcs_LayerExists (hcsClient d)"
  "hcs_DestroyLayer (hcsClient (on_present p d)) = hcs_DestroyLayer (hcsClient d)"
  "hcs_GetLayerMountPath (hcsClient (on_present p d)) = hcs_GetLayerMountPath (hcsClient d)"
  "hcs_NewLayerWriter (hcsClient (on_present p d)) di i ps = guarded (\<lambda>w. set ps \<subseteq> p w) (hcs_NewLayerWriter (hcsClient d) di i ps)"
  "hcs_CreateLayer (hcsClient (on_present p d)) di i ps = guarded (\<lambda>w. set ps \<subseteq> p w) (hcs_CreateLayer (hcsClient d) di i ps)"
  by (simp_all add: on_present_def LayerStore_def VolumeStore_def layerSizeFile_def metadataFile_def fun_eq_iff)

lemma loop_on_present: "unpack_loop fuel (on_present p d) lw i h n = unpack_loop fuel d lw i h n"
proof (induction fuel arbitrary: h n)
  case (Suc fuel)
  have "unpack_step (on_present p d) lw i h n = unpack_step d lw i h n"
    unfolding unpack_step_def on_present_simps by (rule refl)
  then show ?case unfolding unpack_loop.simps Suc.IH by simp
qed simp

lemma importing_on_present: "importing fuel os (on_present p d) lw i tar = importing fuel os d lw i tar"
  unfolding importing_def loop_on_present on_present_simps by (rule refl)

context layer_store
begin

lemma guarded_try: "P w \<Longrightarrow> go_try (guarded P m) h k w = go_try m h k w" "P w \<Longrightarrow> go_tryE (guarded P n) h' k' w = go_tryE n h' k' w"
  by (simp_all add: go_try_def go_tryE_def go_bind_def guarded_def)

lemma mkdir_present:
  assumes "os_MkdirAll os p m w = (r, w')" and "A \<subseteq> present w"
  shows "A \<subseteq> present w'"
  using agreeD(2) [OF tar_guard.mkdir [OF tar_keeps] assms(2,1)] .

lemma fresh_on_present:
  assumes "path ` set ps \<subseteq> present w"
  shows "unpack_fresh fuel os (on_present present d) di j ps tar w = unpack_fresh fuel os d di j ps tar w"
proof -
  obtain r w1 where mk: "os_MkdirAll os (path j) perm755 w = (r, w1)" by force
  have "set (prepend_paths (LayerStore d) [] ps) \<subseteq> present w1" using mkdir_present [OF mk assms] by (simp add: prepend_paths_rev)
  then show ?thesis
    unfolding fresh_importing importing_on_present on_present_simps go_tryE_def
    using mk by (cases r) (auto simp: go_bind_def guarded_try split: option.splits)
qed

lemma body_on_present:
  assumes ps: "path ` set ps \<subseteq> present w" and own: "j \<in> set ps \<Longrightarrow> files w (layerSizeFile d j) \<noteq> None"
    and others: "\<And>i. i \<in> set ps \<Longrightarrow> i \<noteq> j \<Longrightarrow> path i \<noteq> path j"
  shows "unpack_body fuel os (on_present present d) j ps tar b w = unpack_body fuel os d j ps tar b w"
proof (cases "b \<and> files w (layerSizeFile d j) = None")
  case True
  then obtain s w1 where rd: "os_ReadFile os (layerSizeFile d j) w = (Ret (Inl (NotExist s)), w1)" using read_none by blast
  obtain r w2 where ds: "hcs_DestroyLayer (hcsClient d) \<lparr>Flavour = 1, HomeDir = LayerStore d\<rparr> j w1 = (r, w2)" by force
  have "path i \<in> present w2" if "i \<in> set ps" for i
    using destroy_present [of "\<lparr>Flavour = 1, HomeDir = LayerStore d\<rparr>" i j w1] others [OF that] own True that ps read_present [OF rd] ds
    by (auto simp: layerPath_def)
  then have "path ` set ps \<subseteq> present w2" by blast
  from fresh_on_present [OF this] True rd ds show ?thesis
    by (cases r) (auto simp: unpack_body_def Let_def go_tryE_def go_bind_def split: option.splits)
next
  case False
  then show ?thesis
    using fresh_on_present [OF ps] read_some [of w "layerSizeFile d j"] by (cases b) (auto simp: unpack_body_def Let_def)
qed

lemma unpack_on_present:
  assumes ps: "path ` set ps \<subseteq> present w" and own: "j \<in> set ps \<Longrightarrow> files w (layerSizeFile d j) \<noteq> None"
    and others: "\<And>i. i \<in> set ps \<Longrightarrow> i \<noteq> j \<Longrightarrow> path i \<noteq> path j"
  shows "Unpack fuel os (on_present present d) j ps tar w = Unpack fuel os d j ps tar w"
proof (cases "Store d = []")
  case False
  let ?di = "\<lparr>Flavour = 1, HomeDir = LayerStore d\<rparr>"
  obtain w1 where ex: "hcs_LayerExists (hcsClient d) ?di j w = (Ret (Inr (layerPath ?di j \<in> present w)), w1)"
    and k1: "files w1 = files w" "present w1 = present w" using exists [of ?di j w] by blast
  obtain w2 where en: "pe_Enable (privilegeElevator d) privileges w1 = (Ret None, w2)"
    and k2: "files w2 = files w1" "present w2 = present w1" using enable by (rule quietlyE) auto
  have "unpack_body fuel os (on_present present d) j ps tar b w2 = unpack_body fuel os d j ps tar b w2" for b
    using assms k1 k2 by (intro body_on_present) auto
  with False ex en show ?thesis by (simp add: Unpack_body go_defer_def)
qed (simp add: Unpack_def)

lemma bundle_on_present:
  assumes "path ` set ids \<subseteq> present w"
  shows "Bundle os (on_present present d) i ids n w = Bundle os d i ids n w"
proof -
  let ?di = "\<lparr>Flavour = 1, HomeDir = VolumeStore d\<rparr>"
  obtain r w1 where mk: "os_MkdirAll os (VolumeStore d) perm755 w = (r, w1)" by force
  obtain b w2 where ex: "hcs_LayerExists (hcsClient d) ?di i w1 = (Ret (Inr b), w2)" "present w2 = present w1"
    using exists [of ?di i w1] by blast
  have "set (prepend_paths (LayerStore d) [] ids) \<subseteq> present w2"
    using mkdir_present [OF mk assms] ex(2) by (simp add: prepend_paths_rev)
  with mk ex(1) show ?thesis
    unfolding Bundle_def cleanupLayer_def on_present_simps Let_def go_tryE_def [of "os_MkdirAll _ _ _"]
    by (cases r) (auto simp: go_bind_def guarded_try split: option.splits)
qed

end

section \<open>Images\<close>

text \<open>The store below the commands: readers and streams of blobs do not touch the layers, and closing a stream returns.\<close>

locale image_store = layer_store "g_os g" files "g_Driver g" present
  for g :: "('w, 's) Groot" and files :: "'w \<Rightarrow> string \<Rightarrow> bytes option" and present :: "'w \<Rightarrow> string set" +
  assumes reader_quiet: "files (ref_put (g_reader g) x w) = files w" "present (ref_put (g_reader g) x w) = present w"
    and close_quiet: "\<exists>e w'. st_Close (g_streams g) s w = (Ret e, w') \<and> files w' = files w \<and> present w' = present w"
begin

lemma reader_close: "\<exists>e w'. OnDemand_Close (g_streams g) (onDemandReader h l) w = (Ret e, w') \<and> files w' = files w \<and> present w' = present w"
  using close_quiet by (auto simp: OnDemand_Close_def go_simps split: option.split)

lemma build_run:
  assumes "buildLayer g l ps w = (r, w')"
  obtains w2 where "Unpack (g_fuel g) (g_os g) (g_Driver g) (ChainID l) ps (onDemandReader g l) (ref_put (g_reader g) None w) = (r, w2)"
    and "r \<noteq> Diverged \<Longrightarrow> files w' = files w2" and "r \<noteq> Diverged \<Longrightarrow> present w' = present w2"
proof -
  obtain q w2 where u: "Unpack (g_fuel g) (g_os g) (g_Driver g) (ChainID l) ps (onDemandReader g l) (ref_put (g_reader g) None w) = (q, w2)" by force
  obtain e w3 where c: "OnDemand_Close (g_streams g) (onDemandReader g l) w2 = (Ret e, w3)" "files w3 = files w2" "present w3 = present w2"
    using reader_close by blast
  with assms u have "q = r" "r \<noteq> Diverged \<Longrightarrow> w' = w3"
    by (auto simp: buildLayer_def go_simps split: go.splits)
  with u c that show thesis by blast
qed

text \<open>Building a layer on top of complete ones.\<close>

lemma build_completes:
  assumes "buildLayer g l ps w = (Ret (n, None), w')"
  shows "complete (ChainID l) n w'"
  using build_run [OF assms] completed complete_cong by (metis go.distinct(3))

lemma build_keeps:
  assumes "buildLayer g l ps w = (Ret r, w')" and "complete i m w" and "apart i (ChainID l)"
  shows "complete i m w'"
proof -
  obtain w2 where u: "Unpack (g_fuel g) (g_os g) (g_Driver g) (ChainID l) ps (onDemandReader g l) (ref_put (g_reader g) None w) = (Ret r, w2)"
    and k: "files w' = files w2" "present w' = present w2"
    using build_run [OF assms(1)] by (metis go.distinct(3))
  have "complete i m (ref_put (g_reader g) None w)" using assms(2) by (simp add: complete_def reader_quiet)
  from complete_kept [OF this assms(3) u] k show ?thesis by (simp add: complete_def)
qed

text \<open>Layers that are the same or lie apart.\<close>

definition separate :: "LayerInfo list \<Rightarrow> bool" where
  "separate ls \<longleftrightarrow> (\<forall>a \<in> set ls. \<forall>b \<in> set ls. ChainID a = ChainID b \<or> apart (ChainID a) (ChainID b))"

lemma build_cached:
  assumes "Store (g_Driver g) \<noteq> []" and "complete (ChainID l) n w"
  shows "\<exists>w'. buildLayer (g\<lparr>g_fuel := f\<rparr>) l ps w = (Ret (n, None), w') \<and> files w' = files w \<and> present w' = present w"
proof -
  let ?v = "ref_put (g_reader g) None w" and ?od = "onDemandReader (g\<lparr>g_fuel := f\<rparr>) l"
  have "complete (ChainID l) n ?v" using assms(2) by (simp add: complete_def reader_quiet)
  then obtain w1 where u: "Unpack f (g_os g) (g_Driver g) (ChainID l) ps ?od ?v = (Ret (n, None), w1)" "files w1 = files ?v" "present w1 = present ?v"
    using complete_cached [OF assms(1)] by blast
  obtain e w2 where "OnDemand_Close (g_streams g) ?od w1 = (Ret e, w2)" "files w2 = files w1" "present w2 = present w1"
    using reader_close by blast
  with u show ?thesis by (simp add: buildLayer_def go_simps reader_quiet)
qed

lemma build_keeps_all:
  assumes "Store (g_Driver g) \<noteq> []" and "buildLayer g l ps w = (Ret r, w')" and "complete i m w" and "i = ChainID l \<or> apart i (ChainID l)"
  shows "complete i m w'"
  using assms(4)
proof
  assume "i = ChainID l"
  then obtain v where "buildLayer g l ps w = (Ret (m, None), v)" "files v = files w" "present v = present w"
    using build_cached [OF assms(1), of l m w "g_fuel g" ps] assms(3) by auto
  with assms(2,3) show ?thesis by (simp add: complete_def)
qed (rule build_keeps [OF assms(2,3)])

text \<open>The layers of an image are completed in order, and stay complete.\<close>

lemma loop_completes:
  assumes "Store (g_Driver g) \<noteq> []"
  shows "build_loop g below rest t w = (Ret (Inr t'), w') \<Longrightarrow> separate (below @ rest) \<Longrightarrow>
    (\<exists>ns. t' = t + sum_list ns \<and> list_all2 (\<lambda>l n. complete (ChainID l) n w') rest ns)
    \<and> (\<forall>i m. complete i m w \<longrightarrow> (\<forall>l \<in> set rest. i = ChainID l \<or> apart i (ChainID l)) \<longrightarrow> complete i m w')"
proof (induction rest arbitrary: below t w)
  case (Cons l rest)
  obtain n w1 where b: "buildLayer g l (chainIDs below) w = (Ret (n, None), w1)"
    and go: "build_loop g (below @ [l]) rest (t + n) w1 = (Ret (Inr t'), w')"
    using Cons.prems(1) by (auto dest!: go_bind_RetD split: option.splits)
  have "separate ((below @ [l]) @ rest)" using Cons.prems(2) by simp
  from Cons.IH [OF go this] obtain ns where ns: "t' = t + n + sum_list ns" "list_all2 (\<lambda>l n. complete (ChainID l) n w') rest ns"
    and keep: "\<And>i m. complete i m w1 \<Longrightarrow> (\<forall>l \<in> set rest. i = ChainID l \<or> apart i (ChainID l)) \<Longrightarrow> complete i m w'" by blast
  have "complete (ChainID l) n w'"
    using keep [OF build_completes [OF b]] Cons.prems(2) by (simp add: separate_def)
  with ns have "t' = t + sum_list (n # ns) \<and> list_all2 (\<lambda>l n. complete (ChainID l) n w') (l # rest) (n # ns)" by simp
  moreover have "complete i m w'" if "complete i m w" "\<forall>k \<in> set (l # rest). i = ChainID k \<or> apart i (ChainID k)" for i m
    using keep build_keeps_all [OF assms b that(1)] that(2) by simp
  ultimately show ?case by blast
qed (auto intro: exI [of _ "[]"])

lemma loop_cached:
  assumes "Store (g_Driver g) \<noteq> []"
  shows "list_all2 (\<lambda>l n. complete (ChainID l) n w) rest ns \<Longrightarrow>
    \<exists>w'. build_loop (g\<lparr>g_fuel := f\<rparr>) below rest t w = (Ret (Inr (t + sum_list ns)), w') \<and> files w' = files w \<and> present w' = present w"
proof (induction rest arbitrary: ns below t w)
  case (Cons l rest)
  then obtain n ns' where ns: "ns = n # ns'" and c: "complete (ChainID l) n w" "list_all2 (\<lambda>l n. complete (ChainID l) n w) rest ns'"
    by (auto simp: list_all2_Cons1)
  obtain w1 where b: "buildLayer (g\<lparr>g_fuel := f\<rparr>) l (chainIDs below) w = (Ret (n, None), w1)" "files w1 = files w" "present w1 = present w"
    using build_cached [OF assms c(1)] by blast
  have "list_all2 (\<lambda>l n. complete (ChainID l) n w1) rest ns'" using c(2) b(2,3) by (simp add: complete_def)
  from Cons.IH [OF this, of "below @ [l]" "t + n"] b ns show ?case by (auto simp: add.assoc)
qed simp

lemma build_loop_on_present:
  assumes "Store (g_Driver g) \<noteq> []"
  shows "separate (below @ rest) \<Longrightarrow> \<forall>l \<in> set below. \<exists>n. complete (ChainID l) n w \<Longrightarrow>
    build_loop (g\<lparr>g_Driver := on_present present (g_Driver g)\<rparr>) below rest t w = build_loop g below rest t w"
proof (induction rest arbitrary: below t w)
  case (Cons l rest)
  let ?h = "g\<lparr>g_Driver := on_present present (g_Driver g)\<rparr>"
  have od: "onDemandReader ?h l = onDemandReader g l" by (simp add: onDemandReader_def)
  have comp: "\<exists>n. complete i n (ref_put (g_reader g) None w)" if "i \<in> set (chainIDs below)" for i
    using Cons.prems(2) that by (auto simp: chainIDs_map complete_def reader_quiet)
  have "Unpack (g_fuel g) (g_os g) (on_present present (g_Driver g)) (ChainID l) (chainIDs below) (onDemandReader g l) (ref_put (g_reader g) None w)
      = Unpack (g_fuel g) (g_os g) (g_Driver g) (ChainID l) (chainIDs below) (onDemandReader g l) (ref_put (g_reader g) None w)"
  proof (rule unpack_on_present)
    show "path ` set (chainIDs below) \<subseteq> present (ref_put (g_reader g) None w)" using comp by (auto simp: complete_def)
    show "ChainID l \<in> set (chainIDs below) \<Longrightarrow> files (ref_put (g_reader g) None w) (layerSizeFile (g_Driver g) (ChainID l)) \<noteq> None"
      using comp by (fastforce simp: complete_def)
    show "path i \<noteq> path (ChainID l)" if "i \<in> set (chainIDs below)" "i \<noteq> ChainID l" for i
      using Cons.prems(1) that by (auto simp: chainIDs_map separate_def apart_def)
  qed
  then have same: "buildLayer ?h l (chainIDs below) w = buildLayer g l (chainIDs below) w"
    by (simp add: buildLayer_def od go_bind_def go_defer_def ref_modify_def)
  obtain r w1 where b: "buildLayer g l (chainIDs below) w = (r, w1)" by force
  show ?case
  proof (cases "\<exists>n. r = Ret (n, None)")
    case True
    then obtain n where n: "r = Ret (n, None)" by blast
    have "\<exists>m. complete (ChainID k) m w1" if "k \<in> set (below @ [l])" for k
    proof (cases "k = l")
      case True
      then show ?thesis using build_completes [OF b [unfolded n]] by blast
    next
      case False
      with that Cons.prems obtain m where "complete (ChainID k) m w" "ChainID k = ChainID l \<or> apart (ChainID k) (ChainID l)"
        by (auto simp: separate_def)
      then show ?thesis using build_keeps_all [OF assms b [unfolded n]] by blast
    qed
    then have "build_loop ?h (below @ [l]) rest (t + n) w1 = build_loop g (below @ [l]) rest (t + n) w1"
      using Cons.prems(1) by (intro Cons.IH) simp_all
    with same b n show ?thesis by simp
  next
    case False
    with same b show ?thesis by (cases r) (auto simp: go_bind_def split: option.splits prod.splits)
  qed
qed simp

lemma separate_names:
  assumes "drive_store (Store (g_Driver g)) c es" and "\<forall>l \<in> set ls. name_ok (ChainID l)"
  shows "separate ls"
  unfolding separate_def
proof (intro ballI)
  fix a b
  assume "a \<in> set ls" "b \<in> set ls"
  with assms(2) have n: "name_ok (ChainID a)" "name_ok (ChainID b)" by auto
  have ok: "\<forall>e \<in> set es. name_ok e" using store_path(2) [OF assms(1) n(1)] .
  show "ChainID a = ChainID b \<or> apart (ChainID a) (ChainID b)"
    using store_dirs(1,2) [OF assms(1) n(1)] store_dirs(1,2) [OF assms(1) n(2)] ok n
      drive_inject [of c _ c, of "es @ [''layers'', ChainID a]" "es @ [''layers'', ChainID b]"]
      drive_inject [of c _ c, of "es @ [''layers'', ChainID a, ''size'']" "es @ [''layers'', ChainID b, ''size'']"]
    by (auto simp: apart_def)
qed

lemma pulled_complete:
  assumes store: "Store (g_Driver g) \<noteq> []" and "buildLayers g ls w = (Ret (Inr n), w')" and "separate ls"
  shows "\<exists>ns. n = sum_list ns \<and> list_all2 (\<lambda>l n. complete (ChainID l) n w') ls ns"
  using loop_completes [OF store, of "[]" ls 0] assms by (auto simp: buildLayers_def)

lemma pull_again:
  assumes store: "Store (g_Driver g) \<noteq> []" and sep: "separate (LayerInfos info)"
    and info: "\<forall>w. \<exists>w'. ft_ImageInfo (g_fetcher g) w = (Ret (Inr info), w') \<and> files w' = files w \<and> present w' = present w"
    and run: "ImagePuller_Pull g spec w = (Ret (Inr img), w1)"
  shows "\<exists>w2. ImagePuller_Pull (g\<lparr>g_fuel := f\<rparr>) spec w1 = (Ret (Inr img), w2) \<and> files w2 = files w1 \<and> present w2 = present w1"
proof -
  obtain v where v: "ft_ImageInfo (g_fetcher g) w = (Ret (Inr info), v)" using info by blast
  with run obtain n where q: "quotaExceeded (LayerInfos info) spec = None" and b: "buildLayers g (LayerInfos info) v = (Ret (Inr n), w1)"
    and img: "img = \<lparr>img_Env = ii_Env info, img_ChainIDs = chainIDs (LayerInfos info), img_Size = n\<rparr>"
    by (auto simp: ImagePuller_Pull_def go_try_def dest!: go_bind_RetD split: option.splits sum.splits)
  obtain ns where ns: "n = sum_list ns" "list_all2 (\<lambda>l n. complete (ChainID l) n w1) (LayerInfos info) ns"
    using pulled_complete [OF store b sep] by blast
  obtain v1 where v1: "ft_ImageInfo (g_fetcher g) w1 = (Ret (Inr info), v1)" "files v1 = files w1" "present v1 = present w1"
    using info by blast
  have "list_all2 (\<lambda>l n. complete (ChainID l) n v1) (LayerInfos info) ns" using ns(2) v1(2,3) by (simp add: complete_def)
  from loop_cached [OF store this, of f "[]" 0] ns(1) v1 q img show ?thesis
    by (auto simp: ImagePuller_Pull_def buildLayers_def)
qed

lemma pull_on_present:
  assumes store: "Store (g_Driver g) \<noteq> []"
    and sep: "\<And>w info w'. ft_ImageInfo (g_fetcher g) w = (Ret (Inr info), w') \<Longrightarrow> separate (LayerInfos info)"
  shows "ImagePuller_Pull (g\<lparr>g_Driver := on_present present (g_Driver g)\<rparr>) spec w = ImagePuller_Pull g spec w"
proof -
  obtain r v where i: "ft_ImageInfo (g_fetcher g) w = (r, v)" by force
  show ?thesis
  proof (cases "\<exists>info. r = Ret (Inr info)")
    case True
    then obtain info where info: "r = Ret (Inr info)" by blast
    have "build_loop (g\<lparr>g_Driver := on_present present (g_Driver g)\<rparr>) [] (LayerInfos info) 0 v = build_loop g [] (LayerInfos info) 0 v"
      using sep i info by (intro build_loop_on_present [OF store]) simp_all
    with i info show ?thesis
      by (simp add: ImagePuller_Pull_def buildLayers_def go_try_def go_bind_def split: option.split)
  next
    case False
    with i show ?thesis by (cases r) (auto simp: ImagePuller_Pull_def go_try_def go_bind_def split: sum.split)
  qed
qed

text \<open>Create makes the volume on top of the layers Pull completed.\<close>

lemma create_on_present:
  assumes store: "Store (g_Driver g) \<noteq> []"
    and sep: "\<And>w info w'. ft_ImageInfo (g_fetcher g) w = (Ret (Inr info), w') \<Longrightarrow> separate (LayerInfos info)"
  shows "Groot_Create (g\<lparr>g_Driver := on_present present (g_Driver g)\<rparr>) bundleID limit ex w = Groot_Create g bundleID limit ex w"
proof -
  let ?spec = "\<lparr>is_DiskLimit = limit, is_ExcludeImageFromQuota = ex\<rparr>" and ?d = "on_present present (g_Driver g)"
  obtain r w1 where p: "ImagePuller_Pull g ?spec w = (r, w1)" by force
  have p': "ImagePuller_Pull (g\<lparr>g_Driver := ?d\<rparr>) ?spec w = (r, w1)" using p pull_on_present [OF assms] by simp
  show ?thesis
  proof (cases "\<exists>img. r = Ret (Inr img)")
    case True
    then obtain img where img: "r = Ret (Inr img)" by blast
    with p obtain v info where v: "ft_ImageInfo (g_fetcher g) w = (Ret (Inr info), v)" and ids: "img_ChainIDs img = chainIDs (LayerInfos info)"
      and b: "buildLayers g (LayerInfos info) v = (Ret (Inr (img_Size img)), w1)"
      by (auto simp: ImagePuller_Pull_def go_try_def dest!: go_bind_RetD split: option.splits sum.splits)
    obtain ns where "list_all2 (\<lambda>l n. complete (ChainID l) n w1) (LayerInfos info) ns"
      using pulled_complete [OF store b] sep [OF v] by blast
    then have "path ` set (img_ChainIDs img) \<subseteq> present w1"
      by (auto simp: ids chainIDs_map complete_def list_all2_conv_all_nth in_set_conv_nth)
    then have "Bundle (g_os g) ?d bundleID (img_ChainIDs img) q w1 = Bundle (g_os g) (g_Driver g) bundleID (img_ChainIDs img) q w1" for q
      by (rule bundle_on_present)
    then have "bundle_image (g\<lparr>g_Driver := ?d\<rparr>) bundleID q img w1 = bundle_image g bundleID q img w1" for q
      by (simp add: bundle_image_def WriteMetadata_def go_try_def go_bind_def)
    then have "0 \<le> sint limit \<Longrightarrow> ?thesis"
      using Create_split [OF _ p [unfolded img]] Create_split [OF _ p' [unfolded img]] by (cases ex) simp_all
    moreover have "sint limit < 0 \<Longrightarrow> ?thesis" by (simp add: Groot_Create_def)
    ultimately show ?thesis by linarith
  next
    case False
    with p p' show ?thesis by (cases r) (auto simp: Groot_Create_def go_try_def go_bind_def split: sum.split)
  qed
qed

end

lemma drive_store_nonempty: "drive_store store c es \<Longrightarrow> store \<noteq> []"
  by (auto simp: drive_store_def)

text \<open>
  C8: pulling is cached: after an image was pulled, pulling it again returns the same image, with the same size, and changes no file
  and no layer; no blob is read, since no turn of the loop over an archive is made.
\<close>

theorem Pull_cached:
  assumes "image_store g files present" and "drive_store (Store (g_Driver g)) c es"
    and "\<forall>l \<in> set (LayerInfos info). name_ok (ChainID l)"
    and "\<forall>w. \<exists>w'. ft_ImageInfo (g_fetcher g) w = (Ret (Inr info), w') \<and> files w' = files w \<and> present w' = present w"
    and "ImagePuller_Pull g spec w = (Ret (Inr img), w1)"
  shows "\<exists>w2. ImagePuller_Pull (g\<lparr>g_fuel := 0\<rparr>) spec w1 = (Ret (Inr img), w2) \<and> files w2 = files w1 \<and> present w2 = present w1"
  using image_store.pull_again [OF assms(1) drive_store_nonempty [OF assms(2)] image_store.separate_names [OF assms(1-3)] assms(4,5)] .

text \<open>
  C7: create builds from the bottom: whenever it writes a layer or creates the volume, all layers below are there already. On a
  client that refuses anything else it behaves as on the original one.
\<close>

theorem Create_builds_on_layers:
  assumes "image_store g files present" and "drive_store (Store (g_Driver g)) c es"
    and "\<forall>w info w'. ft_ImageInfo (g_fetcher g) w = (Ret (Inr info), w') \<longrightarrow> (\<forall>l \<in> set (LayerInfos info). name_ok (ChainID l))"
  shows "Groot_Create (g\<lparr>g_Driver := on_present present (g_Driver g)\<rparr>) bundleID diskLimit ex w = Groot_Create g bundleID diskLimit ex w"
proof (rule image_store.create_on_present [OF assms(1) drive_store_nonempty [OF assms(2)]])
  show "image_store.separate g (LayerInfos info)" if "ft_ImageInfo (g_fetcher g) v = (Ret (Inr info), v')" for v info v'
    using image_store.separate_names [OF assms(1,2)] assms(3) that by blast
qed

text \<open>
  C9: the limit of a volume: create makes the volume with the disk limit it was given, less the size of the image unless the image is
  excluded; the difference is exact, positive and cannot wrap around. A limit of 0 means none. The size recorded is that of the image.
\<close>

theorem Create_quota:
  assumes "Groot_Create g bundleID diskLimit ex w = (Ret (Some sp, err), w')"
  shows "\<exists>img quota b w1 w2. ImagePuller_Pull g \<lparr>is_DiskLimit = diskLimit, is_ExcludeImageFromQuota = ex\<rparr> w = (Ret (Inr img), w1)
    \<and> Bundle (g_os g) (g_Driver g) bundleID (img_ChainIDs img) quota w1 = (Ret (Inr b), w2)
    \<and> WriteMetadata (g_os g) (g_Driver g) bundleID \<lparr>im_Size = img_Size img\<rparr> w2 = (Ret err, w')
    \<and> 0 \<le> sint diskLimit
    \<and> (if diskLimit = 0 \<or> ex then quota = diskLimit else 0 < sint quota \<and> sint quota = sint diskLimit - sint (img_Size img))"
proof -
  have lim: "0 \<le> sint diskLimit" using assms by (auto simp: Groot_Create_def not_less [symmetric] split: if_splits)
  then obtain img w1 where p: "ImagePuller_Pull g \<lparr>is_DiskLimit = diskLimit, is_ExcludeImageFromQuota = ex\<rparr> w = (Ret (Inr img), w1)"
    using assms by (auto simp: Groot_Create_def go_try_def dest!: go_bind_RetD split: if_splits sum.splits)
  have q: "diskLimit \<noteq> 0 \<Longrightarrow> \<not> ex \<Longrightarrow> 0 < sint (create_quota diskLimit ex img)"
    and b: "bundle_image g bundleID (create_quota diskLimit ex img) img w1 = (Ret (Some sp, err), w')"
    using assms Create_split [OF lim p, of bundleID] by (auto split: if_splits)
  from b obtain b w2 where "Bundle (g_os g) (g_Driver g) bundleID (img_ChainIDs img) (create_quota diskLimit ex img) w1 = (Ret (Inr b), w2)"
    and "WriteMetadata (g_os g) (g_Driver g) bundleID \<lparr>im_Size = img_Size img\<rparr> w2 = (Ret err, w')"
    by (auto simp: bundle_image_def go_try_def dest!: go_bind_RetD split: sum.splits)
  with lim p q sint_diff_pos [OF lim] show ?thesis by (fastforce simp: create_quota_def)
qed

text \<open>
  C10: stats after create: once create returned without error, stats of the volume report the size of the pulled image plus the quota
  used.
\<close>

theorem Stats_after_Create:
  assumes "file_contract (g_os g) files" and "Groot_Create g bundleID diskLimit ex w0 = (Ret (Some sp, None), w)"
    and "hcs_GetLayerMountPath (hcsClient (g_Driver g)) \<lparr>Flavour = 1, HomeDir = VolumeStore (g_Driver g)\<rparr> bundleID w = (Ret (Inr v), w1)" and "v \<noteq> []"
    and "lim_GetQuotaUsed (limiter (g_Driver g)) v w1 = (Ret (Inr q), w2)"
    and "files w2 (metadataFile (g_Driver g) bundleID) = files w (metadataFile (g_Driver g) bundleID)"
  shows "\<exists>img v' w'. ImagePuller_Pull g \<lparr>is_DiskLimit = diskLimit, is_ExcludeImageFromQuota = ex\<rparr> w0 = (Ret (Inr img), v')
    \<and> Groot_Stats g msg bundleID w = (Ret (Inr \<lparr>TotalBytesUsed = img_Size img + q, ExclusiveBytesUsed = q\<rparr>), w')"
proof -
  from assms(2) obtain img v' v2 where p: "ImagePuller_Pull g \<lparr>is_DiskLimit = diskLimit, is_ExcludeImageFromQuota = ex\<rparr> w0 = (Ret (Inr img), v')"
    and wm: "WriteMetadata (g_os g) (g_Driver g) bundleID \<lparr>im_Size = img_Size img\<rparr> v2 = (Ret None, w)"
    by (auto simp: Groot_Create_def go_try_def Let_def dest!: go_bind_RetD split: if_splits sum.splits)
  have "files w2 (metadataFile (g_Driver g) bundleID) = Some (json_Marshal \<lparr>im_Size = img_Size img\<rparr>)"
    using assms(6) file_contract.metadata_written [OF assms(1) wm] by simp
  from file_contract.stats_found [OF assms(1,3,4,5) this, of msg] p show ?thesis by (auto simp: Groot_Stats_def)
qed

end
