(* ===== verification/Create_Processes.thy ===== *)
theory Create_Processes
  imports Hcs_Client
begin

text \<open>
  Several groot processes that create layers at the same time (src/hcs/client.go, CreateLayer). The file lock exists for this case: the
  call of each process is cut at its calls of the lock and the layer service, and the processes interleave at these. With a lock
  that is granted to one holder at a time no two of them are between opening and closing it.
\<close>

section \<open>The phases of CreateLayer\<close>

text \<open>Before each call the phase says what comes next; a deferred Close is pending from the moment the lock is open.\<close>

datatype 'w create_phase =
    Opening
  | Creating "'w LockedFile"
  | Activating "'w LockedFile"
  | Preparing "'w LockedFile"
  | Closing "'w LockedFile" "go_error option go"
  | Finished "go_error option go"

record create_job =
  cj_info :: DriverInfo
  cj_id :: string
  cj_parents :: "string list"

text \<open>A call of the layer service: its error or panic leads to the deferred Close, a call that hangs to no next phase.\<close>

definition layer_call :: "'w LockedFile \<Rightarrow> 'w create_phase \<Rightarrow> go_error option go \<times> 'w \<Rightarrow> ('w create_phase \<times> 'w) option" where
  "layer_call f next_phase = (\<lambda>(r, w'). case r of
     Ret None \<Rightarrow> Some (next_phase, w')
   | Diverged \<Rightarrow> None
   | _ \<Rightarrow> Some (Closing f r, w'))"

fun create_phase_step :: "'w wclayer \<Rightarrow> 'w Client \<Rightarrow> create_job \<Rightarrow> 'w create_phase \<Rightarrow> 'w \<Rightarrow> ('w create_phase \<times> 'w) option" where
  "create_phase_step W c j Opening w =
     (case fl_Open (layerCreateLock c) w of
        (Ret (Inl e), w') \<Rightarrow> Some (Finished (Ret (Some e)), w')
      | (Ret (Inr f), w') \<Rightarrow> Some (Creating f, w')
      | (Panic p, w') \<Rightarrow> Some (Finished (Panic p), w')
      | (Diverged, w') \<Rightarrow> None)"
| "create_phase_step W c j (Creating f) w =
     layer_call f (Activating f) (CreateSandboxLayer W (cj_info j) (cj_id j) [] (cj_parents j) w)"
| "create_phase_step W c j (Activating f) w =
     layer_call f (Preparing f) (ActivateLayer W (cj_info j) (cj_id j) w)"
| "create_phase_step W c j (Preparing f) w =
     layer_call f (Closing f (Ret None)) (PrepareLayer W (cj_info j) (cj_id j) (cj_parents j) w)"
| "create_phase_step W c j (Closing f r) w =
     (case lf_Close f w of
        (Ret e, w') \<Rightarrow> Some (Finished r, w')
      | (Panic p, w') \<Rightarrow> Some (Finished (Panic p), w')
      | (Diverged, w') \<Rightarrow> None)"
| "create_phase_step W c j (Finished r) w = None"

text \<open>One process alone, for at most \<open>n\<close> calls.\<close>

fun run_phases :: "nat \<Rightarrow> 'w wclayer \<Rightarrow> 'w Client \<Rightarrow> create_job \<Rightarrow> 'w create_phase \<Rightarrow> 'w \<Rightarrow> go_error option go \<times> 'w option" where
  "run_phases 0 W c j ph w = (case ph of Finished r \<Rightarrow> (r, Some w) | _ \<Rightarrow> (Diverged, None))"
| "run_phases (Suc n) W c j ph w = (case ph of
     Finished r \<Rightarrow> (r, Some w)
   | _ \<Rightarrow> (case create_phase_step W c j ph w of Some (ph', w') \<Rightarrow> run_phases n W c j ph' w' | None \<Rightarrow> (Diverged, None)))"

text \<open>
  C25: the phases are those of the code: a process that runs alone through its phases, five calls at most, does what CreateLayer does, with the
  same result and the same world, and hangs exactly when CreateLayer does.
\<close>

theorem create_phases_of_code:
  "run_phases 5 W c \<lparr>cj_info = di, cj_id = i, cj_parents = ps\<rparr> Opening w =
     (case Client_CreateLayer W c di i ps w of (r, w') \<Rightarrow> (r, if r = Diverged then None else Some w'))"
  by (simp add: eval_nat_numeral Client_CreateLayer_def layer_call_def go_try_def go_tryE_def go_bind_def go_defer_def
      split: prod.splits go.splits sum.splits option.splits)

section \<open>Processes\<close>

type_synonym 'w create_state = "'w \<times> (create_job \<times> 'w create_phase) list"

inductive process_step :: "'w wclayer \<Rightarrow> 'w Client \<Rightarrow> 'w create_state \<Rightarrow> 'w create_state \<Rightarrow> bool" for W c where
  "i < length ps \<Longrightarrow> ps ! i = (j, ph) \<Longrightarrow> create_phase_step W c j ph w = Some (ph', w') \<Longrightarrow>
     process_step W c (w, ps) (w', ps[i := (j, ph')])"

definition processes :: "create_job list \<Rightarrow> (create_job \<times> 'w create_phase) list" where
  "processes js = map (\<lambda>j. (j, Opening)) js"

text \<open>Between opening and closing the lock.\<close>

fun inside :: "'w create_phase \<Rightarrow> bool" where
  "inside (Creating f) = True"
| "inside (Activating f) = True"
| "inside (Preparing f) = True"
| "inside (Closing f r) = True"
| "inside _ = False"

text \<open>The contract of an exclusive lock, beyond that of \<open>create_lock\<close>: it is granted only when nobody holds it, and asking for it does not release it.\<close>

locale exclusive_lock = create_lock L W held
  for L :: "'w FileLocker" and W :: "'w wclayer" and held :: "'w \<Rightarrow> bool" +
  assumes open_free: "fl_Open L w = (Ret (Inr f), w') \<Longrightarrow> \<not> held w"
    and open_keeps: "held w \<Longrightarrow> held (snd (fl_Open L w))"
begin

definition exclusive :: "'w create_state \<Rightarrow> bool" where
  "exclusive = (\<lambda>(w, ps). \<forall>i < length ps. inside (snd (ps ! i)) \<longrightarrow> held w \<and> (\<forall>k < length ps. inside (snd (ps ! k)) \<longrightarrow> k = i))"

text \<open>A step that enters found the lock free, and one inside keeps it until it leaves.\<close>

lemma phase_step_held:
  assumes "layerCreateLock c = L" and "create_phase_step W c j ph w = Some (ph', w')"
  shows "inside ph' \<Longrightarrow> \<not> inside ph \<Longrightarrow> \<not> held w" and "inside ph' \<Longrightarrow> inside ph \<Longrightarrow> held w \<Longrightarrow> held w'"
    and "inside ph' \<Longrightarrow> \<not> inside ph \<Longrightarrow> held w'" and "\<not> inside ph' \<Longrightarrow> \<not> inside ph \<Longrightarrow> held w \<Longrightarrow> held w'"
proof -
  obtain q v where o: "fl_Open L w = (q, v)" by force
  have entry: "w' = v \<and> (inside ph' \<longleftrightarrow> (\<exists>f. q = Ret (Inr f)))" if "\<not> inside ph"
    using assms o that by (cases ph) (auto split: go.splits sum.splits)
  show "inside ph' \<Longrightarrow> \<not> inside ph \<Longrightarrow> \<not> held w" using entry open_free o by blast
  show "inside ph' \<Longrightarrow> \<not> inside ph \<Longrightarrow> held w'" using entry open_holds o by blast
  show "\<not> inside ph' \<Longrightarrow> \<not> inside ph \<Longrightarrow> held w \<Longrightarrow> held w'" using entry open_keeps [of w] o by simp
  have call: "layer_call f n x = Some (ph', w') \<Longrightarrow> w' = snd x" for f n x
    by (auto simp: layer_call_def split: prod.splits go.splits option.splits)
  show "inside ph' \<Longrightarrow> inside ph \<Longrightarrow> held w \<Longrightarrow> held w'"
    using assms(2) create_holds [of w] activate_holds [of w] prepare_holds [of w]
    by (cases ph) (auto simp: CreateSandboxLayer_def ActivateLayer_def PrepareLayer_def dest!: call split: prod.splits go.splits)
qed

lemma exclusive_step:
  assumes "layerCreateLock c = L" and "process_step W c s s'" and "exclusive s"
  shows "exclusive s'"
  using assms(2,3)
proof (induction rule: process_step.induct)
  case (1 i ps j ph w ph' w')
  note st = phase_step_held [OF assms(1) 1(3)]
  have inv: "\<And>k. k < length ps \<Longrightarrow> inside (snd (ps ! k)) \<Longrightarrow> held w"
    and one: "\<And>k l. k < length ps \<Longrightarrow> l < length ps \<Longrightarrow> inside (snd (ps ! k)) \<Longrightarrow> inside (snd (ps ! l)) \<Longrightarrow> l = k"
    using 1(4) unfolding exclusive_def by blast+
  have alone: "\<not> inside (snd (ps ! k))" if "inside ph'" "k < length ps" "k \<noteq> i" for k
    using st(1) [OF that(1)] inv [OF that(2)] one [of i k] 1(1,2) that by auto
  have kept: "held w'" if "k < length ps" "inside (snd (ps[i := (j, ph')] ! k))" for k
  proof (cases "k = i")
    case True
    then show ?thesis using that 1(1,2) st(2,3) inv [of i] by auto
  next
    case False
    with that have "inside (snd (ps ! k))" "held w" using inv by auto
    with False that 1(1,2) one [of k i] alone [of k] have "\<not> inside ph'" "\<not> inside ph" by auto
    with st(4) \<open>held w\<close> show ?thesis by blast
  qed
  show ?case
    unfolding exclusive_def using kept alone one 1(1) by (auto simp: nth_list_update)
qed

lemma exclusive_reachable:
  assumes "layerCreateLock c = L" and "(process_step W c)\<^sup>*\<^sup>* (w, processes js) s"
  shows "exclusive s"
  using assms(2)
proof induction
  case base
  show ?case by (simp add: exclusive_def processes_def)
next
  case (step s s')
  then show ?case using exclusive_step [OF assms(1)] by blast
qed

end

text \<open>
  C24: mutual exclusion: when any number of processes create layers at the same time, at most one of them is between opening and
  closing the lock, in every reachable state and whatever fails; so the calls of the layer service of two creations never interleave.
\<close>

theorem CreateLayer_exclusive:
  assumes "exclusive_lock (layerCreateLock c) W held" and "(process_step W c)\<^sup>*\<^sup>* (w, processes js) (w', ps)"
    and "i < length ps" and "k < length ps" and "inside (snd (ps ! i))" and "inside (snd (ps ! k))"
  shows "i = k \<and> held w'"
  using exclusive_lock.exclusive_reachable [OF assms(1) refl assms(2)] assms(3-6)
  unfolding exclusive_lock.exclusive_def [OF assms(1)] by blast

end
