(* ===== verification/Go_Sha256.thy ===== *)
theory Go_Sha256
  imports Go_Encoding
begin

text \<open>
  The hash functions and hexadecimal digits of the Go library that the fetchers use: \<^verbatim>\<open>sha256.Sum256\<close> (FIPS 180-4) and \<^verbatim>\<open>hex.EncodeToString\<close>.
  The theorems about checksums hold for every hash function; the definition makes the chain identifiers of layers computable.
\<close>

unbundle bit_operations_syntax

section \<open>SHA-256\<close>

definition sha_K :: "uint32 list" where
  "sha_K = [
   0x428A2F98, 0x71374491, 0xB5C0FBCF, 0xE9B5DBA5, 0x3956C25B, 0x59F111F1, 0x923F82A4, 0xAB1C5ED5,
   0xD807AA98, 0x12835B01, 0x243185BE, 0x550C7DC3, 0x72BE5D74, 0x80DEB1FE, 0x9BDC06A7, 0xC19BF174,
   0xE49B69C1, 0xEFBE4786, 0x0FC19DC6, 0x240CA1CC, 0x2DE92C6F, 0x4A7484AA, 0x5CB0A9DC, 0x76F988DA,
   0x983E5152, 0xA831C66D, 0xB00327C8, 0xBF597FC7, 0xC6E00BF3, 0xD5A79147, 0x06CA6351, 0x14292967,
   0x27B70A85, 0x2E1B2138, 0x4D2C6DFC, 0x53380D13, 0x650A7354, 0x766A0ABB, 0x81C2C92E, 0x92722C85,
   0xA2BFE8A1, 0xA81A664B, 0xC24B8B70, 0xC76C51A3, 0xD192E819, 0xD6990624, 0xF40E3585, 0x106AA070,
   0x19A4C116, 0x1E376C08, 0x2748774C, 0x34B0BCB5, 0x391C0CB3, 0x4ED8AA4A, 0x5B9CCA4F, 0x682E6FF3,
   0x748F82EE, 0x78A5636F, 0x84C87814, 0x8CC70208, 0x90BEFFFA, 0xA4506CEB, 0xBEF9A3F7, 0xC67178F2]"

definition sha_H :: "uint32 list" where
  "sha_H = [
   0x6A09E667, 0xBB67AE85, 0x3C6EF372, 0xA54FF53A, 0x510E527F, 0x9B05688C, 0x1F83D9AB, 0x5BE0CD19]"

text \<open>Big-endian words of four bytes.\<close>

fun be_words :: "bytes \<Rightarrow> uint32 list" where
  "be_words (a # b # c # d # bs) =
     of_nat (of_char a * 16777216 + of_char b * 65536 + of_char c * 256 + of_char d) # be_words bs"
| "be_words bs = []"

definition be_bytes :: "uint32 \<Rightarrow> bytes" where
  "be_bytes x = rev (le_bytes 4 (unat x))"

text \<open>The padding: a one bit, zeros, and the length in bits as 64-bit number, up to a multiple of 64 bytes.\<close>

definition sha_pad :: "bytes \<Rightarrow> bytes" where
  "sha_pad m = m @ [CHR 0x80] @ replicate ((119 - length m mod 64) mod 64) (CHR 0x00) @ rev (le_bytes 8 (8 * length m))"

text \<open>The message schedule, newest word first.\<close>

fun sha_extend :: "nat \<Rightarrow> uint32 list \<Rightarrow> uint32 list" where
  "sha_extend 0 ws = ws"
| "sha_extend (Suc n) ws =
     (let v1 = ws ! 1; v0 = ws ! 14;
          s1 = word_rotr 17 v1 XOR word_rotr 19 v1 XOR drop_bit 10 v1;
          s0 = word_rotr 7 v0 XOR word_rotr 18 v0 XOR drop_bit 3 v0
      in sha_extend n ((s1 + ws ! 6 + s0 + ws ! 15) # ws))"

type_synonym sha_state = "uint32 \<times> uint32 \<times> uint32 \<times> uint32 \<times> uint32 \<times> uint32 \<times> uint32 \<times> uint32"

definition sha_round :: "sha_state \<Rightarrow> uint32 \<times> uint32 \<Rightarrow> sha_state" where
  "sha_round s kw =
     (case s of (a, b, c, d, e, f, g, h) \<Rightarrow>
      case kw of (k, w) \<Rightarrow>
        let t1 = h + (word_rotr 6 e XOR word_rotr 11 e XOR word_rotr 25 e) + (e AND f XOR NOT e AND g) + k + w;
            t2 = (word_rotr 2 a XOR word_rotr 13 a XOR word_rotr 22 a) + (a AND b XOR a AND c XOR b AND c)
        in (t1 + t2, a, b, c, d + t1, e, f, g))"

definition sha_block :: "sha_state \<Rightarrow> uint32 list \<Rightarrow> sha_state" where
  "sha_block s ws =
     (case s of (a, b, c, d, e, f, g, h) \<Rightarrow>
      case foldl sha_round s (zip sha_K (rev (sha_extend 48 (rev ws)))) of (a', b', c', d', e', f', g', h') \<Rightarrow>
        (a + a', b + b', c + c', d + d', e + e', f + f', g + g', h + h'))"

function sha_blocks :: "sha_state \<Rightarrow> uint32 list \<Rightarrow> sha_state" where
  "sha_blocks s ws = (if ws = [] then s else sha_blocks (sha_block s (take 16 ws)) (drop 16 ws))"
  by pat_completeness auto
termination
  by (relation "measure (\<lambda>(s, ws). length ws)") auto

declare sha_blocks.simps [simp del]

definition sha256 :: "bytes \<Rightarrow> bytes" where
  "sha256 m =
     (case sha_H of [a, b, c, d, e, f, g, h] \<Rightarrow>
      (case sha_blocks (a, b, c, d, e, f, g, h) (be_words (sha_pad m)) of (a, b, c, d, e, f, g, h) \<Rightarrow>
         concat (map be_bytes [a, b, c, d, e, f, g, h]))
      | _ \<Rightarrow> [])"

section \<open>Hexadecimal digits\<close>

definition hex_digit :: "nat \<Rightarrow> char" where
  "hex_digit n = ''0123456789abcdef'' ! (n mod 16)"

definition hex_EncodeToString :: "bytes \<Rightarrow> string" where
  "hex_EncodeToString b = concat (map (\<lambda>c. [hex_digit (of_char c div 16), hex_digit (of_char c)]) b)"

text \<open>The verb \<^verbatim>\<open>%x\<close> for numbers.\<close>

fun hex :: "nat \<Rightarrow> string" where
  "hex n = (if n < 16 then [hex_digit n] else hex (n div 16) @ [hex_digit n])"

lemma length_sha256: "length (sha256 m) = 32"
  by (simp add: sha256_def sha_H_def be_bytes_def split: prod.splits)

end
