(* ===== verification/Fetchers.thy ===== *)
theory Fetchers
  imports Groot Go_Sha256
begin

text \<open>
  Where images come from, src/vendor/code.cloudfoundry.org/groot/fetcher: the fetcher of an image in a tar file
  (filefetcher/file\_fetcher.go) and the fetcher of layers from a registry or an OCI directory (layerfetcher/layer\_fetcher.go, blob\_reader.go,
  quotaed\_reader.go, source/layer\_source.go). Registry access (containers/image), gzip and the file system are parameters.
\<close>

section \<open>Readers\<close>

type_synonym 'v reader = "nat \<Rightarrow> ('v, bytes \<times> go_error option) io"

record 'v ReadCloser =
  rc_Read :: "'v reader"
  rc_Close :: "('v, go_error option) io"

text \<open>\<^verbatim>\<open>io.TeeReader\<close> into a hash; the hash is the bytes written to it so far, and writing to it does not fail.\<close>

definition TeeReader :: "'v reader \<Rightarrow> ('v, bytes) ref \<Rightarrow> 'v reader" where
  "TeeReader r h = (\<lambda>n. go_bind (r n) (\<lambda>(b, err).
     if b = [] then go_ret (b, err) else go_bind (ref_modify h (\<lambda>acc. acc @ b)) (\<lambda>_. go_ret (b, err))))"

text \<open>
  The reader of quotaed\_reader.go: of a read that could exceed the quota it asks one byte more than is left, and it reports the
  error when that byte came. Its field \<open>QuotaLeft\<close> is \<open>q\<close>.
\<close>

definition QuotaedReader_Read :: "'v reader \<Rightarrow> ('v, int64) ref \<Rightarrow> string \<Rightarrow> 'v reader" where
  "QuotaedReader_Read r q errorMsg n =
     go_bind (ref_read q) (\<lambda>left.
     if int n > sint left \<and> sint left + 1 < 0 then go_panic SliceBounds
     else
       go_bind (r (if int n > sint left then nat (sint left + 1) else n)) (\<lambda>(b, err).
       go_bind (ref_modify q (\<lambda>l. l - of_nat (length b))) (\<lambda>_.
       go_bind (ref_read q) (\<lambda>left'.
       if sint left' < 0 then go_ret (b, Some (ErrorString errorMsg)) else go_ret (b, err)))))"

text \<open>\<^verbatim>\<open>io.Copy\<close> to a file, with its buffer of 32 KB: the number of bytes written and the error.\<close>

fun copy_to :: "nat \<Rightarrow> (bytes \<Rightarrow> ('v, int \<times> go_error option) io) \<Rightarrow> 'v reader \<Rightarrow> int64 \<Rightarrow> ('v, int64 \<times> go_error option) io" where
  "copy_to 0 out r written = go_diverge"
| "copy_to (Suc fuel) out r written =
     go_bind (r 32768) (\<lambda>(b, er).
       let finish = (\<lambda>written. case er of
             None \<Rightarrow> copy_to fuel out r written
           | Some e \<Rightarrow> go_ret (written, if e = EOF then None else Some e))
       in if b = [] then finish written
          else
            go_bind (out b) (\<lambda>(nw, ew).
              let bad = (nw < 0 \<or> int (length b) < nw);
                  ew = (if bad \<and> ew = None then Some (ErrorString ''invalid write result'') else ew);
                  written = written + word_of_int (if bad then 0 else nw)
              in case ew of
                Some e \<Rightarrow> go_ret (written, Some e)
              | None \<Rightarrow> if nw \<noteq> int (length b) then go_ret (written, Some (ErrorString ''short write'')) else finish written))"

section \<open>What lies outside\<close>

record URL =
  url_Scheme :: string
  url_Host :: string
  url_Path :: string
  url_String :: string

record FileStat =
  fs_ModTime :: int
  fs_Size :: int64
  fs_IsDir :: bool

text \<open>Files: handles are of type \<open>'f\<close>; a temporary file is known by its name.\<close>

record ('w, 'f) file_api =
  fi_Stat :: "string \<Rightarrow> ('w, FileStat res) io"
  fi_Open :: "string \<Rightarrow> ('w, 'f res) io"
  fi_Read :: "'f \<Rightarrow> 'w reader"
  fi_Close :: "'f \<Rightarrow> ('w, go_error option) io"
  fi_Remove :: "string \<Rightarrow> ('w, go_error option) io"
  fi_CreateTemp :: "string \<Rightarrow> ('w, string res) io"
  fi_WriteTemp :: "string \<Rightarrow> bytes \<Rightarrow> ('w, int \<times> go_error option) io"
  fi_CloseTemp :: "string \<Rightarrow> ('w, go_error option) io"

record BlobInfo =
  bi_Digest :: string
  bi_Size :: int64
  bi_URLs :: "string list"
  bi_MediaType :: string

record OCIConfig =
  oc_DiffIDs :: "string list"
  oc_Env :: "string list"

record SystemContext =
  sc_InsecureSkipTLSVerify :: "bool option"
  sc_DockerAuth :: "(string \<times> string) option"

text \<open>
  containers/image: references are strings, sources of type \<open>'src\<close>, images \<open>'img\<close> and blob streams \<open>'b\<close>. Of the manifest the code reads
  the media type, of the configuration blob only whether it can be fetched.
\<close>

record ('w, 'src, 'img, 'b) image_api =
  ia_ParseReference :: "string \<Rightarrow> string \<Rightarrow> string res"
  ia_NewImageSource :: "SystemContext \<Rightarrow> string \<Rightarrow> ('w, 'src res) io"
  ia_GetBlob :: "'src \<Rightarrow> BlobInfo \<Rightarrow> ('w, ('b \<times> int64) res) io"
  ia_CloseSource :: "'src \<Rightarrow> ('w, go_error option) io"
  ia_ReadBlob :: "'b \<Rightarrow> 'w reader"
  ia_CloseBlob :: "'b \<Rightarrow> ('w, go_error option) io"
  ia_FromUnparsedImage :: "SystemContext \<Rightarrow> 'src \<Rightarrow> ('w, 'img res) io"
  ia_Manifest :: "'img \<Rightarrow> ('w, string res) io"
  ia_LayerInfos :: "'img \<Rightarrow> BlobInfo list"
  ia_UpdatedImage :: "'img \<Rightarrow> string list \<Rightarrow> BlobInfo list \<Rightarrow> ('w, 'img res) io"
  ia_ConfigBlob :: "'img \<Rightarrow> ('w, go_error option) io"
  ia_OCIConfig :: "'img \<Rightarrow> ('w, OCIConfig res) io"

section \<open>The file fetcher\<close>

text \<open>A stream of the fetchers: an open file, or an open temporary file that is removed when it is closed.\<close>

datatype 'f fetched = OpenFile 'f | BlobReader 'f string

definition fetched_streams :: "('w, 'f) file_api \<Rightarrow> ('w, 'f fetched) stream_api" where
  "fetched_streams F =
     \<lparr>st_Read = (\<lambda>s n. case s of OpenFile f \<Rightarrow> fi_Read F f n | BlobReader f p \<Rightarrow> fi_Read F f n),
      st_Close = (\<lambda>s. case s of
         OpenFile f \<Rightarrow> fi_Close F f
       | BlobReader f p \<Rightarrow> go_bind (fi_Close F f) (\<lambda>_. fi_Remove F p))\<rparr>"

definition generateChainID :: "string \<Rightarrow> int64 \<Rightarrow> string" where
  "generateChainID imagePath timestamp = hex_EncodeToString (sha256 (imagePath @ ''-'' @ FormatInt timestamp))"

definition validateImage :: "('w, 'f) file_api \<Rightarrow> string \<Rightarrow> ('w, go_error option) io" where
  "validateImage F imagePath =
     go_try (fi_Stat F imagePath) (\<lambda>e. go_ret (Some e)) (\<lambda>stat.
     if fs_IsDir stat then go_ret (Some (ErrorString ''directory provided instead of a tar file'')) else go_ret None)"

definition FileFetcher_StreamBlob :: "('w, 'f) file_api \<Rightarrow> string \<Rightarrow> LayerInfo \<Rightarrow> ('w, ('f fetched \<times> int64) res) io" where
  "FileFetcher_StreamBlob F imagePath layerInfo =
     go_try (fi_Stat F imagePath) (\<lambda>e. go_ret (Inl (Wrap e (''local image not found in `'' @ imagePath @ ''`'')))) (\<lambda>_.
     go_tryE (validateImage F imagePath) (\<lambda>e. go_ret (Inl (Wrap e ''invalid base image'')))
     (go_try (fi_Open F imagePath) (\<lambda>e. go_ret (Inl (Wrap e ''reading local image''))) (\<lambda>stream.
      go_ret (Inr (OpenFile stream, 0)))))"

definition FileFetcher_ImageInfo :: "('w, 'f) file_api \<Rightarrow> string \<Rightarrow> ('w, ImageInfo res) io" where
  "FileFetcher_ImageInfo F imagePath =
     go_try (fi_Stat F imagePath) (\<lambda>e. go_ret (Inl (Wrap e ''fetching image timestamp''))) (\<lambda>stat.
     go_ret (Inr \<lparr>LayerInfos = [\<lparr>BlobID = imagePath, ChainID = generateChainID imagePath (word_of_int (fs_ModTime stat)), DiffID = [],
                                 ParentChainID = [], li_Size = fs_Size stat, li_URLs = [], li_MediaType = []\<rparr>],
                  ii_Env = []\<rparr>))"

definition FileFetcher :: "('w, 'f) file_api \<Rightarrow> URL \<Rightarrow> ('w, 'f fetched) Fetcher" where
  "FileFetcher F imageURL =
     \<lparr>ft_ImageInfo = FileFetcher_ImageInfo F (url_String imageURL),
      ft_StreamBlob = FileFetcher_StreamBlob F (url_String imageURL),
      ft_Close = go_ret None\<rparr>"

section \<open>The layer source\<close>

definition MAX_DOCKER_RETRIES :: nat where
  "MAX_DOCKER_RETRIES = 3"

text \<open>A layer source; the fields that change are pointers.\<close>

record ('w, 'src) LayerSource =
  ls_skipOCILayerValidation :: bool
  ls_systemContext :: SystemContext
  ls_imageURL :: URL
  ls_skipImageQuotaValidation :: bool
  ls_imageSource :: "('w, 'src option) ref"
  ls_remainingImageQuota :: "('w, int64) ref"

text \<open>Strings: \<^verbatim>\<open>strings.Split\<close> at a character, \<^verbatim>\<open>strings.Contains\<close>, \<^verbatim>\<open>strings.TrimPrefix\<close>.\<close>

fun split_at :: "char \<Rightarrow> string \<Rightarrow> string list" where
  "split_at c [] = [[]]"
| "split_at c (x # s) = (case split_at c s of
     [] \<Rightarrow> [[x]]
   | p # ps \<Rightarrow> if x = c then [] # p # ps else (x # p) # ps)"

definition Contains :: "string \<Rightarrow> string \<Rightarrow> bool" where
  "Contains s t \<longleftrightarrow> list_ex (\<lambda>i. take (length t) (drop i s) = t) [0..<Suc (length s)]"

definition TrimPrefix :: "string \<Rightarrow> string \<Rightarrow> string" where
  "TrimPrefix s p = (if take (length p) s = p then drop (length p) s else s)"

text \<open>\<^verbatim>\<open>strings.Split(s, ":")[1]\<close>.\<close>

definition after_colon :: "string \<Rightarrow> ('v, string) io" where
  "after_colon s = (case split_at (CHR '':'') s of _ # p # _ \<Rightarrow> go_ret p | _ \<Rightarrow> go_panic IndexOutOfRange)"

definition destToWindowsPath :: "string \<Rightarrow> string" where
  "destToWindowsPath input =
     (let input = TrimPrefix input ''//'';
          vol = VolumeName input;
          input = (if vol = [] then
                     (let input = (if take 1 input \<noteq> ''/'' then Join [''/'', input] else input) in Join [''C:'', input])
                   else input)
      in Clean input)"

definition generateRefString :: "URL \<Rightarrow> string" where
  "generateRefString imageURL =
     (let refString = ''/'' @ (if url_Host imageURL \<noteq> [] then ''/'' @ url_Host imageURL else []) @ url_Path imageURL
      in if url_Scheme imageURL = ''oci'' then destToWindowsPath refString else refString)"

definition createImageSource :: "('w, 'src, 'img, 'b) image_api \<Rightarrow> ('w, 'src) LayerSource \<Rightarrow> ('w, 'src res) io" where
  "createImageSource A s =
     (case ia_ParseReference A (url_Scheme (ls_imageURL s)) (generateRefString (ls_imageURL s)) of
        Inl e \<Rightarrow> go_ret (Inl (Wrap e ''parsing url failed''))
      | Inr r \<Rightarrow>
          go_try (ia_NewImageSource A (ls_systemContext s) r) (\<lambda>e. go_ret (Inl (Wrap e ''creating image source''))) (\<lambda>imgSrc.
          go_ret (Inr imgSrc)))"

text \<open>The source is made once. When making it fails the field is set to the nil source that came with the error.\<close>

definition getImageSource :: "('w, 'src, 'img, 'b) image_api \<Rightarrow> ('w, 'src) LayerSource \<Rightarrow> ('w, 'src res) io" where
  "getImageSource A s =
     go_bind (ref_read (ls_imageSource s)) (\<lambda>src.
     case src of
       Some imgSrc \<Rightarrow> go_ret (Inr imgSrc)
     | None \<Rightarrow>
         go_try (createImageSource A s)
           (\<lambda>e. go_bind (ref_modify (ls_imageSource s) (\<lambda>_. None)) (\<lambda>_. go_ret (Inl e)))
           (\<lambda>imgSrc. go_bind (ref_modify (ls_imageSource s) (\<lambda>_. Some imgSrc)) (\<lambda>_. go_ret (Inr imgSrc))))"

definition LayerSource_Close :: "('w, 'src, 'img, 'b) image_api \<Rightarrow> ('w, 'src) LayerSource \<Rightarrow> ('w, go_error option) io" where
  "LayerSource_Close A s =
     go_bind (ref_read (ls_imageSource s)) (\<lambda>src.
     case src of Some imgSrc \<Rightarrow> ia_CloseSource A imgSrc | None \<Rightarrow> go_ret None)"

text \<open>The loops over attempts; \<open>err\<close> is the error of the attempt before.\<close>

fun blob_attempts :: "nat \<Rightarrow> ('w, 'src, 'img, 'b) image_api \<Rightarrow> 'src \<Rightarrow> BlobInfo \<Rightarrow> go_error \<Rightarrow> ('w, ('b \<times> int64) res) io" where
  "blob_attempts 0 A imgSrc blobInfo err = go_ret (Inl err)"
| "blob_attempts (Suc k) A imgSrc blobInfo err =
     go_try (ia_GetBlob A imgSrc blobInfo) (blob_attempts k A imgSrc blobInfo) (\<lambda>blob. go_ret (Inr blob))"

text \<open>There is at least one attempt, so the error passed in here is never returned.\<close>

definition getBlobWithRetries :: "('w, 'src, 'img, 'b) image_api \<Rightarrow> 'src \<Rightarrow> BlobInfo \<Rightarrow> ('w, ('b \<times> int64) res) io" where
  "getBlobWithRetries A imgSrc blobInfo = blob_attempts MAX_DOCKER_RETRIES A imgSrc blobInfo EOF"

fun image_attempts :: "nat \<Rightarrow> ('w, 'src, 'img, 'b) image_api \<Rightarrow> ('w, 'src) LayerSource \<Rightarrow> go_error \<Rightarrow> ('w, 'img res) io" where
  "image_attempts 0 A s imgErr = go_ret (Inl (Wrap imgErr ''creating image''))"
| "image_attempts (Suc k) A s imgErr =
     go_try (getImageSource A s) (image_attempts k A s) (\<lambda>imageSource.
     go_try (ia_FromUnparsedImage A (ls_systemContext s) imageSource) (image_attempts k A s) (\<lambda>img. go_ret (Inr img)))"

definition getImageWithRetries :: "('w, 'src, 'img, 'b) image_api \<Rightarrow> ('w, 'src) LayerSource \<Rightarrow> ('w, 'img res) io" where
  "getImageWithRetries A s = image_attempts MAX_DOCKER_RETRIES A s EOF"

definition isV1Image :: "LayerInfo \<Rightarrow> bool" where
  "isV1Image layerInfo \<longleftrightarrow> li_Size layerInfo = - 1"

definition validateLayerSize :: "('w, 'src) LayerSource \<Rightarrow> LayerInfo \<Rightarrow> int64 \<Rightarrow> go_error option" where
  "validateLayerSize s layerInfo sz =
     (if ls_skipOCILayerValidation s \<or> isV1Image layerInfo \<or> li_Size layerInfo = sz then None
      else Some (ErrorString ''layer size is different from the value in the manifest''))"

definition checkCheckSum :: "('w, 'src) LayerSource \<Rightarrow> bytes \<Rightarrow> string \<Rightarrow> string \<Rightarrow> go_error option" where
  "checkCheckSum s hashed digest scheme =
     (if ls_skipOCILayerValidation s \<and> scheme = ''oci'' then None
      else
        let blobContentsSha = hex_EncodeToString (sha256 hashed) in
        if digest \<noteq> blobContentsSha then Some (ErrorString (''expected: '' @ digest @ '', actual: '' @ blobContentsSha)) else None)"

definition shouldEnforceImageQuotaValidation :: "('w, 'src) LayerSource \<Rightarrow> bool" where
  "shouldEnforceImageQuotaValidation s \<longleftrightarrow> \<not> ls_skipImageQuotaValidation s"

subsection \<open>Blob\<close>

text \<open>The objects that a call of Blob makes: the two hashes and the quota of its reader. The call runs on the world together with them.\<close>

record blob_locals =
  bl_blobIDHash :: bytes
  bl_diffIDHash :: bytes
  bl_QuotaLeft :: int64

type_synonym 'w blob_world = "'w \<times> blob_locals"

abbreviation blobIDHash :: "('w blob_world, bytes) ref" where
  "blobIDHash \<equiv> field_ref bl_blobIDHash bl_blobIDHash_update snd_ref"

abbreviation diffIDHash :: "('w blob_world, bytes) ref" where
  "diffIDHash \<equiv> field_ref bl_diffIDHash bl_diffIDHash_update snd_ref"

abbreviation QuotaLeft :: "('w blob_world, int64) ref" where
  "QuotaLeft \<equiv> field_ref bl_QuotaLeft bl_QuotaLeft_update snd_ref"

abbreviation outside :: "('w, 'a) io \<Rightarrow> ('w blob_world, 'a) io" where
  "outside \<equiv> zoom fst_ref"

definition with_locals :: "blob_locals \<Rightarrow> ('w blob_world, 'a) io \<Rightarrow> ('w, 'a) io" where
  "with_locals l m = (\<lambda>w. case m (w, l) of (r, (w', _)) \<Rightarrow> (r, w'))"

text \<open>\<^verbatim>\<open>gzip.NewReader\<close>: a reader of the uncompressed bytes, which reads from the given one.\<close>

type_synonym 'v gzip = "'v reader \<Rightarrow> ('v, 'v ReadCloser res) io"

text \<open>Reading the uncompressed blob into the temporary file, and the checks.\<close>

definition save_blob :: "nat \<Rightarrow> ('w, 'f) file_api \<Rightarrow> ('w, 'src) LayerSource \<Rightarrow> LayerInfo \<Rightarrow> int64 \<Rightarrow> string \<Rightarrow> 'w blob_world reader \<Rightarrow>
    ('w blob_world, (string \<times> int64) res) io" where
  "save_blob fuel F s layerInfo sz blobTempFile digestReader =
     (let digestReader = (if shouldEnforceImageQuotaValidation s
                          then QuotaedReader_Read digestReader QuotaLeft ''uncompressed layer size exceeds quota'' else digestReader);
          digestReader = TeeReader digestReader diffIDHash in
      go_bind (copy_to fuel (\<lambda>b. outside (fi_WriteTemp F blobTempFile b)) digestReader 0) (\<lambda>(uncompressedSize, err).
      case err of
        Some e \<Rightarrow> go_ret (Inl (Wrap e ''writing blob to tempfile''))
      | None \<Rightarrow>
          go_bind (after_colon (BlobID layerInfo)) (\<lambda>blobIDHex.
          go_bind (ref_read blobIDHash) (\<lambda>blobHashed.
          case checkCheckSum s blobHashed blobIDHex (url_Scheme (ls_imageURL s)) of
            Some e \<Rightarrow> go_ret (Inl (Wrap e ''layerID digest mismatch''))
          | None \<Rightarrow>
              go_bind (ref_read diffIDHash) (\<lambda>diffHashed.
              case checkCheckSum s diffHashed (DiffID layerInfo) (url_Scheme (ls_imageURL s)) of
                Some e \<Rightarrow> go_ret (Inl (Wrap e ''diffID digest mismatch''))
              | None \<Rightarrow>
                  go_bind (outside (ref_modify (ls_remainingImageQuota s) (\<lambda>q. q - uncompressedSize))) (\<lambda>_.
                  go_ret (Inr (blobTempFile, sz))))))))"

text \<open>The same from the compressed blob on.\<close>

definition store_blob :: "nat \<Rightarrow> ('w, 'f) file_api \<Rightarrow> 'w blob_world gzip \<Rightarrow> ('w, 'src) LayerSource \<Rightarrow> LayerInfo \<Rightarrow> 'w reader \<Rightarrow> int64 \<Rightarrow> string \<Rightarrow>
    ('w blob_world, (string \<times> int64) res) io" where
  "store_blob fuel F gz s layerInfo blob sz blobTempFile =
     (let digestReader = TeeReader (\<lambda>n. outside (blob n)) blobIDHash in
      if li_MediaType layerInfo = [] \<or> Contains (li_MediaType layerInfo) ''gzip'' then
        go_try (gz digestReader) (\<lambda>e. go_ret (Inl (Wrap e (''expected blob to be of type '' @ li_MediaType layerInfo)))) (\<lambda>z.
        go_defer (rc_Close z) (save_blob fuel F s layerInfo sz blobTempFile (rc_Read z)))
      else save_blob fuel F s layerInfo sz blobTempFile digestReader)"

text \<open>Making the temporary file, which is removed when an error is returned.\<close>

definition temp_blob :: "nat \<Rightarrow> ('w, 'f) file_api \<Rightarrow> 'w blob_world gzip \<Rightarrow> ('w, 'src) LayerSource \<Rightarrow> LayerInfo \<Rightarrow> 'w reader \<Rightarrow> int64 \<Rightarrow>
    ('w, (string \<times> int64) res) io" where
  "temp_blob fuel F gz s layerInfo blob sz =
     go_try (fi_CreateTemp F (''blob-'' @ map (\<lambda>c. if c = CHR '':'' then CHR ''-'' else c) (BlobID layerInfo)))
       (\<lambda>e. go_ret (Inl e)) (\<lambda>blobTempFile.
     go_defer_seeing
       (\<lambda>result. go_bind (fi_CloseTemp F blobTempFile) (\<lambda>_.
          case result of Some (Inl err) \<Rightarrow> fi_Remove F blobTempFile | _ \<Rightarrow> go_ret None))
       (go_bind (ref_read (ls_remainingImageQuota s)) (\<lambda>quota.
        with_locals \<lparr>bl_blobIDHash = [], bl_diffIDHash = [], bl_QuotaLeft = quota\<rparr>
          (store_blob fuel F gz s layerInfo blob sz blobTempFile))))"

definition LayerSource_Blob :: "nat \<Rightarrow> ('w, 'f) file_api \<Rightarrow> ('w, 'src, 'img, 'b) image_api \<Rightarrow> 'w blob_world gzip \<Rightarrow> ('w, 'src) LayerSource \<Rightarrow>
    LayerInfo \<Rightarrow> ('w, (string \<times> int64) res) io" where
  "LayerSource_Blob fuel F A gz s layerInfo =
     go_try (getImageSource A s) (\<lambda>e. go_ret (Inl e)) (\<lambda>imgSrc.
     go_try (getBlobWithRetries A imgSrc \<lparr>bi_Digest = BlobID layerInfo, bi_Size = 0, bi_URLs = li_URLs layerInfo, bi_MediaType = []\<rparr>) (\<lambda>e. go_ret (Inl e)) (\<lambda>(blob, sz).
     go_defer (ia_CloseBlob A blob)
       (case validateLayerSize s layerInfo sz of
          Some e \<Rightarrow> go_ret (Inl e)
        | None \<Rightarrow> temp_blob fuel F gz s layerInfo (ia_ReadBlob A blob) sz)))"

subsection \<open>Manifest\<close>

text \<open>\<^verbatim>\<open>io.ReadAll\<close>; how much room its buffer has after so many bytes is left to the runtime, \<open>avail\<close>.\<close>

fun read_all :: "nat \<Rightarrow> (nat \<Rightarrow> nat) \<Rightarrow> 'v reader \<Rightarrow> bytes \<Rightarrow> ('v, bytes res) io" where
  "read_all 0 avail r acc = go_diverge"
| "read_all (Suc fuel) avail r acc =
     go_bind (r (avail (length acc))) (\<lambda>(b, err).
     case err of
       None \<Rightarrow> read_all fuel avail r (acc @ b)
     | Some e \<Rightarrow> go_ret (if e = EOF then Inr (acc @ b) else Inl e))"

definition v1DiffID :: "nat \<Rightarrow> (nat \<Rightarrow> nat) \<Rightarrow> ('w, 'src, 'img, 'b) image_api \<Rightarrow> 'w blob_world gzip \<Rightarrow> BlobInfo \<Rightarrow> 'src \<Rightarrow> ('w, string res) io" where
  "v1DiffID fuel avail A gz layer imgSrc =
     go_try (getBlobWithRetries A imgSrc layer) (\<lambda>e. go_ret (Inl (Wrap e ''fetching V1 layer blob''))) (\<lambda>(blob, _).
     go_defer (ia_CloseBlob A blob)
       (with_locals \<lparr>bl_blobIDHash = [], bl_diffIDHash = [], bl_QuotaLeft = 0\<rparr>
         (go_try (gz (\<lambda>n. outside (ia_ReadBlob A blob n))) (\<lambda>e. go_ret (Inl (Wrap e ''creating reader for V1 layer blob''))) (\<lambda>gzipReader.
          go_try (read_all fuel avail (rc_Read gzipReader) []) (\<lambda>e. go_ret (Inl (Wrap e ''reading V1 layer blob''))) (\<lambda>data.
          go_ret (Inr (''sha256:'' @ hex_EncodeToString (sha256 data))))))))"

fun v1_diff_ids :: "nat \<Rightarrow> (nat \<Rightarrow> nat) \<Rightarrow> ('w, 'src, 'img, 'b) image_api \<Rightarrow> 'w blob_world gzip \<Rightarrow> 'src \<Rightarrow> BlobInfo list \<Rightarrow> string list \<Rightarrow> ('w, string list res) io" where
  "v1_diff_ids fuel avail A gz imgSrc [] diffIDs = go_ret (Inr diffIDs)"
| "v1_diff_ids fuel avail A gz imgSrc (layer # layers) diffIDs =
     go_try (v1DiffID fuel avail A gz layer imgSrc) (\<lambda>e. go_ret (Inl (Wrap e ''converting V1 schema failed''))) (\<lambda>diffID.
     v1_diff_ids fuel avail A gz imgSrc layers (diffIDs @ [diffID]))"

definition schema1_types :: "string list" where
  "schema1_types = [''application/vnd.docker.distribution.manifest.v1+json'', ''application/vnd.docker.distribution.manifest.v1+prettyjws'']"

definition convertImage :: "nat \<Rightarrow> (nat \<Rightarrow> nat) \<Rightarrow> ('w, 'src, 'img, 'b) image_api \<Rightarrow> 'w blob_world gzip \<Rightarrow> ('w, 'src) LayerSource \<Rightarrow> 'img \<Rightarrow> ('w, 'img res) io" where
  "convertImage fuel avail A gz s originalImage =
     go_try (ia_Manifest A originalImage) (\<lambda>e. go_ret (Inl e)) (\<lambda>mimetype.
     if mimetype \<notin> set schema1_types then go_ret (Inr originalImage)
     else
       go_try (getImageSource A s) (\<lambda>e. go_ret (Inl e)) (\<lambda>imgSrc.
       go_try (v1_diff_ids fuel avail A gz imgSrc (ia_LayerInfos A originalImage) []) (\<lambda>e. go_ret (Inl e)) (\<lambda>diffIDs.
       ia_UpdatedImage A originalImage diffIDs (ia_LayerInfos A originalImage))))"

fun config_attempts :: "nat \<Rightarrow> ('w, 'src, 'img, 'b) image_api \<Rightarrow> 'img \<Rightarrow> go_error \<Rightarrow> ('w, 'img res) io" where
  "config_attempts 0 A img err = go_ret (Inl (Wrap err ''fetching image configuration''))"
| "config_attempts (Suc k) A img err = go_tryE (ia_ConfigBlob A img) (config_attempts k A img) (go_ret (Inr img))"

definition LayerSource_Manifest :: "nat \<Rightarrow> (nat \<Rightarrow> nat) \<Rightarrow> ('w, 'src, 'img, 'b) image_api \<Rightarrow> 'w blob_world gzip \<Rightarrow> ('w, 'src) LayerSource \<Rightarrow> ('w, 'img res) io" where
  "LayerSource_Manifest fuel avail A gz s =
     go_try (getImageWithRetries A s) (\<lambda>e. go_ret (Inl (Wrap e ''fetching image reference''))) (\<lambda>img.
     go_try (convertImage fuel avail A gz s img) (\<lambda>e. go_ret (Inl e)) (\<lambda>img.
     config_attempts MAX_DOCKER_RETRIES A img EOF))"

section \<open>The layer fetcher\<close>

definition chainID :: "string \<Rightarrow> string \<Rightarrow> ('v, string) io" where
  "chainID diffID parentChainID =
     go_bind (if diffID \<noteq> [] then after_colon diffID else go_ret diffID) (\<lambda>diffID.
     go_ret (if parentChainID \<noteq> [] then hex_EncodeToString (sha256 (parentChainID @ '' '' @ diffID)) else diffID))"

text \<open>\<^verbatim>\<open>Digest.Hex\<close>: what follows the first colon; it panics if there is none.\<close>

definition digest_Hex :: "string \<Rightarrow> ('v, string) io" where
  "digest_Hex d = (if CHR '':'' \<in> set d then go_ret (tl (dropWhile (\<lambda>c. c \<noteq> CHR '':'') d)) else go_panic InvalidDigest)"

fun layer_infos :: "BlobInfo list \<Rightarrow> string list \<Rightarrow> string \<Rightarrow> LayerInfo list \<Rightarrow> ('v, LayerInfo list) io" where
  "layer_infos [] diffIDs parentChainID layerInfos = go_ret layerInfos"
| "layer_infos (layer # layers) diffIDs parentChainID layerInfos =
     (case diffIDs of
        [] \<Rightarrow> go_panic IndexOutOfRange
      | diffID # diffIDs' \<Rightarrow>
          go_bind (chainID diffID parentChainID) (\<lambda>cid.
          go_bind (digest_Hex diffID) (\<lambda>hexID.
          layer_infos layers diffIDs' cid (layerInfos @
            [\<lparr>BlobID = bi_Digest layer, ChainID = cid, DiffID = hexID, ParentChainID = parentChainID,
              li_Size = bi_Size layer, li_URLs = bi_URLs layer, li_MediaType = bi_MediaType layer\<rparr>]))))"

definition createLayerInfos :: "BlobInfo list \<Rightarrow> OCIConfig \<Rightarrow> ('v, LayerInfo list) io" where
  "createLayerInfos layers config = layer_infos layers (oc_DiffIDs config) [] []"

definition NewBlobReader :: "('w, 'f) file_api \<Rightarrow> string \<Rightarrow> ('w, 'f fetched res) io" where
  "NewBlobReader F blobPath =
     go_try (fi_Open F blobPath) (\<lambda>e. go_ret (Inl (Wrap e ''failed to open blob''))) (\<lambda>reader. go_ret (Inr (BlobReader reader blobPath)))"

definition LayerFetcher_ImageInfo :: "nat \<Rightarrow> (nat \<Rightarrow> nat) \<Rightarrow> ('w, 'src, 'img, 'b) image_api \<Rightarrow> 'w blob_world gzip \<Rightarrow> ('w, 'src) LayerSource \<Rightarrow> ('w, ImageInfo res) io" where
  "LayerFetcher_ImageInfo fuel avail A gz s =
     go_try (LayerSource_Manifest fuel avail A gz s) (\<lambda>e. go_ret (Inl e)) (\<lambda>manifest.
     go_try (ia_OCIConfig A manifest) (\<lambda>e. go_ret (Inl e)) (\<lambda>config.
     go_bind (createLayerInfos (ia_LayerInfos A manifest) config) (\<lambda>infos.
     go_ret (Inr \<lparr>LayerInfos = infos, ii_Env = oc_Env config\<rparr>))))"

definition LayerFetcher_StreamBlob :: "nat \<Rightarrow> ('w, 'f) file_api \<Rightarrow> ('w, 'src, 'img, 'b) image_api \<Rightarrow> 'w blob_world gzip \<Rightarrow> ('w, 'src) LayerSource \<Rightarrow>
    LayerInfo \<Rightarrow> ('w, ('f fetched \<times> int64) res) io" where
  "LayerFetcher_StreamBlob fuel F A gz s layerInfo =
     go_try (LayerSource_Blob fuel F A gz s layerInfo) (\<lambda>e. go_ret (Inl e)) (\<lambda>(blobFilePath, sz).
     go_try (NewBlobReader F blobFilePath) (\<lambda>e. go_ret (Inl (Wrap e ''opening stream from temporary blob file''))) (\<lambda>blobReader.
     go_ret (Inr (blobReader, sz))))"

definition LayerFetcher :: "nat \<Rightarrow> (nat \<Rightarrow> nat) \<Rightarrow> ('w, 'f) file_api \<Rightarrow> ('w, 'src, 'img, 'b) image_api \<Rightarrow> 'w blob_world gzip \<Rightarrow> ('w, 'src) LayerSource \<Rightarrow>
    ('w, 'f fetched) Fetcher" where
  "LayerFetcher fuel avail F A gz s =
     \<lparr>ft_ImageInfo = LayerFetcher_ImageInfo fuel avail A gz s,
      ft_StreamBlob = LayerFetcher_StreamBlob fuel F A gz s,
      ft_Close = LayerSource_Close A s\<rparr>"

end
