(* ===== verification/Create_Failures.thy ===== *)
theory Create_Failures
  imports Image_Store
begin

text \<open>
  Failures between the parts: the driver without a store (src/driver/driver.go and the operations), and the command create when the
  metadata cannot be written after the volume was made (src/vendor/code.cloudfoundry.org/groot/create.go on src/driver).
\<close>

section \<open>No store\<close>

lemma volume_store_unset: "Store d = [] \<Longrightarrow> VolumeStore (d\<lparr>Store := ''C:'' @ [bslash]\<rparr>) = VolumeStore d"
proof -
  have "toWindowsPath (Join [''C:'' @ [bslash], ''volumes'']) = toWindowsPath (Join [[], ''volumes''])" by code_simp
  then show "Store d = [] \<Longrightarrow> ?thesis" by (simp add: VolumeStore_def)
qed

text \<open>
  C32: a driver without a store refuses Unpack, Bundle and Delete with EmptyDriverStoreError and changes nothing; Stats and WriteMetadata do not test for
  it and do what they do for the root of drive C.
\<close>

theorem store_unset:
  assumes "Store d = []"
  shows "Unpack fuel os d i ps tar w = (Ret (0, Some EmptyDriverStoreError), w)
    \<and> Bundle os d i ls n w = (Ret (Inl EmptyDriverStoreError), w)
    \<and> Delete d i w = (Ret (Some EmptyDriverStoreError), w)
    \<and> Stats os msg d i w = Stats os msg (d\<lparr>Store := ''C:'' @ [bslash]\<rparr>) i w
    \<and> WriteMetadata os d i m w = WriteMetadata os (d\<lparr>Store := ''C:'' @ [bslash]\<rparr>) i m w"
proof -
  let ?d = "d\<lparr>Store := ''C:'' @ [bslash]\<rparr>"
  have same: "VolumeStore ?d = VolumeStore d" "metadataFile ?d = metadataFile d" "hcsClient ?d = hcsClient d" "limiter ?d = limiter d"
    using volume_store_unset [OF assms] by (simp_all add: metadataFile_def fun_eq_iff)
  have "Stats os msg d i = Stats os msg ?d i" unfolding Stats_def same by (rule refl)
  moreover have "WriteMetadata os d i m = WriteMetadata os ?d i m" unfolding WriteMetadata_def same by (rule refl)
  ultimately show ?thesis using assms by (simp add: Unpack_def Bundle_def Delete_def)
qed

theorem store_unset_witness:
  "Delete (example_driver []) ''b'' () = (Ret (Some EmptyDriverStoreError), ())
   \<and> (\<forall>os msg. Stats os msg (example_driver []) ''b'' () = (Ret (Inl (MissingVolumePathError ''b'')), ()))"
  using store_unset [of "example_driver []" 0 _ "''b''" "[]" "()" "()"]
  by (simp add: example_driver_def Stats_def)

section \<open>A volume without metadata\<close>

lemma Create_late_error:
  assumes "Groot_Create g i n ex w = (Ret (Some sp, Some e), w')"
  obtains img sp0 w1 w2 where "Bundle (g_os g) (g_Driver g) i (img_ChainIDs img) (create_quota n ex img) w1 = (Ret (Inr sp0), w2)"
    and "WriteMetadata (g_os g) (g_Driver g) i \<lparr>im_Size = img_Size img\<rparr> w2 = (Ret (Some e), w')"
  using assms unfolding Groot_Create_def go_try_def create_quota_def
  by (auto simp: Let_def dest!: go_bind_RetD split: if_splits sum.splits)

text \<open>
  C16: when create fails after the volume was made, because the metadata cannot be written, it returns the spec together with an error that
  says so, and the volume stays: a later Bundle for the same handle does not succeed while it is there, and Delete removes it.
\<close>

theorem Create_without_metadata:
  assumes "bundle_contract (g_Driver g) present (g_os g)" and "\<And>p b m. within (same present) (os_WriteFile (g_os g) p b m)"
    and "Groot_Create g i n ex w = (Ret (Some sp, Some e), w')" and "layerPath \<lparr>Flavour = 1, HomeDir = VolumeStore (g_Driver g)\<rparr> i = v"
  shows "(\<exists>s. e = ErrorString (''WriteMetadata failed: '' @ s)) \<and> v \<in> present w'
    \<and> (\<forall>u ls m. v \<in> present u \<longrightarrow> (\<forall>b u'. Bundle (g_os g) (g_Driver g) i ls m u \<noteq> (Ret (Inr b), u')))
    \<and> (\<forall>u. Delete (g_Driver g) i w' = (Ret None, u) \<longrightarrow> present u = present w' - {v})"
proof -
  obtain img sp0 w1 w2 where b: "Bundle (g_os g) (g_Driver g) i (img_ChainIDs img) (create_quota n ex img) w1 = (Ret (Inr sp0), w2)"
    and m: "WriteMetadata (g_os g) (g_Driver g) i \<lparr>im_Size = img_Size img\<rparr> w2 = (Ret (Some e), w')"
    using Create_late_error [OF assms(3)] .
  have v: "bundle_contract.volume (g_Driver g) i = v" using assms(1,4) by (simp add: bundle_contract.volume_def)
  have "within (same present) (WriteMetadata (g_os g) (g_Driver g) i x)" for x
    unfolding WriteMetadata_def writeMetadata_def by (intro within_intros assms(2)) simp_all
  from withinD [OF this m] bundle_contract.bundle_ok [OF assms(1) b] v have "v \<in> present w'" by (simp add: same_def)
  moreover have "\<exists>s. e = ErrorString (''WriteMetadata failed: '' @ s)"
    using m unfolding WriteMetadata_def go_tryE_def by (auto dest!: go_bind_RetD split: option.splits)
  moreover have "Store (g_Driver g) \<noteq> []" using b by (auto simp: Bundle_def)
  ultimately show ?thesis
    using bundle_contract.bundle_ok [OF assms(1)] bundle_contract.delete_ok [OF assms(1)] v by metis
qed

end
