(* ===== verification/Command_Line.thy ===== *)
theory Command_Line
  imports Fetchers Create_Failures Hcs_Client Volume_Limiter Privilege
begin

text \<open>
  The program: src/main.go, which builds the driver and hands it to the groot library, and the commands of that library
  (src/vendor/code.cloudfoundry.org/groot: groot.go, config.go). The command line is given as the cli framework parsed it: the command, its
  flags and arguments, and the global flags; yaml, the parsing of URLs and the encoding of the runtime spec are parameters.
\<close>

section \<open>The driver of main.go\<close>

definition main_driver :: "'w wclayer \<Rightarrow> ('w, 'lf) filelock_api \<Rightarrow> ('w, 'r) TarStreamer \<Rightarrow> 'w winio_api \<Rightarrow> 'w quota_api \<Rightarrow> string \<Rightarrow>
    ('w, 'r) Driver" where
  "main_driver W locks streamer winio quota driverStore =
     (New (Client_HCS W (NewClient locks)) streamer (Elevator winio) (Limiter_Impl quota))\<lparr>Store := driverStore\<rparr>"

section \<open>Configuration\<close>

record config =
  LogLevel :: string
  InsecureRegistries :: "string list"

definition applyDefaults :: "config \<Rightarrow> config" where
  "applyDefaults conf = (if LogLevel conf = [] then conf\<lparr>LogLevel := ''info''\<rparr> else conf)"

text \<open>\<^verbatim>\<open>yaml.Unmarshal\<close> into the empty configuration.\<close>

type_synonym yaml = "bytes \<Rightarrow> config res"

definition parseConfig :: "'w os_api \<Rightarrow> yaml \<Rightarrow> string \<Rightarrow> ('w, config res) io" where
  "parseConfig os yaml configFilePath =
     (if configFilePath = [] then go_ret (Inr (applyDefaults \<lparr>LogLevel = [], InsecureRegistries = []\<rparr>))
      else
        go_try (os_ReadFile os configFilePath) (\<lambda>e. go_ret (Inl (Wrap e ''reading config file''))) (\<lambda>contents.
        case yaml contents of
          Inl e \<Rightarrow> go_ret (Inl (Wrap e ''parsing config file''))
        | Inr conf \<Rightarrow> go_ret (Inr (applyDefaults conf))))"

datatype log_level = DEBUG | INFO | ERROR | FATAL

definition logLevels :: "(string \<times> log_level) list" where
  "logLevels = [(''debug'', DEBUG), (''info'', INFO), (''error'', ERROR), (''fatal'', FATAL)]"

definition newLogger :: "string \<Rightarrow> log_level res" where
  "newLogger logLevelStr =
     (case map_of logLevels logLevelStr of
        None \<Rightarrow> Inl (ErrorString (''invalid log level: '' @ logLevelStr))
      | Some logLevel \<Rightarrow> Inr logLevel)"

section \<open>The command line\<close>

datatype flag_value = StringFlag string | BoolFlag bool | Int64Flag int64

text \<open>The context of a command; a flag that was not set or that the command does not have reads as the zero value.\<close>

record cli_Context =
  ctx_flags :: "(string \<times> flag_value) list"
  ctx_Args :: "string list"

definition ctx_String :: "cli_Context \<Rightarrow> string \<Rightarrow> string" where
  "ctx_String ctx name = (case map_of (ctx_flags ctx) name of Some (StringFlag s) \<Rightarrow> s | _ \<Rightarrow> [])"

definition ctx_Bool :: "cli_Context \<Rightarrow> string \<Rightarrow> bool" where
  "ctx_Bool ctx name = (case map_of (ctx_flags ctx) name of Some (BoolFlag b) \<Rightarrow> b | _ \<Rightarrow> False)"

definition ctx_Int64 :: "cli_Context \<Rightarrow> string \<Rightarrow> int64" where
  "ctx_Int64 ctx name = (case map_of (ctx_flags ctx) name of Some (Int64Flag n) \<Rightarrow> n | _ \<Rightarrow> 0)"

datatype command_name = CreateCommand | PullCommand | DeleteCommand | StatsCommand

record invocation =
  inv_driverStore :: string
  inv_config :: string
  inv_command :: command_name
  inv_context :: cli_Context

definition validateArgs :: "cli_Context \<Rightarrow> nat \<Rightarrow> go_error option" where
  "validateArgs ctx num =
     (if length (ctx_Args ctx) \<noteq> num
      then Some (ErrorString (''Incorrect number of args. Expect '' @ dec num @ '', got '' @ dec (length (ctx_Args ctx))))
      else None)"

section \<open>Fetchers\<close>

record DockerConfig =
  dc_InsecureRegistries :: "string list"
  dc_Username :: string
  dc_Password :: string

text \<open>
  What the commands run on: the operating system, files, images, gzip and the other parameters, the pointers to standard output, to the
  stream of the layer being read and to the fields of the layer source that change, and the fuel of the loops.
\<close>

record ('w, 'f, 'src, 'img, 'b) runtime =
  rt_os :: "'w os_api"
  rt_files :: "('w, 'f) file_api"
  rt_images :: "('w, 'src, 'img, 'b) image_api"
  rt_gzip :: "'w blob_world gzip"
  rt_yaml :: yaml
  rt_url_Parse :: "string \<Rightarrow> URL res"
  rt_spec_json :: "RuntimeSpec option \<Rightarrow> string"
  rt_json_msg :: "json_error \<Rightarrow> string"
  rt_stdout :: "('w, string) ref"
  rt_reader :: "('w, 'f fetched option) ref"
  rt_imageSource :: "('w, 'src option) ref"
  rt_remainingImageQuota :: "('w, int64) ref"
  rt_avail :: "nat \<Rightarrow> nat"
  rt_fetch_fuel :: nat
  rt_unpack_fuel :: nat

definition skipTLSValidation :: "URL \<Rightarrow> string list \<Rightarrow> bool" where
  "skipTLSValidation baseImageURL trustedRegistries \<longleftrightarrow> list_ex (\<lambda>trustedRegistry. url_Host baseImageURL = trustedRegistry) trustedRegistries"

definition shouldSkipImageQuotaValidation :: "bool \<Rightarrow> int64 \<Rightarrow> bool" where
  "shouldSkipImageQuotaValidation excludeImageFromQuota diskLimitSizeBytes \<longleftrightarrow> excludeImageFromQuota \<or> diskLimitSizeBytes = 0"

text \<open>A new layer source has no image source yet, and the disk limit as its quota.\<close>

definition NewLayerSource :: "('w, 'f, 'src, 'img, 'b) runtime \<Rightarrow> SystemContext \<Rightarrow> bool \<Rightarrow> bool \<Rightarrow> int64 \<Rightarrow> URL \<Rightarrow> ('w, ('w, 'src) LayerSource) io" where
  "NewLayerSource rt systemContext skipOCILayerValidation skipImageQuotaValidation diskLimit imageURL =
     go_bind (ref_modify (rt_imageSource rt) (\<lambda>_. None)) (\<lambda>_.
     go_bind (ref_modify (rt_remainingImageQuota rt) (\<lambda>_. diskLimit)) (\<lambda>_.
     go_ret \<lparr>ls_skipOCILayerValidation = skipOCILayerValidation, ls_systemContext = systemContext, ls_imageURL = imageURL,
             ls_skipImageQuotaValidation = skipImageQuotaValidation, ls_imageSource = rt_imageSource rt,
             ls_remainingImageQuota = rt_remainingImageQuota rt\<rparr>))"

definition createFetcher :: "('w, 'f, 'src, 'img, 'b) runtime \<Rightarrow> string \<Rightarrow> bool \<Rightarrow> int64 \<Rightarrow> DockerConfig \<Rightarrow> ('w, ('w, 'f fetched) Fetcher res) io" where
  "createFetcher rt urlAsString excludeImageFromQuota diskLimitSizeBytes dockerConfig =
     (case rt_url_Parse rt urlAsString of
        Inl e \<Rightarrow> go_ret (Inl e)
      | Inr imageURL \<Rightarrow>
          if url_Scheme imageURL = ''oci'' \<or> url_Scheme imageURL = ''docker'' then
            let systemContext =
                  (if url_Scheme imageURL = ''docker''
                   then \<lparr>sc_InsecureSkipTLSVerify = Some (skipTLSValidation imageURL (dc_InsecureRegistries dockerConfig)),
                         sc_DockerAuth = Some (dc_Username dockerConfig, dc_Password dockerConfig)\<rparr>
                   else \<lparr>sc_InsecureSkipTLSVerify = None, sc_DockerAuth = None\<rparr>) in
            go_bind (NewLayerSource rt systemContext False (shouldSkipImageQuotaValidation excludeImageFromQuota diskLimitSizeBytes)
                      diskLimitSizeBytes imageURL) (\<lambda>layerSource.
            go_ret (Inr (LayerFetcher (rt_fetch_fuel rt) (rt_avail rt) (rt_files rt) (rt_images rt) (rt_gzip rt) layerSource)))
          else go_ret (Inr (FileFetcher (rt_files rt) imageURL)))"

section \<open>Commands\<close>

definition Println :: "('w, 'f, 'src, 'img, 'b) runtime \<Rightarrow> string \<Rightarrow> ('w, unit) io" where
  "Println rt s = ref_modify (rt_stdout rt) (\<lambda>out. out @ s @ [CHR 0x0A])"

definition groot_on :: "('w, 'f, 'src, 'img, 'b) runtime \<Rightarrow> ('w, ('w, 'f fetched) OnDemand) Driver \<Rightarrow> ('w, 'f fetched) Fetcher \<Rightarrow> ('w, 'f fetched) Groot" where
  "groot_on rt d fetcher =
     \<lparr>g_fuel = rt_unpack_fuel rt, g_os = rt_os rt, g_Driver = d, g_fetcher = fetcher, g_streams = fetched_streams (rt_files rt), g_reader = rt_reader rt\<rparr>"

text \<open>Delete and stats run without an image puller.\<close>

definition no_fetcher :: "('w, 'f fetched) Fetcher" where
  "no_fetcher = \<lparr>ft_ImageInfo = go_panic NilDereference, ft_StreamBlob = (\<lambda>_. go_panic NilDereference), ft_Close = go_panic NilDereference\<rparr>"

definition docker_config :: "config \<Rightarrow> cli_Context \<Rightarrow> DockerConfig" where
  "docker_config conf ctx =
     \<lparr>dc_InsecureRegistries = InsecureRegistries conf, dc_Username = ctx_String ctx ''username'', dc_Password = ctx_String ctx ''password''\<rparr>"

definition create_action :: "('w, 'f, 'src, 'img, 'b) runtime \<Rightarrow> ('w, ('w, 'f fetched) OnDemand) Driver \<Rightarrow> config \<Rightarrow> cli_Context \<Rightarrow> ('w, go_error option) io" where
  "create_action rt d conf ctx =
     (case validateArgs ctx 2 of
        Some e \<Rightarrow> go_ret (Some e)
      | None \<Rightarrow>
          let exclude = ctx_Bool ctx ''exclude-image-from-quota''; limit = ctx_Int64 ctx ''disk-limit-size-bytes'' in
          go_try (createFetcher rt (ctx_Args ctx ! 0) exclude limit (docker_config conf ctx)) (\<lambda>e. go_ret (Some e)) (\<lambda>fetcher.
          go_defer (ft_Close fetcher)
            (go_bind (Groot_Create (groot_on rt d fetcher) (ctx_Args ctx ! 1) limit exclude) (\<lambda>(runtimeSpec, err).
             case err of
               Some e \<Rightarrow> go_ret (Some e)
             | None \<Rightarrow> go_bind (Println rt (rt_spec_json rt runtimeSpec)) (\<lambda>_. go_ret None)))))"

definition pull_action :: "('w, 'f, 'src, 'img, 'b) runtime \<Rightarrow> ('w, ('w, 'f fetched) OnDemand) Driver \<Rightarrow> config \<Rightarrow> cli_Context \<Rightarrow> ('w, go_error option) io" where
  "pull_action rt d conf ctx =
     (case validateArgs ctx 1 of
        Some e \<Rightarrow> go_ret (Some e)
      | None \<Rightarrow>
          go_try (createFetcher rt (ctx_Args ctx ! 0) (ctx_Bool ctx ''exclude-image-from-quota'') (ctx_Int64 ctx ''disk-limit-size-bytes'')
                   (docker_config conf ctx)) (\<lambda>e. go_ret (Some e)) (\<lambda>fetcher.
          go_defer (ft_Close fetcher) (Groot_Pull (groot_on rt d fetcher))))"

definition delete_action :: "('w, 'f, 'src, 'img, 'b) runtime \<Rightarrow> ('w, ('w, 'f fetched) OnDemand) Driver \<Rightarrow> cli_Context \<Rightarrow> ('w, go_error option) io" where
  "delete_action rt d ctx =
     (case validateArgs ctx 1 of
        Some e \<Rightarrow> go_ret (Some e)
      | None \<Rightarrow> Groot_Delete (groot_on rt d no_fetcher) (ctx_Args ctx ! 0))"

text \<open>The statistics as JSON.\<close>

definition stats_json :: "DiskUsage \<Rightarrow> string" where
  "stats_json u =
     (let q = [CHR 0x22] in
      ''{'' @ q @ ''disk_usage'' @ q @ '':{'' @ q @ ''total_bytes_used'' @ q @ '':'' @ FormatInt (TotalBytesUsed u)
      @ '','' @ q @ ''exclusive_bytes_used'' @ q @ '':'' @ FormatInt (ExclusiveBytesUsed u) @ ''}}'')"

definition stats_action :: "('w, 'f, 'src, 'img, 'b) runtime \<Rightarrow> ('w, ('w, 'f fetched) OnDemand) Driver \<Rightarrow> cli_Context \<Rightarrow> ('w, go_error option) io" where
  "stats_action rt d ctx =
     (case validateArgs ctx 1 of
        Some e \<Rightarrow> go_ret (Some e)
      | None \<Rightarrow>
          go_try (Groot_Stats (groot_on rt d no_fetcher) (rt_json_msg rt) (ctx_Args ctx ! 0)) (\<lambda>e. go_ret (Some e)) (\<lambda>stats.
          go_bind (Println rt (stats_json stats)) (\<lambda>_. go_ret None)))"

section \<open>Run\<close>

text \<open>An error of the application; a silent one is not printed.\<close>

datatype run_error = SilentError go_error | PlainError go_error

definition Before :: "('w, 'f, 'src, 'img, 'b) runtime \<Rightarrow> invocation \<Rightarrow> ('w, run_error + config) io" where
  "Before rt cmd =
     go_try (parseConfig (rt_os rt) (rt_yaml rt) (inv_config cmd)) (\<lambda>e. go_ret (Inl (SilentError e))) (\<lambda>conf.
     case newLogger (LogLevel conf) of
       Inl e \<Rightarrow> go_ret (Inl (PlainError e))
     | Inr logger \<Rightarrow> go_ret (Inr conf))"

definition action :: "('w, 'f, 'src, 'img, 'b) runtime \<Rightarrow> ('w, ('w, 'f fetched) OnDemand) Driver \<Rightarrow> config \<Rightarrow> invocation \<Rightarrow> ('w, go_error option) io" where
  "action rt d conf cmd =
     (case inv_command cmd of
        CreateCommand \<Rightarrow> create_action rt d conf (inv_context cmd)
      | PullCommand \<Rightarrow> pull_action rt d conf (inv_context cmd)
      | DeleteCommand \<Rightarrow> delete_action rt d (inv_context cmd)
      | StatsCommand \<Rightarrow> stats_action rt d (inv_context cmd))"

text \<open>The framework runs Before, then the action of the command, and returns their error. The result of Run is the exit status of the process.\<close>

definition app_Run :: "('w, 'f, 'src, 'img, 'b) runtime \<Rightarrow> ('w, ('w, 'f fetched) OnDemand) Driver \<Rightarrow> invocation \<Rightarrow> ('w, run_error option) io" where
  "app_Run rt d cmd =
     go_bind (Before rt cmd) (\<lambda>r.
     case r of
       Inl e \<Rightarrow> go_ret (Some e)
     | Inr conf \<Rightarrow> go_bind (action rt d conf cmd) (\<lambda>err. go_ret (map_option PlainError err)))"

definition Run :: "('w, 'f, 'src, 'img, 'b) runtime \<Rightarrow> ('w, ('w, 'f fetched) OnDemand) Driver \<Rightarrow> invocation \<Rightarrow> ('w, nat) io" where
  "Run rt d cmd =
     go_bind (app_Run rt d cmd) (\<lambda>err.
     case err of
       None \<Rightarrow> go_ret 0
     | Some (SilentError e) \<Rightarrow> go_ret 1
     | Some (PlainError e) \<Rightarrow> go_bind (Println rt (Error e)) (\<lambda>_. go_ret 1))"

definition main :: "'w wclayer \<Rightarrow> ('w, 'lf) filelock_api \<Rightarrow> ('w, ('w, 'f fetched) OnDemand) TarStreamer \<Rightarrow> 'w winio_api \<Rightarrow> 'w quota_api \<Rightarrow>
    ('w, 'f, 'src, 'img, 'b) runtime \<Rightarrow> invocation \<Rightarrow> ('w, nat) io" where
  "main W locks streamer winio quota rt cmd = Run rt (main_driver W locks streamer winio quota (inv_driverStore cmd)) cmd"

section \<open>Refused command lines\<close>

fun expected_args :: "command_name \<Rightarrow> nat" where
  "expected_args CreateCommand = 2"
| "expected_args PullCommand = 1"
| "expected_args DeleteCommand = 1"
| "expected_args StatsCommand = 1"

lemma Before_default: "inv_config cmd = [] \<Longrightarrow> Before rt cmd = go_ret (Inr \<lparr>LogLevel = ''info'', InsecureRegistries = []\<rparr>)"
  by (simp add: Before_def parseConfig_def applyDefaults_def newLogger_def logLevels_def go_try_def fun_eq_iff)

text \<open>
  A command with the wrong number of arguments is refused: the program prints what is wrong, ends with status 1, and changes nothing
  else; no image is fetched and the driver is not called.
\<close>

theorem Run_usage:
  assumes "inv_config cmd = []" and "length (ctx_Args (inv_context cmd)) \<noteq> expected_args (inv_command cmd)"
  shows "Run rt d cmd w = (Ret 1, ref_put (rt_stdout rt) (ref_get (rt_stdout rt) w @ ''Incorrect number of args. Expect ''
    @ dec (expected_args (inv_command cmd)) @ '', got '' @ dec (length (ctx_Args (inv_context cmd))) @ [CHR 0x0A]) w)"
  using assms
  by (cases "inv_command cmd")
     (simp_all add: Run_def app_Run_def Before_default action_def create_action_def pull_action_def delete_action_def stats_action_def
       validateArgs_def Println_def go_simps)

text \<open>
  C33: when the configuration file cannot be read or parsed the program ends with status 1 without a word: the error is marked silent, and nobody else prints it.
\<close>

theorem Run_config_silent:
  assumes "inv_config cmd \<noteq> []" and "os_ReadFile (rt_os rt) (inv_config cmd) w = (Ret r, w')"
    and "case r of Inl e \<Rightarrow> True | Inr contents \<Rightarrow> \<exists>e. rt_yaml rt contents = Inl e"
  shows "Run rt d cmd w = (Ret 1, w')"
  using assms by (cases r) (auto simp: Run_def app_Run_def Before_def parseConfig_def)

section \<open>Deleting a volume\<close>

lemma Before_keeps:
  assumes "\<And>p. within R (os_ReadFile (rt_os rt) p)" and "reflp R" and "transp R"
  shows "within R (Before rt cmd)"
  unfolding Before_def parseConfig_def using assms(2,3) by (auto intro!: within_intros assms(1) split: sum.splits)

text \<open>How a run with the command delete goes: it is refused before the driver is called, or the driver deletes the volume.\<close>

lemma Run_delete_cases:
  assumes "Run rt d cmd w = (r, w')" and "r \<noteq> Diverged" and "inv_command cmd = DeleteCommand"
    and "within (same f) (Before rt cmd)" and "\<And>x w. f (ref_put (rt_stdout rt) x w) = f w"
  obtains (refused) "r = Ret 1 \<or> (\<exists>p. r = Panic p)" and "f w' = f w"
    | (deleted) i q w1 w2 where "ctx_Args (inv_context cmd) = [i]" and "f w1 = f w" and "Delete d i w1 = (q, w2)" and "f w' = f w2"
      and "case q of Ret err \<Rightarrow> r = Ret (if err = None then 0 else 1) | Panic p \<Rightarrow> r = Panic p | Diverged \<Rightarrow> False"
proof -
  have out: "f u' = f u \<and> x = Ret 1" if "go_bind (Println rt s) (\<lambda>_. go_ret 1) u = (x, u')" for s x u u'
    using that assms(5) by (auto simp: Println_def go_simps)
  obtain b w1 where b: "Before rt cmd w = (b, w1)" by force
  have keeps: "f w1 = f w" using within_sameD [OF assms(4) b] .
  show thesis
  proof (cases "\<exists>conf. b = Ret (Inr conf)")
    case False
    with assms(1,2) b keeps refused show thesis
      by (auto simp: Run_def app_Run_def go_bind_def split: prod.splits go.splits option.splits run_error.splits sum.splits) (auto simp: go_simps Println_def assms(5))
  next
    case True
    then obtain conf where conf: "b = Ret (Inr conf)" by blast
    show thesis
    proof (cases "\<exists>i. ctx_Args (inv_context cmd) = [i]")
      case False
      then have "validateArgs (inv_context cmd) 1 \<noteq> None" by (auto simp: validateArgs_def length_Suc_conv)
      then obtain e where "validateArgs (inv_context cmd) 1 = Some e" by blast
      with assms(1,3) b conf have "go_bind (Println rt (Error e)) (\<lambda>_. go_ret 1) w1 = (r, w')"
        by (simp add: Run_def app_Run_def action_def delete_action_def go_bind_def)
      from out [OF this] keeps refused show thesis by simp
    next
      case True
      then obtain i where i: "ctx_Args (inv_context cmd) = [i]" by blast
      obtain q w2 where del: "Delete d i w1 = (q, w2)" by force
      have "f w' = f w2 \<and> (case q of Ret err \<Rightarrow> r = Ret (if err = None then 0 else 1) | Panic p \<Rightarrow> r = Panic p | Diverged \<Rightarrow> False)"
        using assms(1,2,3) b conf i del out
        by (auto simp: Run_def app_Run_def action_def delete_action_def validateArgs_def Groot_Delete_def groot_on_def go_bind_def Println_def go_simps assms(5)
            split: go.splits option.splits)
      with deleted i keeps del show thesis by blast
    qed
  qed
qed

text \<open>
  C15: the program as a whole, for the command delete, with any configuration file and any arguments, and however it ends: status 0 means that there was one argument
  and exactly the volume of that name is gone, or that there was none; otherwise the status is 1 or the program panicked, and at most the volume
  that the one argument names is gone.
\<close>

theorem main_delete:
  assumes "bundle_contract (main_driver W locks streamer winio quota (inv_driverStore cmd)) present (rt_os rt)"
    and "\<And>p. within (same present) (os_ReadFile (rt_os rt) p)" and "\<And>x w. present (ref_put (rt_stdout rt) x w) = present w"
    and "inv_command cmd = DeleteCommand" and "main W locks streamer winio quota rt cmd w = (r, w')" and "r \<noteq> Diverged"
    and "\<And>i. volume i = layerPath \<lparr>Flavour = 1, HomeDir = VolumeStore (main_driver W locks streamer winio quota (inv_driverStore cmd))\<rparr> i"
  shows "(r = Ret 0 \<and> inv_driverStore cmd \<noteq> [] \<and> (\<exists>i. ctx_Args (inv_context cmd) = [i] \<and> present w' = present w - {volume i}))
    \<or> ((r = Ret 1 \<or> (\<exists>p. r = Panic p)) \<and> present w' \<subseteq> present w
        \<and> (\<forall>p \<in> present w - present w'. \<exists>i. ctx_Args (inv_context cmd) = [i] \<and> p = volume i))"
proof -
  let ?d = "main_driver W locks streamer winio quota (inv_driverStore cmd)"
  have v: "bundle_contract.volume ?d i = volume i" for i using assms(1,7) by (simp add: bundle_contract.volume_def)
  have run: "Run rt ?d cmd w = (r, w')" using assms(5) by (simp add: main_def)
  have keeps: "within (same present) (Before rt cmd)" by (rule Before_keeps [OF assms(2)]) simp_all
  from run assms(6,4) keeps assms(3) show ?thesis
  proof (cases rule: Run_delete_cases)
    case (deleted i q w1 w2)
    have frame: "present w - {volume i} \<subseteq> present w'" "present w' \<subseteq> present w"
      using bundle_contract.delete_frame [OF assms(1) deleted(3)] deleted(2,4) v by simp_all
    show ?thesis
    proof (cases "q = Ret None")
      case True
      then have "inv_driverStore cmd \<noteq> []" using deleted(3) by (auto simp: Delete_def main_driver_def)
      with True deleted bundle_contract.delete_ok [OF assms(1) deleted(3) [unfolded True]] v show ?thesis by (simp add: main_driver_def)
    next
      case False
      with deleted(1,5) frame show ?thesis by (auto split: go.splits option.splits)
    qed
  qed auto
qed

end
