(* ===== verification/Platform.thy ===== *)
theory Platform
  imports Unpack_Stream Stream_Frame Unpack_Returns Unpack_Failure Image_Store Create_Processes Command_Line
begin

text \<open>
  The driver as src/main.go puts it together, and an executable stand-in for what lies outside the repository: the Windows
  layer service, the process privileges, the file locks, the quota library and the files. Any set of its calls can be made
  to fail. The contracts of the other theories are interpreted here on the program's own client, limiter,
  elevator, streamer and driver over this platform.
\<close>

section \<open>The platform\<close>

datatype call = CreateCall | ActivateCall | PrepareCall | UnprepareCall | DeactivateCall | DestroyCall | ExistsCall
  | MountCall | NoMountPath | WriterCall | CloseCall | EnableCall | LockCall | QuotaCall | ReadCall | WriteCall | MkdirCall

record sim =
  sim_layers :: "string set"
  sim_files :: "string \<Rightarrow> bytes option"
  sim_priv :: "string set"
  sim_locked :: bool
  sim_streamer :: Streamer
  sim_ops :: "layer_op list"
  sim_backups :: "string \<Rightarrow> bytes"
  sim_quotas :: "string \<Rightarrow> uint64 option"
  sim_used :: uint64
  sim_reader :: "tar_entry list option"

definition sim_init :: sim where
  "sim_init = \<lparr>sim_layers = {}, sim_files = (\<lambda>_. None), sim_priv = {}, sim_locked = False, sim_streamer = Streamer_New,
     sim_ops = [], sim_backups = (\<lambda>_. []), sim_quotas = (\<lambda>_. None), sim_used = 4096, sim_reader = None\<rparr>"

text \<open>A call that fails if it is one of the faults, and otherwise changes the world and returns.\<close>

definition refused :: go_error where
  "refused = ErrorString ''refused''"

definition sim_err :: "call set \<Rightarrow> call \<Rightarrow> (sim \<Rightarrow> sim) \<Rightarrow> (sim, go_error option) io" where
  "sim_err fl c f = (\<lambda>w. if c \<in> fl then (Ret (Some refused), w) else (Ret None, f w))"

definition sim_res :: "call set \<Rightarrow> call \<Rightarrow> (sim \<Rightarrow> 'a) \<Rightarrow> (sim \<Rightarrow> sim) \<Rightarrow> (sim, 'a res) io" where
  "sim_res fl c x f = (\<lambda>w. if c \<in> fl then (Ret (Inl refused), w) else (Ret (Inr (x w)), f w))"

definition sim_writer :: "call set \<Rightarrow> sim LayerWriter" where
  "sim_writer fl =
     \<lparr>lw_Add = (\<lambda>n f. sim_err fl WriterCall (\<lambda>w. w\<lparr>sim_ops := sim_ops w @ [AddOp n f]\<rparr>)),
      lw_AddLink = (\<lambda>n t. sim_err fl WriterCall (\<lambda>w. w\<lparr>sim_ops := sim_ops w @ [LinkOp n t]\<rparr>)),
      lw_Remove = (\<lambda>n. sim_err fl WriterCall (\<lambda>w. w\<lparr>sim_ops := sim_ops w @ [RemoveOp n]\<rparr>)),
      lw_Write = (\<lambda>b w. (Ret (int (length b), None), w\<lparr>sim_ops := add_data b (sim_ops w)\<rparr>)),
      lw_Close = sim_err fl CloseCall (\<lambda>w. w)\<rparr>"

definition sim_wclayer :: "call set \<Rightarrow> sim wclayer" where
  "sim_wclayer fl =
     \<lparr>wc_CreateScratchLayer = (\<lambda>p ps. sim_err fl CreateCall (\<lambda>w. w\<lparr>sim_layers := insert p (sim_layers w)\<rparr>)),
      wc_ActivateLayer = (\<lambda>p. sim_err fl ActivateCall (\<lambda>w. w)),
      wc_PrepareLayer = (\<lambda>p ps. sim_err fl PrepareCall (\<lambda>w. w)),
      wc_UnprepareLayer = (\<lambda>p. sim_err fl UnprepareCall (\<lambda>w. w)),
      wc_DeactivateLayer = (\<lambda>p. sim_err fl DeactivateCall (\<lambda>w. w)),
      wc_DestroyLayer = (\<lambda>p. sim_err fl DestroyCall (\<lambda>w. w\<lparr>sim_layers := sim_layers w - {p}\<rparr>)),
      wc_LayerExists = (\<lambda>p. sim_res fl ExistsCall (\<lambda>w. p \<in> sim_layers w) (\<lambda>w. w)),
      wc_GetLayerMountPath = (\<lambda>p. sim_res fl MountCall (\<lambda>w. if NoMountPath \<in> fl then [] else ''vol:'' @ p) (\<lambda>w. w)),
      wc_NewLayerWriter = (\<lambda>p ps. sim_res fl WriterCall (\<lambda>w. sim_writer fl)
         (\<lambda>w. w\<lparr>sim_layers := insert p (sim_layers w), sim_ops := []\<rparr>))\<rparr>"

text \<open>The lock is taken only if it is free; LockFileEx and UnlockFileEx return 0 on failure.\<close>

definition sim_locks :: "call set \<Rightarrow> (sim, unit) filelock_api" where
  "sim_locks fl =
     \<lparr>fa_MkdirAll = (\<lambda>p m. go_ret None), fa_OpenFile = (\<lambda>p m. go_ret (Inr ())), fa_Fd = (\<lambda>f. go_ret 7), fa_Name = (\<lambda>f. ''lock''),
      fa_Close = (\<lambda>f. go_ret None), fa_Read = (\<lambda>f n. go_ret ([], Some EOF)), fa_Truncate = (\<lambda>f n. go_ret None),
      fa_Write = (\<lambda>f b. go_ret (int (length b), None)), fa_Seek = (\<lambda>f n k. go_ret (0, None)),
      fa_Find = (\<lambda>n. go_ret None), fa_CreateEvent = go_ret (Inr 1), fa_CloseHandle = (\<lambda>h. go_ret None),
      fa_LockFileEx = (\<lambda>h k e w. if LockCall \<in> fl \<or> sim_locked w then (Ret (0, refused), w) else (Ret (1, refused), w\<lparr>sim_locked := True\<rparr>)),
      fa_UnlockFileEx = (\<lambda>h e w. (Ret (1, refused), w\<lparr>sim_locked := False\<rparr>))\<rparr>"

definition sim_winio :: "call set \<Rightarrow> sim winio_api" where
  "sim_winio fl =
     \<lparr>wi_EnableProcessPrivileges = (\<lambda>ns w. if EnableCall \<in> fl then (Ret (Some refused), w\<lparr>sim_priv := sim_priv w \<union> set (take 1 ns)\<rparr>)
        else (Ret None, w\<lparr>sim_priv := sim_priv w \<union> set ns\<rparr>)),
      wi_DisableProcessPrivileges = (\<lambda>ns w. (Ret None, w\<lparr>sim_priv := sim_priv w - set ns\<rparr>))\<rparr>"

definition sim_quota :: "call set \<Rightarrow> sim quota_api" where
  "sim_quota fl =
     \<lparr>qa_Executable = go_ret (Inr (''C:'' @ bslash # ''groot.exe'')), qa_LoadDLL = (\<lambda>p. go_ret (Inr 1)),
      qa_FindProc = (\<lambda>d p. go_ret (Inr 2)),
      qa_CallSetQuota = (\<lambda>p v n w. if QuotaCall \<in> fl then (Ret 5, w) else (Ret 0, w\<lparr>sim_quotas := (sim_quotas w)(v := Some n)\<rparr>)),
      qa_CallGetQuotaUsed = (\<lambda>p v w. if QuotaCall \<in> fl then (Ret (5, 0), w) else (Ret (0, sim_used w), w)),
      qa_FormatMessage = (\<lambda>f c l. go_ret (Inr (''Access is denied.'' @ [CHR 0x0D, CHR 0x0A])))\<rparr>"

definition sim_os :: "call set \<Rightarrow> sim os_api" where
  "sim_os fl =
     \<lparr>os_ReadFile = (\<lambda>p w. if ReadCall \<in> fl then (Ret (Inl refused), w)
        else (Ret (case sim_files w p of Some b \<Rightarrow> Inr b | None \<Rightarrow> Inl (NotExist p)), w)),
      os_WriteFile = (\<lambda>p b m. sim_err fl WriteCall (\<lambda>w. w\<lparr>sim_files := (sim_files w)(p := Some b)\<rparr>)),
      os_MkdirAll = (\<lambda>p m. sim_err fl MkdirCall (\<lambda>w. w))\<rparr>"

definition sim_backup :: "(sim, string, string) backup_file_api" where
  "sim_backup =
     \<lparr>bf_Create = (\<lambda>p w. (Ret (Inr p), w\<lparr>sim_backups := (sim_backups w)(p := [])\<rparr>)), bf_Close = (\<lambda>f. go_ret None),
      bf_NewBackupFileWriter = (\<lambda>f. go_ret f),
      bf_Write = (\<lambda>f b w. (Ret (int (length b), None), w\<lparr>sim_backups := (sim_backups w)(f := sim_backups w f @ b)\<rparr>)),
      bf_CloseWriter = (\<lambda>f. go_ret None)\<rparr>"

definition sim_ref :: "(sim, Streamer) ref" where
  "sim_ref = \<lparr>ref_get = sim_streamer, ref_put = (\<lambda>s w. w\<lparr>sim_streamer := s\<rparr>)\<rparr>"

text \<open>An archive is given as its entries; no security descriptor is in textual form.\<close>

definition sim_tar :: "tar_entry list \<Rightarrow> tar_Reader" where
  "sim_tar es = \<lparr>tr_chunks = [], tr_err = EOF, tr_entries = es, tr_end = EOF\<rparr>"

definition sim_entries :: "tar_entry list \<Rightarrow> entry list option" where
  "sim_entries es = (if list_all complete es then Some (map contents es) else None)"

definition sim_sddl :: sddl_converter where
  "sim_sddl s = Inl refused"

definition sim_client :: "call set \<Rightarrow> sim HCSClient" where
  "sim_client fl = Client_HCS (sim_wclayer fl) (NewClient (sim_locks fl))"

text \<open>The driver, for a way \<open>tar\<close> in which readers are read as archives.\<close>

definition sim_driver_of :: "('r \<Rightarrow> tar_Reader) \<Rightarrow> call set \<Rightarrow> string \<Rightarrow> (sim, 'r) Driver" where
  "sim_driver_of tar fl store =
     main_driver (sim_wclayer fl) (sim_locks fl) (Streamer_Impl tar sim_sddl sim_backup sim_ref) (sim_winio fl) (sim_quota fl) store"

abbreviation sim_driver :: "call set \<Rightarrow> string \<Rightarrow> (sim, tar_entry list) Driver" where
  "sim_driver \<equiv> sim_driver_of sim_tar"

lemma sim_driver_simps [simp]:
  "Store (sim_driver_of tar fl store) = store" "hcsClient (sim_driver_of tar fl store) = sim_client fl"
  "tarStreamer (sim_driver_of tar fl store) = Streamer_Impl tar sim_sddl sim_backup sim_ref"
  "privilegeElevator (sim_driver_of tar fl store) = Elevator (sim_winio fl)" "limiter (sim_driver_of tar fl store) = Limiter_Impl (sim_quota fl)"
  by (simp_all add: sim_driver_of_def main_driver_def New_def sim_client_def)

section \<open>The layer client\<close>

lemma within_sim [within_intros]:
  "(\<And>w. R w (f w)) \<Longrightarrow> reflp R \<Longrightarrow> within R (sim_err fl c f)"
  "(\<And>w. R w (f w)) \<Longrightarrow> reflp R \<Longrightarrow> within R (sim_res fl c x f)"
  by (simp_all add: within_def sim_err_def sim_res_def reflpD)

lemmas filelock_defs = NewClient_def NewLocker_def locker_Open_def handle_def lockFile_def lockedFile_def lockedFile_Close_def
  unlockFile_def InvalidHandle_def int32_zero_def

lemma sim_lock_open:
  "fl_Open (layerCreateLock (NewClient (sim_locks fl))) w =
     (if LockCall \<in> fl \<or> sim_locked w
      then (Ret (Inl (ErrorString (''error locking file: '' @ Error refused))), w)
      else (Ret (Inr (lockedFile (sim_locks fl) ())), w\<lparr>sim_locked := True\<rparr>))"
  by (simp add: filelock_defs sim_locks_def go_simps)

lemma sim_lock_close: "lf_Close (lockedFile (sim_locks fl) ()) w = (Ret None, w\<lparr>sim_locked := False\<rparr>)"
  by (simp add: filelock_defs sim_locks_def go_simps)

interpretation sim_lock: create_lock "layerCreateLock (NewClient (sim_locks fl))" "sim_wclayer fl" sim_locked for fl
  by unfold_locales
     (auto simp: sim_lock_open sim_lock_close sim_wclayer_def sim_err_def split: if_splits)

interpretation sim_exclusive: exclusive_lock "layerCreateLock (NewClient (sim_locks fl))" "sim_wclayer fl" sim_locked for fl
  by (intro exclusive_lock.intro exclusive_lock_axioms.intro sim_lock.create_lock_axioms) (auto simp: sim_lock_open split: if_splits)

interpretation sim_wclayer: wclayer_contract "sim_wclayer fl" "layerCreateLock (NewClient (sim_locks fl))" sim_layers for fl
proof
  show "fl_Open (layerCreateLock (NewClient (sim_locks fl))) w = (Ret (Inr f), w') \<Longrightarrow> within (same sim_layers) (lf_Close f)" for w f w'
    by (auto simp: sim_lock_open sim_lock_close within_def same_def split: if_splits)
qed (auto simp: sim_wclayer_def sim_err_def sim_res_def within_def same_def adds_layer_def drops_layer_def sim_lock_open split: if_splits)

interpretation sim_hcs: hcs_contract "sim_client fl" sim_layers for fl
  unfolding sim_client_def by (rule sim_wclayer.client_contract) simp

section \<open>Bundle and Delete\<close>

lemma sim_quota_keeps: "within (same f) (lim_SetQuota (Limiter_Impl (sim_quota fl)) v n)"
  if "\<And>w q. f (w\<lparr>sim_quotas := q\<rparr>) = f w" for f :: "sim \<Rightarrow> 'a"
  using that
  by (auto simp: within_def same_def Limiter_Impl_def SetQuota_def loadProc_def windowsErrorMessage_def sim_quota_def Let_def
      go_simps split: sum.splits)

interpretation sim_bundle: bundle_contract "sim_driver_of tar fl store" sim_layers "sim_os fl" for tar fl store
  by (intro bundle_contract.intro bundle_contract_axioms.intro)
     (simp_all add: sim_hcs.hcs_contract_axioms sim_os_def sim_err_def within_def same_def sim_quota_keeps [unfolded within_def same_def])

section \<open>Privileges\<close>

lemma agree_sim [agree_intros]:
  "(\<And>w. P w \<Longrightarrow> P (f w)) \<Longrightarrow> agree P (sim_err fl c f) (sim_err fl c f)"
  "(\<And>w. P w \<Longrightarrow> P (f w)) \<Longrightarrow> agree P (sim_res fl c x f) (sim_res fl c x f)"
  by (simp_all add: agree_def sim_err_def sim_res_def)

text \<open>The streamer keeps every condition that does not look at its own state, the recorded operations and the backups; Unpack
  keeps it if it does not look at the files either.\<close>

lemma sim_frame:
  assumes "\<And>w s. P (w\<lparr>sim_streamer := s\<rparr>) = P w" and "\<And>w s. P (w\<lparr>sim_ops := s\<rparr>) = P w"
    and "\<And>w s. P (w\<lparr>sim_backups := s\<rparr>) = P w" and "\<And>w p. P w \<Longrightarrow> P (w\<lparr>sim_layers := insert p (sim_layers w)\<rparr>)"
  shows "tar_frame P (sim_driver_of tar fl store)"
proof (rule streamer_frame [where api = sim_backup and s = sim_ref])
  show "tarStreamer (sim_driver_of tar fl store) = Streamer_Impl tar sim_sddl sim_backup sim_ref" by simp
  show "keeps P sim_ref" using assms(1) by (simp add: keeps_def sim_ref_def)
  show "backups_keep P sim_backup"
    using assms(3) by (simp add: backups_keep_def sim_backup_def writers_def agree_def)
  show "agree P (hcs_NewLayerWriter (hcsClient (sim_driver_of tar fl store)) di i ps) (hcs_NewLayerWriter (hcsClient (sim_driver_of tar fl store)) di i ps)" for di i ps
    using assms(2,4) by (auto simp: sim_client_def Client_HCS_def NewLayerWriter_def sim_wclayer_def intro!: agree_intros)
  show "writer_agree P lw lw" if "hcs_NewLayerWriter (hcsClient (sim_driver_of tar fl store)) di i ps w = (Ret (Inr lw), w')" for di i ps w lw w'
  proof -
    from that have "lw = sim_writer fl"
      by (auto simp: sim_client_def Client_HCS_def NewLayerWriter_def sim_wclayer_def sim_res_def split: if_splits)
    then show ?thesis
      using assms(2) by (auto simp: writer_agree_def sim_writer_def agree_def sim_err_def)
  qed
qed

lemma sim_guard:
  assumes "\<And>w s. P (w\<lparr>sim_streamer := s\<rparr>) = P w" and "\<And>w s. P (w\<lparr>sim_ops := s\<rparr>) = P w"
    and "\<And>w s. P (w\<lparr>sim_backups := s\<rparr>) = P w" and "\<And>w s. P (w\<lparr>sim_files := s\<rparr>) = P w"
    and "\<And>w p. P w \<Longrightarrow> P (w\<lparr>sim_layers := insert p (sim_layers w)\<rparr>)"
  shows "tar_guard P (sim_os fl) (sim_driver_of tar fl store)"
  using assms(4) by (intro tar_guard.intro tar_guard_axioms.intro sim_frame assms(1-3,5)) (auto simp: sim_os_def intro!: agree_intros)

interpretation sim_privileges: unpack_privileges "sim_os fl" "sim_driver fl store" sim_priv for fl store
proof (rule unpack_privileges.intro)
  fix Q :: "string set \<Rightarrow> bool"
  show "tar_guard (\<lambda>w. Q (sim_priv w)) (sim_os fl) (sim_driver fl store)"
    by (rule sim_guard) simp_all
  show "agree (\<lambda>w. Q (sim_priv w)) (hcs_LayerExists (hcsClient (sim_driver fl store)) di i) (hcs_LayerExists (hcsClient (sim_driver fl store)) di i)" for di i
    by (auto simp: sim_client_def Client_HCS_def LayerExists_def sim_wclayer_def intro!: agree_intros)
  have d: "agree (\<lambda>w. Q (sim_priv w)) (destroy_rounds n (sim_wclayer fl) di i u v x) (destroy_rounds n (sim_wclayer fl) di i u v x)" for n di i u v x
    by (induction n arbitrary: u v x)
       (auto simp: destroy_failed_def UnprepareLayer_def DeactivateLayer_def hcsshim_DestroyLayer_def sim_wclayer_def
         intro!: agree_intros split: option.splits)
  show "agree (\<lambda>w. Q (sim_priv w)) (hcs_DestroyLayer (hcsClient (sim_driver fl store)) di i) (hcs_DestroyLayer (hcsClient (sim_driver fl store)) di i)" for di i
    by (simp add: sim_client_def Client_HCS_def Client_DestroyLayer_def d)
  show "agree (\<lambda>w. Q (sim_priv w)) (os_ReadFile (sim_os fl) p) (os_ReadFile (sim_os fl) p)" for p
    by (simp add: sim_os_def agree_def)
qed (auto simp: Elevator_def EnableProcessPrivileges_def DisableProcessPrivileges_def sim_winio_def split: if_splits dest: in_set_takeD)

section \<open>Size files\<close>

lemma sim_destroy_files: "within (same sim_files) (destroy_rounds n (sim_wclayer fl) di i u v x)"
  by (induction n arbitrary: u v x)
     (auto simp: destroy_failed_def UnprepareLayer_def DeactivateLayer_def hcsshim_DestroyLayer_def sim_wclayer_def same_def reflp_def
       intro!: within_intros split: option.splits)

interpretation sim_sizes: size_file_frame "sim_os fl" "sim_driver fl store" sim_files for fl store
proof (rule size_file_frame.intro)
  show "tar_frame (\<lambda>w. sim_files w (layerSizeFile (sim_driver fl store) i) = None) (sim_driver fl store)" for i
    by (rule sim_frame) simp_all
  show "sim_files w' (layerSizeFile (sim_driver fl store) i) = None"
    if "hcs_DestroyLayer (hcsClient (sim_driver fl store)) di j w = (r, w')" "sim_files w (layerSizeFile (sim_driver fl store) i) = None" for di j w r w' i
    using that sim_destroy_files [of 3 fl di j None None None]
    by (auto simp: sim_client_def Client_HCS_def Client_DestroyLayer_def within_def same_def dest!: spec [of _ w])
qed (auto simp: sim_os_def sim_err_def sim_client_def Client_HCS_def LayerExists_def sim_wclayer_def sim_res_def Elevator_def
      EnableProcessPrivileges_def DisableProcessPrivileges_def sim_winio_def split: if_splits option.splits)

section \<open>Unpack\<close>

lemma sim_new_writer:
  "hcs_NewLayerWriter (sim_client {}) di i ps w
     = (Ret (Inr (sim_writer {})), w\<lparr>sim_layers := insert (layerPath di i) (sim_layers w), sim_ops := []\<rparr>)"
  by (simp add: sim_client_def Client_HCS_def NewLayerWriter_def sim_wclayer_def sim_res_def)

interpretation sim_files: file_contract "sim_os {}" sim_files
  by unfold_locales (auto simp: sim_os_def sim_err_def)

lemma sim_layer_cache: "layer_cache (sim_os {}) sim_files (sim_driver_of tar {} store) sim_layers"
proof (intro layer_cache.intro layer_cache_axioms.intro sim_files.file_contract_axioms)
  fix A
  show "tar_guard (\<lambda>w. A \<subseteq> sim_layers w) (sim_os {}) (sim_driver_of tar {} store)"
    by (rule sim_guard) auto
qed (auto simp: quietly_def sim_client_def Client_HCS_def LayerExists_def NewLayerWriter_def sim_wclayer_def sim_res_def sim_err_def
      sim_os_def Elevator_def EnableProcessPrivileges_def DisableProcessPrivileges_def sim_winio_def sim_writer_def
      Streamer_Impl_def SetReader_def sim_ref_def ref_modify_def)

interpretation sim_cache: layer_cache "sim_os {}" sim_files "sim_driver {} store" sim_layers for store
  by (rule sim_layer_cache)

interpretation sim_recorder: layer_recorder "sim_writer {}" sim_ref sim_ops sim_backup sim_backups "\<lambda>f. f" "\<lambda>b. b"
  by unfold_locales (auto simp: sim_writer_def sim_err_def sim_ref_def sim_backup_def)

interpretation sim_unpack: layer_unpack "sim_os {}" sim_files "sim_driver {} store" sim_layers FileInfoFromHeader
  "backup_stream sim_sddl" "at_header sim_ref" "to_come sim_ref" "current sim_ref" sim_ops sim_entries for store
proof (intro layer_unpack.intro layer_unpack_axioms.intro sim_cache.layer_cache_axioms)
  show "tar_contents (sim_driver {} store) lw FileInfoFromHeader (backup_stream sim_sddl) (at_header sim_ref) (to_come sim_ref)
      (current sim_ref) sim_ops" if "hcs_NewLayerWriter (hcsClient (sim_driver {} store)) di i ps w = (Ret (Inr lw), w')" for di i ps w lw w'
    using that sim_recorder.streamer_contents [of "sim_driver {} store" sim_tar sim_sddl] by (simp add: sim_new_writer)
  show "\<exists>w'. ts_SetReader (tarStreamer (sim_driver {} store)) (Some tar) w = (Ret (), w') \<and> at_header sim_ref None w'
      \<and> to_come sim_ref w' = es \<and> sim_ops w' = sim_ops w" if "sim_entries tar = Some es" for tar es w
    using that by (auto simp: Streamer_Impl_def SetReader_def sim_ref_def ref_modify_def at_header_def to_come_def sim_tar_def
        sim_entries_def split: if_splits)
qed (auto simp: sim_new_writer sim_os_def sim_err_def Streamer_Impl_def SetReader_def sim_ref_def ref_modify_def sim_writer_def
      Elevator_def DisableProcessPrivileges_def sim_winio_def)

interpretation sim_elevated: tar_guard "\<lambda>w. set privileges \<subseteq> sim_priv w" "sim_os fl" "sim_driver fl store" for fl store
  by (rule sim_guard) simp_all

interpretation sim_contents: tar_contents "sim_driver {} store" "sim_writer {}" FileInfoFromHeader "backup_stream sim_sddl"
  "at_header sim_ref" "to_come sim_ref" "current sim_ref" sim_ops for store
  by (rule sim_recorder.streamer_contents) simp

interpretation sim_boot: boot_backup "sim_writer {}" sim_ref "sim_recorder.appending R0" "sim_recorder.data_since R0" sim_backup sim_backups
  "\<lambda>f. f" "\<lambda>b. b" for R0
  by (rule sim_recorder.recorder_backup)

section \<open>Termination\<close>

lemma stops_sim [stops_intros]:
  "(\<And>w. R w (f w)) \<Longrightarrow> reflp R \<Longrightarrow> stops R (sim_err fl c f)"
  "(\<And>w. R w (f w)) \<Longrightarrow> reflp R \<Longrightarrow> stops R (sim_res fl c x f)"
  by (simp_all add: stops_def within_intros) (simp_all add: sim_err_def sim_res_def)

lemma sim_writer_returns: "writer_returns sim_streamer (sim_writer fl)"
  unfolding writer_returns_def
  by (auto simp: sim_writer_def conforming_def returning_def same_def reflp_def intro!: stops_intros) (simp add: stops_def within_def same_def)

lemma sim_destroy_ends: "ends (destroy_rounds n (sim_wclayer fl) di i u v x)"
  by (induction n arbitrary: u v x)
     (auto simp: destroy_failed_def UnprepareLayer_def DeactivateLayer_def hcsshim_DestroyLayer_def sim_wclayer_def
       intro!: stops_intros split: option.splits)

lemma sim_calls_return: "calls_return sim_streamer (sim_os fl) (sim_driver fl store)"
  unfolding calls_return_def
proof (intro conjI allI impI)
  show "writer_returns sim_streamer lw" if "hcs_NewLayerWriter (hcsClient (sim_driver fl store)) di i ps v = (Ret (Inr lw), v')" for di i ps v lw v'
    using that sim_writer_returns
    by (auto simp: sim_client_def Client_HCS_def NewLayerWriter_def sim_wclayer_def sim_res_def split: if_splits)
  show "ends (os_ReadFile (sim_os fl) p)" for p by (simp add: sim_os_def stops_def within_def)
  show "ends (pe_Disable (privilegeElevator (sim_driver fl store)) ns)" for ns
    by (simp add: Elevator_def DisableProcessPrivileges_def sim_winio_def stops_def within_def)
  show "ends (pe_Enable (privilegeElevator (sim_driver fl store)) ns)" for ns
    by (simp add: Elevator_def EnableProcessPrivileges_def sim_winio_def stops_def within_def)
  show "ends (hcs_DestroyLayer (hcsClient (sim_driver fl store)) di i)" for di i
    by (simp add: sim_client_def Client_HCS_def Client_DestroyLayer_def sim_destroy_ends)
qed (auto simp: sim_client_def Client_HCS_def NewLayerWriter_def LayerExists_def sim_wclayer_def
      Elevator_def EnableProcessPrivileges_def sim_winio_def sim_os_def intro!: stops_intros)

lemma sim_streamer_returns: "lawful sim_ref" "backups_return (ref_get sim_ref) sim_backup"
  by (simp_all add: lawful_def sim_ref_def backups_return_def sim_backup_def conforming_def returning_def stops_intros)
     (simp_all add: stops_def within_def same_def)

interpretation sim_ends: unpack_ends "sim_os fl" "sim_driver fl store" "archive_left sim_ref" "\<lambda>tar. length (tr_entries (sim_tar tar))" for fl store
  by (rule streamer_ends [OF _ sim_streamer_returns]) (simp_all add: sim_calls_return sim_ref_def)

section \<open>Images\<close>

lemma sim_layer_store: "layer_store (sim_os {}) sim_files (sim_driver_of tar {} store) sim_layers"
proof (intro layer_store.intro layer_store_axioms.intro sim_layer_cache)
  show "tar_frame (\<lambda>w. sim_files w (layerSizeFile (sim_driver_of tar {} store) i) = Some b) (sim_driver_of tar {} store)" for i b
    by (rule sim_frame) simp_all
  show "layerPath di i \<in> sim_layers (snd (hcs_DestroyLayer (hcsClient (sim_driver_of tar {} store)) di j w))"
    if "layerPath di i \<noteq> layerPath di j" "layerPath di i \<in> sim_layers w" for di i j w
    using withinD [OF sim_hcs.destroy_frame, of "{}" di j w] that
    by (cases "hcs_DestroyLayer (sim_client {}) di j w") (auto simp: drops_layer_def)
  show "within (same (\<lambda>w. sim_files w (layerSizeFile (sim_driver_of tar {} store) i))) (hcs_DestroyLayer (hcsClient (sim_driver_of tar {} store)) di j)"
    for di i j
    by (rule within_mono [of "same sim_files"])
       (simp_all add: sim_client_def Client_HCS_def Client_DestroyLayer_def sim_destroy_files same_def)
qed (auto simp: sim_os_def sim_err_def within_def same_def)

text \<open>An image with its blobs. The archive behind an on-demand reader is the stream it creates.\<close>

definition sim_fetcher :: "ImageInfo \<Rightarrow> (string \<times> tar_entry list) list \<Rightarrow> (sim, tar_entry list) Fetcher" where
  "sim_fetcher info blobs =
     \<lparr>ft_ImageInfo = go_ret (Inr info),
      ft_StreamBlob = (\<lambda>l. go_ret (case map_of blobs (BlobID l) of Some es \<Rightarrow> Inr (es, 0) | None \<Rightarrow> Inl refused)),
      ft_Close = go_ret None\<rparr>"

definition sim_streams :: "(sim, tar_entry list) stream_api" where
  "sim_streams = \<lparr>st_Read = (\<lambda>s n. go_ret ([], Some EOF)), st_Close = (\<lambda>s. go_ret None)\<rparr>"

definition od_tar :: "(sim, tar_entry list) OnDemand \<Rightarrow> tar_Reader" where
  "od_tar r = (case fst (od_Create r sim_init) of
     Ret (Inr es) \<Rightarrow> sim_tar es
   | Ret (Inl e) \<Rightarrow> \<lparr>tr_chunks = [], tr_err = EOF, tr_entries = [], tr_end = e\<rparr>
   | _ \<Rightarrow> empty_tar)"

definition sim_groot :: "nat \<Rightarrow> call set \<Rightarrow> string \<Rightarrow> ImageInfo \<Rightarrow> (string \<times> tar_entry list) list \<Rightarrow> (sim, tar_entry list) Groot" where
  "sim_groot fuel fl store info blobs =
     \<lparr>g_fuel = fuel, g_os = sim_os fl, g_Driver = sim_driver_of od_tar fl store, g_fetcher = sim_fetcher info blobs, g_streams = sim_streams,
      g_reader = \<lparr>ref_get = sim_reader, ref_put = (\<lambda>x w. w\<lparr>sim_reader := x\<rparr>)\<rparr>\<rparr>"

interpretation sim_images: image_store "sim_groot fuel {} store info blobs" sim_files sim_layers for fuel store info blobs
  using sim_layer_store [of od_tar store]
  by (intro image_store.intro image_store_axioms.intro) (simp_all add: sim_groot_def sim_streams_def)

end
