(* ===== verification/Runs.thy ===== *)
theory Runs
  imports Platform "HOL-Library.Code_Target_Nat"
begin

text \<open>
  Runs of the program on the platform: each property that has a hypothesis is applied to a concrete driver, archive and
  set of failing calls, with the definitions evaluated.
\<close>

definition example_store :: string where
  "example_store = ''/var/vcap/groot''"

definition example_header :: "string \<Rightarrow> char \<Rightarrow> nat \<Rightarrow> Header" where
  "example_header name flag n = \<lparr>hdr_Name = name, hdr_Linkname = ''Files/a.txt'', hdr_Typeflag = flag, hdr_Size = of_nat n,
     hdr_ModTime = 0, hdr_AccessTime = 0, hdr_ChangeTime = 0, hdr_PAXRecords = []\<rparr>"

text \<open>A directory, a file in two chunks with an alternate data stream, a link, and a whiteout.\<close>

definition example_tar :: "tar_entry list" where
  "example_tar =
     [(example_header ''Files'' TypeDir 0, [], EOF),
      (example_header ''Files/a.txt'' TypeReg 5, [''he'', ''llo''], EOF),
      (example_header ''Files/a.txt:ads'' TypeReg 2, [''xy''], EOF),
      (example_header ''Files/b.txt'' TypeLink 0, [], EOF),
      (example_header ''Files/.wh.old.txt'' TypeReg 0, [], EOF)]"

section \<open>Unpack\<close>

definition returns_ok :: "'a res go \<Rightarrow> bool" where
  "returns_ok r = (case r of Ret (Inr x) \<Rightarrow> True | _ \<Rightarrow> False)"

lemma returns_okE: "returns_ok (fst (m w)) \<Longrightarrow> (\<And>x w'. m w = (Ret (Inr x), w') \<Longrightarrow> thesis) \<Longrightarrow> thesis"
  unfolding returns_ok_def by (cases "m w") (auto split: go.splits sum.splits)

lemma run_fresh:
  "fst (Unpack 8 (sim_os {CloseCall}) (sim_driver {CloseCall} example_store) ''abc'' [''base''] example_tar sim_init) = Ret (5, None)"
  by code_simp

theorem Unpack_restores_privileges_witness:
  "sim_priv (snd (Unpack 8 (sim_os {CloseCall}) (sim_driver {CloseCall} example_store) ''abc'' [''base''] example_tar sim_init)) = {}"
proof -
  obtain w' where run: "Unpack 8 (sim_os {CloseCall}) (sim_driver {CloseCall} example_store) ''abc'' [''base''] example_tar sim_init = (Ret (5, None), w')"
    using run_fresh by (metis prod.collapse)
  have priv: "sim_priv sim_init = {}" by (simp add: sim_init_def)
  have "sim_priv w' = {}"
    using Unpack_restores_privileges [OF sim_privileges.unpack_privileges_axioms run] unfolding priv
    by (auto simp: Elevator_def EnableProcessPrivileges_def DisableProcessPrivileges_def sim_winio_def)
  then show ?thesis by (simp add: run)
qed

theorem Unpack_writes_elevated_witness:
  "Unpack 8 (sim_os {}) (guarded_driver (\<lambda>w. SeBackupPrivilege \<in> sim_priv w \<and> SeRestorePrivilege \<in> sim_priv w) (sim_driver {} example_store))
     ''abc'' [''base''] example_tar sim_init
   = Unpack 8 (sim_os {}) (sim_driver {} example_store) ''abc'' [''base''] example_tar sim_init"
  by (rule Unpack_writes_elevated [OF sim_privileges.unpack_privileges_axioms])

text \<open>The layer of the example archive.\<close>

lemma example_entries: "\<exists>es. sim_entries example_tar = Some es \<and> length es = 5
    \<and> (\<exists>ops. layer_of FileInfoFromHeader (backup_stream sim_sddl) es = Some (ops, 5) \<and> length ops = 5)"
proof -
  let ?es = "map contents example_tar"
  have "sim_entries example_tar = Some ?es" by code_simp
  moreover have "length ?es = 5" by code_simp
  moreover have "map_option (\<lambda>(ops, n). (length ops, n)) (layer_of FileInfoFromHeader (backup_stream sim_sddl) ?es) = Some (5, 5)" by code_simp
  then have "\<exists>ops. layer_of FileInfoFromHeader (backup_stream sim_sddl) ?es = Some (ops, 5) \<and> length ops = 5" by auto
  ultimately show ?thesis by blast
qed

theorem Unpack_contents_witness:
  "\<exists>w'. Unpack 8 (sim_os {}) (sim_driver {} example_store) ''abc'' [''base''] example_tar sim_init = (Ret (5, None), w')
     \<and> length (sim_ops w') = 5 \<and> sim_files w' (layerSizeFile (sim_driver {} example_store) ''abc'') = Some (FormatInt 5)"
proof -
  obtain es ops where es: "sim_entries example_tar = Some es" "length es = 5"
    "layer_of FileInfoFromHeader (backup_stream sim_sddl) es = Some (ops, 5)" "length ops = 5"
    using example_entries by blast
  from Unpack_contents [OF sim_unpack.layer_unpack_axioms _ es(1,3), of example_store 8 "''abc''" sim_init "[''base'']"] es
  show ?thesis by (auto simp: example_store_def sim_init_def)
qed

theorem Unpack_cached_witness:
  "\<exists>w1 w2. Unpack 8 (sim_os {}) (sim_driver {} example_store) ''abc'' [''base''] example_tar sim_init = (Ret (5, None), w1)
     \<and> Unpack 0 (sim_os {}) (sim_driver {} example_store) ''abc'' [] [] w1 = (Ret (5, None), w2) \<and> sim_files w2 = sim_files w1"
proof -
  let ?run = "Unpack 8 (sim_os {}) (sim_driver {} example_store) ''abc'' [''base''] example_tar"
  have "fst (?run sim_init) = Ret (5, None)" by code_simp
  then obtain w1 where run: "?run sim_init = (Ret (5, None), w1)" by (metis prod.collapse)
  from Unpack_cached [OF sim_cache.layer_cache_axioms run, of 0 "[]" "[]"] run show ?thesis by blast
qed

theorem Unpack_reads_size_witness:
  "\<exists>w'. Unpack 0 (sim_os {}) (sim_driver {} example_store) ''abc'' [] []
       (sim_init\<lparr>sim_layers := {Join [LayerStore (sim_driver {} example_store), ''abc'']}, sim_files := [layerSizeFile (sim_driver {} example_store) ''abc'' \<mapsto> ''12x'']\<rparr>)
     = (Ret (ParseInt ''12x'' 64), w') \<and> snd (ParseInt ''12x'' 64) \<noteq> None"
proof -
  let ?w = "sim_init\<lparr>sim_layers := {Join [LayerStore (sim_driver {} example_store), ''abc'']}, sim_files := [layerSizeFile (sim_driver {} example_store) ''abc'' \<mapsto> ''12x'']\<rparr>"
  have "snd (ParseInt ''12x'' 64) \<noteq> None" by code_simp
  with Unpack_reads_size [OF sim_cache.layer_cache_axioms, of example_store "''abc''" ?w "''12x''" 0 "[]" "[]"]
  show ?thesis by (auto simp: example_store_def)
qed

theorem Unpack_close_error_lost_witness:
  "Unpack 8 (sim_os {CloseCall}) (silent_driver (sim_driver {CloseCall} example_store)) ''abc'' [''base''] example_tar
   = Unpack 8 (sim_os {CloseCall}) (sim_driver {CloseCall} example_store) ''abc'' [''base''] example_tar
   \<and> fst (Unpack 8 (sim_os {CloseCall}) (sim_driver {CloseCall} example_store) ''abc'' [''base''] example_tar sim_init) = Ret (5, None)"
proof
  show "Unpack 8 (sim_os {CloseCall}) (silent_driver (sim_driver {CloseCall} example_store)) ''abc'' [''base''] example_tar
      = Unpack 8 (sim_os {CloseCall}) (sim_driver {CloseCall} example_store) ''abc'' [''base''] example_tar"
    by (rule Unpack_close_error_lost) (rule streamer_silent, simp)
qed (rule run_fresh)

text \<open>An archive that breaks off in the middle of a boot file, while the layer writer cannot be closed.\<close>

definition cut_tar :: "tar_entry list" where
  "cut_tar = [(example_header ''Files'' TypeDir 0, [], EOF), (example_header (boot_dir @ ''BCD'') TypeReg 9, [''boot''], ErrorString ''unexpected EOF'')]"

theorem Unpack_returns_witness:
  "fst (Unpack 3 (sim_os {CloseCall}) (sim_driver {CloseCall} example_store) ''abc'' [''base''] cut_tar sim_init) \<noteq> Diverged
   \<and> length cut_tar < 3"
proof
  have "calls_return (ref_get sim_ref) (sim_os {CloseCall}) (sim_driver {CloseCall} example_store)"
    using sim_calls_return by (simp add: sim_ref_def)
  from Unpack_returns [OF _ sim_streamer_returns this, of sim_tar sim_sddl]
  show "fst (Unpack 3 (sim_os {CloseCall}) (sim_driver {CloseCall} example_store) ''abc'' [''base''] cut_tar sim_init) \<noteq> Diverged"
    by (simp add: sim_tar_def cut_tar_def)
qed (simp add: cut_tar_def)

theorem Unpack_failure_not_cached_witness:
  "\<exists>n e w'. Unpack 3 (sim_os {}) (sim_driver {} example_store) ''abc'' [] cut_tar sim_init = (Ret (n, Some e), w')
     \<and> sim_files w' (layerSizeFile (sim_driver {} example_store) ''abc'') = None"
proof -
  let ?run = "Unpack 3 (sim_os {}) (sim_driver {} example_store) ''abc'' [] cut_tar sim_init"
  have "(case fst ?run of Ret (n, Some e) \<Rightarrow> True | _ \<Rightarrow> False)" by code_simp
  then obtain n e w' where run: "?run = (Ret (n, Some e), w')" by (cases ?run) (auto split: go.splits option.splits)
  from Unpack_failure_not_cached [OF sim_sizes.size_file_frame_axioms run] run show ?thesis
    by (auto simp: sim_init_def sim_os_def sim_err_def)
qed

section \<open>Bundle, Delete and Stats\<close>

abbreviation volume_of :: "string \<Rightarrow> string" where
  "volume_of i \<equiv> layerPath \<lparr>Flavour = 1, HomeDir = VolumeStore (sim_driver {} example_store)\<rparr> i"

lemma volume_store [simp]: "VolumeStore (sim_driver fl s) = VolumeStore (sim_driver {} s)" "LayerStore (sim_driver fl s) = LayerStore (sim_driver {} s)"
    "metadataFile (sim_driver fl s) i = metadataFile (sim_driver {} s) i"
  if "NO_MATCH {} fl"
  by (simp_all add: VolumeStore_def LayerStore_def metadataFile_def)

lemma sim_destroys:
  assumes "DestroyCall \<notin> fl"
  shows "\<exists>u. hcs_DestroyLayer (hcsClient (sim_driver fl s)) di i w = (Ret None, u)"
  using assms
  by (auto simp: sim_client_def Client_HCS_def Client_DestroyLayer_def numeral_3_eq_3 UnprepareLayer_def DeactivateLayer_def
      hcsshim_DestroyLayer_def sim_wclayer_def sim_err_def go_simps)

lemma run_bundle: "returns_ok (fst (Bundle (sim_os {}) (sim_driver {} example_store) ''b1'' [''l1'', ''l2''] 1000 sim_init))"
  by code_simp

theorem Bundle_success_witness:
  "\<exists>sp w'. Bundle (sim_os {}) (sim_driver {} example_store) ''b1'' [''l1'', ''l2''] 1000 sim_init = (Ret (Inr sp), w')
     \<and> sim_layers w' = {volume_of ''b1''}
     \<and> spec_LayerFolders sp = [Join [LayerStore (sim_driver {} example_store), ''l2''], Join [LayerStore (sim_driver {} example_store), ''l1'']]"
proof -
  obtain sp w' where run: "Bundle (sim_os {}) (sim_driver {} example_store) ''b1'' [''l1'', ''l2''] 1000 sim_init = (Ret (Inr sp), w')"
    using run_bundle by (rule returns_okE)
  from Bundle_success [OF sim_bundle.bundle_contract_axioms run] run show ?thesis by (auto simp: sim_init_def)
qed

theorem Bundle_atomic_witness:
  "\<exists>e w'. Bundle (sim_os {QuotaCall}) (sim_driver {QuotaCall} example_store) ''b1'' [''l1''] 1000 sim_init = (Ret (Inl e), w') \<and> sim_layers w' = {}"
proof -
  let ?run = "Bundle (sim_os {QuotaCall}) (sim_driver {QuotaCall} example_store) ''b1'' [''l1''] 1000 sim_init"
  have "(case fst ?run of Ret (Inl e) \<Rightarrow> True | _ \<Rightarrow> False)" by code_simp
  then obtain e w' where run: "?run = (Ret (Inl e), w')" by (cases ?run) (auto split: go.splits sum.splits)
  from Bundle_atomic [OF sim_bundle.bundle_contract_axioms run] run sim_destroys [of "{QuotaCall}"] show ?thesis
    by (auto simp: sim_init_def)
qed

theorem Bundle_frame_witness:
  "\<exists>w'. Bundle (sim_os {QuotaCall, DestroyCall}) (sim_driver {QuotaCall, DestroyCall} example_store) ''b1'' [''l1''] 1000
       (sim_init\<lparr>sim_layers := {''x''}\<rparr>) = (Panic NilDereference, w') \<and> ''x'' \<in> sim_layers w'"
proof -
  let ?run = "Bundle (sim_os {QuotaCall, DestroyCall}) (sim_driver {QuotaCall, DestroyCall} example_store) ''b1'' [''l1''] 1000 (sim_init\<lparr>sim_layers := {''x''}\<rparr>)"
  have "fst ?run = Panic NilDereference" by code_simp
  then obtain w' where run: "?run = (Panic NilDereference, w')" by (metis prod.collapse)
  from Bundle_frame [OF sim_bundle.bundle_contract_axioms run] run show ?thesis by auto
qed

theorem Delete_undoes_Bundle_witness:
  "\<exists>sp w1 w2. Bundle (sim_os {}) (sim_driver {} example_store) ''b1'' [''l1'', ''l2''] 1000 sim_init = (Ret (Inr sp), w1)
     \<and> Delete (sim_driver {} example_store) ''b1'' w1 = (Ret None, w2) \<and> sim_layers w2 = {}"
proof -
  let ?d = "sim_driver {} example_store"
  obtain sp w1 where run: "Bundle (sim_os {}) ?d ''b1'' [''l1'', ''l2''] 1000 sim_init = (Ret (Inr sp), w1)"
    using run_bundle by (rule returns_okE)
  have "fst (Delete ?d ''b1'' (snd (Bundle (sim_os {}) ?d ''b1'' [''l1'', ''l2''] 1000 sim_init))) = Ret None" by code_simp
  then obtain w2 where del: "Delete ?d ''b1'' w1 = (Ret None, w2)" using run by (metis prod.collapse snd_conv)
  from Delete_undoes_Bundle [OF sim_bundle.bundle_contract_axioms run del] run del show ?thesis by (auto simp: sim_init_def)
qed

theorem Delete_success_witness:
  "\<exists>w'. Delete (sim_driver {} example_store) ''b1'' (sim_init\<lparr>sim_layers := {volume_of ''b2''}\<rparr>) = (Ret None, w')
     \<and> hcs_LayerExists (sim_client {}) \<lparr>Flavour = 1, HomeDir = VolumeStore (sim_driver {} example_store)\<rparr> ''b1'' (sim_init\<lparr>sim_layers := {volume_of ''b2''}\<rparr>) = (Ret (Inr False), w')"
proof -
  let ?d = "sim_driver {} example_store" and ?w = "sim_init\<lparr>sim_layers := {volume_of ''b2''}\<rparr>"
  have "fst (Delete ?d ''b1'' ?w) = Ret None" by code_simp
  then obtain w' where del: "Delete ?d ''b1'' ?w = (Ret None, w')" by (metis prod.collapse)
  have "volume_of ''b1'' \<noteq> volume_of ''b2''" by code_simp
  with Delete_success [OF sim_bundle.bundle_contract_axioms _ del] del show ?thesis by (simp add: example_store_def sim_init_def)
qed

lemma example_mounted:
  fixes tar :: "'r \<Rightarrow> tar_Reader" and w :: sim
  obtains v where "hcs_GetLayerMountPath (hcsClient (sim_driver_of tar {} example_store))
      \<lparr>Flavour = 1, HomeDir = VolumeStore (sim_driver_of tar {} example_store)\<rparr> ''b1'' w = (Ret (Inr v), w)"
    and "v \<noteq> []" and "lim_GetQuotaUsed (limiter (sim_driver_of tar {} example_store)) v w = (Ret (Inr (sim_used w)), w)"
proof -
  let ?v = "''vol:'' @ volume_of ''b1''"
  have vs: "VolumeStore (sim_driver_of tar {} example_store) = VolumeStore (sim_driver {} example_store)" by (simp add: VolumeStore_def)
  have "CHR 0x00 \<notin> set ?v" by code_simp
  then have "lim_GetQuotaUsed (limiter (sim_driver_of tar {} example_store)) ?v w = (Ret (Inr (sim_used w)), w)"
    by (simp add: Limiter_Impl_def GetQuotaUsed_def loadProc_def sim_quota_def UTF16PtrFromString_def go_simps)
  moreover have "hcs_GetLayerMountPath (hcsClient (sim_driver_of tar {} example_store))
      \<lparr>Flavour = 1, HomeDir = VolumeStore (sim_driver_of tar {} example_store)\<rparr> ''b1'' w = (Ret (Inr ?v), w)"
    unfolding vs by (simp add: sim_client_def Client_HCS_def GetLayerMountPath_def sim_wclayer_def sim_res_def)
  ultimately show thesis using that [of ?v] by simp
qed

theorem Stats_after_WriteMetadata_witness:
  "\<exists>w w' u. WriteMetadata (sim_os {}) (sim_driver {} example_store) ''b1'' \<lparr>im_Size = 5000\<rparr> sim_init = (Ret None, w)
     \<and> Stats (sim_os {}) (\<lambda>e. []) (sim_driver {} example_store) ''b1'' w = (Ret (Inr u), w')
     \<and> sint (TotalBytesUsed u) = 9096 \<and> sint (ExclusiveBytesUsed u) = 4096"
proof -
  obtain w where wr: "WriteMetadata (sim_os {}) (sim_driver {} example_store) ''b1'' \<lparr>im_Size = 5000\<rparr> sim_init = (Ret None, w)" "sim_used w = 4096"
    by (auto simp: WriteMetadata_def writeMetadata_def sim_os_def sim_err_def sim_init_def go_simps)
  obtain v where v: "hcs_GetLayerMountPath (hcsClient (sim_driver {} example_store))
      \<lparr>Flavour = 1, HomeDir = VolumeStore (sim_driver {} example_store)\<rparr> ''b1'' w = (Ret (Inr v), w)"
    "v \<noteq> []" "lim_GetQuotaUsed (limiter (sim_driver {} example_store)) v w = (Ret (Inr (sim_used w)), w)" by (rule example_mounted)
  from Stats_after_WriteMetadata [OF sim_files.file_contract_axioms wr(1) v, of "\<lambda>e. []"] wr show ?thesis by auto
qed

theorem Stats_errors_witness:
  "\<exists>w' e. Stats (sim_os {}) (\<lambda>e. []) (sim_driver {NoMountPath} example_store) ''b1'' sim_init = (Ret (Inl e), w') \<and> e = MissingVolumePathError ''b1''"
proof -
  let ?d = "sim_driver {NoMountPath} example_store"
  have mp: "hcs_GetLayerMountPath (hcsClient ?d) \<lparr>Flavour = 1, HomeDir = VolumeStore ?d\<rparr> ''b1'' sim_init = (Ret (Inr []), sim_init)"
    by (simp add: sim_client_def Client_HCS_def GetLayerMountPath_def sim_wclayer_def sim_res_def)
  from Stats_errors [OF sim_files.file_contract_axioms mp, of undefined undefined "\<lambda>e. []"] show ?thesis by auto
qed

section \<open>The client, the limiter and the streamer\<close>

definition example_job :: "string \<Rightarrow> create_job" where
  "example_job i = \<lparr>cj_info = \<lparr>Flavour = 1, HomeDir = ''v''\<rparr>, cj_id = i, cj_parents = [''v'' @ bslash # ''base'']\<rparr>"

theorem CreateLayer_locked_witness:
  "\<exists>w'. Client_CreateLayer (guarded_wclayer sim_locked (sim_wclayer {ActivateCall})) (NewClient (sim_locks {ActivateCall})) \<lparr>Flavour = 1, HomeDir = ''v''\<rparr> ''b1'' [] sim_init
     = (Ret (Some refused), w') \<and> \<not> sim_locked w'"
proof -
  let ?c = "NewClient (sim_locks {ActivateCall})" and ?di = "\<lparr>Flavour = 1, HomeDir = ''v''\<rparr>"
  have "fst (Client_CreateLayer (sim_wclayer {ActivateCall}) ?c ?di ''b1'' [] sim_init) = Ret (Some refused)" by code_simp
  then obtain w' where run: "Client_CreateLayer (sim_wclayer {ActivateCall}) ?c ?di ''b1'' [] sim_init = (Ret (Some refused), w')" by (metis prod.collapse)
  note locked = CreateLayer_locked [OF sim_lock.create_lock_axioms [of "{ActivateCall}"] refl, of ?di "''b1''" "[]"]
  have "\<forall>v f v' u. fl_Open (layerCreateLock ?c) v = (Ret (Inr f), v') \<longrightarrow> fst (lf_Close f u) = Ret None"
    by (auto simp: sim_lock_open sim_lock_close split: if_splits)
  moreover have "\<not> sim_locked sim_init" by (simp add: sim_init_def)
  ultimately have "\<not> sim_locked w'" using conjunct2 [OF locked, rule_format, of sim_init "Ret (Some refused)" w'] run by blast
  with locked run show ?thesis by simp
qed

text \<open>Two processes, one of which has opened the lock.\<close>

theorem CreateLayer_exclusive_witness:
  "\<exists>w' ps. (process_step (sim_wclayer {}) (NewClient (sim_locks {})))\<^sup>*\<^sup>* (sim_init, processes [example_job ''b1'', example_job ''b2'']) (w', ps)
     \<and> inside (snd (ps ! 0)) \<and> \<not> inside (snd (ps ! 1)) \<and> sim_locked w'"
proof -
  let ?c = "NewClient (sim_locks {})" and ?js = "[example_job ''b1'', example_job ''b2'']" and ?w = "sim_init\<lparr>sim_locked := True\<rparr>"
  let ?ps = "[(example_job ''b1'', Creating (lockedFile (sim_locks {}) ())), (example_job ''b2'', Opening)]"
  have "process_step (sim_wclayer {}) ?c (sim_init, processes ?js) (?w, ?ps)"
    using process_step.intros [of 0 "processes ?js" "example_job ''b1''" Opening "sim_wclayer {}" ?c sim_init "Creating (lockedFile (sim_locks {}) ())" ?w]
    by (simp add: processes_def sim_lock_open) (simp add: sim_init_def)
  then have run: "(process_step (sim_wclayer {}) ?c)\<^sup>*\<^sup>* (sim_init, processes ?js) (?w, ?ps)" by (rule r_into_rtranclp)
  from CreateLayer_exclusive [OF sim_exclusive.exclusive_lock_axioms run, of 0 0] run show ?thesis
    by (intro exI [of _ ?w] exI [of _ ?ps]) simp
qed

theorem SetQuota_limits_witness:
  "\<exists>w'. SetQuota (recording_api (sim_quota {})) ''vol'' 1000 (sim_init, []) = (Ret None, (w', [(''vol'', 11240)]))"
proof -
  have "fst (SetQuota (recording_api (sim_quota {})) ''vol'' 1000 (sim_init, [])) = Ret None" by code_simp
  then obtain w' l where run: "SetQuota (recording_api (sim_quota {})) ''vol'' 1000 (sim_init, []) = (Ret None, (w', l))"
    by (metis prod.collapse)
  from SetQuota_limits [OF run] run show ?thesis by (auto simp: DISK_QUOTA_OVERHEAD_def)
qed

text \<open>A streamer at a header, with the file just added to the layer.\<close>

definition example_info :: FileBasicInfo where
  "example_info = \<lparr>CreationTime = \<lparr>LowDateTime = 0, HighDateTime = 0\<rparr>, LastAccessTime = \<lparr>LowDateTime = 0, HighDateTime = 0\<rparr>,
     LastWriteTime = \<lparr>LowDateTime = 0, HighDateTime = 0\<rparr>, ChangeTime = \<lparr>LowDateTime = 0, HighDateTime = 0\<rparr>, FileAttributes = 0\<rparr>"

definition example_reader :: "bytes list \<Rightarrow> tar_Reader" where
  "example_reader cs = \<lparr>tr_chunks = cs, tr_err = EOF, tr_entries = [], tr_end = EOF\<rparr>"

definition example_world :: "bytes list \<Rightarrow> sim" where
  "example_world cs = sim_init\<lparr>sim_streamer := Streamer_New\<lparr>st_r := example_reader cs\<rparr>, sim_ops := [AddOp ''a'' (Some example_info)]\<rparr>"

lemma example_appending:
  "sim_recorder.appending [AddOp ''a'' (Some example_info)] (example_world cs)" "sim_recorder.data_since [AddOp ''a'' (Some example_info)] (example_world cs) = []"
  by (auto simp: sim_recorder.appending_def sim_recorder.data_since_def example_world_def data_op_def intro!: exI [of _ "[]"])

lemma example_world_reader: "st_r (ref_get sim_ref (example_world cs)) = example_reader cs"
  by (simp add: example_world_def sim_ref_def)

theorem Streamer_streams_file_witness:
  "\<exists>w' bs. Streamer_WriteBackupStreamFromTarFile sim_sddl sim_backup sim_ref (sim_writer {}) (example_header ''Files/a.txt'' TypeReg 5) ''layer''
       (example_world [''he'', ''llo'']) = (Ret (None, Some EOF), w')
     \<and> backup_stream sim_sddl (example_header ''Files/a.txt'' TypeReg 5) ''hello'' [] = Some bs
     \<and> sim_recorder.data_since [AddOp ''a'' (Some example_info)] w' = bs"
proof -
  let ?h = "example_header ''Files/a.txt'' TypeReg 5" and ?r = "example_reader [''he'', ''llo'']"
  have "backup_stream sim_sddl ?h ''hello'' [] \<noteq> None" by code_simp
  then obtain bs where bs: "backup_stream sim_sddl ?h ''hello'' [] = Some bs" by blast
  have comp: "complete (?h, tr_chunks ?r, tr_err ?r)" and nm: "map_of mutatedFiles (hdr_Name ?h) = None" by code_simp+
  from Streamer_streams_file [OF sim_boot.streamer_sink_axioms example_appending(1) example_world_reader comp _ _ nm, of sim_sddl bs sim_backup "''layer''"]
  show ?thesis using bs example_appending(2) by (auto simp: example_reader_def next_of_def)
qed

theorem Streamer_backs_up_boot_file_witness:
  "\<exists>w' bs. Streamer_WriteBackupStreamFromTarFile sim_sddl sim_backup sim_ref (sim_writer {}) (example_header (boot_dir @ ''BCD'') TypeReg 4) ''layer''
       (example_world [''boot'']) = (Ret (None, Some EOF), w')
     \<and> sim_recorder.data_since [AddOp ''a'' (Some example_info)] w' = bs \<and> sim_backups w' (Join [''layer'', ''bcd.bak'']) = bs
     \<and> backup_stream sim_sddl (example_header (boot_dir @ ''BCD'') TypeReg 4) ''boot'' [] = Some bs"
proof -
  let ?h = "example_header (boot_dir @ ''BCD'') TypeReg 4" and ?r = "example_reader [''boot'']"
  have "backup_stream sim_sddl ?h ''boot'' [] \<noteq> None" by code_simp
  then obtain bs where bs: "backup_stream sim_sddl ?h ''boot'' [] = Some bs" by blast
  have comp: "complete (?h, tr_chunks ?r, tr_err ?r)" and nm: "map_of mutatedFiles (hdr_Name ?h) = Some ''bcd.bak''" by code_simp+
  from Streamer_backs_up_boot_file [OF sim_boot.boot_backup_axioms example_appending(1) example_world_reader comp _ _ nm, of sim_sddl bs "''layer''"]
  show ?thesis using bs example_appending(2) by (auto simp: example_reader_def next_of_def)
qed

text \<open>Backup files that cannot be closed.\<close>

definition unclosable :: "(sim, string, string) backup_file_api" where
  "unclosable = sim_backup\<lparr>bf_Close := (\<lambda>f. go_ret (Some refused))\<rparr>"

theorem Streamer_close_error_lost_witness:
  "fst (Streamer_WriteBackupStreamFromTarFile sim_sddl unclosable sim_ref (sim_writer {}) (example_header (boot_dir @ ''BCD'') TypeReg 4) ''layer''
     (example_world [''boot''])) = Ret (None, Some EOF)"
proof -
  let ?h = "example_header (boot_dir @ ''BCD'') TypeReg 4" and ?p = "Join [''layer'', ''bcd.bak'']" and ?w = "example_world [''boot'']"
  let ?m = "stream_to sim_sddl sim_ref (MultiWriter [lw_Write (sim_writer {}), bf_Write unclosable ?p]) ?h"
  obtain w1 where cr: "bf_Create unclosable ?p ?w = (Ret (Inr ?p), w1)" and w1: "w1 = ?w\<lparr>sim_backups := (sim_backups ?w)(?p := [])\<rparr>"
    by (simp add: unclosable_def sim_backup_def)
  have nw: "bf_NewBackupFileWriter unclosable ?p w1 = (Ret ?p, w1)" by (simp add: unclosable_def sim_backup_def)
  have nm: "map_of mutatedFiles (hdr_Name ?h) = Some ''bcd.bak''" by code_simp
  have "fst (?m (?w\<lparr>sim_backups := (sim_backups ?w)(?p := [])\<rparr>)) = Ret (None, Some EOF)" by code_simp
  then obtain w3 where st: "?m w1 = (Ret (None, Some EOF), w3)" using w1 by (metis prod.collapse)
  have cl: "bf_CloseWriter unclosable ?p w3 = (Ret None, w3)" "bf_Close unclosable ?p w3 = (Ret (Some refused), w3)"
    by (simp_all add: unclosable_def sim_backup_def)
  from Streamer_close_error_lost [OF nm cr nw st cl] show ?thesis by simp
qed

section \<open>Images\<close>

text \<open>An image of two layers: the example archive, and a file on top of it.\<close>

definition example_layer :: "string \<Rightarrow> LayerInfo" where
  "example_layer c = \<lparr>BlobID = ''blob-'' @ c, ChainID = c, DiffID = c, ParentChainID = [], li_Size = 10, li_URLs = [], li_MediaType = []\<rparr>"

definition example_image :: ImageInfo where
  "example_image = \<lparr>LayerInfos = [example_layer ''base'', example_layer ''top''], ii_Env = [''PATH=C'']\<rparr>"

definition example_groot :: "(sim, tar_entry list) Groot" where
  "example_groot = sim_groot 8 {} example_store example_image
     [(''blob-base'', example_tar), (''blob-top'', [(example_header ''Files/c.txt'' TypeReg 3, [''abc''], EOF)])]"

lemma example_names: "\<forall>l \<in> set (LayerInfos example_image). name_ok (ChainID l)"
  by (simp add: example_image_def example_layer_def name_ok_def IsPathSeparator_def)

lemma example_groot_simps: "g_os example_groot = sim_os {}"
  "g_Driver example_groot = sim_driver_of od_tar {} example_store" "g_fetcher example_groot = sim_fetcher example_image
     [(''blob-base'', example_tar), (''blob-top'', [(example_header ''Files/c.txt'' TypeReg 3, [''abc''], EOF)])]"
  by (simp_all add: example_groot_def sim_groot_def example_store_def)

lemmas example_image_store = sim_images.image_store_axioms [of 8 example_store example_image
  "[(''blob-base'', example_tar), (''blob-top'', [(example_header ''Files/c.txt'' TypeReg 3, [''abc''], EOF)])]", folded example_groot_def]

abbreviation unlimited :: ImageSpec where
  "unlimited \<equiv> \<lparr>is_DiskLimit = 0, is_ExcludeImageFromQuota = False\<rparr>"

lemma example_drive: "drive_store (Store (g_Driver example_groot)) (CHR ''C'') [''var'', ''vcap'', ''groot'']"
  using example_stores(2) by (simp add: example_store_def example_groot_simps)

theorem Pull_cached_witness:
  "\<exists>img w1 w2. ImagePuller_Pull example_groot unlimited sim_init = (Ret (Inr img), w1)
     \<and> ImagePuller_Pull (example_groot\<lparr>g_fuel := 0\<rparr>) unlimited w1 = (Ret (Inr img), w2) \<and> sim_layers w2 = sim_layers w1"
proof -
  have "returns_ok (fst (ImagePuller_Pull example_groot unlimited sim_init))" by code_simp
  then obtain img w1 where run: "ImagePuller_Pull example_groot unlimited sim_init = (Ret (Inr img), w1)" by (rule returns_okE)
  have info: "\<forall>w. \<exists>w'. ft_ImageInfo (g_fetcher example_groot) w = (Ret (Inr example_image), w') \<and> sim_files w' = sim_files w \<and> sim_layers w' = sim_layers w"
    by (simp add: sim_fetcher_def example_groot_simps)
  from Pull_cached [OF example_image_store example_drive example_names info run] run show ?thesis by blast
qed

theorem Create_builds_on_layers_witness:
  "Groot_Create (example_groot\<lparr>g_Driver := on_present sim_layers (g_Driver example_groot)\<rparr>) ''b1'' 1000 False sim_init
   = Groot_Create example_groot ''b1'' 1000 False sim_init"
proof (rule Create_builds_on_layers [OF example_image_store example_drive])
  show "\<forall>w info w'. ft_ImageInfo (g_fetcher example_groot) w = (Ret (Inr info), w') \<longrightarrow> (\<forall>l \<in> set (LayerInfos info). name_ok (ChainID l))"
    using example_names by (auto simp: sim_fetcher_def example_groot_simps)
qed

definition created :: "(RuntimeSpec option \<times> go_error option) go \<Rightarrow> bool" where
  "created r = (case r of Ret (Some sp, None) \<Rightarrow> True | _ \<Rightarrow> False)"

lemma example_created: "\<exists>sp w. Groot_Create example_groot ''b1'' 1000 False sim_init = (Ret (Some sp, None), w)"
proof -
  have "created (fst (Groot_Create example_groot ''b1'' 1000 False sim_init))" by code_simp
  then show ?thesis
    by (cases "Groot_Create example_groot ''b1'' 1000 False sim_init") (auto simp: created_def split: go.splits option.splits)
qed

theorem Create_quota_witness:
  "\<exists>img quota b w1 w2. ImagePuller_Pull example_groot \<lparr>is_DiskLimit = 1000, is_ExcludeImageFromQuota = False\<rparr> sim_init = (Ret (Inr img), w1)
    \<and> Bundle (g_os example_groot) (g_Driver example_groot) ''b1'' (img_ChainIDs img) quota w1 = (Ret (Inr b), w2)
    \<and> 0 < sint quota \<and> sint quota = sint (1000 :: int64) - sint (img_Size img)"
proof -
  obtain sp w where run: "Groot_Create example_groot ''b1'' 1000 False sim_init = (Ret (Some sp, None), w)" using example_created by blast
  show ?thesis using Create_quota [OF run] by simp blast
qed

theorem Stats_after_Create_witness:
  "\<exists>sp w img v' w'. Groot_Create example_groot ''b1'' 1000 False sim_init = (Ret (Some sp, None), w)
    \<and> ImagePuller_Pull example_groot \<lparr>is_DiskLimit = 1000, is_ExcludeImageFromQuota = False\<rparr> sim_init = (Ret (Inr img), v')
    \<and> Groot_Stats example_groot (\<lambda>e. []) ''b1'' w = (Ret (Inr \<lparr>TotalBytesUsed = img_Size img + sim_used w, ExclusiveBytesUsed = sim_used w\<rparr>), w')"
proof -
  obtain sp w where run: "Groot_Create example_groot ''b1'' 1000 False sim_init = (Ret (Some sp, None), w)" using example_created by blast
  obtain v where v: "hcs_GetLayerMountPath (hcsClient (g_Driver example_groot)) \<lparr>Flavour = 1, HomeDir = VolumeStore (g_Driver example_groot)\<rparr> ''b1'' w = (Ret (Inr v), w)"
    "v \<noteq> []" "lim_GetQuotaUsed (limiter (g_Driver example_groot)) v w = (Ret (Inr (sim_used w)), w)"
    unfolding example_groot_simps by (rule example_mounted)
  have "file_contract (g_os example_groot) sim_files" unfolding example_groot_simps by (rule sim_files.file_contract_axioms)
  from Stats_after_Create [OF this run v, of "\<lambda>e. []"] run show ?thesis by blast
qed

text \<open>An image without layers, and files that cannot be written.\<close>

definition bare_groot :: "(sim, tar_entry list) Groot" where
  "bare_groot = sim_groot 8 {WriteCall} example_store \<lparr>LayerInfos = [], ii_Env = []\<rparr> []"

definition failed_late :: "(RuntimeSpec option \<times> go_error option) go \<Rightarrow> bool" where
  "failed_late r = (case r of Ret (Some sp, Some e) \<Rightarrow> True | _ \<Rightarrow> False)"

theorem Create_without_metadata_witness:
  "\<exists>sp e w'. Groot_Create bare_groot ''b1'' 0 False sim_init = (Ret (Some sp, Some e), w')
     \<and> layerPath \<lparr>Flavour = 1, HomeDir = VolumeStore (g_Driver bare_groot)\<rparr> ''b1'' \<in> sim_layers w'"
proof -
  have "failed_late (fst (Groot_Create bare_groot ''b1'' 0 False sim_init))" by code_simp
  then obtain sp e w' where run: "Groot_Create bare_groot ''b1'' 0 False sim_init = (Ret (Some sp, Some e), w')"
    by (cases "Groot_Create bare_groot ''b1'' 0 False sim_init") (auto simp: failed_late_def split: go.splits option.splits)
  have g: "g_os bare_groot = sim_os {WriteCall}" "g_Driver bare_groot = sim_driver_of od_tar {WriteCall} example_store"
    by (simp_all add: bare_groot_def sim_groot_def)
  have "bundle_contract (g_Driver bare_groot) sim_layers (g_os bare_groot)" unfolding g by (rule sim_bundle.bundle_contract_axioms)
  moreover have "within (same sim_layers) (os_WriteFile (g_os bare_groot) p b m)" for p b m
    by (simp add: g sim_os_def sim_err_def within_def same_def)
  ultimately show ?thesis using Create_without_metadata [OF _ _ run refl, of sim_layers] run by blast
qed

section \<open>The program\<close>

text \<open>A run of main on the platform, with nothing to fetch; what it prints is kept as a file.\<close>

definition no_files :: "(sim, unit) file_api" where
  "no_files = \<lparr>fi_Stat = (\<lambda>p. go_ret (Inl refused)), fi_Open = (\<lambda>p. go_ret (Inl refused)), fi_Read = (\<lambda>f n. go_ret ([], Some EOF)), fi_Close = (\<lambda>f. go_ret None),
     fi_Remove = (\<lambda>p. go_ret None), fi_CreateTemp = (\<lambda>p. go_ret (Inl refused)), fi_WriteTemp = (\<lambda>p b. go_ret (0, Some refused)), fi_CloseTemp = (\<lambda>p. go_ret None)\<rparr>"

definition no_images :: "(sim, unit, unit, unit) image_api" where
  "no_images = \<lparr>ia_ParseReference = (\<lambda>scheme r. Inl refused), ia_NewImageSource = (\<lambda>sc r. go_ret (Inl refused)), ia_GetBlob = (\<lambda>src info. go_ret (Inl refused)),
     ia_CloseSource = (\<lambda>src. go_ret None), ia_ReadBlob = (\<lambda>b n. go_ret ([], Some EOF)), ia_CloseBlob = (\<lambda>b. go_ret None),
     ia_FromUnparsedImage = (\<lambda>sc src. go_ret (Inl refused)), ia_Manifest = (\<lambda>img. go_ret (Inl refused)), ia_LayerInfos = (\<lambda>img. []),
     ia_UpdatedImage = (\<lambda>img ds ls. go_ret (Inl refused)), ia_ConfigBlob = (\<lambda>img. go_ret (Some refused)), ia_OCIConfig = (\<lambda>img. go_ret (Inl refused))\<rparr>"

definition sim_runtime :: "(sim, unit, unit, unit, unit) runtime" where
  "sim_runtime =
     \<lparr>rt_os = sim_os {}, rt_files = no_files, rt_images = no_images, rt_gzip = (\<lambda>r. go_ret (Inl refused)), rt_yaml = (\<lambda>b. Inl refused),
      rt_url_Parse = (\<lambda>s. Inl refused), rt_spec_json = (\<lambda>s. []), rt_json_msg = (\<lambda>e. []),
      rt_stdout = \<lparr>ref_get = (\<lambda>w. case sim_files w ''stdout'' of Some s \<Rightarrow> s | None \<Rightarrow> []),
                   ref_put = (\<lambda>s w. w\<lparr>sim_files := (sim_files w)(''stdout'' := Some s)\<rparr>)\<rparr>,
      rt_reader = \<lparr>ref_get = (\<lambda>w. None), ref_put = (\<lambda>x w. w)\<rparr>, rt_imageSource = \<lparr>ref_get = (\<lambda>w. None), ref_put = (\<lambda>x w. w)\<rparr>,
      rt_remainingImageQuota = \<lparr>ref_get = (\<lambda>w. 0), ref_put = (\<lambda>x w. w)\<rparr>, rt_avail = (\<lambda>n. 512), rt_fetch_fuel = 1, rt_unpack_fuel = 1\<rparr>"

abbreviation no_archives :: "(sim, unit fetched) OnDemand \<Rightarrow> tar_Reader" where
  "no_archives \<equiv> (\<lambda>r. sim_tar [])"

theorem main_delete_witness:
  "\<exists>w'. main (sim_wclayer {}) (sim_locks {}) (Streamer_Impl no_archives sim_sddl sim_backup sim_ref) (sim_winio {}) (sim_quota {}) sim_runtime
       \<lparr>inv_driverStore = example_store, inv_config = [], inv_command = DeleteCommand, inv_context = \<lparr>ctx_flags = [], ctx_Args = [''b1'']\<rparr>\<rparr>
       (sim_init\<lparr>sim_layers := {volume_of ''b1'', volume_of ''b2''}\<rparr>) = (Ret 0, w')
     \<and> sim_layers w' = {volume_of ''b2''}"
proof -
  let ?d = "main_driver (sim_wclayer {}) (sim_locks {}) (Streamer_Impl no_archives sim_sddl sim_backup sim_ref) (sim_winio {}) (sim_quota {}) example_store"
  let ?main = "main (sim_wclayer {}) (sim_locks {}) (Streamer_Impl no_archives sim_sddl sim_backup sim_ref) (sim_winio {}) (sim_quota {}) sim_runtime
       \<lparr>inv_driverStore = example_store, inv_config = [], inv_command = DeleteCommand, inv_context = \<lparr>ctx_flags = [], ctx_Args = [''b1'']\<rparr>\<rparr>"
  let ?w = "sim_init\<lparr>sim_layers := {volume_of ''b1'', volume_of ''b2''}\<rparr>"
  have "fst (?main ?w) = Ret 0" by code_simp
  then obtain w' where run: "?main ?w = (Ret 0, w')" by (metis prod.collapse)
  have "bundle_contract ?d sim_layers (rt_os sim_runtime)"
    using sim_bundle.bundle_contract_axioms [of no_archives "{}" example_store] by (simp add: sim_driver_of_def sim_runtime_def)
  moreover have "sim_layers (ref_put (rt_stdout sim_runtime) x w) = sim_layers w" for x w by (simp add: sim_runtime_def)
  moreover have "within (same sim_layers) (os_ReadFile (rt_os sim_runtime) p)" for p
    by (simp add: sim_runtime_def sim_os_def within_def same_def)
  moreover have "layerPath \<lparr>Flavour = 1, HomeDir = VolumeStore ?d\<rparr> ''b1'' = volume_of ''b1''" "volume_of ''b1'' \<noteq> volume_of ''b2''"
    by code_simp+
  ultimately show ?thesis
    using main_delete [OF _ _ _ _ run, of sim_layers "\<lambda>i. layerPath \<lparr>Flavour = 1, HomeDir = VolumeStore ?d\<rparr> i"] run by auto
qed

end
