(* ===== verification/Fake_Method.thy ===== *)
theory Fake_Method
  imports Driver
begin

text \<open>
  The test doubles of src/driver/fakes and src/hcs/fakes, generated by counterfeiter: every method of an interface
  has a stub, a list of the arguments of its calls, a default result and results for particular calls, guarded by
  a mutex, and every fake has a log of all calls, guarded by another. The code generated for one method is the
  same text for every method up to its name and types; it is translated here once, over references to the state of one method and the log
  (\<open>fake_call_on\<close>, \<open>fake_CallCount_on\<close>, ...; \<open>fake_call\<close> and so on are the same on a world with nothing else in it), and each method of each fake instantiates it in the theory of that fake.

  A stub is a closure over the variables of a test, a state of type \<open>'s\<close>; a stub that uses the fake it belongs to is not covered. The arguments of a call are recorded as
  values: the slices are copied by the code, the headers and file infos behind pointers are not changed by any caller.
  A call of \<open>Lock\<close> that would block forever, in the one thread the model has, is the outcome \<^const>\<open>Diverged\<close>.
\<close>

section \<open>Mutexes and maps\<close>

text \<open>A \<^verbatim>\<open>sync.RWMutex\<close>: the number of readers and whether a writer holds it.\<close>

record mutex =
  mx_readers :: nat
  mx_writer :: bool

definition mx_Lock :: "('w, mutex) ref \<Rightarrow> ('w, unit) io" where
  "mx_Lock p = go_bind (ref_read p) (\<lambda>m.
     if mx_writer m \<or> mx_readers m \<noteq> 0 then go_diverge else ref_modify p (\<lambda>m. m\<lparr>mx_writer := True\<rparr>))"

definition mx_Unlock :: "('w, mutex) ref \<Rightarrow> ('w, unit) io" where
  "mx_Unlock p = go_bind (ref_read p) (\<lambda>m.
     if \<not> mx_writer m then go_panic UnlockOfUnlocked else ref_modify p (\<lambda>m. m\<lparr>mx_writer := False\<rparr>))"

definition mx_RLock :: "('w, mutex) ref \<Rightarrow> ('w, unit) io" where
  "mx_RLock p = go_bind (ref_read p) (\<lambda>m.
     if mx_writer m then go_diverge else ref_modify p (\<lambda>m. m\<lparr>mx_readers := Suc (mx_readers m)\<rparr>))"

definition mx_RUnlock :: "('w, mutex) ref \<Rightarrow> ('w, unit) io" where
  "mx_RUnlock p = go_bind (ref_read p) (\<lambda>m.
     if mx_readers m = 0 then go_panic UnlockOfUnlocked else ref_modify p (\<lambda>m. m\<lparr>mx_readers := mx_readers m - 1\<rparr>))"

text \<open>\<^verbatim>\<open>mx.Lock(); defer mx.Unlock()\<close> and its reading counterpart, followed by the rest of the function.\<close>

definition locking :: "('w, mutex) ref \<Rightarrow> ('w, 'a) io \<Rightarrow> ('w, 'a) io" where
  "locking p m = go_bind (mx_Lock p) (\<lambda>_. go_defer (mx_Unlock p) m)"

definition rlocking :: "('w, mutex) ref \<Rightarrow> ('w, 'a) io \<Rightarrow> ('w, 'a) io" where
  "rlocking p m = go_bind (mx_RLock p) (\<lambda>_. go_defer (mx_RUnlock p) m)"

lemmas mutex_defs = mx_Lock_def mx_Unlock_def mx_RLock_def mx_RUnlock_def locking_def rlocking_def

text \<open>A Go map, \<^const>\<open>None\<close> for nil: reading a nil map finds nothing, assigning to it panics.\<close>

type_synonym ('k, 'v) go_map = "('k \<rightharpoonup> 'v) option"

definition map_index :: "('k, 'v) go_map \<Rightarrow> 'k \<Rightarrow> 'v option" where
  "map_index m k = (case m of None \<Rightarrow> None | Some f \<Rightarrow> f k)"

definition map_assign :: "('w, ('k, 'v) go_map) ref \<Rightarrow> 'k \<Rightarrow> 'v \<Rightarrow> ('w, unit) io" where
  "map_assign p k v = go_bind (ref_read p) (\<lambda>m.
     case m of None \<Rightarrow> go_panic NilMapWrite | Some f \<Rightarrow> ref_modify p (\<lambda>_. Some (f(k \<mapsto> v))))"

text \<open>\<^verbatim>\<open>if m == nil { m = make(...) }\<close>\<close>

definition map_make :: "('w, ('k, 'v) go_map) ref \<Rightarrow> ('w, unit) io" where
  "map_make p = go_bind (ref_read p) (\<lambda>m. if m = None then ref_modify p (\<lambda>_. Some Map.empty) else go_ret ())"

section \<open>The state of a method and of the log\<close>

record ('s, 'a, 'r) fake_method =
  fm_Stub :: "('a \<Rightarrow> ('s, 'r) io) option"
  fm_Mutex :: mutex
  fm_ArgsForCall :: "'a list"
  fm_Returns :: 'r
  fm_ReturnsOnCall :: "(int, 'r) go_map"

text \<open>The values passed as \<^verbatim>\<open>interface{}\<close>; readers and writers are references of types \<open>'r\<close> and \<open>'lw\<close>.\<close>

datatype ('r, 'lw) any =
    AnyString string
  | AnyStrings "string list"
  | AnyBytes bytes
  | AnyUint64 uint64
  | AnyDriverInfo DriverInfo
  | AnyHeader "Header option"
  | AnyFileInfo "FileBasicInfo option"
  | AnyReader "'r option"
  | AnyWriter 'lw

record ('r, 'lw) fake_log =
  fl_invocations :: "(string, ('r, 'lw) any list list) go_map"
  fl_invocationsMutex :: mutex

definition mutex_zero :: mutex where
  "mutex_zero = \<lparr>mx_readers = 0, mx_writer = False\<rparr>"

definition method_zero :: "'r \<Rightarrow> ('s, 'a, 'r) fake_method" where
  "method_zero z = \<lparr>fm_Stub = None, fm_Mutex = mutex_zero, fm_ArgsForCall = [], fm_Returns = z, fm_ReturnsOnCall = None\<rparr>"

definition log_zero :: "('r, 'lw) fake_log" where
  "log_zero = \<lparr>fl_invocations = None, fl_invocationsMutex = mutex_zero\<rparr>"

text \<open>The code of a method runs on the state of the test, the state of the method and the log of the fake.\<close>

type_synonym ('s, 'a, 'r, 'x, 'lw) method_world = "'s \<times> ('s, 'a, 'r) fake_method \<times> ('x, 'lw) fake_log"

definition state_ref :: "(('s, 'a, 'r, 'x, 'lw) method_world, 's) ref" where
  [go_simps]: "state_ref = \<lparr>ref_get = fst, ref_put = (\<lambda>s w. (s, snd w))\<rparr>"

definition method_ref :: "(('s, 'a, 'r, 'x, 'lw) method_world, ('s, 'a, 'r) fake_method) ref" where
  [go_simps]: "method_ref = \<lparr>ref_get = (\<lambda>w. fst (snd w)), ref_put = (\<lambda>m w. (fst w, m, snd (snd w)))\<rparr>"

definition log_ref :: "(('s, 'a, 'r, 'x, 'lw) method_world, ('x, 'lw) fake_log) ref" where
  [go_simps]: "log_ref = \<lparr>ref_get = (\<lambda>w. snd (snd w)), ref_put = (\<lambda>l w. (fst w, fst (snd w), l))\<rparr>"

section \<open>The operations\<close>

definition fake_recordInvocation :: "('w, ('x, 'lw) fake_log) ref \<Rightarrow> string \<Rightarrow> ('x, 'lw) any list \<Rightarrow> ('w, unit) io" where
  "fake_recordInvocation l key args =
     (let inv = field_ref fl_invocations fl_invocations_update l in
      locking (field_ref fl_invocationsMutex fl_invocationsMutex_update l)
        (go_bind (map_make inv) (\<lambda>_.
         go_bind (ref_read inv) (\<lambda>m.
         go_bind (if map_index m key = None then map_assign inv key [] else go_ret ()) (\<lambda>_.
         go_bind (ref_read inv) (\<lambda>m.
         map_assign inv key ((case map_index m key of None \<Rightarrow> [] | Some calls \<Rightarrow> calls) @ [args])))))))"

text \<open>
  A call: the result for this call is looked up and the arguments are recorded under the mutex; the stub runs after
  it is released. \<open>enc\<close> gives the arguments as the log records them. The code works through the references \<open>st\<close> to the state of the test,
  \<open>me\<close> to the state of the method and \<open>l\<close> to the log.
\<close>

abbreviation mutex_of :: "('w, ('s, 'a, 'r) fake_method) ref \<Rightarrow> ('w, mutex) ref" where
  "mutex_of me \<equiv> field_ref fm_Mutex fm_Mutex_update me"

definition fake_call_on :: "('w, 's) ref \<Rightarrow> ('w, ('s, 'a, 'r) fake_method) ref \<Rightarrow> ('w, ('x, 'lw) fake_log) ref
    \<Rightarrow> string \<Rightarrow> ('a \<Rightarrow> ('x, 'lw) any list) \<Rightarrow> 'a \<Rightarrow> ('w, 'r) io" where
  "fake_call_on st me l key enc arg =
     go_bind (mx_Lock (mutex_of me)) (\<lambda>_.
     go_bind (ref_read me) (\<lambda>fake.
     let specificReturn = map_index (fm_ReturnsOnCall fake) (int (length (fm_ArgsForCall fake))) in
     go_bind (ref_modify me (\<lambda>fake. fake\<lparr>fm_ArgsForCall := fm_ArgsForCall fake @ [arg]\<rparr>)) (\<lambda>_.
     let stub = fm_Stub fake; fakeReturns = fm_Returns fake in
     go_bind (fake_recordInvocation l key (enc arg)) (\<lambda>_.
     go_bind (mx_Unlock (mutex_of me)) (\<lambda>_.
     case stub of
       Some f \<Rightarrow> zoom st (f arg)
     | None \<Rightarrow> (case specificReturn of Some ret \<Rightarrow> go_ret ret | None \<Rightarrow> go_ret fakeReturns))))))"

text \<open>A method without results; its stub is read again after the mutex is released.\<close>

definition fake_call_void_on :: "('w, 's) ref \<Rightarrow> ('w, ('s, 'a, unit) fake_method) ref \<Rightarrow> ('w, ('x, 'lw) fake_log) ref
    \<Rightarrow> string \<Rightarrow> ('a \<Rightarrow> ('x, 'lw) any list) \<Rightarrow> 'a \<Rightarrow> ('w, unit) io" where
  "fake_call_void_on st me l key enc arg =
     go_bind (mx_Lock (mutex_of me)) (\<lambda>_.
     go_bind (ref_modify me (\<lambda>fake. fake\<lparr>fm_ArgsForCall := fm_ArgsForCall fake @ [arg]\<rparr>)) (\<lambda>_.
     go_bind (ref_read me) (\<lambda>fake.
     let stub = fm_Stub fake in
     go_bind (fake_recordInvocation l key (enc arg)) (\<lambda>_.
     go_bind (mx_Unlock (mutex_of me)) (\<lambda>_.
     if stub \<noteq> None then
       go_bind (ref_read me) (\<lambda>fake.
       case fm_Stub fake of Some f \<Rightarrow> zoom st (f arg) | None \<Rightarrow> go_panic NilDereference)
     else go_ret ())))))"

definition fake_CallCount_on :: "('w, ('s, 'a, 'r) fake_method) ref \<Rightarrow> ('w, int) io" where
  "fake_CallCount_on me = rlocking (mutex_of me) (go_bind (ref_read me) (\<lambda>fake. go_ret (int (length (fm_ArgsForCall fake)))))"

definition fake_Calls_on :: "('w, ('s, 'a, 'r) fake_method) ref \<Rightarrow> ('a \<Rightarrow> ('s, 'r) io) option \<Rightarrow> ('w, unit) io" where
  "fake_Calls_on me stub = locking (mutex_of me) (ref_modify me (\<lambda>fake. fake\<lparr>fm_Stub := stub\<rparr>))"

definition fake_ArgsForCall_on :: "('w, ('s, 'a, 'r) fake_method) ref \<Rightarrow> int \<Rightarrow> ('w, 'a) io" where
  "fake_ArgsForCall_on me i = rlocking (mutex_of me) (go_bind (ref_read me) (\<lambda>fake.
     if 0 \<le> i \<and> i < int (length (fm_ArgsForCall fake)) then go_ret (fm_ArgsForCall fake ! nat i) else go_panic IndexOutOfRange))"

definition fake_Returns_on :: "('w, ('s, 'a, 'r) fake_method) ref \<Rightarrow> 'r \<Rightarrow> ('w, unit) io" where
  "fake_Returns_on me result = locking (mutex_of me)
     (go_bind (ref_modify me (\<lambda>fake. fake\<lparr>fm_Stub := None\<rparr>)) (\<lambda>_.
      ref_modify me (\<lambda>fake. fake\<lparr>fm_Returns := result\<rparr>)))"

definition fake_ReturnsOnCall_on :: "('w, ('s, 'a, 'r) fake_method) ref \<Rightarrow> int \<Rightarrow> 'r \<Rightarrow> ('w, unit) io" where
  "fake_ReturnsOnCall_on me i result =
     (let table = field_ref fm_ReturnsOnCall fm_ReturnsOnCall_update me in
      locking (mutex_of me)
        (go_bind (ref_modify me (\<lambda>fake. fake\<lparr>fm_Stub := None\<rparr>)) (\<lambda>_.
         go_bind (map_make table) (\<lambda>_.
         map_assign table i result))))"

text \<open>The operations on the world of one method, from which those of the fakes are made.\<close>

definition fake_call :: "string \<Rightarrow> ('a \<Rightarrow> ('x, 'lw) any list) \<Rightarrow> 'a \<Rightarrow> (('s, 'a, 'r, 'x, 'lw) method_world, 'r) io" where
  "fake_call = fake_call_on state_ref method_ref log_ref"

definition fake_call_void :: "string \<Rightarrow> ('a \<Rightarrow> ('x, 'lw) any list) \<Rightarrow> 'a \<Rightarrow> (('s, 'a, unit, 'x, 'lw) method_world, unit) io" where
  "fake_call_void = fake_call_void_on state_ref method_ref log_ref"

definition fake_CallCount :: "(('s, 'a, 'r, 'x, 'lw) method_world, int) io" where
  "fake_CallCount = fake_CallCount_on method_ref"

definition fake_Calls :: "('a \<Rightarrow> ('s, 'r) io) option \<Rightarrow> (('s, 'a, 'r, 'x, 'lw) method_world, unit) io" where
  "fake_Calls = fake_Calls_on method_ref"

definition fake_ArgsForCall :: "int \<Rightarrow> (('s, 'a, 'r, 'x, 'lw) method_world, 'a) io" where
  "fake_ArgsForCall = fake_ArgsForCall_on method_ref"

definition fake_Returns :: "'r \<Rightarrow> (('s, 'a, 'r, 'x, 'lw) method_world, unit) io" where
  "fake_Returns = fake_Returns_on method_ref"

definition fake_ReturnsOnCall :: "int \<Rightarrow> 'r \<Rightarrow> (('s, 'a, 'r, 'x, 'lw) method_world, unit) io" where
  "fake_ReturnsOnCall = fake_ReturnsOnCall_on method_ref"

text \<open>Invocations holds the read locks of the log and of every method while it copies the log; \<open>mutexes\<close> lists the latter.\<close>

definition fake_Invocations :: "('w, mutex) ref list \<Rightarrow> ('w, ('x, 'lw) fake_log) ref \<Rightarrow> ('w, string \<rightharpoonup> ('x, 'lw) any list list) io" where
  "fake_Invocations mutexes l =
     rlocking (field_ref fl_invocationsMutex fl_invocationsMutex_update l)
       (foldr rlocking mutexes (go_bind (ref_read l) (\<lambda>log. go_ret (map_index (fl_invocations log)))))"

text \<open>
  A fake is a record with a field for each method and one for the log; its code runs on the state of the test and that
  record. \<open>fake_part\<close> is where the code of one method runs.
\<close>

definition fake_ref :: "('s \<times> 'f, 'f) ref" where
  [go_simps]: "fake_ref = \<lparr>ref_get = snd, ref_put = (\<lambda>f w. (fst w, f))\<rparr>"

definition fake_part :: "('f \<Rightarrow> ('s, 'a, 'r) fake_method) \<Rightarrow> ((('s, 'a, 'r) fake_method \<Rightarrow> ('s, 'a, 'r) fake_method) \<Rightarrow> 'f \<Rightarrow> 'f)
    \<Rightarrow> ('f \<Rightarrow> ('x, 'lw) fake_log) \<Rightarrow> ((('x, 'lw) fake_log \<Rightarrow> ('x, 'lw) fake_log) \<Rightarrow> 'f \<Rightarrow> 'f)
    \<Rightarrow> ('s \<times> 'f, ('s, 'a, 'r, 'x, 'lw) method_world) ref" where
  "fake_part m m_update log log_update =
     \<lparr>ref_get = (\<lambda>(s, f). (s, m f, log f)),
      ref_put = (\<lambda>(s', m', l') (s, f). (s', log_update (\<lambda>_. l') (m_update (\<lambda>_. m') f)))\<rparr>"

text \<open>A pair of a value and an error, as the callers of the interfaces read it: the value counts only if the error is nil.\<close>

definition as_res :: "'a \<times> go_error option \<Rightarrow> 'a res" where
  "as_res = (\<lambda>(x, err). case err of Some e \<Rightarrow> Inl e | None \<Rightarrow> Inr x)"

section \<open>What the operations do\<close>

text \<open>No mutex is held.\<close>

definition idle :: "('s, 'a, 'r, 'x, 'lw) method_world \<Rightarrow> bool" where
  "idle = (\<lambda>(s, m, l). fm_Mutex m = mutex_zero \<and> fl_invocationsMutex l = mutex_zero)"

definition log_call :: "string \<Rightarrow> ('x, 'lw) any list \<Rightarrow> ('x, 'lw) fake_log \<Rightarrow> ('x, 'lw) fake_log" where
  "log_call key args l = l\<lparr>fl_invocations := Some ((\<lambda>k. map_index (fl_invocations l) k)
     (key \<mapsto> (case map_index (fl_invocations l) key of None \<Rightarrow> [] | Some calls \<Rightarrow> calls) @ [args]))\<rparr>"

lemmas fake_simps = mutex_defs go_simps Let_def idle_def mutex_zero_def map_make_def map_assign_def map_index_def

lemma fake_CallCount_run: "idle (s, m, l) \<Longrightarrow> fake_CallCount (s, m, l) = (Ret (int (length (fm_ArgsForCall m))), (s, m, l))"
  by (cases m) (simp add: fake_CallCount_def fake_CallCount_on_def fake_simps)

lemma fake_ArgsForCall_run: "idle (s, m, l) \<Longrightarrow> fake_ArgsForCall i (s, m, l) =
   (if 0 \<le> i \<and> i < int (length (fm_ArgsForCall m)) then Ret (fm_ArgsForCall m ! nat i) else Panic IndexOutOfRange, (s, m, l))"
  by (cases m) (simp add: fake_ArgsForCall_def fake_ArgsForCall_on_def fake_simps)

lemma fake_Calls_run: "idle (s, m, l) \<Longrightarrow> fake_Calls stub (s, m, l) = (Ret (), (s, m\<lparr>fm_Stub := stub\<rparr>, l))"
  by (cases m) (simp add: fake_Calls_def fake_Calls_on_def fake_simps)

lemma fake_Returns_run: "idle (s, m, l) \<Longrightarrow> fake_Returns r (s, m, l) = (Ret (), (s, m\<lparr>fm_Stub := None, fm_Returns := r\<rparr>, l))"
  by (cases m) (simp add: fake_Returns_def fake_Returns_on_def fake_simps)

lemma fake_ReturnsOnCall_run: "idle (s, m, l) \<Longrightarrow> fake_ReturnsOnCall i r (s, m, l) =
   (Ret (), (s, m\<lparr>fm_Stub := None, fm_ReturnsOnCall := Some ((map_index (fm_ReturnsOnCall m))(i \<mapsto> r))\<rparr>, l))"
  by (cases m; cases "fm_ReturnsOnCall m") (auto simp: fake_ReturnsOnCall_def fake_ReturnsOnCall_on_def fake_simps fun_eq_iff)

lemma recordInvocation_run: "fl_invocationsMutex l = mutex_zero \<Longrightarrow>
   fake_recordInvocation log_ref key args (s, m, l) = (Ret (), (s, m, log_call key args l))"
  by (cases l; cases "fl_invocations l") (auto simp: fake_recordInvocation_def log_call_def fake_simps fun_eq_iff)

lemma fake_call_run: "idle (s, m, l) \<Longrightarrow> fake_call key enc a (s, m, l) =
   (let m' = m\<lparr>fm_ArgsForCall := fm_ArgsForCall m @ [a]\<rparr>; l' = log_call key (enc a) l in
    case fm_Stub m of
      Some f \<Rightarrow> (case f a s of (r, s') \<Rightarrow> (r, (s', m', l')))
    | None \<Rightarrow> (Ret (case map_index (fm_ReturnsOnCall m) (int (length (fm_ArgsForCall m))) of Some r \<Rightarrow> r | None \<Rightarrow> fm_Returns m), (s, m', l')))"
  by (cases m)
     (simp add: fake_call_def fake_call_on_def recordInvocation_run [unfolded mutex_zero_def log_ref_def] mutex_defs go_simps Let_def idle_def mutex_zero_def zoom_def
      split: option.split prod.split)

lemma fake_call_void_run: "idle (s, m, l) \<Longrightarrow> fake_call_void key enc a (s, m, l) =
   (let m' = m\<lparr>fm_ArgsForCall := fm_ArgsForCall m @ [a]\<rparr>; l' = log_call key (enc a) l in
    case fm_Stub m of
      Some f \<Rightarrow> (case f a s of (r, s') \<Rightarrow> (r, (s', m', l')))
    | None \<Rightarrow> (Ret (), (s, m', l')))"
  by (cases m; cases "fm_Stub m")
     (simp_all add: fake_call_void_def fake_call_void_on_def recordInvocation_run [unfolded mutex_zero_def log_ref_def] mutex_defs go_simps Let_def idle_def mutex_zero_def zoom_def
      split: option.split prod.split)

end
