(* ===== verification/Fake_Contract.thy ===== *)
theory Fake_Contract
  imports Fake_Method
begin

text \<open>
  What a fake promises of one of its methods, as interfaces over an arbitrary world: \<open>counted\<close> (calls are recorded in
  order and answered as planned), \<open>inspected\<close> (the arguments of a call can be read back) and \<open>scripted\<close> (answers can be
  planned for all calls or for particular ones). The methods of the five fakes are instances of these interfaces, by the
  one theorem \<open>method_contract\<close>; what a test relies on is proved once in the interfaces.
\<close>

section \<open>Sequences of calls\<close>

fun go_each :: "('a \<Rightarrow> ('w, 'r) io) \<Rightarrow> 'a list \<Rightarrow> ('w, 'r list) io" where
  "go_each f [] = go_ret []"
| "go_each f (a # as) = go_bind (f a) (\<lambda>r. go_bind (go_each f as) (\<lambda>rs. go_ret (r # rs)))"

section \<open>The interfaces\<close>

text \<open>
  \<open>ready\<close> says that no mutex of the fake is held, \<open>answer\<close> is what call number \<open>i\<close> will return when there is no stub,
  \<open>planned\<close> are the calls with an answer of their own, and \<open>others\<close> is the state of the other methods.
\<close>

locale counted =
  fixes call :: "'a \<Rightarrow> ('w, 'r) io" and callCount :: "('w, int) io" and calls :: "('a \<Rightarrow> ('s, 'r) io) option \<Rightarrow> ('w, unit) io"
    and ready :: "'w \<Rightarrow> bool" and state :: "'w \<Rightarrow> 's" and history :: "'w \<Rightarrow> 'a list" and stub :: "'w \<Rightarrow> ('a \<Rightarrow> ('s, 'r) io) option"
    and answer :: "'w \<Rightarrow> int \<Rightarrow> 'r" and others :: "'w \<Rightarrow> 'o"
  assumes callCount_run: "ready w \<Longrightarrow> callCount w = (Ret (int (length (history w))), w)"
    and call_run: "ready w \<Longrightarrow> stub w = None \<Longrightarrow> \<exists>w'. call a w = (Ret (answer w (int (length (history w)))), w')
      \<and> ready w' \<and> stub w' = None \<and> state w' = state w \<and> history w' = history w @ [a] \<and> answer w' = answer w \<and> others w' = others w"
    and stub_run: "ready w \<Longrightarrow> stub w = Some f \<Longrightarrow> \<exists>w'. call a w = (fst (f a (state w)), w')
      \<and> ready w' \<and> stub w' = stub w \<and> state w' = snd (f a (state w)) \<and> history w' = history w @ [a] \<and> answer w' = answer w
      \<and> others w' = others w"
    and calls_run: "ready w \<Longrightarrow> \<exists>w'. calls g w = (Ret (), w') \<and> ready w' \<and> stub w' = g \<and> state w' = state w
      \<and> history w' = history w \<and> answer w' = answer w \<and> others w' = others w"
begin

lemma each_run:
  "ready w \<Longrightarrow> stub w = None \<Longrightarrow> \<exists>w'. go_each call as w = (Ret (map (\<lambda>i. answer w (int (length (history w)) + int i)) [0..<length as]), w')
     \<and> ready w' \<and> stub w' = None \<and> state w' = state w \<and> history w' = history w @ as \<and> answer w' = answer w \<and> others w' = others w"
proof (induction "as" arbitrary: w)
  case (Cons a "as")
  from call_run [OF Cons.prems] obtain w1 where c: "call a w = (Ret (answer w (int (length (history w)))), w1)"
    and w1: "ready w1" "stub w1 = None" "state w1 = state w" "history w1 = history w @ [a]" "answer w1 = answer w" "others w1 = others w"
    by blast
  from Cons.IH [OF w1(1,2)] obtain w2 where e: "go_each call as w1 = (Ret (map (\<lambda>i. answer w1 (int (length (history w1)) + int i)) [0..<length as]), w2)"
    and w2: "ready w2" "stub w2 = None" "state w2 = state w1" "history w2 = history w1 @ as" "answer w2 = answer w1" "others w2 = others w1"
    by blast
  have m: "map (\<lambda>i. answer w (int (length (history w)) + int i)) [0..<length (a # as)]
      = answer w (int (length (history w))) # map (\<lambda>i. answer w1 (int (length (history w1)) + int i)) [0..<length as]"
    by (subst upt_conv_Cons) (simp_all add: w1 map_Suc_upt [symmetric] algebra_simps del: upt_Suc map_Suc_upt)
  show ?case
    unfolding m using c e w1 w2 by simp
qed simp

end

locale inspected = counted call callCount calls ready state history stub answer others
  for call :: "'a \<Rightarrow> ('w, 'r) io" and callCount and calls :: "('a \<Rightarrow> ('s, 'r) io) option \<Rightarrow> ('w, unit) io" and ready state history stub answer and others :: "'w \<Rightarrow> 'o" +
  fixes argsForCall :: "int \<Rightarrow> ('w, 'a) io"
  assumes argsForCall_run: "ready w \<Longrightarrow> argsForCall i w =
      (if 0 \<le> i \<and> i < int (length (history w)) then Ret (history w ! nat i) else Panic IndexOutOfRange, w)"
begin

text \<open>After a sequence of calls on a fresh method the arguments of each can be read back, and no others.\<close>

lemma read_back:
  assumes "ready w" and "stub w = None" and "history w = []" and "go_each call as w = (r, w')"
  shows "callCount w' = (Ret (int (length as)), w') \<and> (\<forall>i < length as. argsForCall (int i) w' = (Ret (as ! i), w'))
    \<and> argsForCall (int (length as)) w' = (Panic IndexOutOfRange, w') \<and> others w' = others w"
proof -
  from each_run [OF assms(1,2), of "as"] assms(3,4) have "ready w'" "history w' = as" "others w' = others w" by auto
  then show ?thesis by (simp add: callCount_run argsForCall_run)
qed

end

locale scripted = counted call callCount calls ready state history stub answer others
  for call :: "'a \<Rightarrow> ('w, 'r) io" and callCount and calls :: "('a \<Rightarrow> ('s, 'r) io) option \<Rightarrow> ('w, unit) io" and ready state history stub answer and others :: "'w \<Rightarrow> 'o" +
  fixes returns :: "'r \<Rightarrow> ('w, unit) io" and returnsOnCall :: "int \<Rightarrow> 'r \<Rightarrow> ('w, unit) io" and planned :: "'w \<Rightarrow> int set"
  assumes returns_run: "ready w \<Longrightarrow> \<exists>w'. returns r w = (Ret (), w') \<and> ready w' \<and> stub w' = None \<and> state w' = state w \<and> history w' = history w
      \<and> planned w' = planned w \<and> (\<forall>i. answer w' i = (if i \<in> planned w then answer w i else r)) \<and> others w' = others w"
    and returnsOnCall_run: "ready w \<Longrightarrow> \<exists>w'. returnsOnCall i r w = (Ret (), w') \<and> ready w' \<and> stub w' = None \<and> state w' = state w
      \<and> history w' = history w \<and> planned w' = insert i (planned w) \<and> answer w' = (answer w)(i := r) \<and> others w' = others w"
begin

text \<open>A list of answers planned one by one, for the calls from number \<open>n\<close> on.\<close>

lemma plan_run:
  "ready w \<Longrightarrow> rs \<noteq> [] \<Longrightarrow> \<exists>w'. go_each (\<lambda>(i, r). returnsOnCall i r) (zip (map int [n..<n + length rs]) rs) w = (Ret (map (\<lambda>_. ()) rs), w')
     \<and> ready w' \<and> stub w' = None \<and> history w' = history w \<and> others w' = others w
     \<and> (\<forall>i. answer w' (int i) = (if n \<le> i \<and> i < n + length rs then rs ! (i - n) else answer w (int i)))"
proof (induction rs arbitrary: n w)
  case (Cons r rs)
  from returnsOnCall_run [OF Cons.prems(1), of "int n" r] obtain w1 where c: "returnsOnCall (int n) r w = (Ret (), w1)"
    and w1: "ready w1" "stub w1 = None" "history w1 = history w" "answer w1 = (answer w)(int n := r)" "others w1 = others w"
    by blast
  show ?case
  proof (cases "rs = []")
    case True
    with c w1 show ?thesis by (auto simp: upt_conv_Cons less_Suc_eq)
  next
    case False
    from Cons.IH [OF w1(1) False, of "Suc n"] obtain w2
      where e: "go_each (\<lambda>(i, r). returnsOnCall i r) (zip (map int [Suc n..<Suc n + length rs]) rs) w1 = (Ret (map (\<lambda>_. ()) rs), w2)"
        and w2: "ready w2" "stub w2 = None" "history w2 = history w1" "others w2 = others w1"
        and a: "\<forall>i. answer w2 (int i) = (if Suc n \<le> i \<and> i < Suc n + length rs then rs ! (i - Suc n) else answer w1 (int i))"
      by blast
    have z: "zip (map int [n..<n + length (r # rs)]) (r # rs) = (int n, r) # zip (map int [Suc n..<Suc n + length rs]) rs"
      by (simp add: upt_conv_Cons del: upt_Suc)
    have "answer w2 (int i) = (if n \<le> i \<and> i < n + length (r # rs) then (r # rs) ! (i - n) else answer w (int i))" for i
      using a w1(4) by (auto simp: nth_Cons' Suc_le_eq)
    then show ?thesis unfolding z using c e w1 w2 by auto
  qed
qed simp

text \<open>Planned answers are given in order, then the default.\<close>

lemma follows_plan:
  assumes "ready w" and "history w = []" and "rs \<noteq> []"
    and "go_each (\<lambda>(i, r). returnsOnCall i r) (zip (map int [0..<length rs]) rs) w = (Ret u, w1)" and "length as = length rs"
  shows "\<exists>w2. go_each call as w1 = (Ret rs, w2) \<and> history w2 = as \<and> others w2 = others w"
proof -
  from plan_run [OF assms(1,3), of 0] assms(2,4) have w1: "ready w1" "stub w1 = None" "history w1 = []" "others w1 = others w"
    and a: "\<forall>i. answer w1 (int i) = (if i < length rs then rs ! i else answer w (int i))" by auto
  have "map (\<lambda>i. answer w1 (int (length (history w1)) + int i)) [0..<length as] = rs"
    using a w1(3) assms(5) by (auto intro: nth_equalityI)
  with each_run [OF w1(1,2), of "as"] w1(3,4) show ?thesis by auto
qed

end

section \<open>The generated code keeps the contract\<close>

text \<open>Where the state of a method is: a part of the world with the laws of a field.\<close>

definition located :: "('w \<Rightarrow> bool) \<Rightarrow> ('w \<Rightarrow> 'o) \<Rightarrow> ('w, ('s, 'a, 'r, 'x, 'lw) method_world) ref \<Rightarrow> bool" where
  "located ready others p \<longleftrightarrow>
     (\<forall>w x. ref_get p (ref_put p x w) = x \<and> others (ref_put p x w) = others w)
     \<and> (\<forall>w. ref_put p (ref_get p w) w = w)
     \<and> (\<forall>w. ready w \<longrightarrow> idle (ref_get p w))
     \<and> (\<forall>w x. ready w \<longrightarrow> idle x \<longrightarrow> ready (ref_put p x w))"

definition answer_of :: "('s, 'a, 'r) fake_method \<Rightarrow> int \<Rightarrow> 'r" where
  "answer_of m i = (case map_index (fm_ReturnsOnCall m) i of Some r \<Rightarrow> r | None \<Rightarrow> fm_Returns m)"

abbreviation state_at :: "('w, ('s, 'a, 'r, 'x, 'lw) method_world) ref \<Rightarrow> 'w \<Rightarrow> 's" where
  "state_at p w \<equiv> fst (ref_get p w)"

abbreviation method_at :: "('w, ('s, 'a, 'r, 'x, 'lw) method_world) ref \<Rightarrow> 'w \<Rightarrow> ('s, 'a, 'r) fake_method" where
  "method_at p w \<equiv> fst (snd (ref_get p w))"

lemma locatedD:
  assumes "located ready others p" and "ready w"
  shows "\<exists>s m l. ref_get p w = (s, m, l) \<and> idle (s, m, l)"
    and "idle x \<Longrightarrow> ready (ref_put p x w)" and "ref_get p (ref_put p x w) = x" and "others (ref_put p x w) = others w"
    and "ref_put p (ref_get p w) w = w"
  using assms unfolding located_def by (metis prod.exhaust, blast+)

lemma idle_log_call: "idle (s, m, l) \<Longrightarrow> fm_Mutex m' = fm_Mutex m \<Longrightarrow> idle (s', m', log_call k as l)"
  by (simp add: idle_def log_call_def)

lemma idle_method: "idle (s, m, l) \<Longrightarrow> fm_Mutex m' = fm_Mutex m \<Longrightarrow> idle (s', m', l)"
  by (simp add: idle_def)

text \<open>A call that behaves like \<^const>\<open>fake_call\<close> on an idle method.\<close>

lemma counted_by:
  assumes loc: "located ready others p"
    and body: "\<And>s m l a. idle (s, m, l) \<Longrightarrow> body a (s, m, l) =
      (let m' = m\<lparr>fm_ArgsForCall := fm_ArgsForCall m @ [a]\<rparr>; l' = log_call key (enc a) l in
       case fm_Stub m of
         Some f \<Rightarrow> (case f a s of (r, s') \<Rightarrow> (r, (s', m', l')))
       | None \<Rightarrow> (Ret (answer_of m (int (length (fm_ArgsForCall m)))), (s, m', l')))"
  shows "counted (\<lambda>a. zoom p (body a)) (zoom p fake_CallCount) (\<lambda>f. zoom p (fake_Calls f)) ready (state_at p)
    (\<lambda>w. fm_ArgsForCall (method_at p w)) (\<lambda>w. fm_Stub (method_at p w)) (\<lambda>w. answer_of (method_at p w)) others"
proof (rule counted.intro)
  fix w a f
  assume w: "ready w"
  note L = locatedD [OF loc w]
  from L(1) obtain s m l where g: "ref_get p w = (s, m, l)" and i: "idle (s, m, l)" by blast
  show "zoom p fake_CallCount w = (Ret (int (length (fm_ArgsForCall (method_at p w)))), w)"
    using L(5) by (simp add: zoom_def g fake_CallCount_run [OF i])
  show "\<exists>w'. zoom p (fake_Calls f) w = (Ret (), w') \<and> ready w' \<and> fm_Stub (method_at p w') = f \<and> state_at p w' = state_at p w
      \<and> fm_ArgsForCall (method_at p w') = fm_ArgsForCall (method_at p w) \<and> answer_of (method_at p w') = answer_of (method_at p w) \<and> others w' = others w"
    by (simp add: zoom_def g fake_Calls_run [OF i] L(2-4) idle_method [OF i] answer_of_def fun_eq_iff split: option.split)
  show "\<exists>w'. zoom p (body a) w = (Ret (answer_of (method_at p w) (int (length (fm_ArgsForCall (method_at p w))))), w')
      \<and> ready w' \<and> fm_Stub (method_at p w') = None \<and> state_at p w' = state_at p w
      \<and> fm_ArgsForCall (method_at p w') = fm_ArgsForCall (method_at p w) @ [a] \<and> answer_of (method_at p w') = answer_of (method_at p w) \<and> others w' = others w"
    if "fm_Stub (method_at p w) = None"
    using that by (simp add: zoom_def g body [OF i] Let_def L(2-4) idle_log_call [OF i] answer_of_def fun_eq_iff split: option.split)
  show "\<exists>w'. zoom p (body a) w = (fst (h a (state_at p w)), w') \<and> ready w' \<and> fm_Stub (method_at p w') = fm_Stub (method_at p w)
      \<and> state_at p w' = snd (h a (state_at p w)) \<and> fm_ArgsForCall (method_at p w') = fm_ArgsForCall (method_at p w) @ [a]
      \<and> answer_of (method_at p w') = answer_of (method_at p w) \<and> others w' = others w"
    if "fm_Stub (method_at p w) = Some h" for h
    using that by (cases "h a s") (simp add: zoom_def g body [OF i] Let_def L(2-4) idle_log_call [OF i] answer_of_def fun_eq_iff split: option.split)
qed

lemma method_counted:
  assumes "located ready others p"
  shows "counted (\<lambda>a. zoom p (fake_call key enc a)) (zoom p fake_CallCount) (\<lambda>f. zoom p (fake_Calls f)) ready (state_at p)
    (\<lambda>w. fm_ArgsForCall (method_at p w)) (\<lambda>w. fm_Stub (method_at p w)) (\<lambda>w. answer_of (method_at p w)) others"
  by (rule counted_by [OF assms, where key = key and enc = enc]) (simp add: fake_call_run answer_of_def Let_def split: option.split)

lemma method_counted_void:
  assumes "located ready others p"
  shows "counted (\<lambda>a. zoom p (fake_call_void key enc a)) (zoom p fake_CallCount) (\<lambda>f. zoom p (fake_Calls f)) ready (state_at p)
    (\<lambda>w. fm_ArgsForCall (method_at p w)) (\<lambda>w. fm_Stub (method_at p w)) (\<lambda>w. answer_of (method_at p w)) others"
  by (rule counted_by [OF assms, where key = key and enc = enc]) (simp add: fake_call_void_run Let_def split: option.split)

lemma method_inspected:
  assumes loc: "located ready others p"
    and "counted call (zoom p fake_CallCount) (\<lambda>f. zoom p (fake_Calls f)) ready (state_at p)
      (\<lambda>w. fm_ArgsForCall (method_at p w)) (\<lambda>w. fm_Stub (method_at p w)) (\<lambda>w. answer_of (method_at p w)) others"
  shows "inspected call (zoom p fake_CallCount) (\<lambda>f. zoom p (fake_Calls f)) ready (state_at p)
    (\<lambda>w. fm_ArgsForCall (method_at p w)) (\<lambda>w. fm_Stub (method_at p w)) (\<lambda>w. answer_of (method_at p w)) others (\<lambda>i. zoom p (fake_ArgsForCall i))"
proof (intro inspected.intro inspected_axioms.intro assms(2))
  fix w i
  assume w: "ready w"
  note L = locatedD [OF loc w]
  from L(1) obtain s m l where g: "ref_get p w = (s, m, l)" and i: "idle (s, m, l)" by blast
  show "zoom p (fake_ArgsForCall i) w = (if 0 \<le> i \<and> i < int (length (fm_ArgsForCall (method_at p w)))
      then Ret (fm_ArgsForCall (method_at p w) ! nat i) else Panic IndexOutOfRange, w)"
    using L(5) by (simp add: zoom_def g fake_ArgsForCall_run [OF i])
qed

lemma method_scripted:
  assumes loc: "located ready others p"
    and "counted call (zoom p fake_CallCount) (\<lambda>f. zoom p (fake_Calls f)) ready (state_at p)
      (\<lambda>w. fm_ArgsForCall (method_at p w)) (\<lambda>w. fm_Stub (method_at p w)) (\<lambda>w. answer_of (method_at p w)) others"
  shows "scripted call (zoom p fake_CallCount) (\<lambda>f. zoom p (fake_Calls f)) ready (state_at p)
    (\<lambda>w. fm_ArgsForCall (method_at p w)) (\<lambda>w. fm_Stub (method_at p w)) (\<lambda>w. answer_of (method_at p w)) others
    (\<lambda>r. zoom p (fake_Returns r)) (\<lambda>i r. zoom p (fake_ReturnsOnCall i r)) (\<lambda>w. dom (map_index (fm_ReturnsOnCall (method_at p w))))"
proof (intro scripted.intro scripted_axioms.intro assms(2))
  fix w i r
  assume w: "ready w"
  note L = locatedD [OF loc w]
  from L(1) obtain s m l where g: "ref_get p w = (s, m, l)" and idl: "idle (s, m, l)" by blast
  let ?P = "\<lambda>w. dom (map_index (fm_ReturnsOnCall (method_at p w)))"
  show "\<exists>w'. zoom p (fake_Returns r) w = (Ret (), w') \<and> ready w' \<and> fm_Stub (method_at p w') = None \<and> state_at p w' = state_at p w
      \<and> fm_ArgsForCall (method_at p w') = fm_ArgsForCall (method_at p w) \<and> ?P w' = ?P w
      \<and> (\<forall>i. answer_of (method_at p w') i = (if i \<in> ?P w then answer_of (method_at p w) i else r)) \<and> others w' = others w"
    by (auto simp: zoom_def g fake_Returns_run [OF idl] L(2-4) idle_method [OF idl] answer_of_def split: option.split)
  show "\<exists>w'. zoom p (fake_ReturnsOnCall i r) w = (Ret (), w') \<and> ready w' \<and> fm_Stub (method_at p w') = None \<and> state_at p w' = state_at p w
      \<and> fm_ArgsForCall (method_at p w') = fm_ArgsForCall (method_at p w) \<and> ?P w' = insert i (?P w)
      \<and> answer_of (method_at p w') = (answer_of (method_at p w))(i := r) \<and> others w' = others w"
    by (auto simp: zoom_def g fake_ReturnsOnCall_run [OF idl] L(2-4) idle_method [OF idl] answer_of_def map_index_def fun_eq_iff split: option.splits)
qed

section \<open>The log agrees with the recorded calls\<close>

definition logged :: "string \<Rightarrow> ('a \<Rightarrow> ('x, 'lw) any list) \<Rightarrow> ('s, 'a, 'r) fake_method \<Rightarrow> ('x, 'lw) fake_log \<Rightarrow> bool" where
  "logged key enc m l \<longleftrightarrow> (case map_index (fl_invocations l) key of None \<Rightarrow> [] | Some calls \<Rightarrow> calls) = map enc (fm_ArgsForCall m)"

text \<open>The calls of a method in a copy of the log.\<close>

definition entries :: "(string \<rightharpoonup> ('x, 'lw) any list list) \<Rightarrow> string \<Rightarrow> ('x, 'lw) any list list" where
  "entries log key = (case log key of None \<Rightarrow> [] | Some calls \<Rightarrow> calls)"

lemma logged_simps [simp]:
  "logged key enc (m\<lparr>fm_ArgsForCall := fm_ArgsForCall m @ [a]\<rparr>) (log_call key (enc a) l) \<longleftrightarrow> logged key enc m l"
  "key' \<noteq> key \<Longrightarrow> logged key' enc m (log_call key x l) \<longleftrightarrow> logged key' enc m l"
  "logged key enc (m\<lparr>fm_Stub := f\<rparr>) l \<longleftrightarrow> logged key enc m l"
  "logged key enc (m\<lparr>fm_Returns := r\<rparr>) l \<longleftrightarrow> logged key enc m l"
  "logged key enc (m\<lparr>fm_ReturnsOnCall := t\<rparr>) l \<longleftrightarrow> logged key enc m l"
  "logged key enc (method_zero z) log_zero"
  by (simp_all add: logged_def log_call_def map_index_def method_zero_def log_zero_def)

lemma mutex_log_call [simp]: "fl_invocationsMutex (log_call key x l) = fl_invocationsMutex l"
  by (simp add: log_call_def)

lemma mutex_of_zero [simp]: "fm_Mutex (method_zero z) = mutex_zero" "fl_invocationsMutex log_zero = mutex_zero"
  by (simp_all add: method_zero_def log_zero_def)

text \<open>The world after an operation on an idle method; a stub decides only the new state of the test.\<close>

lemma after_operation:
  assumes "idle (s, m, l)" and "ref_get p w = (s, m, l)"
  shows "\<exists>s'. snd (zoom p (fake_call key enc a) w) = ref_put p (s', m\<lparr>fm_ArgsForCall := fm_ArgsForCall m @ [a]\<rparr>, log_call key (enc a) l) w"
    and "snd (zoom p fake_CallCount w) = ref_put p (s, m, l) w"
    and "snd (zoom p (fake_ArgsForCall i) w) = ref_put p (s, m, l) w"
    and "snd (zoom p (fake_Calls f) w) = ref_put p (s, m\<lparr>fm_Stub := f\<rparr>, l) w"
    and "snd (zoom p (fake_Returns r) w) = ref_put p (s, m\<lparr>fm_Stub := None, fm_Returns := r\<rparr>, l) w"
    and "snd (zoom p (fake_ReturnsOnCall i r) w)
      = ref_put p (s, m\<lparr>fm_Stub := None, fm_ReturnsOnCall := Some ((map_index (fm_ReturnsOnCall m))(i \<mapsto> r))\<rparr>, l) w"
  by (auto simp: zoom_def assms(2) fake_call_run [OF assms(1)] fake_CallCount_run [OF assms(1)] fake_ArgsForCall_run [OF assms(1)]
      fake_Calls_run [OF assms(1)] fake_Returns_run [OF assms(1)] fake_ReturnsOnCall_run [OF assms(1)] Let_def split: option.split prod.split)

lemma after_call_void:
  assumes "idle (s, m, l)" and "ref_get p w = (s, m, l)"
  shows "\<exists>s'. snd (zoom p (fake_call_void key enc a) w) = ref_put p (s', m\<lparr>fm_ArgsForCall := fm_ArgsForCall m @ [a]\<rparr>, log_call key (enc a) l) w"
  by (auto simp: zoom_def assms(2) fake_call_void_run [OF assms(1)] Let_def split: option.split prod.split)

text \<open>
  A condition on the world that speaks only of mutexes being free and of the log is kept by every operation of a method.
\<close>

definition upheld :: "('w \<Rightarrow> bool) \<Rightarrow> string \<Rightarrow> ('a \<Rightarrow> ('x, 'lw) any list) \<Rightarrow> ('w, ('s, 'a, 'r, 'x, 'lw) method_world) ref \<Rightarrow> bool" where
  "upheld I key enc p \<longleftrightarrow> (\<forall>w. I w \<longrightarrow> idle (ref_get p w)
     \<and> (\<forall>s' a. I (ref_put p (s', (method_at p w)\<lparr>fm_ArgsForCall := fm_ArgsForCall (method_at p w) @ [a]\<rparr>,
                           log_call key (enc a) (snd (snd (ref_get p w)))) w))
     \<and> (\<forall>s' m'. fm_Mutex m' = mutex_zero \<longrightarrow> fm_ArgsForCall m' = fm_ArgsForCall (method_at p w) \<longrightarrow>
          I (ref_put p (s', m', snd (snd (ref_get p w))) w)))"

lemma upheld_steps:
  assumes "upheld I key enc p" and "I w"
  shows "I (snd (zoom p (fake_call key enc a) w))" and "I (snd (zoom p fake_CallCount w))" and "I (snd (zoom p (fake_ArgsForCall i) w))"
    and "I (snd (zoom p (fake_Calls f) w))" and "I (snd (zoom p (fake_Returns r) w))" and "I (snd (zoom p (fake_ReturnsOnCall i r) w))"
proof -
  obtain s m l where g: "ref_get p w = (s, m, l)" by (metis prod.exhaust)
  with assms have i: "idle (s, m, l)" unfolding upheld_def by metis
  then have mx: "fm_Mutex m = mutex_zero" by (simp add: idle_def)
  from assms g have c: "I (ref_put p (s', m\<lparr>fm_ArgsForCall := fm_ArgsForCall m @ [a]\<rparr>, log_call key (enc a) l) w)" for s'
    unfolding upheld_def by (metis fst_conv snd_conv)
  from assms g have o: "fm_Mutex m' = mutex_zero \<Longrightarrow> fm_ArgsForCall m' = fm_ArgsForCall m \<Longrightarrow> I (ref_put p (s', m', l) w)" for s' m'
    unfolding upheld_def by (metis fst_conv snd_conv)
  note A = after_operation [OF i g]
  from A(1) [of key enc a] c show "I (snd (zoom p (fake_call key enc a) w))" by metis
  show "I (snd (zoom p fake_CallCount w))" "I (snd (zoom p (fake_ArgsForCall i) w))" "I (snd (zoom p (fake_Calls f) w))"
    "I (snd (zoom p (fake_Returns r) w))" "I (snd (zoom p (fake_ReturnsOnCall i r) w))"
    by (simp_all add: A(2-6) o mx)
qed

lemma upheld_step_void:
  assumes "upheld I key enc p" and "I w"
  shows "I (snd (zoom p (fake_call_void key enc a) w))"
proof -
  obtain s m l where g: "ref_get p w = (s, m, l)" by (metis prod.exhaust)
  with assms have i: "idle (s, m, l)" unfolding upheld_def by metis
  then have mx: "fm_Mutex m = mutex_zero" by (simp add: idle_def)
  from assms g have c: "I (ref_put p (s', m\<lparr>fm_ArgsForCall := fm_ArgsForCall m @ [a]\<rparr>, log_call key (enc a) l) w)" for s'
    unfolding upheld_def by (metis fst_conv snd_conv)
  from after_call_void [OF i g, of key enc a] c show ?thesis by metis
qed

lemma logged_history: "fm_ArgsForCall m' = fm_ArgsForCall m \<Longrightarrow> logged key enc m' l \<longleftrightarrow> logged key enc m l"
  by (simp add: logged_def)

end
