(* ===== verification/Fake_Limiter.thy ===== *)
theory Fake_Limiter
  imports Fake_Contract
begin

text \<open>
  The fake quota limiter, src/driver/fakes/limiter.go.
\<close>

section \<open>The state\<close>

record 's FakeLimiter =
  m_GetQuotaUsed :: "('s, string, uint64 \<times> go_error option) fake_method"
  m_SetQuota :: "('s, string \<times> uint64, go_error option) fake_method"
  Limiter_log :: "(unit, unit) fake_log"

text \<open>The zero value, \<^verbatim>\<open>new(fakes.Limiter)\<close>.\<close>

definition FakeLimiter_zero :: "'s FakeLimiter" where
  "FakeLimiter_zero = \<lparr>m_GetQuotaUsed = method_zero (0, None), m_SetQuota = method_zero None, Limiter_log = log_zero\<rparr>"

definition GetQuotaUsed_part :: "('s \<times> 's FakeLimiter, ('s, string, uint64 \<times> go_error option, unit, unit) method_world) ref" where
  "GetQuotaUsed_part = fake_part m_GetQuotaUsed m_GetQuotaUsed_update Limiter_log Limiter_log_update"

definition SetQuota_part :: "('s \<times> 's FakeLimiter, ('s, string \<times> uint64, go_error option, unit, unit) method_world) ref" where
  "SetQuota_part = fake_part m_SetQuota m_SetQuota_update Limiter_log Limiter_log_update"

section \<open>The methods\<close>

definition FakeLimiter_GetQuotaUsed :: "string \<Rightarrow> ('s \<times> 's FakeLimiter, uint64 \<times> go_error option) io" where
  "FakeLimiter_GetQuotaUsed arg1 = zoom GetQuotaUsed_part (fake_call ''GetQuotaUsed'' (\<lambda>arg1. [AnyString arg1]) arg1)"

definition FakeLimiter_GetQuotaUsedCallCount :: "('s \<times> 's FakeLimiter, int) io" where
  "FakeLimiter_GetQuotaUsedCallCount = zoom GetQuotaUsed_part fake_CallCount"

definition FakeLimiter_GetQuotaUsedCalls :: "(string \<Rightarrow> ('s, uint64 \<times> go_error option) io) option \<Rightarrow> ('s \<times> 's FakeLimiter, unit) io" where
  "FakeLimiter_GetQuotaUsedCalls stub = zoom GetQuotaUsed_part (fake_Calls stub)"

definition FakeLimiter_GetQuotaUsedArgsForCall :: "int \<Rightarrow> ('s \<times> 's FakeLimiter, string) io" where
  "FakeLimiter_GetQuotaUsedArgsForCall i = zoom GetQuotaUsed_part (fake_ArgsForCall i)"

definition FakeLimiter_GetQuotaUsedReturns :: "uint64 \<Rightarrow> (go_error option) \<Rightarrow> ('s \<times> 's FakeLimiter, unit) io" where
  "FakeLimiter_GetQuotaUsedReturns result1 result2 = zoom GetQuotaUsed_part (fake_Returns (result1, result2))"

definition FakeLimiter_GetQuotaUsedReturnsOnCall :: "int \<Rightarrow> uint64 \<Rightarrow> (go_error option) \<Rightarrow> ('s \<times> 's FakeLimiter, unit) io" where
  "FakeLimiter_GetQuotaUsedReturnsOnCall i result1 result2 = zoom GetQuotaUsed_part (fake_ReturnsOnCall i (result1, result2))"

definition FakeLimiter_SetQuota :: "string \<Rightarrow> uint64 \<Rightarrow> ('s \<times> 's FakeLimiter, go_error option) io" where
  "FakeLimiter_SetQuota arg1 arg2 = zoom SetQuota_part (fake_call ''SetQuota'' (\<lambda>(arg1, arg2). [AnyString arg1, AnyUint64 arg2]) (arg1, arg2))"

definition FakeLimiter_SetQuotaCallCount :: "('s \<times> 's FakeLimiter, int) io" where
  "FakeLimiter_SetQuotaCallCount = zoom SetQuota_part fake_CallCount"

definition FakeLimiter_SetQuotaCalls :: "(string \<times> uint64 \<Rightarrow> ('s, go_error option) io) option \<Rightarrow> ('s \<times> 's FakeLimiter, unit) io" where
  "FakeLimiter_SetQuotaCalls stub = zoom SetQuota_part (fake_Calls stub)"

definition FakeLimiter_SetQuotaArgsForCall :: "int \<Rightarrow> ('s \<times> 's FakeLimiter, string \<times> uint64) io" where
  "FakeLimiter_SetQuotaArgsForCall i = zoom SetQuota_part (fake_ArgsForCall i)"

definition FakeLimiter_SetQuotaReturns :: "(go_error option) \<Rightarrow> ('s \<times> 's FakeLimiter, unit) io" where
  "FakeLimiter_SetQuotaReturns result1 = zoom SetQuota_part (fake_Returns result1)"

definition FakeLimiter_SetQuotaReturnsOnCall :: "int \<Rightarrow> (go_error option) \<Rightarrow> ('s \<times> 's FakeLimiter, unit) io" where
  "FakeLimiter_SetQuotaReturnsOnCall i result1 = zoom SetQuota_part (fake_ReturnsOnCall i result1)"

definition FakeLimiter_recordInvocation :: "string \<Rightarrow> (unit, unit) any list \<Rightarrow> ('s \<times> 's FakeLimiter, unit) io" where
  "FakeLimiter_recordInvocation key args = fake_recordInvocation (field_ref Limiter_log Limiter_log_update fake_ref) key args"

definition FakeLimiter_Invocations :: "('s \<times> 's FakeLimiter, string \<rightharpoonup> (unit, unit) any list list) io" where
  "FakeLimiter_Invocations = fake_Invocations
     [field_ref fm_Mutex fm_Mutex_update (field_ref m_GetQuotaUsed m_GetQuotaUsed_update fake_ref),
      field_ref fm_Mutex fm_Mutex_update (field_ref m_SetQuota m_SetQuota_update fake_ref)]
     (field_ref Limiter_log Limiter_log_update fake_ref)"

lemmas FakeLimiter_ops =
  FakeLimiter_GetQuotaUsed_def [abs_def] FakeLimiter_GetQuotaUsedCallCount_def FakeLimiter_GetQuotaUsedCalls_def [abs_def]
  FakeLimiter_GetQuotaUsedArgsForCall_def [abs_def] FakeLimiter_GetQuotaUsedReturns_def [abs_def] FakeLimiter_GetQuotaUsedReturnsOnCall_def [abs_def]
  FakeLimiter_SetQuota_def [abs_def] FakeLimiter_SetQuotaCallCount_def FakeLimiter_SetQuotaCalls_def [abs_def]
  FakeLimiter_SetQuotaArgsForCall_def [abs_def] FakeLimiter_SetQuotaReturns_def [abs_def] FakeLimiter_SetQuotaReturnsOnCall_def [abs_def]

section \<open>The contract\<close>

definition FakeLimiter_ready :: "'s \<times> 's FakeLimiter \<Rightarrow> bool" where
  "FakeLimiter_ready w \<longleftrightarrow>
     fm_Mutex (m_GetQuotaUsed (snd w)) = mutex_zero \<and> fm_Mutex (m_SetQuota (snd w)) = mutex_zero
     \<and> fl_invocationsMutex (Limiter_log (snd w)) = mutex_zero"

lemma FakeLimiter_parts [simp]:
  "ref_get GetQuotaUsed_part w = (fst w, m_GetQuotaUsed (snd w), Limiter_log (snd w))"
  "ref_put GetQuotaUsed_part (s, m1, l) w = (s, (snd w)\<lparr>m_GetQuotaUsed := m1, Limiter_log := l\<rparr>)"
  "ref_get SetQuota_part w = (fst w, m_SetQuota (snd w), Limiter_log (snd w))"
  "ref_put SetQuota_part (s, m2, l) w = (s, (snd w)\<lparr>m_SetQuota := m2, Limiter_log := l\<rparr>)"
  by (simp_all add: GetQuotaUsed_part_def SetQuota_part_def fake_part_def split_beta)

lemma FakeLimiter_located:
  "located FakeLimiter_ready (\<lambda>w. m_SetQuota (snd w)) GetQuotaUsed_part"
  "located FakeLimiter_ready (\<lambda>w. m_GetQuotaUsed (snd w)) SetQuota_part"
  by (simp_all add: located_def FakeLimiter_ready_def idle_def)

interpretation GetQuotaUsed_args: inspected "FakeLimiter_GetQuotaUsed" FakeLimiter_GetQuotaUsedCallCount FakeLimiter_GetQuotaUsedCalls
  FakeLimiter_ready fst "\<lambda>w. fm_ArgsForCall (m_GetQuotaUsed (snd w))" "\<lambda>w. fm_Stub (m_GetQuotaUsed (snd w))" "\<lambda>w. answer_of (m_GetQuotaUsed (snd w))"
  "\<lambda>w. m_SetQuota (snd w)"
  "FakeLimiter_GetQuotaUsedArgsForCall"
  using method_inspected [OF FakeLimiter_located(1) method_counted [OF FakeLimiter_located(1), where key = "''GetQuotaUsed''" and enc = "\<lambda>arg1. [AnyString arg1]"]]
  by (simp add: FakeLimiter_ops split_def)

interpretation GetQuotaUsed_script: scripted "FakeLimiter_GetQuotaUsed" FakeLimiter_GetQuotaUsedCallCount FakeLimiter_GetQuotaUsedCalls
  FakeLimiter_ready fst "\<lambda>w. fm_ArgsForCall (m_GetQuotaUsed (snd w))" "\<lambda>w. fm_Stub (m_GetQuotaUsed (snd w))" "\<lambda>w. answer_of (m_GetQuotaUsed (snd w))"
  "\<lambda>w. m_SetQuota (snd w)"
  "\<lambda>(result1, result2). FakeLimiter_GetQuotaUsedReturns result1 result2" "\<lambda>i (result1, result2). FakeLimiter_GetQuotaUsedReturnsOnCall i result1 result2" "\<lambda>w. dom (map_index (fm_ReturnsOnCall (m_GetQuotaUsed (snd w))))"
  using method_scripted [OF FakeLimiter_located(1) method_counted [OF FakeLimiter_located(1), where key = "''GetQuotaUsed''" and enc = "\<lambda>arg1. [AnyString arg1]"]]
  by (simp add: FakeLimiter_ops split_def)

interpretation SetQuota_args: inspected "\<lambda>(arg1, arg2). FakeLimiter_SetQuota arg1 arg2" FakeLimiter_SetQuotaCallCount FakeLimiter_SetQuotaCalls
  FakeLimiter_ready fst "\<lambda>w. fm_ArgsForCall (m_SetQuota (snd w))" "\<lambda>w. fm_Stub (m_SetQuota (snd w))" "\<lambda>w. answer_of (m_SetQuota (snd w))"
  "\<lambda>w. m_GetQuotaUsed (snd w)"
  "FakeLimiter_SetQuotaArgsForCall"
  using method_inspected [OF FakeLimiter_located(2) method_counted [OF FakeLimiter_located(2), where key = "''SetQuota''" and enc = "\<lambda>(arg1, arg2). [AnyString arg1, AnyUint64 arg2]"]]
  by (simp add: FakeLimiter_ops split_def)

interpretation SetQuota_script: scripted "\<lambda>(arg1, arg2). FakeLimiter_SetQuota arg1 arg2" FakeLimiter_SetQuotaCallCount FakeLimiter_SetQuotaCalls
  FakeLimiter_ready fst "\<lambda>w. fm_ArgsForCall (m_SetQuota (snd w))" "\<lambda>w. fm_Stub (m_SetQuota (snd w))" "\<lambda>w. answer_of (m_SetQuota (snd w))"
  "\<lambda>w. m_GetQuotaUsed (snd w)"
  "\<lambda>result1. FakeLimiter_SetQuotaReturns result1" "\<lambda>i result1. FakeLimiter_SetQuotaReturnsOnCall i result1" "\<lambda>w. dom (map_index (fm_ReturnsOnCall (m_SetQuota (snd w))))"
  using method_scripted [OF FakeLimiter_located(2) method_counted [OF FakeLimiter_located(2), where key = "''SetQuota''" and enc = "\<lambda>(arg1, arg2). [AnyString arg1, AnyUint64 arg2]"]]
  by (simp add: FakeLimiter_ops split_def)

section \<open>Reachable states\<close>

text \<open>A step is a call of any method a test or the driver can use; what it returns does not matter.\<close>

inductive FakeLimiter_step :: "'s \<times> 's FakeLimiter \<Rightarrow> 's \<times> 's FakeLimiter \<Rightarrow> bool" where
  "FakeLimiter_step w (snd (FakeLimiter_GetQuotaUsed arg1 w))"
| "FakeLimiter_step w (snd (FakeLimiter_GetQuotaUsedCallCount w))"
| "FakeLimiter_step w (snd (FakeLimiter_GetQuotaUsedCalls stub w))"
| "FakeLimiter_step w (snd (FakeLimiter_GetQuotaUsedArgsForCall i w))"
| "FakeLimiter_step w (snd (FakeLimiter_GetQuotaUsedReturns result1 result2 w))"
| "FakeLimiter_step w (snd (FakeLimiter_GetQuotaUsedReturnsOnCall i result1 result2 w))"
| "FakeLimiter_step w (snd (FakeLimiter_SetQuota arg1 arg2 w))"
| "FakeLimiter_step w (snd (FakeLimiter_SetQuotaCallCount w))"
| "FakeLimiter_step w (snd (FakeLimiter_SetQuotaCalls stub w))"
| "FakeLimiter_step w (snd (FakeLimiter_SetQuotaArgsForCall i w))"
| "FakeLimiter_step w (snd (FakeLimiter_SetQuotaReturns result1 w))"
| "FakeLimiter_step w (snd (FakeLimiter_SetQuotaReturnsOnCall i result1 w))"

definition FakeLimiter_consistent :: "'s \<times> 's FakeLimiter \<Rightarrow> bool" where
  "FakeLimiter_consistent w \<longleftrightarrow> FakeLimiter_ready w
     \<and> logged ''GetQuotaUsed'' (\<lambda>arg1. [AnyString arg1]) (m_GetQuotaUsed (snd w)) (Limiter_log (snd w))
     \<and> logged ''SetQuota'' (\<lambda>(arg1, arg2). [AnyString arg1, AnyUint64 arg2]) (m_SetQuota (snd w)) (Limiter_log (snd w))"

lemma FakeLimiter_upheld:
  "upheld FakeLimiter_consistent ''GetQuotaUsed'' (\<lambda>arg1. [AnyString arg1]) GetQuotaUsed_part"
  "upheld FakeLimiter_consistent ''SetQuota'' (\<lambda>(arg1, arg2). [AnyString arg1, AnyUint64 arg2]) SetQuota_part"
  by (simp_all add: upheld_def FakeLimiter_consistent_def FakeLimiter_ready_def idle_def logged_def log_call_def map_index_def)

lemma FakeLimiter_step_consistent: "FakeLimiter_step w w' \<Longrightarrow> FakeLimiter_consistent w \<Longrightarrow> FakeLimiter_consistent w'"
  by (induction rule: FakeLimiter_step.induct)
     (simp_all add: FakeLimiter_ops upheld_steps [OF FakeLimiter_upheld(1)] upheld_steps [OF FakeLimiter_upheld(2)])

lemma FakeLimiter_reachable_consistent: "FakeLimiter_step\<^sup>*\<^sup>* (s, FakeLimiter_zero) w \<Longrightarrow> FakeLimiter_consistent w"
proof (induction rule: rtranclp_induct)
  case base
  show ?case by (simp add: FakeLimiter_consistent_def FakeLimiter_ready_def FakeLimiter_zero_def)
qed (rule FakeLimiter_step_consistent)

lemma FakeLimiter_Invocations_run: "FakeLimiter_ready w \<Longrightarrow> FakeLimiter_Invocations w = (Ret (map_index (fl_invocations (Limiter_log (snd w)))), w)"
  by (cases w) (simp add: FakeLimiter_Invocations_def fake_Invocations_def FakeLimiter_ready_def mutex_defs go_simps mutex_zero_def)

section \<open>Planning answers\<close>

text \<open>
  Planning a result, for all calls or for one, removes a stub, keeps the calls recorded so far and the other method; a result planned
  for one call survives a later change of the default.
\<close>

theorem SetQuota_plan:
  assumes "FakeLimiter_ready w" and "int (length (fm_ArgsForCall (m_SetQuota (snd w)))) = k"
  shows "\<exists>w1 w2 w3 w4. FakeLimiter_SetQuotaReturnsOnCall (k + 1) res w = (Ret (), w1) \<and> FakeLimiter_SetQuotaReturns dflt w1 = (Ret (), w2)
    \<and> FakeLimiter_SetQuota v m w2 = (Ret (answer_of (m_SetQuota (snd w2)) k), w3) \<and> (k \<notin> dom (map_index (fm_ReturnsOnCall (m_SetQuota (snd w)))) \<longrightarrow> answer_of (m_SetQuota (snd w2)) k = dflt)
    \<and> FakeLimiter_SetQuota v' m' w3 = (Ret res, w4) \<and> FakeLimiter_SetQuotaCallCount w4 = (Ret (k + 2), w4)
    \<and> m_GetQuotaUsed (snd w4) = m_GetQuotaUsed (snd w)"
proof -
  let ?h = "\<lambda>w. fm_ArgsForCall (m_SetQuota (snd w))"
  let ?a = "\<lambda>w. answer_of (m_SetQuota (snd w))"
  from SetQuota_script.returnsOnCall_run [OF assms(1), of "k + 1" res] obtain w1
    where w1: "FakeLimiter_SetQuotaReturnsOnCall (k + 1) res w = (Ret (), w1)" "FakeLimiter_ready w1" "?h w1 = ?h w" "?a w1 = (?a w)(k + 1 := res)"
      "dom (map_index (fm_ReturnsOnCall (m_SetQuota (snd w1)))) = insert (k + 1) (dom (map_index (fm_ReturnsOnCall (m_SetQuota (snd w)))))"
      "m_GetQuotaUsed (snd w1) = m_GetQuotaUsed (snd w)" by auto
  from SetQuota_script.returns_run [OF w1(2), of dflt] w1 obtain w2
    where w2: "FakeLimiter_SetQuotaReturns dflt w1 = (Ret (), w2)" "FakeLimiter_ready w2" "fm_Stub (m_SetQuota (snd w2)) = None" "?h w2 = ?h w"
      "\<forall>i. ?a w2 i = (if i \<in> dom (map_index (fm_ReturnsOnCall (m_SetQuota (snd w1)))) then ?a w1 i else dflt)"
      "m_GetQuotaUsed (snd w2) = m_GetQuotaUsed (snd w)" by auto
  from SetQuota_args.call_run [OF w2(2,3), of "(v, m)"] w2 assms(2) obtain w3
    where w3: "FakeLimiter_SetQuota v m w2 = (Ret (?a w2 k), w3)" "FakeLimiter_ready w3" "fm_Stub (m_SetQuota (snd w3)) = None" "?h w3 = ?h w @ [(v, m)]"
      "?a w3 = ?a w2" "m_GetQuotaUsed (snd w3) = m_GetQuotaUsed (snd w)" by auto
  from SetQuota_args.call_run [OF w3(2,3), of "(v', m')"] w3 assms(2) obtain w4
    where w4: "FakeLimiter_SetQuota v' m' w3 = (Ret (?a w2 (k + 1)), w4)" "FakeLimiter_ready w4" "?h w4 = ?h w @ [(v, m), (v', m')]"
      "m_GetQuotaUsed (snd w4) = m_GetQuotaUsed (snd w)" by (auto simp: add.commute)
  have "?a w2 (k + 1) = res" "k \<notin> dom (map_index (fm_ReturnsOnCall (m_SetQuota (snd w)))) \<Longrightarrow> ?a w2 k = dflt"
    using w1(4,5) w2(5) by simp_all
  then show ?thesis
    using w1(1) w2(1) w3(1) w4 assms(2) SetQuota_args.callCount_run [OF w4(2)]
    by (intro exI [of _ w1] exI [of _ w2] exI [of _ w3] exI [of _ w4]) simp
qed

end
