(* ===== verification/Fake_PrivilegeElevator.thy ===== *)
theory Fake_PrivilegeElevator
  imports Fake_Contract
begin

text \<open>
  The fake privilege elevator, src/driver/fakes/privilege\_elevator.go.
\<close>

section \<open>The state\<close>

record 's FakePrivilegeElevator =
  m_DisableProcessPrivileges :: "('s, string list, go_error option) fake_method"
  m_EnableProcessPrivileges :: "('s, string list, go_error option) fake_method"
  PrivilegeElevator_log :: "(unit, unit) fake_log"

text \<open>The zero value, \<^verbatim>\<open>new(fakes.PrivilegeElevator)\<close>.\<close>

definition FakePrivilegeElevator_zero :: "'s FakePrivilegeElevator" where
  "FakePrivilegeElevator_zero = \<lparr>m_DisableProcessPrivileges = method_zero None, m_EnableProcessPrivileges = method_zero None, PrivilegeElevator_log = log_zero\<rparr>"

definition DisableProcessPrivileges_part :: "('s \<times> 's FakePrivilegeElevator, ('s, string list, go_error option, unit, unit) method_world) ref" where
  "DisableProcessPrivileges_part = fake_part m_DisableProcessPrivileges m_DisableProcessPrivileges_update PrivilegeElevator_log PrivilegeElevator_log_update"

definition EnableProcessPrivileges_part :: "('s \<times> 's FakePrivilegeElevator, ('s, string list, go_error option, unit, unit) method_world) ref" where
  "EnableProcessPrivileges_part = fake_part m_EnableProcessPrivileges m_EnableProcessPrivileges_update PrivilegeElevator_log PrivilegeElevator_log_update"

section \<open>The methods\<close>

definition FakePrivilegeElevator_DisableProcessPrivileges :: "(string list) \<Rightarrow> ('s \<times> 's FakePrivilegeElevator, go_error option) io" where
  "FakePrivilegeElevator_DisableProcessPrivileges arg1 = zoom DisableProcessPrivileges_part (fake_call ''DisableProcessPrivileges'' (\<lambda>arg1. [AnyStrings arg1]) arg1)"

definition FakePrivilegeElevator_DisableProcessPrivilegesCallCount :: "('s \<times> 's FakePrivilegeElevator, int) io" where
  "FakePrivilegeElevator_DisableProcessPrivilegesCallCount = zoom DisableProcessPrivileges_part fake_CallCount"

definition FakePrivilegeElevator_DisableProcessPrivilegesCalls :: "(string list \<Rightarrow> ('s, go_error option) io) option \<Rightarrow> ('s \<times> 's FakePrivilegeElevator, unit) io" where
  "FakePrivilegeElevator_DisableProcessPrivilegesCalls stub = zoom DisableProcessPrivileges_part (fake_Calls stub)"

definition FakePrivilegeElevator_DisableProcessPrivilegesArgsForCall :: "int \<Rightarrow> ('s \<times> 's FakePrivilegeElevator, string list) io" where
  "FakePrivilegeElevator_DisableProcessPrivilegesArgsForCall i = zoom DisableProcessPrivileges_part (fake_ArgsForCall i)"

definition FakePrivilegeElevator_DisableProcessPrivilegesReturns :: "(go_error option) \<Rightarrow> ('s \<times> 's FakePrivilegeElevator, unit) io" where
  "FakePrivilegeElevator_DisableProcessPrivilegesReturns result1 = zoom DisableProcessPrivileges_part (fake_Returns result1)"

definition FakePrivilegeElevator_DisableProcessPrivilegesReturnsOnCall :: "int \<Rightarrow> (go_error option) \<Rightarrow> ('s \<times> 's FakePrivilegeElevator, unit) io" where
  "FakePrivilegeElevator_DisableProcessPrivilegesReturnsOnCall i result1 = zoom DisableProcessPrivileges_part (fake_ReturnsOnCall i result1)"

definition FakePrivilegeElevator_EnableProcessPrivileges :: "(string list) \<Rightarrow> ('s \<times> 's FakePrivilegeElevator, go_error option) io" where
  "FakePrivilegeElevator_EnableProcessPrivileges arg1 = zoom EnableProcessPrivileges_part (fake_call ''EnableProcessPrivileges'' (\<lambda>arg1. [AnyStrings arg1]) arg1)"

definition FakePrivilegeElevator_EnableProcessPrivilegesCallCount :: "('s \<times> 's FakePrivilegeElevator, int) io" where
  "FakePrivilegeElevator_EnableProcessPrivilegesCallCount = zoom EnableProcessPrivileges_part fake_CallCount"

definition FakePrivilegeElevator_EnableProcessPrivilegesCalls :: "(string list \<Rightarrow> ('s, go_error option) io) option \<Rightarrow> ('s \<times> 's FakePrivilegeElevator, unit) io" where
  "FakePrivilegeElevator_EnableProcessPrivilegesCalls stub = zoom EnableProcessPrivileges_part (fake_Calls stub)"

definition FakePrivilegeElevator_EnableProcessPrivilegesArgsForCall :: "int \<Rightarrow> ('s \<times> 's FakePrivilegeElevator, string list) io" where
  "FakePrivilegeElevator_EnableProcessPrivilegesArgsForCall i = zoom EnableProcessPrivileges_part (fake_ArgsForCall i)"

definition FakePrivilegeElevator_EnableProcessPrivilegesReturns :: "(go_error option) \<Rightarrow> ('s \<times> 's FakePrivilegeElevator, unit) io" where
  "FakePrivilegeElevator_EnableProcessPrivilegesReturns result1 = zoom EnableProcessPrivileges_part (fake_Returns result1)"

definition FakePrivilegeElevator_EnableProcessPrivilegesReturnsOnCall :: "int \<Rightarrow> (go_error option) \<Rightarrow> ('s \<times> 's FakePrivilegeElevator, unit) io" where
  "FakePrivilegeElevator_EnableProcessPrivilegesReturnsOnCall i result1 = zoom EnableProcessPrivileges_part (fake_ReturnsOnCall i result1)"

definition FakePrivilegeElevator_recordInvocation :: "string \<Rightarrow> (unit, unit) any list \<Rightarrow> ('s \<times> 's FakePrivilegeElevator, unit) io" where
  "FakePrivilegeElevator_recordInvocation key args = fake_recordInvocation (field_ref PrivilegeElevator_log PrivilegeElevator_log_update fake_ref) key args"

definition FakePrivilegeElevator_Invocations :: "('s \<times> 's FakePrivilegeElevator, string \<rightharpoonup> (unit, unit) any list list) io" where
  "FakePrivilegeElevator_Invocations = fake_Invocations
     [field_ref fm_Mutex fm_Mutex_update (field_ref m_DisableProcessPrivileges m_DisableProcessPrivileges_update fake_ref),
      field_ref fm_Mutex fm_Mutex_update (field_ref m_EnableProcessPrivileges m_EnableProcessPrivileges_update fake_ref)]
     (field_ref PrivilegeElevator_log PrivilegeElevator_log_update fake_ref)"

lemmas FakePrivilegeElevator_ops =
  FakePrivilegeElevator_DisableProcessPrivileges_def [abs_def] FakePrivilegeElevator_DisableProcessPrivilegesCallCount_def FakePrivilegeElevator_DisableProcessPrivilegesCalls_def [abs_def]
  FakePrivilegeElevator_DisableProcessPrivilegesArgsForCall_def [abs_def] FakePrivilegeElevator_DisableProcessPrivilegesReturns_def [abs_def] FakePrivilegeElevator_DisableProcessPrivilegesReturnsOnCall_def [abs_def]
  FakePrivilegeElevator_EnableProcessPrivileges_def [abs_def] FakePrivilegeElevator_EnableProcessPrivilegesCallCount_def FakePrivilegeElevator_EnableProcessPrivilegesCalls_def [abs_def]
  FakePrivilegeElevator_EnableProcessPrivilegesArgsForCall_def [abs_def] FakePrivilegeElevator_EnableProcessPrivilegesReturns_def [abs_def] FakePrivilegeElevator_EnableProcessPrivilegesReturnsOnCall_def [abs_def]

section \<open>The contract\<close>

definition FakePrivilegeElevator_ready :: "'s \<times> 's FakePrivilegeElevator \<Rightarrow> bool" where
  "FakePrivilegeElevator_ready w \<longleftrightarrow>
     fm_Mutex (m_DisableProcessPrivileges (snd w)) = mutex_zero \<and> fm_Mutex (m_EnableProcessPrivileges (snd w)) = mutex_zero
     \<and> fl_invocationsMutex (PrivilegeElevator_log (snd w)) = mutex_zero"

lemma FakePrivilegeElevator_parts [simp]:
  "ref_get DisableProcessPrivileges_part w = (fst w, m_DisableProcessPrivileges (snd w), PrivilegeElevator_log (snd w))"
  "ref_put DisableProcessPrivileges_part (s, m1, l) w = (s, (snd w)\<lparr>m_DisableProcessPrivileges := m1, PrivilegeElevator_log := l\<rparr>)"
  "ref_get EnableProcessPrivileges_part w = (fst w, m_EnableProcessPrivileges (snd w), PrivilegeElevator_log (snd w))"
  "ref_put EnableProcessPrivileges_part (s, m2, l) w = (s, (snd w)\<lparr>m_EnableProcessPrivileges := m2, PrivilegeElevator_log := l\<rparr>)"
  by (simp_all add: DisableProcessPrivileges_part_def EnableProcessPrivileges_part_def fake_part_def split_beta)

lemma FakePrivilegeElevator_located:
  "located FakePrivilegeElevator_ready (\<lambda>w. m_EnableProcessPrivileges (snd w)) DisableProcessPrivileges_part"
  "located FakePrivilegeElevator_ready (\<lambda>w. m_DisableProcessPrivileges (snd w)) EnableProcessPrivileges_part"
  by (simp_all add: located_def FakePrivilegeElevator_ready_def idle_def)

interpretation DisableProcessPrivileges_args: inspected "FakePrivilegeElevator_DisableProcessPrivileges" FakePrivilegeElevator_DisableProcessPrivilegesCallCount FakePrivilegeElevator_DisableProcessPrivilegesCalls
  FakePrivilegeElevator_ready fst "\<lambda>w. fm_ArgsForCall (m_DisableProcessPrivileges (snd w))" "\<lambda>w. fm_Stub (m_DisableProcessPrivileges (snd w))" "\<lambda>w. answer_of (m_DisableProcessPrivileges (snd w))"
  "\<lambda>w. m_EnableProcessPrivileges (snd w)"
  "FakePrivilegeElevator_DisableProcessPrivilegesArgsForCall"
  using method_inspected [OF FakePrivilegeElevator_located(1) method_counted [OF FakePrivilegeElevator_located(1), where key = "''DisableProcessPrivileges''" and enc = "\<lambda>arg1. [AnyStrings arg1]"]]
  by (simp add: FakePrivilegeElevator_ops split_def)

interpretation DisableProcessPrivileges_script: scripted "FakePrivilegeElevator_DisableProcessPrivileges" FakePrivilegeElevator_DisableProcessPrivilegesCallCount FakePrivilegeElevator_DisableProcessPrivilegesCalls
  FakePrivilegeElevator_ready fst "\<lambda>w. fm_ArgsForCall (m_DisableProcessPrivileges (snd w))" "\<lambda>w. fm_Stub (m_DisableProcessPrivileges (snd w))" "\<lambda>w. answer_of (m_DisableProcessPrivileges (snd w))"
  "\<lambda>w. m_EnableProcessPrivileges (snd w)"
  "\<lambda>result1. FakePrivilegeElevator_DisableProcessPrivilegesReturns result1" "\<lambda>i result1. FakePrivilegeElevator_DisableProcessPrivilegesReturnsOnCall i result1" "\<lambda>w. dom (map_index (fm_ReturnsOnCall (m_DisableProcessPrivileges (snd w))))"
  using method_scripted [OF FakePrivilegeElevator_located(1) method_counted [OF FakePrivilegeElevator_located(1), where key = "''DisableProcessPrivileges''" and enc = "\<lambda>arg1. [AnyStrings arg1]"]]
  by (simp add: FakePrivilegeElevator_ops split_def)

interpretation EnableProcessPrivileges_args: inspected "FakePrivilegeElevator_EnableProcessPrivileges" FakePrivilegeElevator_EnableProcessPrivilegesCallCount FakePrivilegeElevator_EnableProcessPrivilegesCalls
  FakePrivilegeElevator_ready fst "\<lambda>w. fm_ArgsForCall (m_EnableProcessPrivileges (snd w))" "\<lambda>w. fm_Stub (m_EnableProcessPrivileges (snd w))" "\<lambda>w. answer_of (m_EnableProcessPrivileges (snd w))"
  "\<lambda>w. m_DisableProcessPrivileges (snd w)"
  "FakePrivilegeElevator_EnableProcessPrivilegesArgsForCall"
  using method_inspected [OF FakePrivilegeElevator_located(2) method_counted [OF FakePrivilegeElevator_located(2), where key = "''EnableProcessPrivileges''" and enc = "\<lambda>arg1. [AnyStrings arg1]"]]
  by (simp add: FakePrivilegeElevator_ops split_def)

interpretation EnableProcessPrivileges_script: scripted "FakePrivilegeElevator_EnableProcessPrivileges" FakePrivilegeElevator_EnableProcessPrivilegesCallCount FakePrivilegeElevator_EnableProcessPrivilegesCalls
  FakePrivilegeElevator_ready fst "\<lambda>w. fm_ArgsForCall (m_EnableProcessPrivileges (snd w))" "\<lambda>w. fm_Stub (m_EnableProcessPrivileges (snd w))" "\<lambda>w. answer_of (m_EnableProcessPrivileges (snd w))"
  "\<lambda>w. m_DisableProcessPrivileges (snd w)"
  "\<lambda>result1. FakePrivilegeElevator_EnableProcessPrivilegesReturns result1" "\<lambda>i result1. FakePrivilegeElevator_EnableProcessPrivilegesReturnsOnCall i result1" "\<lambda>w. dom (map_index (fm_ReturnsOnCall (m_EnableProcessPrivileges (snd w))))"
  using method_scripted [OF FakePrivilegeElevator_located(2) method_counted [OF FakePrivilegeElevator_located(2), where key = "''EnableProcessPrivileges''" and enc = "\<lambda>arg1. [AnyStrings arg1]"]]
  by (simp add: FakePrivilegeElevator_ops split_def)

section \<open>Reachable states\<close>

text \<open>A step is a call of any method a test or the driver can use; what it returns does not matter.\<close>

inductive FakePrivilegeElevator_step :: "'s \<times> 's FakePrivilegeElevator \<Rightarrow> 's \<times> 's FakePrivilegeElevator \<Rightarrow> bool" where
  "FakePrivilegeElevator_step w (snd (FakePrivilegeElevator_DisableProcessPrivileges arg1 w))"
| "FakePrivilegeElevator_step w (snd (FakePrivilegeElevator_DisableProcessPrivilegesCallCount w))"
| "FakePrivilegeElevator_step w (snd (FakePrivilegeElevator_DisableProcessPrivilegesCalls stub w))"
| "FakePrivilegeElevator_step w (snd (FakePrivilegeElevator_DisableProcessPrivilegesArgsForCall i w))"
| "FakePrivilegeElevator_step w (snd (FakePrivilegeElevator_DisableProcessPrivilegesReturns result1 w))"
| "FakePrivilegeElevator_step w (snd (FakePrivilegeElevator_DisableProcessPrivilegesReturnsOnCall i result1 w))"
| "FakePrivilegeElevator_step w (snd (FakePrivilegeElevator_EnableProcessPrivileges arg1 w))"
| "FakePrivilegeElevator_step w (snd (FakePrivilegeElevator_EnableProcessPrivilegesCallCount w))"
| "FakePrivilegeElevator_step w (snd (FakePrivilegeElevator_EnableProcessPrivilegesCalls stub w))"
| "FakePrivilegeElevator_step w (snd (FakePrivilegeElevator_EnableProcessPrivilegesArgsForCall i w))"
| "FakePrivilegeElevator_step w (snd (FakePrivilegeElevator_EnableProcessPrivilegesReturns result1 w))"
| "FakePrivilegeElevator_step w (snd (FakePrivilegeElevator_EnableProcessPrivilegesReturnsOnCall i result1 w))"

definition FakePrivilegeElevator_consistent :: "'s \<times> 's FakePrivilegeElevator \<Rightarrow> bool" where
  "FakePrivilegeElevator_consistent w \<longleftrightarrow> FakePrivilegeElevator_ready w
     \<and> logged ''DisableProcessPrivileges'' (\<lambda>arg1. [AnyStrings arg1]) (m_DisableProcessPrivileges (snd w)) (PrivilegeElevator_log (snd w))
     \<and> logged ''EnableProcessPrivileges'' (\<lambda>arg1. [AnyStrings arg1]) (m_EnableProcessPrivileges (snd w)) (PrivilegeElevator_log (snd w))"

lemma FakePrivilegeElevator_upheld:
  "upheld FakePrivilegeElevator_consistent ''DisableProcessPrivileges'' (\<lambda>arg1. [AnyStrings arg1]) DisableProcessPrivileges_part"
  "upheld FakePrivilegeElevator_consistent ''EnableProcessPrivileges'' (\<lambda>arg1. [AnyStrings arg1]) EnableProcessPrivileges_part"
  by (simp_all add: upheld_def FakePrivilegeElevator_consistent_def FakePrivilegeElevator_ready_def idle_def logged_def log_call_def map_index_def)

lemma FakePrivilegeElevator_step_consistent: "FakePrivilegeElevator_step w w' \<Longrightarrow> FakePrivilegeElevator_consistent w \<Longrightarrow> FakePrivilegeElevator_consistent w'"
  by (induction rule: FakePrivilegeElevator_step.induct)
     (simp_all add: FakePrivilegeElevator_ops upheld_steps [OF FakePrivilegeElevator_upheld(1)] upheld_steps [OF FakePrivilegeElevator_upheld(2)])

lemma FakePrivilegeElevator_reachable_consistent: "FakePrivilegeElevator_step\<^sup>*\<^sup>* (s, FakePrivilegeElevator_zero) w \<Longrightarrow> FakePrivilegeElevator_consistent w"
proof (induction rule: rtranclp_induct)
  case base
  show ?case by (simp add: FakePrivilegeElevator_consistent_def FakePrivilegeElevator_ready_def FakePrivilegeElevator_zero_def)
qed (rule FakePrivilegeElevator_step_consistent)

lemma FakePrivilegeElevator_Invocations_run: "FakePrivilegeElevator_ready w \<Longrightarrow> FakePrivilegeElevator_Invocations w = (Ret (map_index (fl_invocations (PrivilegeElevator_log (snd w)))), w)"
  by (cases w) (simp add: FakePrivilegeElevator_Invocations_def fake_Invocations_def FakePrivilegeElevator_ready_def mutex_defs go_simps mutex_zero_def)

section \<open>Which answer a call gets\<close>

text \<open>
  A call of the fake runs the stub if there is one, else returns the result planned for this call, else the default; it is recorded
  in every case, even if the stub panics, and the other method is not affected.
\<close>

theorem Enable_answers:
  assumes "FakePrivilegeElevator_ready w" and "FakePrivilegeElevator_EnableProcessPrivileges ns w = (r, w')" and "m_EnableProcessPrivileges (snd w) = m"
  shows "r = (case fm_Stub m of
        Some f \<Rightarrow> fst (f ns (fst w))
      | None \<Rightarrow> Ret (case map_index (fm_ReturnsOnCall m) (int (length (fm_ArgsForCall m))) of Some res \<Rightarrow> res | None \<Rightarrow> fm_Returns m))
    \<and> fm_ArgsForCall (m_EnableProcessPrivileges (snd w')) = fm_ArgsForCall m @ [ns]
    \<and> m_DisableProcessPrivileges (snd w') = m_DisableProcessPrivileges (snd w) \<and> FakePrivilegeElevator_ready w'"
proof (cases "fm_Stub m")
  case None
  with EnableProcessPrivileges_args.call_run [OF assms(1), of ns] assms(2,3) show ?thesis by (auto simp: answer_of_def)
next
  case (Some f)
  with EnableProcessPrivileges_args.stub_run [OF assms(1), of f ns] assms(2,3) show ?thesis by auto
qed

end
