(* ===== verification/Fake_HCSClient.thy ===== *)
theory Fake_HCSClient
  imports Fake_Contract
begin

text \<open>
  The fake layer client, src/driver/fakes/hcs\_client.go. A layer writer it returns is a reference of type \<open>'lw\<close>.
\<close>

section \<open>The state\<close>

record ('s, 'lw) FakeHCSClient =
  m_CreateLayer :: "('s, DriverInfo \<times> string \<times> string list, go_error option) fake_method"
  m_DestroyLayer :: "('s, DriverInfo \<times> string, go_error option) fake_method"
  m_GetLayerMountPath :: "('s, DriverInfo \<times> string, string \<times> go_error option) fake_method"
  m_LayerExists :: "('s, DriverInfo \<times> string, bool \<times> go_error option) fake_method"
  m_NewLayerWriter :: "('s, DriverInfo \<times> string \<times> string list, 'lw option \<times> go_error option) fake_method"
  HCSClient_log :: "(unit, 'lw) fake_log"

text \<open>The zero value, \<^verbatim>\<open>new(fakes.HCSClient)\<close>.\<close>

definition FakeHCSClient_zero :: "('s, 'lw) FakeHCSClient" where
  "FakeHCSClient_zero = \<lparr>m_CreateLayer = method_zero None, m_DestroyLayer = method_zero None, m_GetLayerMountPath = method_zero ([], None), m_LayerExists = method_zero (False, None), m_NewLayerWriter = method_zero (None, None), HCSClient_log = log_zero\<rparr>"

definition CreateLayer_part :: "('s \<times> ('s, 'lw) FakeHCSClient, ('s, DriverInfo \<times> string \<times> string list, go_error option, unit, 'lw) method_world) ref" where
  "CreateLayer_part = fake_part m_CreateLayer m_CreateLayer_update HCSClient_log HCSClient_log_update"

definition DestroyLayer_part :: "('s \<times> ('s, 'lw) FakeHCSClient, ('s, DriverInfo \<times> string, go_error option, unit, 'lw) method_world) ref" where
  "DestroyLayer_part = fake_part m_DestroyLayer m_DestroyLayer_update HCSClient_log HCSClient_log_update"

definition GetLayerMountPath_part :: "('s \<times> ('s, 'lw) FakeHCSClient, ('s, DriverInfo \<times> string, string \<times> go_error option, unit, 'lw) method_world) ref" where
  "GetLayerMountPath_part = fake_part m_GetLayerMountPath m_GetLayerMountPath_update HCSClient_log HCSClient_log_update"

definition LayerExists_part :: "('s \<times> ('s, 'lw) FakeHCSClient, ('s, DriverInfo \<times> string, bool \<times> go_error option, unit, 'lw) method_world) ref" where
  "LayerExists_part = fake_part m_LayerExists m_LayerExists_update HCSClient_log HCSClient_log_update"

definition NewLayerWriter_part :: "('s \<times> ('s, 'lw) FakeHCSClient, ('s, DriverInfo \<times> string \<times> string list, 'lw option \<times> go_error option, unit, 'lw) method_world) ref" where
  "NewLayerWriter_part = fake_part m_NewLayerWriter m_NewLayerWriter_update HCSClient_log HCSClient_log_update"

section \<open>The methods\<close>

definition FakeHCSClient_CreateLayer :: "DriverInfo \<Rightarrow> string \<Rightarrow> (string list) \<Rightarrow> ('s \<times> ('s, 'lw) FakeHCSClient, go_error option) io" where
  "FakeHCSClient_CreateLayer arg1 arg2 arg3 = zoom CreateLayer_part (fake_call ''CreateLayer'' (\<lambda>(arg1, arg2, arg3). [AnyDriverInfo arg1, AnyString arg2, AnyStrings arg3]) (arg1, arg2, arg3))"

definition FakeHCSClient_CreateLayerCallCount :: "('s \<times> ('s, 'lw) FakeHCSClient, int) io" where
  "FakeHCSClient_CreateLayerCallCount = zoom CreateLayer_part fake_CallCount"

definition FakeHCSClient_CreateLayerCalls :: "(DriverInfo \<times> string \<times> string list \<Rightarrow> ('s, go_error option) io) option \<Rightarrow> ('s \<times> ('s, 'lw) FakeHCSClient, unit) io" where
  "FakeHCSClient_CreateLayerCalls stub = zoom CreateLayer_part (fake_Calls stub)"

definition FakeHCSClient_CreateLayerArgsForCall :: "int \<Rightarrow> ('s \<times> ('s, 'lw) FakeHCSClient, DriverInfo \<times> string \<times> string list) io" where
  "FakeHCSClient_CreateLayerArgsForCall i = zoom CreateLayer_part (fake_ArgsForCall i)"

definition FakeHCSClient_CreateLayerReturns :: "(go_error option) \<Rightarrow> ('s \<times> ('s, 'lw) FakeHCSClient, unit) io" where
  "FakeHCSClient_CreateLayerReturns result1 = zoom CreateLayer_part (fake_Returns result1)"

definition FakeHCSClient_CreateLayerReturnsOnCall :: "int \<Rightarrow> (go_error option) \<Rightarrow> ('s \<times> ('s, 'lw) FakeHCSClient, unit) io" where
  "FakeHCSClient_CreateLayerReturnsOnCall i result1 = zoom CreateLayer_part (fake_ReturnsOnCall i result1)"

definition FakeHCSClient_DestroyLayer :: "DriverInfo \<Rightarrow> string \<Rightarrow> ('s \<times> ('s, 'lw) FakeHCSClient, go_error option) io" where
  "FakeHCSClient_DestroyLayer arg1 arg2 = zoom DestroyLayer_part (fake_call ''DestroyLayer'' (\<lambda>(arg1, arg2). [AnyDriverInfo arg1, AnyString arg2]) (arg1, arg2))"

definition FakeHCSClient_DestroyLayerCallCount :: "('s \<times> ('s, 'lw) FakeHCSClient, int) io" where
  "FakeHCSClient_DestroyLayerCallCount = zoom DestroyLayer_part fake_CallCount"

definition FakeHCSClient_DestroyLayerCalls :: "(DriverInfo \<times> string \<Rightarrow> ('s, go_error option) io) option \<Rightarrow> ('s \<times> ('s, 'lw) FakeHCSClient, unit) io" where
  "FakeHCSClient_DestroyLayerCalls stub = zoom DestroyLayer_part (fake_Calls stub)"

definition FakeHCSClient_DestroyLayerArgsForCall :: "int \<Rightarrow> ('s \<times> ('s, 'lw) FakeHCSClient, DriverInfo \<times> string) io" where
  "FakeHCSClient_DestroyLayerArgsForCall i = zoom DestroyLayer_part (fake_ArgsForCall i)"

definition FakeHCSClient_DestroyLayerReturns :: "(go_error option) \<Rightarrow> ('s \<times> ('s, 'lw) FakeHCSClient, unit) io" where
  "FakeHCSClient_DestroyLayerReturns result1 = zoom DestroyLayer_part (fake_Returns result1)"

definition FakeHCSClient_DestroyLayerReturnsOnCall :: "int \<Rightarrow> (go_error option) \<Rightarrow> ('s \<times> ('s, 'lw) FakeHCSClient, unit) io" where
  "FakeHCSClient_DestroyLayerReturnsOnCall i result1 = zoom DestroyLayer_part (fake_ReturnsOnCall i result1)"

definition FakeHCSClient_GetLayerMountPath :: "DriverInfo \<Rightarrow> string \<Rightarrow> ('s \<times> ('s, 'lw) FakeHCSClient, string \<times> go_error option) io" where
  "FakeHCSClient_GetLayerMountPath arg1 arg2 = zoom GetLayerMountPath_part (fake_call ''GetLayerMountPath'' (\<lambda>(arg1, arg2). [AnyDriverInfo arg1, AnyString arg2]) (arg1, arg2))"

definition FakeHCSClient_GetLayerMountPathCallCount :: "('s \<times> ('s, 'lw) FakeHCSClient, int) io" where
  "FakeHCSClient_GetLayerMountPathCallCount = zoom GetLayerMountPath_part fake_CallCount"

definition FakeHCSClient_GetLayerMountPathCalls :: "(DriverInfo \<times> string \<Rightarrow> ('s, string \<times> go_error option) io) option \<Rightarrow> ('s \<times> ('s, 'lw) FakeHCSClient, unit) io" where
  "FakeHCSClient_GetLayerMountPathCalls stub = zoom GetLayerMountPath_part (fake_Calls stub)"

definition FakeHCSClient_GetLayerMountPathArgsForCall :: "int \<Rightarrow> ('s \<times> ('s, 'lw) FakeHCSClient, DriverInfo \<times> string) io" where
  "FakeHCSClient_GetLayerMountPathArgsForCall i = zoom GetLayerMountPath_part (fake_ArgsForCall i)"

definition FakeHCSClient_GetLayerMountPathReturns :: "string \<Rightarrow> (go_error option) \<Rightarrow> ('s \<times> ('s, 'lw) FakeHCSClient, unit) io" where
  "FakeHCSClient_GetLayerMountPathReturns result1 result2 = zoom GetLayerMountPath_part (fake_Returns (result1, result2))"

definition FakeHCSClient_GetLayerMountPathReturnsOnCall :: "int \<Rightarrow> string \<Rightarrow> (go_error option) \<Rightarrow> ('s \<times> ('s, 'lw) FakeHCSClient, unit) io" where
  "FakeHCSClient_GetLayerMountPathReturnsOnCall i result1 result2 = zoom GetLayerMountPath_part (fake_ReturnsOnCall i (result1, result2))"

definition FakeHCSClient_LayerExists :: "DriverInfo \<Rightarrow> string \<Rightarrow> ('s \<times> ('s, 'lw) FakeHCSClient, bool \<times> go_error option) io" where
  "FakeHCSClient_LayerExists arg1 arg2 = zoom LayerExists_part (fake_call ''LayerExists'' (\<lambda>(arg1, arg2). [AnyDriverInfo arg1, AnyString arg2]) (arg1, arg2))"

definition FakeHCSClient_LayerExistsCallCount :: "('s \<times> ('s, 'lw) FakeHCSClient, int) io" where
  "FakeHCSClient_LayerExistsCallCount = zoom LayerExists_part fake_CallCount"

definition FakeHCSClient_LayerExistsCalls :: "(DriverInfo \<times> string \<Rightarrow> ('s, bool \<times> go_error option) io) option \<Rightarrow> ('s \<times> ('s, 'lw) FakeHCSClient, unit) io" where
  "FakeHCSClient_LayerExistsCalls stub = zoom LayerExists_part (fake_Calls stub)"

definition FakeHCSClient_LayerExistsArgsForCall :: "int \<Rightarrow> ('s \<times> ('s, 'lw) FakeHCSClient, DriverInfo \<times> string) io" where
  "FakeHCSClient_LayerExistsArgsForCall i = zoom LayerExists_part (fake_ArgsForCall i)"

definition FakeHCSClient_LayerExistsReturns :: "bool \<Rightarrow> (go_error option) \<Rightarrow> ('s \<times> ('s, 'lw) FakeHCSClient, unit) io" where
  "FakeHCSClient_LayerExistsReturns result1 result2 = zoom LayerExists_part (fake_Returns (result1, result2))"

definition FakeHCSClient_LayerExistsReturnsOnCall :: "int \<Rightarrow> bool \<Rightarrow> (go_error option) \<Rightarrow> ('s \<times> ('s, 'lw) FakeHCSClient, unit) io" where
  "FakeHCSClient_LayerExistsReturnsOnCall i result1 result2 = zoom LayerExists_part (fake_ReturnsOnCall i (result1, result2))"

definition FakeHCSClient_NewLayerWriter :: "DriverInfo \<Rightarrow> string \<Rightarrow> (string list) \<Rightarrow> ('s \<times> ('s, 'lw) FakeHCSClient, 'lw option \<times> go_error option) io" where
  "FakeHCSClient_NewLayerWriter arg1 arg2 arg3 = zoom NewLayerWriter_part (fake_call ''NewLayerWriter'' (\<lambda>(arg1, arg2, arg3). [AnyDriverInfo arg1, AnyString arg2, AnyStrings arg3]) (arg1, arg2, arg3))"

definition FakeHCSClient_NewLayerWriterCallCount :: "('s \<times> ('s, 'lw) FakeHCSClient, int) io" where
  "FakeHCSClient_NewLayerWriterCallCount = zoom NewLayerWriter_part fake_CallCount"

definition FakeHCSClient_NewLayerWriterCalls :: "(DriverInfo \<times> string \<times> string list \<Rightarrow> ('s, 'lw option \<times> go_error option) io) option \<Rightarrow> ('s \<times> ('s, 'lw) FakeHCSClient, unit) io" where
  "FakeHCSClient_NewLayerWriterCalls stub = zoom NewLayerWriter_part (fake_Calls stub)"

definition FakeHCSClient_NewLayerWriterArgsForCall :: "int \<Rightarrow> ('s \<times> ('s, 'lw) FakeHCSClient, DriverInfo \<times> string \<times> string list) io" where
  "FakeHCSClient_NewLayerWriterArgsForCall i = zoom NewLayerWriter_part (fake_ArgsForCall i)"

definition FakeHCSClient_NewLayerWriterReturns :: "('lw option) \<Rightarrow> (go_error option) \<Rightarrow> ('s \<times> ('s, 'lw) FakeHCSClient, unit) io" where
  "FakeHCSClient_NewLayerWriterReturns result1 result2 = zoom NewLayerWriter_part (fake_Returns (result1, result2))"

definition FakeHCSClient_NewLayerWriterReturnsOnCall :: "int \<Rightarrow> ('lw option) \<Rightarrow> (go_error option) \<Rightarrow> ('s \<times> ('s, 'lw) FakeHCSClient, unit) io" where
  "FakeHCSClient_NewLayerWriterReturnsOnCall i result1 result2 = zoom NewLayerWriter_part (fake_ReturnsOnCall i (result1, result2))"

definition FakeHCSClient_recordInvocation :: "string \<Rightarrow> (unit, 'lw) any list \<Rightarrow> ('s \<times> ('s, 'lw) FakeHCSClient, unit) io" where
  "FakeHCSClient_recordInvocation key args = fake_recordInvocation (field_ref HCSClient_log HCSClient_log_update fake_ref) key args"

definition FakeHCSClient_Invocations :: "('s \<times> ('s, 'lw) FakeHCSClient, string \<rightharpoonup> (unit, 'lw) any list list) io" where
  "FakeHCSClient_Invocations = fake_Invocations
     [field_ref fm_Mutex fm_Mutex_update (field_ref m_CreateLayer m_CreateLayer_update fake_ref),
      field_ref fm_Mutex fm_Mutex_update (field_ref m_DestroyLayer m_DestroyLayer_update fake_ref),
      field_ref fm_Mutex fm_Mutex_update (field_ref m_GetLayerMountPath m_GetLayerMountPath_update fake_ref),
      field_ref fm_Mutex fm_Mutex_update (field_ref m_LayerExists m_LayerExists_update fake_ref),
      field_ref fm_Mutex fm_Mutex_update (field_ref m_NewLayerWriter m_NewLayerWriter_update fake_ref)]
     (field_ref HCSClient_log HCSClient_log_update fake_ref)"

lemmas FakeHCSClient_ops =
  FakeHCSClient_CreateLayer_def [abs_def] FakeHCSClient_CreateLayerCallCount_def FakeHCSClient_CreateLayerCalls_def [abs_def]
  FakeHCSClient_CreateLayerArgsForCall_def [abs_def] FakeHCSClient_CreateLayerReturns_def [abs_def] FakeHCSClient_CreateLayerReturnsOnCall_def [abs_def]
  FakeHCSClient_DestroyLayer_def [abs_def] FakeHCSClient_DestroyLayerCallCount_def FakeHCSClient_DestroyLayerCalls_def [abs_def]
  FakeHCSClient_DestroyLayerArgsForCall_def [abs_def] FakeHCSClient_DestroyLayerReturns_def [abs_def] FakeHCSClient_DestroyLayerReturnsOnCall_def [abs_def]
  FakeHCSClient_GetLayerMountPath_def [abs_def] FakeHCSClient_GetLayerMountPathCallCount_def FakeHCSClient_GetLayerMountPathCalls_def [abs_def]
  FakeHCSClient_GetLayerMountPathArgsForCall_def [abs_def] FakeHCSClient_GetLayerMountPathReturns_def [abs_def] FakeHCSClient_GetLayerMountPathReturnsOnCall_def [abs_def]
  FakeHCSClient_LayerExists_def [abs_def] FakeHCSClient_LayerExistsCallCount_def FakeHCSClient_LayerExistsCalls_def [abs_def]
  FakeHCSClient_LayerExistsArgsForCall_def [abs_def] FakeHCSClient_LayerExistsReturns_def [abs_def] FakeHCSClient_LayerExistsReturnsOnCall_def [abs_def]
  FakeHCSClient_NewLayerWriter_def [abs_def] FakeHCSClient_NewLayerWriterCallCount_def FakeHCSClient_NewLayerWriterCalls_def [abs_def]
  FakeHCSClient_NewLayerWriterArgsForCall_def [abs_def] FakeHCSClient_NewLayerWriterReturns_def [abs_def] FakeHCSClient_NewLayerWriterReturnsOnCall_def [abs_def]

section \<open>The contract\<close>

definition FakeHCSClient_ready :: "'s \<times> ('s, 'lw) FakeHCSClient \<Rightarrow> bool" where
  "FakeHCSClient_ready w \<longleftrightarrow>
     fm_Mutex (m_CreateLayer (snd w)) = mutex_zero \<and> fm_Mutex (m_DestroyLayer (snd w)) = mutex_zero \<and> fm_Mutex (m_GetLayerMountPath (snd w)) = mutex_zero \<and> fm_Mutex (m_LayerExists (snd w)) = mutex_zero \<and> fm_Mutex (m_NewLayerWriter (snd w)) = mutex_zero
     \<and> fl_invocationsMutex (HCSClient_log (snd w)) = mutex_zero"

lemma FakeHCSClient_parts [simp]:
  "ref_get CreateLayer_part w = (fst w, m_CreateLayer (snd w), HCSClient_log (snd w))"
  "ref_put CreateLayer_part (s, m1, l) w = (s, (snd w)\<lparr>m_CreateLayer := m1, HCSClient_log := l\<rparr>)"
  "ref_get DestroyLayer_part w = (fst w, m_DestroyLayer (snd w), HCSClient_log (snd w))"
  "ref_put DestroyLayer_part (s, m2, l) w = (s, (snd w)\<lparr>m_DestroyLayer := m2, HCSClient_log := l\<rparr>)"
  "ref_get GetLayerMountPath_part w = (fst w, m_GetLayerMountPath (snd w), HCSClient_log (snd w))"
  "ref_put GetLayerMountPath_part (s, m3, l) w = (s, (snd w)\<lparr>m_GetLayerMountPath := m3, HCSClient_log := l\<rparr>)"
  "ref_get LayerExists_part w = (fst w, m_LayerExists (snd w), HCSClient_log (snd w))"
  "ref_put LayerExists_part (s, m4, l) w = (s, (snd w)\<lparr>m_LayerExists := m4, HCSClient_log := l\<rparr>)"
  "ref_get NewLayerWriter_part w = (fst w, m_NewLayerWriter (snd w), HCSClient_log (snd w))"
  "ref_put NewLayerWriter_part (s, m5, l) w = (s, (snd w)\<lparr>m_NewLayerWriter := m5, HCSClient_log := l\<rparr>)"
  by (simp_all add: CreateLayer_part_def DestroyLayer_part_def GetLayerMountPath_part_def LayerExists_part_def NewLayerWriter_part_def fake_part_def split_beta)

lemma FakeHCSClient_located:
  "located FakeHCSClient_ready (\<lambda>w. (m_DestroyLayer (snd w), m_GetLayerMountPath (snd w), m_LayerExists (snd w), m_NewLayerWriter (snd w))) CreateLayer_part"
  "located FakeHCSClient_ready (\<lambda>w. (m_CreateLayer (snd w), m_GetLayerMountPath (snd w), m_LayerExists (snd w), m_NewLayerWriter (snd w))) DestroyLayer_part"
  "located FakeHCSClient_ready (\<lambda>w. (m_CreateLayer (snd w), m_DestroyLayer (snd w), m_LayerExists (snd w), m_NewLayerWriter (snd w))) GetLayerMountPath_part"
  "located FakeHCSClient_ready (\<lambda>w. (m_CreateLayer (snd w), m_DestroyLayer (snd w), m_GetLayerMountPath (snd w), m_NewLayerWriter (snd w))) LayerExists_part"
  "located FakeHCSClient_ready (\<lambda>w. (m_CreateLayer (snd w), m_DestroyLayer (snd w), m_GetLayerMountPath (snd w), m_LayerExists (snd w))) NewLayerWriter_part"
  by (simp_all add: located_def FakeHCSClient_ready_def idle_def)

interpretation CreateLayer_args: inspected "\<lambda>(arg1, arg2, arg3). FakeHCSClient_CreateLayer arg1 arg2 arg3" FakeHCSClient_CreateLayerCallCount FakeHCSClient_CreateLayerCalls
  FakeHCSClient_ready fst "\<lambda>w. fm_ArgsForCall (m_CreateLayer (snd w))" "\<lambda>w. fm_Stub (m_CreateLayer (snd w))" "\<lambda>w. answer_of (m_CreateLayer (snd w))"
  "\<lambda>w. (m_DestroyLayer (snd w), m_GetLayerMountPath (snd w), m_LayerExists (snd w), m_NewLayerWriter (snd w))"
  "FakeHCSClient_CreateLayerArgsForCall"
  using method_inspected [OF FakeHCSClient_located(1) method_counted [OF FakeHCSClient_located(1), where key = "''CreateLayer''" and enc = "\<lambda>(arg1, arg2, arg3). [AnyDriverInfo arg1, AnyString arg2, AnyStrings arg3]"]]
  by (simp add: FakeHCSClient_ops split_def)

interpretation CreateLayer_script: scripted "\<lambda>(arg1, arg2, arg3). FakeHCSClient_CreateLayer arg1 arg2 arg3" FakeHCSClient_CreateLayerCallCount FakeHCSClient_CreateLayerCalls
  FakeHCSClient_ready fst "\<lambda>w. fm_ArgsForCall (m_CreateLayer (snd w))" "\<lambda>w. fm_Stub (m_CreateLayer (snd w))" "\<lambda>w. answer_of (m_CreateLayer (snd w))"
  "\<lambda>w. (m_DestroyLayer (snd w), m_GetLayerMountPath (snd w), m_LayerExists (snd w), m_NewLayerWriter (snd w))"
  "\<lambda>result1. FakeHCSClient_CreateLayerReturns result1" "\<lambda>i result1. FakeHCSClient_CreateLayerReturnsOnCall i result1" "\<lambda>w. dom (map_index (fm_ReturnsOnCall (m_CreateLayer (snd w))))"
  using method_scripted [OF FakeHCSClient_located(1) method_counted [OF FakeHCSClient_located(1), where key = "''CreateLayer''" and enc = "\<lambda>(arg1, arg2, arg3). [AnyDriverInfo arg1, AnyString arg2, AnyStrings arg3]"]]
  by (simp add: FakeHCSClient_ops split_def)

interpretation DestroyLayer_args: inspected "\<lambda>(arg1, arg2). FakeHCSClient_DestroyLayer arg1 arg2" FakeHCSClient_DestroyLayerCallCount FakeHCSClient_DestroyLayerCalls
  FakeHCSClient_ready fst "\<lambda>w. fm_ArgsForCall (m_DestroyLayer (snd w))" "\<lambda>w. fm_Stub (m_DestroyLayer (snd w))" "\<lambda>w. answer_of (m_DestroyLayer (snd w))"
  "\<lambda>w. (m_CreateLayer (snd w), m_GetLayerMountPath (snd w), m_LayerExists (snd w), m_NewLayerWriter (snd w))"
  "FakeHCSClient_DestroyLayerArgsForCall"
  using method_inspected [OF FakeHCSClient_located(2) method_counted [OF FakeHCSClient_located(2), where key = "''DestroyLayer''" and enc = "\<lambda>(arg1, arg2). [AnyDriverInfo arg1, AnyString arg2]"]]
  by (simp add: FakeHCSClient_ops split_def)

interpretation DestroyLayer_script: scripted "\<lambda>(arg1, arg2). FakeHCSClient_DestroyLayer arg1 arg2" FakeHCSClient_DestroyLayerCallCount FakeHCSClient_DestroyLayerCalls
  FakeHCSClient_ready fst "\<lambda>w. fm_ArgsForCall (m_DestroyLayer (snd w))" "\<lambda>w. fm_Stub (m_DestroyLayer (snd w))" "\<lambda>w. answer_of (m_DestroyLayer (snd w))"
  "\<lambda>w. (m_CreateLayer (snd w), m_GetLayerMountPath (snd w), m_LayerExists (snd w), m_NewLayerWriter (snd w))"
  "\<lambda>result1. FakeHCSClient_DestroyLayerReturns result1" "\<lambda>i result1. FakeHCSClient_DestroyLayerReturnsOnCall i result1" "\<lambda>w. dom (map_index (fm_ReturnsOnCall (m_DestroyLayer (snd w))))"
  using method_scripted [OF FakeHCSClient_located(2) method_counted [OF FakeHCSClient_located(2), where key = "''DestroyLayer''" and enc = "\<lambda>(arg1, arg2). [AnyDriverInfo arg1, AnyString arg2]"]]
  by (simp add: FakeHCSClient_ops split_def)

interpretation GetLayerMountPath_args: inspected "\<lambda>(arg1, arg2). FakeHCSClient_GetLayerMountPath arg1 arg2" FakeHCSClient_GetLayerMountPathCallCount FakeHCSClient_GetLayerMountPathCalls
  FakeHCSClient_ready fst "\<lambda>w. fm_ArgsForCall (m_GetLayerMountPath (snd w))" "\<lambda>w. fm_Stub (m_GetLayerMountPath (snd w))" "\<lambda>w. answer_of (m_GetLayerMountPath (snd w))"
  "\<lambda>w. (m_CreateLayer (snd w), m_DestroyLayer (snd w), m_LayerExists (snd w), m_NewLayerWriter (snd w))"
  "FakeHCSClient_GetLayerMountPathArgsForCall"
  using method_inspected [OF FakeHCSClient_located(3) method_counted [OF FakeHCSClient_located(3), where key = "''GetLayerMountPath''" and enc = "\<lambda>(arg1, arg2). [AnyDriverInfo arg1, AnyString arg2]"]]
  by (simp add: FakeHCSClient_ops split_def)

interpretation GetLayerMountPath_script: scripted "\<lambda>(arg1, arg2). FakeHCSClient_GetLayerMountPath arg1 arg2" FakeHCSClient_GetLayerMountPathCallCount FakeHCSClient_GetLayerMountPathCalls
  FakeHCSClient_ready fst "\<lambda>w. fm_ArgsForCall (m_GetLayerMountPath (snd w))" "\<lambda>w. fm_Stub (m_GetLayerMountPath (snd w))" "\<lambda>w. answer_of (m_GetLayerMountPath (snd w))"
  "\<lambda>w. (m_CreateLayer (snd w), m_DestroyLayer (snd w), m_LayerExists (snd w), m_NewLayerWriter (snd w))"
  "\<lambda>(result1, result2). FakeHCSClient_GetLayerMountPathReturns result1 result2" "\<lambda>i (result1, result2). FakeHCSClient_GetLayerMountPathReturnsOnCall i result1 result2" "\<lambda>w. dom (map_index (fm_ReturnsOnCall (m_GetLayerMountPath (snd w))))"
  using method_scripted [OF FakeHCSClient_located(3) method_counted [OF FakeHCSClient_located(3), where key = "''GetLayerMountPath''" and enc = "\<lambda>(arg1, arg2). [AnyDriverInfo arg1, AnyString arg2]"]]
  by (simp add: FakeHCSClient_ops split_def)

interpretation LayerExists_args: inspected "\<lambda>(arg1, arg2). FakeHCSClient_LayerExists arg1 arg2" FakeHCSClient_LayerExistsCallCount FakeHCSClient_LayerExistsCalls
  FakeHCSClient_ready fst "\<lambda>w. fm_ArgsForCall (m_LayerExists (snd w))" "\<lambda>w. fm_Stub (m_LayerExists (snd w))" "\<lambda>w. answer_of (m_LayerExists (snd w))"
  "\<lambda>w. (m_CreateLayer (snd w), m_DestroyLayer (snd w), m_GetLayerMountPath (snd w), m_NewLayerWriter (snd w))"
  "FakeHCSClient_LayerExistsArgsForCall"
  using method_inspected [OF FakeHCSClient_located(4) method_counted [OF FakeHCSClient_located(4), where key = "''LayerExists''" and enc = "\<lambda>(arg1, arg2). [AnyDriverInfo arg1, AnyString arg2]"]]
  by (simp add: FakeHCSClient_ops split_def)

interpretation LayerExists_script: scripted "\<lambda>(arg1, arg2). FakeHCSClient_LayerExists arg1 arg2" FakeHCSClient_LayerExistsCallCount FakeHCSClient_LayerExistsCalls
  FakeHCSClient_ready fst "\<lambda>w. fm_ArgsForCall (m_LayerExists (snd w))" "\<lambda>w. fm_Stub (m_LayerExists (snd w))" "\<lambda>w. answer_of (m_LayerExists (snd w))"
  "\<lambda>w. (m_CreateLayer (snd w), m_DestroyLayer (snd w), m_GetLayerMountPath (snd w), m_NewLayerWriter (snd w))"
  "\<lambda>(result1, result2). FakeHCSClient_LayerExistsReturns result1 result2" "\<lambda>i (result1, result2). FakeHCSClient_LayerExistsReturnsOnCall i result1 result2" "\<lambda>w. dom (map_index (fm_ReturnsOnCall (m_LayerExists (snd w))))"
  using method_scripted [OF FakeHCSClient_located(4) method_counted [OF FakeHCSClient_located(4), where key = "''LayerExists''" and enc = "\<lambda>(arg1, arg2). [AnyDriverInfo arg1, AnyString arg2]"]]
  by (simp add: FakeHCSClient_ops split_def)

interpretation NewLayerWriter_args: inspected "\<lambda>(arg1, arg2, arg3). FakeHCSClient_NewLayerWriter arg1 arg2 arg3" FakeHCSClient_NewLayerWriterCallCount FakeHCSClient_NewLayerWriterCalls
  FakeHCSClient_ready fst "\<lambda>w. fm_ArgsForCall (m_NewLayerWriter (snd w))" "\<lambda>w. fm_Stub (m_NewLayerWriter (snd w))" "\<lambda>w. answer_of (m_NewLayerWriter (snd w))"
  "\<lambda>w. (m_CreateLayer (snd w), m_DestroyLayer (snd w), m_GetLayerMountPath (snd w), m_LayerExists (snd w))"
  "FakeHCSClient_NewLayerWriterArgsForCall"
  using method_inspected [OF FakeHCSClient_located(5) method_counted [OF FakeHCSClient_located(5), where key = "''NewLayerWriter''" and enc = "\<lambda>(arg1, arg2, arg3). [AnyDriverInfo arg1, AnyString arg2, AnyStrings arg3]"]]
  by (simp add: FakeHCSClient_ops split_def)

interpretation NewLayerWriter_script: scripted "\<lambda>(arg1, arg2, arg3). FakeHCSClient_NewLayerWriter arg1 arg2 arg3" FakeHCSClient_NewLayerWriterCallCount FakeHCSClient_NewLayerWriterCalls
  FakeHCSClient_ready fst "\<lambda>w. fm_ArgsForCall (m_NewLayerWriter (snd w))" "\<lambda>w. fm_Stub (m_NewLayerWriter (snd w))" "\<lambda>w. answer_of (m_NewLayerWriter (snd w))"
  "\<lambda>w. (m_CreateLayer (snd w), m_DestroyLayer (snd w), m_GetLayerMountPath (snd w), m_LayerExists (snd w))"
  "\<lambda>(result1, result2). FakeHCSClient_NewLayerWriterReturns result1 result2" "\<lambda>i (result1, result2). FakeHCSClient_NewLayerWriterReturnsOnCall i result1 result2" "\<lambda>w. dom (map_index (fm_ReturnsOnCall (m_NewLayerWriter (snd w))))"
  using method_scripted [OF FakeHCSClient_located(5) method_counted [OF FakeHCSClient_located(5), where key = "''NewLayerWriter''" and enc = "\<lambda>(arg1, arg2, arg3). [AnyDriverInfo arg1, AnyString arg2, AnyStrings arg3]"]]
  by (simp add: FakeHCSClient_ops split_def)

section \<open>Reachable states\<close>

text \<open>A step is a call of any method a test or the driver can use; what it returns does not matter.\<close>

inductive FakeHCSClient_step :: "'s \<times> ('s, 'lw) FakeHCSClient \<Rightarrow> 's \<times> ('s, 'lw) FakeHCSClient \<Rightarrow> bool" where
  "FakeHCSClient_step w (snd (FakeHCSClient_CreateLayer arg1 arg2 arg3 w))"
| "FakeHCSClient_step w (snd (FakeHCSClient_CreateLayerCallCount w))"
| "FakeHCSClient_step w (snd (FakeHCSClient_CreateLayerCalls stub w))"
| "FakeHCSClient_step w (snd (FakeHCSClient_CreateLayerArgsForCall i w))"
| "FakeHCSClient_step w (snd (FakeHCSClient_CreateLayerReturns result1 w))"
| "FakeHCSClient_step w (snd (FakeHCSClient_CreateLayerReturnsOnCall i result1 w))"
| "FakeHCSClient_step w (snd (FakeHCSClient_DestroyLayer arg1 arg2 w))"
| "FakeHCSClient_step w (snd (FakeHCSClient_DestroyLayerCallCount w))"
| "FakeHCSClient_step w (snd (FakeHCSClient_DestroyLayerCalls stub w))"
| "FakeHCSClient_step w (snd (FakeHCSClient_DestroyLayerArgsForCall i w))"
| "FakeHCSClient_step w (snd (FakeHCSClient_DestroyLayerReturns result1 w))"
| "FakeHCSClient_step w (snd (FakeHCSClient_DestroyLayerReturnsOnCall i result1 w))"
| "FakeHCSClient_step w (snd (FakeHCSClient_GetLayerMountPath arg1 arg2 w))"
| "FakeHCSClient_step w (snd (FakeHCSClient_GetLayerMountPathCallCount w))"
| "FakeHCSClient_step w (snd (FakeHCSClient_GetLayerMountPathCalls stub w))"
| "FakeHCSClient_step w (snd (FakeHCSClient_GetLayerMountPathArgsForCall i w))"
| "FakeHCSClient_step w (snd (FakeHCSClient_GetLayerMountPathReturns result1 result2 w))"
| "FakeHCSClient_step w (snd (FakeHCSClient_GetLayerMountPathReturnsOnCall i result1 result2 w))"
| "FakeHCSClient_step w (snd (FakeHCSClient_LayerExists arg1 arg2 w))"
| "FakeHCSClient_step w (snd (FakeHCSClient_LayerExistsCallCount w))"
| "FakeHCSClient_step w (snd (FakeHCSClient_LayerExistsCalls stub w))"
| "FakeHCSClient_step w (snd (FakeHCSClient_LayerExistsArgsForCall i w))"
| "FakeHCSClient_step w (snd (FakeHCSClient_LayerExistsReturns result1 result2 w))"
| "FakeHCSClient_step w (snd (FakeHCSClient_LayerExistsReturnsOnCall i result1 result2 w))"
| "FakeHCSClient_step w (snd (FakeHCSClient_NewLayerWriter arg1 arg2 arg3 w))"
| "FakeHCSClient_step w (snd (FakeHCSClient_NewLayerWriterCallCount w))"
| "FakeHCSClient_step w (snd (FakeHCSClient_NewLayerWriterCalls stub w))"
| "FakeHCSClient_step w (snd (FakeHCSClient_NewLayerWriterArgsForCall i w))"
| "FakeHCSClient_step w (snd (FakeHCSClient_NewLayerWriterReturns result1 result2 w))"
| "FakeHCSClient_step w (snd (FakeHCSClient_NewLayerWriterReturnsOnCall i result1 result2 w))"

definition FakeHCSClient_consistent :: "'s \<times> ('s, 'lw) FakeHCSClient \<Rightarrow> bool" where
  "FakeHCSClient_consistent w \<longleftrightarrow> FakeHCSClient_ready w
     \<and> logged ''CreateLayer'' (\<lambda>(arg1, arg2, arg3). [AnyDriverInfo arg1, AnyString arg2, AnyStrings arg3]) (m_CreateLayer (snd w)) (HCSClient_log (snd w))
     \<and> logged ''DestroyLayer'' (\<lambda>(arg1, arg2). [AnyDriverInfo arg1, AnyString arg2]) (m_DestroyLayer (snd w)) (HCSClient_log (snd w))
     \<and> logged ''GetLayerMountPath'' (\<lambda>(arg1, arg2). [AnyDriverInfo arg1, AnyString arg2]) (m_GetLayerMountPath (snd w)) (HCSClient_log (snd w))
     \<and> logged ''LayerExists'' (\<lambda>(arg1, arg2). [AnyDriverInfo arg1, AnyString arg2]) (m_LayerExists (snd w)) (HCSClient_log (snd w))
     \<and> logged ''NewLayerWriter'' (\<lambda>(arg1, arg2, arg3). [AnyDriverInfo arg1, AnyString arg2, AnyStrings arg3]) (m_NewLayerWriter (snd w)) (HCSClient_log (snd w))"

lemma FakeHCSClient_upheld:
  "upheld FakeHCSClient_consistent ''CreateLayer'' (\<lambda>(arg1, arg2, arg3). [AnyDriverInfo arg1, AnyString arg2, AnyStrings arg3]) CreateLayer_part"
  "upheld FakeHCSClient_consistent ''DestroyLayer'' (\<lambda>(arg1, arg2). [AnyDriverInfo arg1, AnyString arg2]) DestroyLayer_part"
  "upheld FakeHCSClient_consistent ''GetLayerMountPath'' (\<lambda>(arg1, arg2). [AnyDriverInfo arg1, AnyString arg2]) GetLayerMountPath_part"
  "upheld FakeHCSClient_consistent ''LayerExists'' (\<lambda>(arg1, arg2). [AnyDriverInfo arg1, AnyString arg2]) LayerExists_part"
  "upheld FakeHCSClient_consistent ''NewLayerWriter'' (\<lambda>(arg1, arg2, arg3). [AnyDriverInfo arg1, AnyString arg2, AnyStrings arg3]) NewLayerWriter_part"
  by (simp_all add: upheld_def FakeHCSClient_consistent_def FakeHCSClient_ready_def idle_def logged_def log_call_def map_index_def)

lemma FakeHCSClient_step_consistent: "FakeHCSClient_step w w' \<Longrightarrow> FakeHCSClient_consistent w \<Longrightarrow> FakeHCSClient_consistent w'"
  by (induction rule: FakeHCSClient_step.induct)
     (simp_all add: FakeHCSClient_ops upheld_steps [OF FakeHCSClient_upheld(1)] upheld_steps [OF FakeHCSClient_upheld(2)] upheld_steps [OF FakeHCSClient_upheld(3)] upheld_steps [OF FakeHCSClient_upheld(4)] upheld_steps [OF FakeHCSClient_upheld(5)])

lemma FakeHCSClient_reachable_consistent: "FakeHCSClient_step\<^sup>*\<^sup>* (s, FakeHCSClient_zero) w \<Longrightarrow> FakeHCSClient_consistent w"
proof (induction rule: rtranclp_induct)
  case base
  show ?case by (simp add: FakeHCSClient_consistent_def FakeHCSClient_ready_def FakeHCSClient_zero_def)
qed (rule FakeHCSClient_step_consistent)

lemma FakeHCSClient_Invocations_run: "FakeHCSClient_ready w \<Longrightarrow> FakeHCSClient_Invocations w = (Ret (map_index (fl_invocations (HCSClient_log (snd w)))), w)"
  by (cases w) (simp add: FakeHCSClient_Invocations_def fake_Invocations_def FakeHCSClient_ready_def mutex_defs go_simps mutex_zero_def)

section \<open>The log of the fake client\<close>

text \<open>
  C37: however a test and the driver use the fake client, with whatever stubs, Invocations then returns (no mutex is left locked) and
  lists, under the name of each method, exactly the calls that method has recorded, in order; the call counts agree with it.
\<close>

theorem HCSClient_log_complete:
  assumes "FakeHCSClient_step\<^sup>*\<^sup>* (s, FakeHCSClient_zero) w"
  shows "\<exists>log. FakeHCSClient_Invocations w = (Ret log, w)
    \<and> FakeHCSClient_CreateLayerCallCount w = (Ret (int (length (entries log ''CreateLayer''))), w)
    \<and> entries log ''CreateLayer'' = map (\<lambda>(di, i, ps). [AnyDriverInfo di, AnyString i, AnyStrings ps]) (fm_ArgsForCall (m_CreateLayer (snd w)))
    \<and> FakeHCSClient_DestroyLayerCallCount w = (Ret (int (length (entries log ''DestroyLayer''))), w)
    \<and> entries log ''DestroyLayer'' = map (\<lambda>(di, i). [AnyDriverInfo di, AnyString i]) (fm_ArgsForCall (m_DestroyLayer (snd w)))
    \<and> FakeHCSClient_GetLayerMountPathCallCount w = (Ret (int (length (entries log ''GetLayerMountPath''))), w)
    \<and> entries log ''GetLayerMountPath'' = map (\<lambda>(di, i). [AnyDriverInfo di, AnyString i]) (fm_ArgsForCall (m_GetLayerMountPath (snd w)))
    \<and> FakeHCSClient_LayerExistsCallCount w = (Ret (int (length (entries log ''LayerExists''))), w)
    \<and> entries log ''LayerExists'' = map (\<lambda>(di, i). [AnyDriverInfo di, AnyString i]) (fm_ArgsForCall (m_LayerExists (snd w)))
    \<and> FakeHCSClient_NewLayerWriterCallCount w = (Ret (int (length (entries log ''NewLayerWriter''))), w)
    \<and> entries log ''NewLayerWriter'' = map (\<lambda>(di, i, ps). [AnyDriverInfo di, AnyString i, AnyStrings ps]) (fm_ArgsForCall (m_NewLayerWriter (snd w)))"
proof -
  from FakeHCSClient_reachable_consistent [OF assms] have c: "FakeHCSClient_consistent w" .
  then have r: "FakeHCSClient_ready w" by (simp add: FakeHCSClient_consistent_def)
  note L = c [unfolded FakeHCSClient_consistent_def]
  show ?thesis
    using L by (simp add: FakeHCSClient_Invocations_run [OF r] CreateLayer_args.callCount_run [OF r] DestroyLayer_args.callCount_run [OF r]
        GetLayerMountPath_args.callCount_run [OF r] LayerExists_args.callCount_run [OF r] NewLayerWriter_args.callCount_run [OF r] entries_def logged_def)
qed

end
