(* ===== verification/Fake_TarStreamer.thy ===== *)
theory Fake_TarStreamer
  imports Fake_Contract
begin

text \<open>
  The fake tar streamer, src/driver/fakes/tarstreamer.go. Readers and writers passed to it are references of types \<open>'r\<close> and \<open>'lw\<close>.
\<close>

section \<open>The state\<close>

record ('s, 'r, 'lw) FakeTarStreamer =
  m_FileInfoFromHeader :: "('s, Header option, string \<times> int64 \<times> FileBasicInfo option \<times> go_error option) fake_method"
  m_Next :: "('s, unit, Header option \<times> go_error option) fake_method"
  m_SetReader :: "('s, 'r option, unit) fake_method"
  m_WriteBackupStreamFromTarFile :: "('s, 'lw \<times> Header option \<times> string, Header option \<times> go_error option) fake_method"
  TarStreamer_log :: "('r, 'lw) fake_log"

text \<open>The zero value, \<^verbatim>\<open>new(fakes.TarStreamer)\<close>.\<close>

definition FakeTarStreamer_zero :: "('s, 'r, 'lw) FakeTarStreamer" where
  "FakeTarStreamer_zero = \<lparr>m_FileInfoFromHeader = method_zero ([], 0, None, None), m_Next = method_zero (None, None), m_SetReader = method_zero (), m_WriteBackupStreamFromTarFile = method_zero (None, None), TarStreamer_log = log_zero\<rparr>"

definition FileInfoFromHeader_part :: "('s \<times> ('s, 'r, 'lw) FakeTarStreamer, ('s, Header option, string \<times> int64 \<times> FileBasicInfo option \<times> go_error option, 'r, 'lw) method_world) ref" where
  "FileInfoFromHeader_part = fake_part m_FileInfoFromHeader m_FileInfoFromHeader_update TarStreamer_log TarStreamer_log_update"

definition Next_part :: "('s \<times> ('s, 'r, 'lw) FakeTarStreamer, ('s, unit, Header option \<times> go_error option, 'r, 'lw) method_world) ref" where
  "Next_part = fake_part m_Next m_Next_update TarStreamer_log TarStreamer_log_update"

definition SetReader_part :: "('s \<times> ('s, 'r, 'lw) FakeTarStreamer, ('s, 'r option, unit, 'r, 'lw) method_world) ref" where
  "SetReader_part = fake_part m_SetReader m_SetReader_update TarStreamer_log TarStreamer_log_update"

definition WriteBackupStreamFromTarFile_part :: "('s \<times> ('s, 'r, 'lw) FakeTarStreamer, ('s, 'lw \<times> Header option \<times> string, Header option \<times> go_error option, 'r, 'lw) method_world) ref" where
  "WriteBackupStreamFromTarFile_part = fake_part m_WriteBackupStreamFromTarFile m_WriteBackupStreamFromTarFile_update TarStreamer_log TarStreamer_log_update"

section \<open>The methods\<close>

definition FakeTarStreamer_FileInfoFromHeader :: "(Header option) \<Rightarrow> ('s \<times> ('s, 'r, 'lw) FakeTarStreamer, string \<times> int64 \<times> FileBasicInfo option \<times> go_error option) io" where
  "FakeTarStreamer_FileInfoFromHeader arg1 = zoom FileInfoFromHeader_part (fake_call ''FileInfoFromHeader'' (\<lambda>arg1. [AnyHeader arg1]) arg1)"

definition FakeTarStreamer_FileInfoFromHeaderCallCount :: "('s \<times> ('s, 'r, 'lw) FakeTarStreamer, int) io" where
  "FakeTarStreamer_FileInfoFromHeaderCallCount = zoom FileInfoFromHeader_part fake_CallCount"

definition FakeTarStreamer_FileInfoFromHeaderCalls :: "(Header option \<Rightarrow> ('s, string \<times> int64 \<times> FileBasicInfo option \<times> go_error option) io) option \<Rightarrow> ('s \<times> ('s, 'r, 'lw) FakeTarStreamer, unit) io" where
  "FakeTarStreamer_FileInfoFromHeaderCalls stub = zoom FileInfoFromHeader_part (fake_Calls stub)"

definition FakeTarStreamer_FileInfoFromHeaderArgsForCall :: "int \<Rightarrow> ('s \<times> ('s, 'r, 'lw) FakeTarStreamer, Header option) io" where
  "FakeTarStreamer_FileInfoFromHeaderArgsForCall i = zoom FileInfoFromHeader_part (fake_ArgsForCall i)"

definition FakeTarStreamer_FileInfoFromHeaderReturns :: "string \<Rightarrow> int64 \<Rightarrow> (FileBasicInfo option) \<Rightarrow> (go_error option) \<Rightarrow> ('s \<times> ('s, 'r, 'lw) FakeTarStreamer, unit) io" where
  "FakeTarStreamer_FileInfoFromHeaderReturns result1 result2 result3 result4 = zoom FileInfoFromHeader_part (fake_Returns (result1, result2, result3, result4))"

definition FakeTarStreamer_FileInfoFromHeaderReturnsOnCall :: "int \<Rightarrow> string \<Rightarrow> int64 \<Rightarrow> (FileBasicInfo option) \<Rightarrow> (go_error option) \<Rightarrow> ('s \<times> ('s, 'r, 'lw) FakeTarStreamer, unit) io" where
  "FakeTarStreamer_FileInfoFromHeaderReturnsOnCall i result1 result2 result3 result4 = zoom FileInfoFromHeader_part (fake_ReturnsOnCall i (result1, result2, result3, result4))"

definition FakeTarStreamer_Next :: "('s \<times> ('s, 'r, 'lw) FakeTarStreamer, Header option \<times> go_error option) io" where
  "FakeTarStreamer_Next = zoom Next_part (fake_call ''Next'' (\<lambda>_. []) ())"

definition FakeTarStreamer_NextCallCount :: "('s \<times> ('s, 'r, 'lw) FakeTarStreamer, int) io" where
  "FakeTarStreamer_NextCallCount = zoom Next_part fake_CallCount"

definition FakeTarStreamer_NextCalls :: "(unit \<Rightarrow> ('s, Header option \<times> go_error option) io) option \<Rightarrow> ('s \<times> ('s, 'r, 'lw) FakeTarStreamer, unit) io" where
  "FakeTarStreamer_NextCalls stub = zoom Next_part (fake_Calls stub)"

definition FakeTarStreamer_NextReturns :: "(Header option) \<Rightarrow> (go_error option) \<Rightarrow> ('s \<times> ('s, 'r, 'lw) FakeTarStreamer, unit) io" where
  "FakeTarStreamer_NextReturns result1 result2 = zoom Next_part (fake_Returns (result1, result2))"

definition FakeTarStreamer_NextReturnsOnCall :: "int \<Rightarrow> (Header option) \<Rightarrow> (go_error option) \<Rightarrow> ('s \<times> ('s, 'r, 'lw) FakeTarStreamer, unit) io" where
  "FakeTarStreamer_NextReturnsOnCall i result1 result2 = zoom Next_part (fake_ReturnsOnCall i (result1, result2))"

definition FakeTarStreamer_SetReader :: "('r option) \<Rightarrow> ('s \<times> ('s, 'r, 'lw) FakeTarStreamer, unit) io" where
  "FakeTarStreamer_SetReader arg1 = zoom SetReader_part (fake_call_void ''SetReader'' (\<lambda>arg1. [AnyReader arg1]) arg1)"

definition FakeTarStreamer_SetReaderCallCount :: "('s \<times> ('s, 'r, 'lw) FakeTarStreamer, int) io" where
  "FakeTarStreamer_SetReaderCallCount = zoom SetReader_part fake_CallCount"

definition FakeTarStreamer_SetReaderCalls :: "('r option \<Rightarrow> ('s, unit) io) option \<Rightarrow> ('s \<times> ('s, 'r, 'lw) FakeTarStreamer, unit) io" where
  "FakeTarStreamer_SetReaderCalls stub = zoom SetReader_part (fake_Calls stub)"

definition FakeTarStreamer_SetReaderArgsForCall :: "int \<Rightarrow> ('s \<times> ('s, 'r, 'lw) FakeTarStreamer, 'r option) io" where
  "FakeTarStreamer_SetReaderArgsForCall i = zoom SetReader_part (fake_ArgsForCall i)"

definition FakeTarStreamer_WriteBackupStreamFromTarFile :: "'lw \<Rightarrow> (Header option) \<Rightarrow> string \<Rightarrow> ('s \<times> ('s, 'r, 'lw) FakeTarStreamer, Header option \<times> go_error option) io" where
  "FakeTarStreamer_WriteBackupStreamFromTarFile arg1 arg2 arg3 = zoom WriteBackupStreamFromTarFile_part (fake_call ''WriteBackupStreamFromTarFile'' (\<lambda>(arg1, arg2, arg3). [AnyWriter arg1, AnyHeader arg2, AnyString arg3]) (arg1, arg2, arg3))"

definition FakeTarStreamer_WriteBackupStreamFromTarFileCallCount :: "('s \<times> ('s, 'r, 'lw) FakeTarStreamer, int) io" where
  "FakeTarStreamer_WriteBackupStreamFromTarFileCallCount = zoom WriteBackupStreamFromTarFile_part fake_CallCount"

definition FakeTarStreamer_WriteBackupStreamFromTarFileCalls :: "('lw \<times> Header option \<times> string \<Rightarrow> ('s, Header option \<times> go_error option) io) option \<Rightarrow> ('s \<times> ('s, 'r, 'lw) FakeTarStreamer, unit) io" where
  "FakeTarStreamer_WriteBackupStreamFromTarFileCalls stub = zoom WriteBackupStreamFromTarFile_part (fake_Calls stub)"

definition FakeTarStreamer_WriteBackupStreamFromTarFileArgsForCall :: "int \<Rightarrow> ('s \<times> ('s, 'r, 'lw) FakeTarStreamer, 'lw \<times> Header option \<times> string) io" where
  "FakeTarStreamer_WriteBackupStreamFromTarFileArgsForCall i = zoom WriteBackupStreamFromTarFile_part (fake_ArgsForCall i)"

definition FakeTarStreamer_WriteBackupStreamFromTarFileReturns :: "(Header option) \<Rightarrow> (go_error option) \<Rightarrow> ('s \<times> ('s, 'r, 'lw) FakeTarStreamer, unit) io" where
  "FakeTarStreamer_WriteBackupStreamFromTarFileReturns result1 result2 = zoom WriteBackupStreamFromTarFile_part (fake_Returns (result1, result2))"

definition FakeTarStreamer_WriteBackupStreamFromTarFileReturnsOnCall :: "int \<Rightarrow> (Header option) \<Rightarrow> (go_error option) \<Rightarrow> ('s \<times> ('s, 'r, 'lw) FakeTarStreamer, unit) io" where
  "FakeTarStreamer_WriteBackupStreamFromTarFileReturnsOnCall i result1 result2 = zoom WriteBackupStreamFromTarFile_part (fake_ReturnsOnCall i (result1, result2))"

definition FakeTarStreamer_recordInvocation :: "string \<Rightarrow> ('r, 'lw) any list \<Rightarrow> ('s \<times> ('s, 'r, 'lw) FakeTarStreamer, unit) io" where
  "FakeTarStreamer_recordInvocation key args = fake_recordInvocation (field_ref TarStreamer_log TarStreamer_log_update fake_ref) key args"

definition FakeTarStreamer_Invocations :: "('s \<times> ('s, 'r, 'lw) FakeTarStreamer, string \<rightharpoonup> ('r, 'lw) any list list) io" where
  "FakeTarStreamer_Invocations = fake_Invocations
     [field_ref fm_Mutex fm_Mutex_update (field_ref m_FileInfoFromHeader m_FileInfoFromHeader_update fake_ref),
      field_ref fm_Mutex fm_Mutex_update (field_ref m_Next m_Next_update fake_ref),
      field_ref fm_Mutex fm_Mutex_update (field_ref m_SetReader m_SetReader_update fake_ref),
      field_ref fm_Mutex fm_Mutex_update (field_ref m_WriteBackupStreamFromTarFile m_WriteBackupStreamFromTarFile_update fake_ref)]
     (field_ref TarStreamer_log TarStreamer_log_update fake_ref)"

lemmas FakeTarStreamer_ops =
  FakeTarStreamer_FileInfoFromHeader_def [abs_def] FakeTarStreamer_FileInfoFromHeaderCallCount_def FakeTarStreamer_FileInfoFromHeaderCalls_def [abs_def]
  FakeTarStreamer_FileInfoFromHeaderArgsForCall_def [abs_def] FakeTarStreamer_FileInfoFromHeaderReturns_def [abs_def] FakeTarStreamer_FileInfoFromHeaderReturnsOnCall_def [abs_def]
  FakeTarStreamer_Next_def [abs_def] FakeTarStreamer_NextCallCount_def FakeTarStreamer_NextCalls_def [abs_def]
  FakeTarStreamer_NextReturns_def [abs_def] FakeTarStreamer_NextReturnsOnCall_def [abs_def] FakeTarStreamer_SetReader_def [abs_def]
  FakeTarStreamer_SetReaderCallCount_def FakeTarStreamer_SetReaderCalls_def [abs_def] FakeTarStreamer_SetReaderArgsForCall_def [abs_def]
  FakeTarStreamer_WriteBackupStreamFromTarFile_def [abs_def] FakeTarStreamer_WriteBackupStreamFromTarFileCallCount_def FakeTarStreamer_WriteBackupStreamFromTarFileCalls_def [abs_def]
  FakeTarStreamer_WriteBackupStreamFromTarFileArgsForCall_def [abs_def] FakeTarStreamer_WriteBackupStreamFromTarFileReturns_def [abs_def] FakeTarStreamer_WriteBackupStreamFromTarFileReturnsOnCall_def [abs_def]

section \<open>The contract\<close>

definition FakeTarStreamer_ready :: "'s \<times> ('s, 'r, 'lw) FakeTarStreamer \<Rightarrow> bool" where
  "FakeTarStreamer_ready w \<longleftrightarrow>
     fm_Mutex (m_FileInfoFromHeader (snd w)) = mutex_zero \<and> fm_Mutex (m_Next (snd w)) = mutex_zero \<and> fm_Mutex (m_SetReader (snd w)) = mutex_zero \<and> fm_Mutex (m_WriteBackupStreamFromTarFile (snd w)) = mutex_zero
     \<and> fl_invocationsMutex (TarStreamer_log (snd w)) = mutex_zero"

lemma FakeTarStreamer_parts [simp]:
  "ref_get FileInfoFromHeader_part w = (fst w, m_FileInfoFromHeader (snd w), TarStreamer_log (snd w))"
  "ref_put FileInfoFromHeader_part (s, m1, l) w = (s, (snd w)\<lparr>m_FileInfoFromHeader := m1, TarStreamer_log := l\<rparr>)"
  "ref_get Next_part w = (fst w, m_Next (snd w), TarStreamer_log (snd w))"
  "ref_put Next_part (s, m2, l) w = (s, (snd w)\<lparr>m_Next := m2, TarStreamer_log := l\<rparr>)"
  "ref_get SetReader_part w = (fst w, m_SetReader (snd w), TarStreamer_log (snd w))"
  "ref_put SetReader_part (s, m3, l) w = (s, (snd w)\<lparr>m_SetReader := m3, TarStreamer_log := l\<rparr>)"
  "ref_get WriteBackupStreamFromTarFile_part w = (fst w, m_WriteBackupStreamFromTarFile (snd w), TarStreamer_log (snd w))"
  "ref_put WriteBackupStreamFromTarFile_part (s, m4, l) w = (s, (snd w)\<lparr>m_WriteBackupStreamFromTarFile := m4, TarStreamer_log := l\<rparr>)"
  by (simp_all add: FileInfoFromHeader_part_def Next_part_def SetReader_part_def WriteBackupStreamFromTarFile_part_def fake_part_def split_beta)

lemma FakeTarStreamer_located:
  "located FakeTarStreamer_ready (\<lambda>w. (m_Next (snd w), m_SetReader (snd w), m_WriteBackupStreamFromTarFile (snd w))) FileInfoFromHeader_part"
  "located FakeTarStreamer_ready (\<lambda>w. (m_FileInfoFromHeader (snd w), m_SetReader (snd w), m_WriteBackupStreamFromTarFile (snd w))) Next_part"
  "located FakeTarStreamer_ready (\<lambda>w. (m_FileInfoFromHeader (snd w), m_Next (snd w), m_WriteBackupStreamFromTarFile (snd w))) SetReader_part"
  "located FakeTarStreamer_ready (\<lambda>w. (m_FileInfoFromHeader (snd w), m_Next (snd w), m_SetReader (snd w))) WriteBackupStreamFromTarFile_part"
  by (simp_all add: located_def FakeTarStreamer_ready_def idle_def)

interpretation FileInfoFromHeader_args: inspected "FakeTarStreamer_FileInfoFromHeader" FakeTarStreamer_FileInfoFromHeaderCallCount FakeTarStreamer_FileInfoFromHeaderCalls
  FakeTarStreamer_ready fst "\<lambda>w. fm_ArgsForCall (m_FileInfoFromHeader (snd w))" "\<lambda>w. fm_Stub (m_FileInfoFromHeader (snd w))" "\<lambda>w. answer_of (m_FileInfoFromHeader (snd w))"
  "\<lambda>w. (m_Next (snd w), m_SetReader (snd w), m_WriteBackupStreamFromTarFile (snd w))"
  "FakeTarStreamer_FileInfoFromHeaderArgsForCall"
  using method_inspected [OF FakeTarStreamer_located(1) method_counted [OF FakeTarStreamer_located(1), where key = "''FileInfoFromHeader''" and enc = "\<lambda>arg1. [AnyHeader arg1]"]]
  by (simp add: FakeTarStreamer_ops split_def)

interpretation FileInfoFromHeader_script: scripted "FakeTarStreamer_FileInfoFromHeader" FakeTarStreamer_FileInfoFromHeaderCallCount FakeTarStreamer_FileInfoFromHeaderCalls
  FakeTarStreamer_ready fst "\<lambda>w. fm_ArgsForCall (m_FileInfoFromHeader (snd w))" "\<lambda>w. fm_Stub (m_FileInfoFromHeader (snd w))" "\<lambda>w. answer_of (m_FileInfoFromHeader (snd w))"
  "\<lambda>w. (m_Next (snd w), m_SetReader (snd w), m_WriteBackupStreamFromTarFile (snd w))"
  "\<lambda>(result1, result2, result3, result4). FakeTarStreamer_FileInfoFromHeaderReturns result1 result2 result3 result4" "\<lambda>i (result1, result2, result3, result4). FakeTarStreamer_FileInfoFromHeaderReturnsOnCall i result1 result2 result3 result4" "\<lambda>w. dom (map_index (fm_ReturnsOnCall (m_FileInfoFromHeader (snd w))))"
  using method_scripted [OF FakeTarStreamer_located(1) method_counted [OF FakeTarStreamer_located(1), where key = "''FileInfoFromHeader''" and enc = "\<lambda>arg1. [AnyHeader arg1]"]]
  by (simp add: FakeTarStreamer_ops split_def)

interpretation Next_script: scripted "\<lambda>_. FakeTarStreamer_Next" FakeTarStreamer_NextCallCount FakeTarStreamer_NextCalls
  FakeTarStreamer_ready fst "\<lambda>w. fm_ArgsForCall (m_Next (snd w))" "\<lambda>w. fm_Stub (m_Next (snd w))" "\<lambda>w. answer_of (m_Next (snd w))"
  "\<lambda>w. (m_FileInfoFromHeader (snd w), m_SetReader (snd w), m_WriteBackupStreamFromTarFile (snd w))"
  "\<lambda>(result1, result2). FakeTarStreamer_NextReturns result1 result2" "\<lambda>i (result1, result2). FakeTarStreamer_NextReturnsOnCall i result1 result2" "\<lambda>w. dom (map_index (fm_ReturnsOnCall (m_Next (snd w))))"
  using method_scripted [OF FakeTarStreamer_located(2) method_counted [OF FakeTarStreamer_located(2), where key = "''Next''" and enc = "\<lambda>_. []"]]
  by (simp add: FakeTarStreamer_ops split_def)

interpretation SetReader_args: inspected "FakeTarStreamer_SetReader" FakeTarStreamer_SetReaderCallCount FakeTarStreamer_SetReaderCalls
  FakeTarStreamer_ready fst "\<lambda>w. fm_ArgsForCall (m_SetReader (snd w))" "\<lambda>w. fm_Stub (m_SetReader (snd w))" "\<lambda>w. answer_of (m_SetReader (snd w))"
  "\<lambda>w. (m_FileInfoFromHeader (snd w), m_Next (snd w), m_WriteBackupStreamFromTarFile (snd w))"
  "FakeTarStreamer_SetReaderArgsForCall"
  using method_inspected [OF FakeTarStreamer_located(3) method_counted_void [OF FakeTarStreamer_located(3), where key = "''SetReader''" and enc = "\<lambda>arg1. [AnyReader arg1]"]]
  by (simp add: FakeTarStreamer_ops split_def)

interpretation WriteBackupStreamFromTarFile_args: inspected "\<lambda>(arg1, arg2, arg3). FakeTarStreamer_WriteBackupStreamFromTarFile arg1 arg2 arg3" FakeTarStreamer_WriteBackupStreamFromTarFileCallCount FakeTarStreamer_WriteBackupStreamFromTarFileCalls
  FakeTarStreamer_ready fst "\<lambda>w. fm_ArgsForCall (m_WriteBackupStreamFromTarFile (snd w))" "\<lambda>w. fm_Stub (m_WriteBackupStreamFromTarFile (snd w))" "\<lambda>w. answer_of (m_WriteBackupStreamFromTarFile (snd w))"
  "\<lambda>w. (m_FileInfoFromHeader (snd w), m_Next (snd w), m_SetReader (snd w))"
  "FakeTarStreamer_WriteBackupStreamFromTarFileArgsForCall"
  using method_inspected [OF FakeTarStreamer_located(4) method_counted [OF FakeTarStreamer_located(4), where key = "''WriteBackupStreamFromTarFile''" and enc = "\<lambda>(arg1, arg2, arg3). [AnyWriter arg1, AnyHeader arg2, AnyString arg3]"]]
  by (simp add: FakeTarStreamer_ops split_def)

interpretation WriteBackupStreamFromTarFile_script: scripted "\<lambda>(arg1, arg2, arg3). FakeTarStreamer_WriteBackupStreamFromTarFile arg1 arg2 arg3" FakeTarStreamer_WriteBackupStreamFromTarFileCallCount FakeTarStreamer_WriteBackupStreamFromTarFileCalls
  FakeTarStreamer_ready fst "\<lambda>w. fm_ArgsForCall (m_WriteBackupStreamFromTarFile (snd w))" "\<lambda>w. fm_Stub (m_WriteBackupStreamFromTarFile (snd w))" "\<lambda>w. answer_of (m_WriteBackupStreamFromTarFile (snd w))"
  "\<lambda>w. (m_FileInfoFromHeader (snd w), m_Next (snd w), m_SetReader (snd w))"
  "\<lambda>(result1, result2). FakeTarStreamer_WriteBackupStreamFromTarFileReturns result1 result2" "\<lambda>i (result1, result2). FakeTarStreamer_WriteBackupStreamFromTarFileReturnsOnCall i result1 result2" "\<lambda>w. dom (map_index (fm_ReturnsOnCall (m_WriteBackupStreamFromTarFile (snd w))))"
  using method_scripted [OF FakeTarStreamer_located(4) method_counted [OF FakeTarStreamer_located(4), where key = "''WriteBackupStreamFromTarFile''" and enc = "\<lambda>(arg1, arg2, arg3). [AnyWriter arg1, AnyHeader arg2, AnyString arg3]"]]
  by (simp add: FakeTarStreamer_ops split_def)

section \<open>Reachable states\<close>

text \<open>A step is a call of any method a test or the driver can use; what it returns does not matter.\<close>

inductive FakeTarStreamer_step :: "'s \<times> ('s, 'r, 'lw) FakeTarStreamer \<Rightarrow> 's \<times> ('s, 'r, 'lw) FakeTarStreamer \<Rightarrow> bool" where
  "FakeTarStreamer_step w (snd (FakeTarStreamer_FileInfoFromHeader arg1 w))"
| "FakeTarStreamer_step w (snd (FakeTarStreamer_FileInfoFromHeaderCallCount w))"
| "FakeTarStreamer_step w (snd (FakeTarStreamer_FileInfoFromHeaderCalls stub w))"
| "FakeTarStreamer_step w (snd (FakeTarStreamer_FileInfoFromHeaderArgsForCall i w))"
| "FakeTarStreamer_step w (snd (FakeTarStreamer_FileInfoFromHeaderReturns result1 result2 result3 result4 w))"
| "FakeTarStreamer_step w (snd (FakeTarStreamer_FileInfoFromHeaderReturnsOnCall i result1 result2 result3 result4 w))"
| "FakeTarStreamer_step w (snd (FakeTarStreamer_Next w))"
| "FakeTarStreamer_step w (snd (FakeTarStreamer_NextCallCount w))"
| "FakeTarStreamer_step w (snd (FakeTarStreamer_NextCalls stub w))"
| "FakeTarStreamer_step w (snd (FakeTarStreamer_NextReturns result1 result2 w))"
| "FakeTarStreamer_step w (snd (FakeTarStreamer_NextReturnsOnCall i result1 result2 w))"
| "FakeTarStreamer_step w (snd (FakeTarStreamer_SetReader arg1 w))"
| "FakeTarStreamer_step w (snd (FakeTarStreamer_SetReaderCallCount w))"
| "FakeTarStreamer_step w (snd (FakeTarStreamer_SetReaderCalls stub w))"
| "FakeTarStreamer_step w (snd (FakeTarStreamer_SetReaderArgsForCall i w))"
| "FakeTarStreamer_step w (snd (FakeTarStreamer_WriteBackupStreamFromTarFile arg1 arg2 arg3 w))"
| "FakeTarStreamer_step w (snd (FakeTarStreamer_WriteBackupStreamFromTarFileCallCount w))"
| "FakeTarStreamer_step w (snd (FakeTarStreamer_WriteBackupStreamFromTarFileCalls stub w))"
| "FakeTarStreamer_step w (snd (FakeTarStreamer_WriteBackupStreamFromTarFileArgsForCall i w))"
| "FakeTarStreamer_step w (snd (FakeTarStreamer_WriteBackupStreamFromTarFileReturns result1 result2 w))"
| "FakeTarStreamer_step w (snd (FakeTarStreamer_WriteBackupStreamFromTarFileReturnsOnCall i result1 result2 w))"

definition FakeTarStreamer_consistent :: "'s \<times> ('s, 'r, 'lw) FakeTarStreamer \<Rightarrow> bool" where
  "FakeTarStreamer_consistent w \<longleftrightarrow> FakeTarStreamer_ready w
     \<and> logged ''FileInfoFromHeader'' (\<lambda>arg1. [AnyHeader arg1]) (m_FileInfoFromHeader (snd w)) (TarStreamer_log (snd w))
     \<and> logged ''Next'' (\<lambda>_. []) (m_Next (snd w)) (TarStreamer_log (snd w))
     \<and> logged ''SetReader'' (\<lambda>arg1. [AnyReader arg1]) (m_SetReader (snd w)) (TarStreamer_log (snd w))
     \<and> logged ''WriteBackupStreamFromTarFile'' (\<lambda>(arg1, arg2, arg3). [AnyWriter arg1, AnyHeader arg2, AnyString arg3]) (m_WriteBackupStreamFromTarFile (snd w)) (TarStreamer_log (snd w))"

lemma FakeTarStreamer_upheld:
  "upheld FakeTarStreamer_consistent ''FileInfoFromHeader'' (\<lambda>arg1. [AnyHeader arg1]) FileInfoFromHeader_part"
  "upheld FakeTarStreamer_consistent ''Next'' (\<lambda>_. []) Next_part"
  "upheld FakeTarStreamer_consistent ''SetReader'' (\<lambda>arg1. [AnyReader arg1]) SetReader_part"
  "upheld FakeTarStreamer_consistent ''WriteBackupStreamFromTarFile'' (\<lambda>(arg1, arg2, arg3). [AnyWriter arg1, AnyHeader arg2, AnyString arg3]) WriteBackupStreamFromTarFile_part"
  by (simp_all add: upheld_def FakeTarStreamer_consistent_def FakeTarStreamer_ready_def idle_def logged_def log_call_def map_index_def)

lemma FakeTarStreamer_step_consistent: "FakeTarStreamer_step w w' \<Longrightarrow> FakeTarStreamer_consistent w \<Longrightarrow> FakeTarStreamer_consistent w'"
  by (induction rule: FakeTarStreamer_step.induct)
     (simp_all add: FakeTarStreamer_ops upheld_steps [OF FakeTarStreamer_upheld(1)] upheld_steps [OF FakeTarStreamer_upheld(2)] upheld_steps(2-) [OF FakeTarStreamer_upheld(3)] upheld_step_void [OF FakeTarStreamer_upheld(3)] upheld_steps [OF FakeTarStreamer_upheld(4)])

lemma FakeTarStreamer_reachable_consistent: "FakeTarStreamer_step\<^sup>*\<^sup>* (s, FakeTarStreamer_zero) w \<Longrightarrow> FakeTarStreamer_consistent w"
proof (induction rule: rtranclp_induct)
  case base
  show ?case by (simp add: FakeTarStreamer_consistent_def FakeTarStreamer_ready_def FakeTarStreamer_zero_def)
qed (rule FakeTarStreamer_step_consistent)

lemma FakeTarStreamer_Invocations_run: "FakeTarStreamer_ready w \<Longrightarrow> FakeTarStreamer_Invocations w = (Ret (map_index (fl_invocations (TarStreamer_log (snd w)))), w)"
  by (cases w) (simp add: FakeTarStreamer_Invocations_def fake_Invocations_def FakeTarStreamer_ready_def mutex_defs go_simps mutex_zero_def)

section \<open>Scripts for the fake streamer\<close>

text \<open>
  A test can script the archive: after NextReturnsOnCall for the calls 0, 1, ... on a new fake, the calls of Next return
  the planned headers and errors in that order, and only Next has been called.
\<close>

theorem Next_follows_script:
  "\<exists>u w1 w2. go_each (\<lambda>(i, h, err). FakeTarStreamer_NextReturnsOnCall i h err) (zip (map int [0..<length rs]) rs) (s, FakeTarStreamer_zero :: ('s, 'r, 'lw) FakeTarStreamer) = (Ret u, w1)
     \<and> go_each (\<lambda>_. FakeTarStreamer_Next) (replicate (length rs) ()) w1 = (Ret rs, w2)
     \<and> FakeTarStreamer_NextCallCount w2 = (Ret (int (length rs)), w2) \<and> FakeTarStreamer_SetReaderCallCount w2 = (Ret 0, w2)
     \<and> FakeTarStreamer_WriteBackupStreamFromTarFileCallCount w2 = (Ret 0, w2)"
proof (cases "rs = []")
  case True
  have "FakeTarStreamer_ready (s, FakeTarStreamer_zero :: ('s, 'r, 'lw) FakeTarStreamer)" by (simp add: FakeTarStreamer_ready_def FakeTarStreamer_zero_def)
  from Next_script.callCount_run [OF this] SetReader_args.callCount_run [OF this] WriteBackupStreamFromTarFile_args.callCount_run [OF this] True
  show ?thesis by (simp add: FakeTarStreamer_zero_def method_zero_def)
next
  case False
  let ?w = "(s, FakeTarStreamer_zero :: ('s, 'r, 'lw) FakeTarStreamer)"
  have r: "FakeTarStreamer_ready ?w" and h: "fm_ArgsForCall (m_Next (snd ?w)) = []"
    by (simp_all add: FakeTarStreamer_ready_def FakeTarStreamer_zero_def method_zero_def)
  from Next_script.plan_run [OF r False, of 0] obtain w1
    where p: "go_each (\<lambda>(i, h, err). FakeTarStreamer_NextReturnsOnCall i h err) (zip (map int [0..<length rs]) rs) ?w = (Ret (map (\<lambda>_. ()) rs), w1)"
      and w1: "FakeTarStreamer_ready w1" "fm_Stub (m_Next (snd w1)) = None" by auto
  from Next_script.follows_plan [OF r h False p, of "replicate (length rs) ()"] obtain w2
    where n: "go_each (\<lambda>_. FakeTarStreamer_Next) (replicate (length rs) ()) w1 = (Ret rs, w2)" "fm_ArgsForCall (m_Next (snd w2)) = replicate (length rs) ()"
      and o: "m_SetReader (snd w2) = m_SetReader (snd ?w)" "m_WriteBackupStreamFromTarFile (snd w2) = m_WriteBackupStreamFromTarFile (snd ?w)"
    by auto
  from Next_script.each_run [OF w1, of "replicate (length rs) ()"] n(1) have r2: "FakeTarStreamer_ready w2" by auto
  show ?thesis
    using p n o Next_script.callCount_run [OF r2] SetReader_args.callCount_run [OF r2] WriteBackupStreamFromTarFile_args.callCount_run [OF r2]
    by (intro exI [of _ "map (\<lambda>_. ()) rs"] exI [of _ w1] exI [of _ w2]) (simp add: FakeTarStreamer_zero_def method_zero_def)
qed

end
