(* ===== verification/Fake_LayerWriter.thy ===== *)
theory Fake_LayerWriter
  imports Fake_Contract
begin

text \<open>
  The fake layer writer, src/hcs/fakes/layer\_writer.go.
\<close>

section \<open>The state\<close>

record 's FakeLayerWriter =
  m_Add :: "('s, string \<times> FileBasicInfo option, go_error option) fake_method"
  m_AddLink :: "('s, string \<times> string, go_error option) fake_method"
  m_Close :: "('s, unit, go_error option) fake_method"
  m_Remove :: "('s, string, go_error option) fake_method"
  m_Write :: "('s, bytes, int \<times> go_error option) fake_method"
  LayerWriter_log :: "(unit, unit) fake_log"

text \<open>The zero value, \<^verbatim>\<open>new(fakes.LayerWriter)\<close>.\<close>

definition FakeLayerWriter_zero :: "'s FakeLayerWriter" where
  "FakeLayerWriter_zero = \<lparr>m_Add = method_zero None, m_AddLink = method_zero None, m_Close = method_zero None, m_Remove = method_zero None, m_Write = method_zero (0, None), LayerWriter_log = log_zero\<rparr>"

definition Add_part :: "('s \<times> 's FakeLayerWriter, ('s, string \<times> FileBasicInfo option, go_error option, unit, unit) method_world) ref" where
  "Add_part = fake_part m_Add m_Add_update LayerWriter_log LayerWriter_log_update"

definition AddLink_part :: "('s \<times> 's FakeLayerWriter, ('s, string \<times> string, go_error option, unit, unit) method_world) ref" where
  "AddLink_part = fake_part m_AddLink m_AddLink_update LayerWriter_log LayerWriter_log_update"

definition Close_part :: "('s \<times> 's FakeLayerWriter, ('s, unit, go_error option, unit, unit) method_world) ref" where
  "Close_part = fake_part m_Close m_Close_update LayerWriter_log LayerWriter_log_update"

definition Remove_part :: "('s \<times> 's FakeLayerWriter, ('s, string, go_error option, unit, unit) method_world) ref" where
  "Remove_part = fake_part m_Remove m_Remove_update LayerWriter_log LayerWriter_log_update"

definition Write_part :: "('s \<times> 's FakeLayerWriter, ('s, bytes, int \<times> go_error option, unit, unit) method_world) ref" where
  "Write_part = fake_part m_Write m_Write_update LayerWriter_log LayerWriter_log_update"

section \<open>The methods\<close>

definition FakeLayerWriter_Add :: "string \<Rightarrow> (FileBasicInfo option) \<Rightarrow> ('s \<times> 's FakeLayerWriter, go_error option) io" where
  "FakeLayerWriter_Add arg1 arg2 = zoom Add_part (fake_call ''Add'' (\<lambda>(arg1, arg2). [AnyString arg1, AnyFileInfo arg2]) (arg1, arg2))"

definition FakeLayerWriter_AddCallCount :: "('s \<times> 's FakeLayerWriter, int) io" where
  "FakeLayerWriter_AddCallCount = zoom Add_part fake_CallCount"

definition FakeLayerWriter_AddCalls :: "(string \<times> FileBasicInfo option \<Rightarrow> ('s, go_error option) io) option \<Rightarrow> ('s \<times> 's FakeLayerWriter, unit) io" where
  "FakeLayerWriter_AddCalls stub = zoom Add_part (fake_Calls stub)"

definition FakeLayerWriter_AddArgsForCall :: "int \<Rightarrow> ('s \<times> 's FakeLayerWriter, string \<times> FileBasicInfo option) io" where
  "FakeLayerWriter_AddArgsForCall i = zoom Add_part (fake_ArgsForCall i)"

definition FakeLayerWriter_AddReturns :: "(go_error option) \<Rightarrow> ('s \<times> 's FakeLayerWriter, unit) io" where
  "FakeLayerWriter_AddReturns result1 = zoom Add_part (fake_Returns result1)"

definition FakeLayerWriter_AddReturnsOnCall :: "int \<Rightarrow> (go_error option) \<Rightarrow> ('s \<times> 's FakeLayerWriter, unit) io" where
  "FakeLayerWriter_AddReturnsOnCall i result1 = zoom Add_part (fake_ReturnsOnCall i result1)"

definition FakeLayerWriter_AddLink :: "string \<Rightarrow> string \<Rightarrow> ('s \<times> 's FakeLayerWriter, go_error option) io" where
  "FakeLayerWriter_AddLink arg1 arg2 = zoom AddLink_part (fake_call ''AddLink'' (\<lambda>(arg1, arg2). [AnyString arg1, AnyString arg2]) (arg1, arg2))"

definition FakeLayerWriter_AddLinkCallCount :: "('s \<times> 's FakeLayerWriter, int) io" where
  "FakeLayerWriter_AddLinkCallCount = zoom AddLink_part fake_CallCount"

definition FakeLayerWriter_AddLinkCalls :: "(string \<times> string \<Rightarrow> ('s, go_error option) io) option \<Rightarrow> ('s \<times> 's FakeLayerWriter, unit) io" where
  "FakeLayerWriter_AddLinkCalls stub = zoom AddLink_part (fake_Calls stub)"

definition FakeLayerWriter_AddLinkArgsForCall :: "int \<Rightarrow> ('s \<times> 's FakeLayerWriter, string \<times> string) io" where
  "FakeLayerWriter_AddLinkArgsForCall i = zoom AddLink_part (fake_ArgsForCall i)"

definition FakeLayerWriter_AddLinkReturns :: "(go_error option) \<Rightarrow> ('s \<times> 's FakeLayerWriter, unit) io" where
  "FakeLayerWriter_AddLinkReturns result1 = zoom AddLink_part (fake_Returns result1)"

definition FakeLayerWriter_AddLinkReturnsOnCall :: "int \<Rightarrow> (go_error option) \<Rightarrow> ('s \<times> 's FakeLayerWriter, unit) io" where
  "FakeLayerWriter_AddLinkReturnsOnCall i result1 = zoom AddLink_part (fake_ReturnsOnCall i result1)"

definition FakeLayerWriter_Close :: "('s \<times> 's FakeLayerWriter, go_error option) io" where
  "FakeLayerWriter_Close = zoom Close_part (fake_call ''Close'' (\<lambda>_. []) ())"

definition FakeLayerWriter_CloseCallCount :: "('s \<times> 's FakeLayerWriter, int) io" where
  "FakeLayerWriter_CloseCallCount = zoom Close_part fake_CallCount"

definition FakeLayerWriter_CloseCalls :: "(unit \<Rightarrow> ('s, go_error option) io) option \<Rightarrow> ('s \<times> 's FakeLayerWriter, unit) io" where
  "FakeLayerWriter_CloseCalls stub = zoom Close_part (fake_Calls stub)"

definition FakeLayerWriter_CloseReturns :: "(go_error option) \<Rightarrow> ('s \<times> 's FakeLayerWriter, unit) io" where
  "FakeLayerWriter_CloseReturns result1 = zoom Close_part (fake_Returns result1)"

definition FakeLayerWriter_CloseReturnsOnCall :: "int \<Rightarrow> (go_error option) \<Rightarrow> ('s \<times> 's FakeLayerWriter, unit) io" where
  "FakeLayerWriter_CloseReturnsOnCall i result1 = zoom Close_part (fake_ReturnsOnCall i result1)"

definition FakeLayerWriter_Remove :: "string \<Rightarrow> ('s \<times> 's FakeLayerWriter, go_error option) io" where
  "FakeLayerWriter_Remove arg1 = zoom Remove_part (fake_call ''Remove'' (\<lambda>arg1. [AnyString arg1]) arg1)"

definition FakeLayerWriter_RemoveCallCount :: "('s \<times> 's FakeLayerWriter, int) io" where
  "FakeLayerWriter_RemoveCallCount = zoom Remove_part fake_CallCount"

definition FakeLayerWriter_RemoveCalls :: "(string \<Rightarrow> ('s, go_error option) io) option \<Rightarrow> ('s \<times> 's FakeLayerWriter, unit) io" where
  "FakeLayerWriter_RemoveCalls stub = zoom Remove_part (fake_Calls stub)"

definition FakeLayerWriter_RemoveArgsForCall :: "int \<Rightarrow> ('s \<times> 's FakeLayerWriter, string) io" where
  "FakeLayerWriter_RemoveArgsForCall i = zoom Remove_part (fake_ArgsForCall i)"

definition FakeLayerWriter_RemoveReturns :: "(go_error option) \<Rightarrow> ('s \<times> 's FakeLayerWriter, unit) io" where
  "FakeLayerWriter_RemoveReturns result1 = zoom Remove_part (fake_Returns result1)"

definition FakeLayerWriter_RemoveReturnsOnCall :: "int \<Rightarrow> (go_error option) \<Rightarrow> ('s \<times> 's FakeLayerWriter, unit) io" where
  "FakeLayerWriter_RemoveReturnsOnCall i result1 = zoom Remove_part (fake_ReturnsOnCall i result1)"

definition FakeLayerWriter_Write :: "bytes \<Rightarrow> ('s \<times> 's FakeLayerWriter, int \<times> go_error option) io" where
  "FakeLayerWriter_Write arg1 = zoom Write_part (fake_call ''Write'' (\<lambda>arg1. [AnyBytes arg1]) arg1)"

definition FakeLayerWriter_WriteCallCount :: "('s \<times> 's FakeLayerWriter, int) io" where
  "FakeLayerWriter_WriteCallCount = zoom Write_part fake_CallCount"

definition FakeLayerWriter_WriteCalls :: "(bytes \<Rightarrow> ('s, int \<times> go_error option) io) option \<Rightarrow> ('s \<times> 's FakeLayerWriter, unit) io" where
  "FakeLayerWriter_WriteCalls stub = zoom Write_part (fake_Calls stub)"

definition FakeLayerWriter_WriteArgsForCall :: "int \<Rightarrow> ('s \<times> 's FakeLayerWriter, bytes) io" where
  "FakeLayerWriter_WriteArgsForCall i = zoom Write_part (fake_ArgsForCall i)"

definition FakeLayerWriter_WriteReturns :: "int \<Rightarrow> (go_error option) \<Rightarrow> ('s \<times> 's FakeLayerWriter, unit) io" where
  "FakeLayerWriter_WriteReturns result1 result2 = zoom Write_part (fake_Returns (result1, result2))"

definition FakeLayerWriter_WriteReturnsOnCall :: "int \<Rightarrow> int \<Rightarrow> (go_error option) \<Rightarrow> ('s \<times> 's FakeLayerWriter, unit) io" where
  "FakeLayerWriter_WriteReturnsOnCall i result1 result2 = zoom Write_part (fake_ReturnsOnCall i (result1, result2))"

definition FakeLayerWriter_recordInvocation :: "string \<Rightarrow> (unit, unit) any list \<Rightarrow> ('s \<times> 's FakeLayerWriter, unit) io" where
  "FakeLayerWriter_recordInvocation key args = fake_recordInvocation (field_ref LayerWriter_log LayerWriter_log_update fake_ref) key args"

definition FakeLayerWriter_Invocations :: "('s \<times> 's FakeLayerWriter, string \<rightharpoonup> (unit, unit) any list list) io" where
  "FakeLayerWriter_Invocations = fake_Invocations
     [field_ref fm_Mutex fm_Mutex_update (field_ref m_Add m_Add_update fake_ref),
      field_ref fm_Mutex fm_Mutex_update (field_ref m_AddLink m_AddLink_update fake_ref),
      field_ref fm_Mutex fm_Mutex_update (field_ref m_Close m_Close_update fake_ref),
      field_ref fm_Mutex fm_Mutex_update (field_ref m_Remove m_Remove_update fake_ref),
      field_ref fm_Mutex fm_Mutex_update (field_ref m_Write m_Write_update fake_ref)]
     (field_ref LayerWriter_log LayerWriter_log_update fake_ref)"

lemmas FakeLayerWriter_ops =
  FakeLayerWriter_Add_def [abs_def] FakeLayerWriter_AddCallCount_def FakeLayerWriter_AddCalls_def [abs_def]
  FakeLayerWriter_AddArgsForCall_def [abs_def] FakeLayerWriter_AddReturns_def [abs_def] FakeLayerWriter_AddReturnsOnCall_def [abs_def]
  FakeLayerWriter_AddLink_def [abs_def] FakeLayerWriter_AddLinkCallCount_def FakeLayerWriter_AddLinkCalls_def [abs_def]
  FakeLayerWriter_AddLinkArgsForCall_def [abs_def] FakeLayerWriter_AddLinkReturns_def [abs_def] FakeLayerWriter_AddLinkReturnsOnCall_def [abs_def]
  FakeLayerWriter_Close_def [abs_def] FakeLayerWriter_CloseCallCount_def FakeLayerWriter_CloseCalls_def [abs_def]
  FakeLayerWriter_CloseReturns_def [abs_def] FakeLayerWriter_CloseReturnsOnCall_def [abs_def] FakeLayerWriter_Remove_def [abs_def]
  FakeLayerWriter_RemoveCallCount_def FakeLayerWriter_RemoveCalls_def [abs_def] FakeLayerWriter_RemoveArgsForCall_def [abs_def]
  FakeLayerWriter_RemoveReturns_def [abs_def] FakeLayerWriter_RemoveReturnsOnCall_def [abs_def] FakeLayerWriter_Write_def [abs_def]
  FakeLayerWriter_WriteCallCount_def FakeLayerWriter_WriteCalls_def [abs_def] FakeLayerWriter_WriteArgsForCall_def [abs_def]
  FakeLayerWriter_WriteReturns_def [abs_def] FakeLayerWriter_WriteReturnsOnCall_def [abs_def]

section \<open>The contract\<close>

definition FakeLayerWriter_ready :: "'s \<times> 's FakeLayerWriter \<Rightarrow> bool" where
  "FakeLayerWriter_ready w \<longleftrightarrow>
     fm_Mutex (m_Add (snd w)) = mutex_zero \<and> fm_Mutex (m_AddLink (snd w)) = mutex_zero \<and> fm_Mutex (m_Close (snd w)) = mutex_zero \<and> fm_Mutex (m_Remove (snd w)) = mutex_zero \<and> fm_Mutex (m_Write (snd w)) = mutex_zero
     \<and> fl_invocationsMutex (LayerWriter_log (snd w)) = mutex_zero"

lemma FakeLayerWriter_parts [simp]:
  "ref_get Add_part w = (fst w, m_Add (snd w), LayerWriter_log (snd w))"
  "ref_put Add_part (s, m1, l) w = (s, (snd w)\<lparr>m_Add := m1, LayerWriter_log := l\<rparr>)"
  "ref_get AddLink_part w = (fst w, m_AddLink (snd w), LayerWriter_log (snd w))"
  "ref_put AddLink_part (s, m2, l) w = (s, (snd w)\<lparr>m_AddLink := m2, LayerWriter_log := l\<rparr>)"
  "ref_get Close_part w = (fst w, m_Close (snd w), LayerWriter_log (snd w))"
  "ref_put Close_part (s, m3, l) w = (s, (snd w)\<lparr>m_Close := m3, LayerWriter_log := l\<rparr>)"
  "ref_get Remove_part w = (fst w, m_Remove (snd w), LayerWriter_log (snd w))"
  "ref_put Remove_part (s, m4, l) w = (s, (snd w)\<lparr>m_Remove := m4, LayerWriter_log := l\<rparr>)"
  "ref_get Write_part w = (fst w, m_Write (snd w), LayerWriter_log (snd w))"
  "ref_put Write_part (s, m5, l) w = (s, (snd w)\<lparr>m_Write := m5, LayerWriter_log := l\<rparr>)"
  by (simp_all add: Add_part_def AddLink_part_def Close_part_def Remove_part_def Write_part_def fake_part_def split_beta)

lemma FakeLayerWriter_located:
  "located FakeLayerWriter_ready (\<lambda>w. (m_AddLink (snd w), m_Close (snd w), m_Remove (snd w), m_Write (snd w))) Add_part"
  "located FakeLayerWriter_ready (\<lambda>w. (m_Add (snd w), m_Close (snd w), m_Remove (snd w), m_Write (snd w))) AddLink_part"
  "located FakeLayerWriter_ready (\<lambda>w. (m_Add (snd w), m_AddLink (snd w), m_Remove (snd w), m_Write (snd w))) Close_part"
  "located FakeLayerWriter_ready (\<lambda>w. (m_Add (snd w), m_AddLink (snd w), m_Close (snd w), m_Write (snd w))) Remove_part"
  "located FakeLayerWriter_ready (\<lambda>w. (m_Add (snd w), m_AddLink (snd w), m_Close (snd w), m_Remove (snd w))) Write_part"
  by (simp_all add: located_def FakeLayerWriter_ready_def idle_def)

interpretation Add_args: inspected "\<lambda>(arg1, arg2). FakeLayerWriter_Add arg1 arg2" FakeLayerWriter_AddCallCount FakeLayerWriter_AddCalls
  FakeLayerWriter_ready fst "\<lambda>w. fm_ArgsForCall (m_Add (snd w))" "\<lambda>w. fm_Stub (m_Add (snd w))" "\<lambda>w. answer_of (m_Add (snd w))"
  "\<lambda>w. (m_AddLink (snd w), m_Close (snd w), m_Remove (snd w), m_Write (snd w))"
  "FakeLayerWriter_AddArgsForCall"
  using method_inspected [OF FakeLayerWriter_located(1) method_counted [OF FakeLayerWriter_located(1), where key = "''Add''" and enc = "\<lambda>(arg1, arg2). [AnyString arg1, AnyFileInfo arg2]"]]
  by (simp add: FakeLayerWriter_ops split_def)

interpretation Add_script: scripted "\<lambda>(arg1, arg2). FakeLayerWriter_Add arg1 arg2" FakeLayerWriter_AddCallCount FakeLayerWriter_AddCalls
  FakeLayerWriter_ready fst "\<lambda>w. fm_ArgsForCall (m_Add (snd w))" "\<lambda>w. fm_Stub (m_Add (snd w))" "\<lambda>w. answer_of (m_Add (snd w))"
  "\<lambda>w. (m_AddLink (snd w), m_Close (snd w), m_Remove (snd w), m_Write (snd w))"
  "\<lambda>result1. FakeLayerWriter_AddReturns result1" "\<lambda>i result1. FakeLayerWriter_AddReturnsOnCall i result1" "\<lambda>w. dom (map_index (fm_ReturnsOnCall (m_Add (snd w))))"
  using method_scripted [OF FakeLayerWriter_located(1) method_counted [OF FakeLayerWriter_located(1), where key = "''Add''" and enc = "\<lambda>(arg1, arg2). [AnyString arg1, AnyFileInfo arg2]"]]
  by (simp add: FakeLayerWriter_ops split_def)

interpretation AddLink_args: inspected "\<lambda>(arg1, arg2). FakeLayerWriter_AddLink arg1 arg2" FakeLayerWriter_AddLinkCallCount FakeLayerWriter_AddLinkCalls
  FakeLayerWriter_ready fst "\<lambda>w. fm_ArgsForCall (m_AddLink (snd w))" "\<lambda>w. fm_Stub (m_AddLink (snd w))" "\<lambda>w. answer_of (m_AddLink (snd w))"
  "\<lambda>w. (m_Add (snd w), m_Close (snd w), m_Remove (snd w), m_Write (snd w))"
  "FakeLayerWriter_AddLinkArgsForCall"
  using method_inspected [OF FakeLayerWriter_located(2) method_counted [OF FakeLayerWriter_located(2), where key = "''AddLink''" and enc = "\<lambda>(arg1, arg2). [AnyString arg1, AnyString arg2]"]]
  by (simp add: FakeLayerWriter_ops split_def)

interpretation AddLink_script: scripted "\<lambda>(arg1, arg2). FakeLayerWriter_AddLink arg1 arg2" FakeLayerWriter_AddLinkCallCount FakeLayerWriter_AddLinkCalls
  FakeLayerWriter_ready fst "\<lambda>w. fm_ArgsForCall (m_AddLink (snd w))" "\<lambda>w. fm_Stub (m_AddLink (snd w))" "\<lambda>w. answer_of (m_AddLink (snd w))"
  "\<lambda>w. (m_Add (snd w), m_Close (snd w), m_Remove (snd w), m_Write (snd w))"
  "\<lambda>result1. FakeLayerWriter_AddLinkReturns result1" "\<lambda>i result1. FakeLayerWriter_AddLinkReturnsOnCall i result1" "\<lambda>w. dom (map_index (fm_ReturnsOnCall (m_AddLink (snd w))))"
  using method_scripted [OF FakeLayerWriter_located(2) method_counted [OF FakeLayerWriter_located(2), where key = "''AddLink''" and enc = "\<lambda>(arg1, arg2). [AnyString arg1, AnyString arg2]"]]
  by (simp add: FakeLayerWriter_ops split_def)

interpretation Close_script: scripted "\<lambda>_. FakeLayerWriter_Close" FakeLayerWriter_CloseCallCount FakeLayerWriter_CloseCalls
  FakeLayerWriter_ready fst "\<lambda>w. fm_ArgsForCall (m_Close (snd w))" "\<lambda>w. fm_Stub (m_Close (snd w))" "\<lambda>w. answer_of (m_Close (snd w))"
  "\<lambda>w. (m_Add (snd w), m_AddLink (snd w), m_Remove (snd w), m_Write (snd w))"
  "\<lambda>result1. FakeLayerWriter_CloseReturns result1" "\<lambda>i result1. FakeLayerWriter_CloseReturnsOnCall i result1" "\<lambda>w. dom (map_index (fm_ReturnsOnCall (m_Close (snd w))))"
  using method_scripted [OF FakeLayerWriter_located(3) method_counted [OF FakeLayerWriter_located(3), where key = "''Close''" and enc = "\<lambda>_. []"]]
  by (simp add: FakeLayerWriter_ops split_def)

interpretation Remove_args: inspected "FakeLayerWriter_Remove" FakeLayerWriter_RemoveCallCount FakeLayerWriter_RemoveCalls
  FakeLayerWriter_ready fst "\<lambda>w. fm_ArgsForCall (m_Remove (snd w))" "\<lambda>w. fm_Stub (m_Remove (snd w))" "\<lambda>w. answer_of (m_Remove (snd w))"
  "\<lambda>w. (m_Add (snd w), m_AddLink (snd w), m_Close (snd w), m_Write (snd w))"
  "FakeLayerWriter_RemoveArgsForCall"
  using method_inspected [OF FakeLayerWriter_located(4) method_counted [OF FakeLayerWriter_located(4), where key = "''Remove''" and enc = "\<lambda>arg1. [AnyString arg1]"]]
  by (simp add: FakeLayerWriter_ops split_def)

interpretation Remove_script: scripted "FakeLayerWriter_Remove" FakeLayerWriter_RemoveCallCount FakeLayerWriter_RemoveCalls
  FakeLayerWriter_ready fst "\<lambda>w. fm_ArgsForCall (m_Remove (snd w))" "\<lambda>w. fm_Stub (m_Remove (snd w))" "\<lambda>w. answer_of (m_Remove (snd w))"
  "\<lambda>w. (m_Add (snd w), m_AddLink (snd w), m_Close (snd w), m_Write (snd w))"
  "\<lambda>result1. FakeLayerWriter_RemoveReturns result1" "\<lambda>i result1. FakeLayerWriter_RemoveReturnsOnCall i result1" "\<lambda>w. dom (map_index (fm_ReturnsOnCall (m_Remove (snd w))))"
  using method_scripted [OF FakeLayerWriter_located(4) method_counted [OF FakeLayerWriter_located(4), where key = "''Remove''" and enc = "\<lambda>arg1. [AnyString arg1]"]]
  by (simp add: FakeLayerWriter_ops split_def)

interpretation Write_args: inspected "FakeLayerWriter_Write" FakeLayerWriter_WriteCallCount FakeLayerWriter_WriteCalls
  FakeLayerWriter_ready fst "\<lambda>w. fm_ArgsForCall (m_Write (snd w))" "\<lambda>w. fm_Stub (m_Write (snd w))" "\<lambda>w. answer_of (m_Write (snd w))"
  "\<lambda>w. (m_Add (snd w), m_AddLink (snd w), m_Close (snd w), m_Remove (snd w))"
  "FakeLayerWriter_WriteArgsForCall"
  using method_inspected [OF FakeLayerWriter_located(5) method_counted [OF FakeLayerWriter_located(5), where key = "''Write''" and enc = "\<lambda>arg1. [AnyBytes arg1]"]]
  by (simp add: FakeLayerWriter_ops split_def)

interpretation Write_script: scripted "FakeLayerWriter_Write" FakeLayerWriter_WriteCallCount FakeLayerWriter_WriteCalls
  FakeLayerWriter_ready fst "\<lambda>w. fm_ArgsForCall (m_Write (snd w))" "\<lambda>w. fm_Stub (m_Write (snd w))" "\<lambda>w. answer_of (m_Write (snd w))"
  "\<lambda>w. (m_Add (snd w), m_AddLink (snd w), m_Close (snd w), m_Remove (snd w))"
  "\<lambda>(result1, result2). FakeLayerWriter_WriteReturns result1 result2" "\<lambda>i (result1, result2). FakeLayerWriter_WriteReturnsOnCall i result1 result2" "\<lambda>w. dom (map_index (fm_ReturnsOnCall (m_Write (snd w))))"
  using method_scripted [OF FakeLayerWriter_located(5) method_counted [OF FakeLayerWriter_located(5), where key = "''Write''" and enc = "\<lambda>arg1. [AnyBytes arg1]"]]
  by (simp add: FakeLayerWriter_ops split_def)

section \<open>Reachable states\<close>

text \<open>A step is a call of any method a test or the driver can use; what it returns does not matter.\<close>

inductive FakeLayerWriter_step :: "'s \<times> 's FakeLayerWriter \<Rightarrow> 's \<times> 's FakeLayerWriter \<Rightarrow> bool" where
  "FakeLayerWriter_step w (snd (FakeLayerWriter_Add arg1 arg2 w))"
| "FakeLayerWriter_step w (snd (FakeLayerWriter_AddCallCount w))"
| "FakeLayerWriter_step w (snd (FakeLayerWriter_AddCalls stub w))"
| "FakeLayerWriter_step w (snd (FakeLayerWriter_AddArgsForCall i w))"
| "FakeLayerWriter_step w (snd (FakeLayerWriter_AddReturns result1 w))"
| "FakeLayerWriter_step w (snd (FakeLayerWriter_AddReturnsOnCall i result1 w))"
| "FakeLayerWriter_step w (snd (FakeLayerWriter_AddLink arg1 arg2 w))"
| "FakeLayerWriter_step w (snd (FakeLayerWriter_AddLinkCallCount w))"
| "FakeLayerWriter_step w (snd (FakeLayerWriter_AddLinkCalls stub w))"
| "FakeLayerWriter_step w (snd (FakeLayerWriter_AddLinkArgsForCall i w))"
| "FakeLayerWriter_step w (snd (FakeLayerWriter_AddLinkReturns result1 w))"
| "FakeLayerWriter_step w (snd (FakeLayerWriter_AddLinkReturnsOnCall i result1 w))"
| "FakeLayerWriter_step w (snd (FakeLayerWriter_Close w))"
| "FakeLayerWriter_step w (snd (FakeLayerWriter_CloseCallCount w))"
| "FakeLayerWriter_step w (snd (FakeLayerWriter_CloseCalls stub w))"
| "FakeLayerWriter_step w (snd (FakeLayerWriter_CloseReturns result1 w))"
| "FakeLayerWriter_step w (snd (FakeLayerWriter_CloseReturnsOnCall i result1 w))"
| "FakeLayerWriter_step w (snd (FakeLayerWriter_Remove arg1 w))"
| "FakeLayerWriter_step w (snd (FakeLayerWriter_RemoveCallCount w))"
| "FakeLayerWriter_step w (snd (FakeLayerWriter_RemoveCalls stub w))"
| "FakeLayerWriter_step w (snd (FakeLayerWriter_RemoveArgsForCall i w))"
| "FakeLayerWriter_step w (snd (FakeLayerWriter_RemoveReturns result1 w))"
| "FakeLayerWriter_step w (snd (FakeLayerWriter_RemoveReturnsOnCall i result1 w))"
| "FakeLayerWriter_step w (snd (FakeLayerWriter_Write arg1 w))"
| "FakeLayerWriter_step w (snd (FakeLayerWriter_WriteCallCount w))"
| "FakeLayerWriter_step w (snd (FakeLayerWriter_WriteCalls stub w))"
| "FakeLayerWriter_step w (snd (FakeLayerWriter_WriteArgsForCall i w))"
| "FakeLayerWriter_step w (snd (FakeLayerWriter_WriteReturns result1 result2 w))"
| "FakeLayerWriter_step w (snd (FakeLayerWriter_WriteReturnsOnCall i result1 result2 w))"

definition FakeLayerWriter_consistent :: "'s \<times> 's FakeLayerWriter \<Rightarrow> bool" where
  "FakeLayerWriter_consistent w \<longleftrightarrow> FakeLayerWriter_ready w
     \<and> logged ''Add'' (\<lambda>(arg1, arg2). [AnyString arg1, AnyFileInfo arg2]) (m_Add (snd w)) (LayerWriter_log (snd w))
     \<and> logged ''AddLink'' (\<lambda>(arg1, arg2). [AnyString arg1, AnyString arg2]) (m_AddLink (snd w)) (LayerWriter_log (snd w))
     \<and> logged ''Close'' (\<lambda>_. []) (m_Close (snd w)) (LayerWriter_log (snd w))
     \<and> logged ''Remove'' (\<lambda>arg1. [AnyString arg1]) (m_Remove (snd w)) (LayerWriter_log (snd w))
     \<and> logged ''Write'' (\<lambda>arg1. [AnyBytes arg1]) (m_Write (snd w)) (LayerWriter_log (snd w))"

lemma FakeLayerWriter_upheld:
  "upheld FakeLayerWriter_consistent ''Add'' (\<lambda>(arg1, arg2). [AnyString arg1, AnyFileInfo arg2]) Add_part"
  "upheld FakeLayerWriter_consistent ''AddLink'' (\<lambda>(arg1, arg2). [AnyString arg1, AnyString arg2]) AddLink_part"
  "upheld FakeLayerWriter_consistent ''Close'' (\<lambda>_. []) Close_part"
  "upheld FakeLayerWriter_consistent ''Remove'' (\<lambda>arg1. [AnyString arg1]) Remove_part"
  "upheld FakeLayerWriter_consistent ''Write'' (\<lambda>arg1. [AnyBytes arg1]) Write_part"
  by (simp_all add: upheld_def FakeLayerWriter_consistent_def FakeLayerWriter_ready_def idle_def logged_def log_call_def map_index_def)

lemma FakeLayerWriter_step_consistent: "FakeLayerWriter_step w w' \<Longrightarrow> FakeLayerWriter_consistent w \<Longrightarrow> FakeLayerWriter_consistent w'"
  by (induction rule: FakeLayerWriter_step.induct)
     (simp_all add: FakeLayerWriter_ops upheld_steps [OF FakeLayerWriter_upheld(1)] upheld_steps [OF FakeLayerWriter_upheld(2)] upheld_steps [OF FakeLayerWriter_upheld(3)] upheld_steps [OF FakeLayerWriter_upheld(4)] upheld_steps [OF FakeLayerWriter_upheld(5)])

lemma FakeLayerWriter_reachable_consistent: "FakeLayerWriter_step\<^sup>*\<^sup>* (s, FakeLayerWriter_zero) w \<Longrightarrow> FakeLayerWriter_consistent w"
proof (induction rule: rtranclp_induct)
  case base
  show ?case by (simp add: FakeLayerWriter_consistent_def FakeLayerWriter_ready_def FakeLayerWriter_zero_def)
qed (rule FakeLayerWriter_step_consistent)

lemma FakeLayerWriter_Invocations_run: "FakeLayerWriter_ready w \<Longrightarrow> FakeLayerWriter_Invocations w = (Ret (map_index (fl_invocations (LayerWriter_log (snd w)))), w)"
  by (cases w) (simp add: FakeLayerWriter_Invocations_def fake_Invocations_def FakeLayerWriter_ready_def mutex_defs go_simps mutex_zero_def)

section \<open>What a test reads back\<close>

text \<open>
  After a sequence of writes to a new fake writer the write count is their number, the argument of each write can be read
  back in order, reading one more panics, and no other method has been called.
\<close>

theorem Write_recorded:
  "\<exists>w. go_each FakeLayerWriter_Write bs (s, FakeLayerWriter_zero) = (Ret (replicate (length bs) (0, None)), w)
     \<and> FakeLayerWriter_WriteCallCount w = (Ret (int (length bs)), w)
     \<and> (\<forall>i < length bs. FakeLayerWriter_WriteArgsForCall (int i) w = (Ret (bs ! i), w))
     \<and> FakeLayerWriter_WriteArgsForCall (int (length bs)) w = (Panic IndexOutOfRange, w)
     \<and> FakeLayerWriter_AddCallCount w = (Ret 0, w) \<and> FakeLayerWriter_CloseCallCount w = (Ret 0, w)"
proof -
  let ?w = "(s, FakeLayerWriter_zero)"
  have r: "FakeLayerWriter_ready ?w" and z: "fm_Stub (m_Write (snd ?w)) = None" "fm_ArgsForCall (m_Write (snd ?w)) = []"
    by (simp_all add: FakeLayerWriter_ready_def FakeLayerWriter_zero_def method_zero_def)
  have a: "answer_of (m_Write FakeLayerWriter_zero) i = (0, None)" for i
    by (simp add: FakeLayerWriter_zero_def method_zero_def answer_of_def map_index_def)
  from Write_args.each_run [OF r z(1), of bs] obtain w
    where e: "go_each FakeLayerWriter_Write bs ?w = (Ret (replicate (length bs) (0, None)), w)" and rw: "FakeLayerWriter_ready w"
    by (auto simp: a map_replicate_const)
  from Write_args.read_back [OF r z e] have "m_Add (snd w) = m_Add FakeLayerWriter_zero" "m_Close (snd w) = m_Close FakeLayerWriter_zero" by simp_all
  with e Write_args.read_back [OF r z e] Add_args.callCount_run [OF rw] Close_script.callCount_run [OF rw] show ?thesis
    by (auto simp: FakeLayerWriter_zero_def method_zero_def)
qed

end
