(* ===== verification/Fake_Driver.thy ===== *)
theory Fake_Driver
  imports Fake_Limiter Fake_PrivilegeElevator Fake_HCSClient Fake_TarStreamer Fake_LayerWriter Unpack_Privileges Driver_Bundle
begin

text \<open>
  The driver on its test doubles, as the unit tests of src/driver set it up: \<^verbatim>\<open>driver.New\<close> on the four fakes, with the
  fake layer writer behind the fake client. The world is the state of the test with the five fakes. The theorems say
  which calls the operations of the driver make, for every plan of answers.
\<close>

section \<open>The fakes as implementations of the interfaces\<close>

definition FakeLimiter_Impl :: "('w, 's \<times> 's FakeLimiter) ref \<Rightarrow> 'w Limiter" where
  "FakeLimiter_Impl p =
     \<lparr>lim_SetQuota = (\<lambda>v n. zoom p (FakeLimiter_SetQuota v n)),
      lim_GetQuotaUsed = (\<lambda>v. go_bind (zoom p (FakeLimiter_GetQuotaUsed v)) (\<lambda>r. go_ret (as_res r)))\<rparr>"

definition FakePrivilegeElevator_Impl :: "('w, 's \<times> 's FakePrivilegeElevator) ref \<Rightarrow> 'w PrivilegeElevator" where
  "FakePrivilegeElevator_Impl p =
     \<lparr>pe_Enable = (\<lambda>ns. zoom p (FakePrivilegeElevator_EnableProcessPrivileges ns)),
      pe_Disable = (\<lambda>ns. zoom p (FakePrivilegeElevator_DisableProcessPrivileges ns))\<rparr>"

definition FakeLayerWriter_Impl :: "('w, 's \<times> 's FakeLayerWriter) ref \<Rightarrow> 'w LayerWriter" where
  "FakeLayerWriter_Impl p =
     \<lparr>lw_Add = (\<lambda>n fi. zoom p (FakeLayerWriter_Add n fi)), lw_AddLink = (\<lambda>n t. zoom p (FakeLayerWriter_AddLink n t)),
      lw_Remove = (\<lambda>n. zoom p (FakeLayerWriter_Remove n)), lw_Write = (\<lambda>b. zoom p (FakeLayerWriter_Write b)),
      lw_Close = zoom p FakeLayerWriter_Close\<rparr>"

text \<open>A nil interface value: every method call dereferences nil.\<close>

definition nil_LayerWriter :: "'w LayerWriter" where
  "nil_LayerWriter =
     \<lparr>lw_Add = (\<lambda>n fi. go_panic NilDereference), lw_AddLink = (\<lambda>n t. go_panic NilDereference),
      lw_Remove = (\<lambda>n. go_panic NilDereference), lw_Write = (\<lambda>b. go_panic NilDereference), lw_Close = go_panic NilDereference\<rparr>"

definition FakeHCSClient_Impl :: "('lw \<Rightarrow> 'w LayerWriter) \<Rightarrow> ('w, 's \<times> ('s, 'lw) FakeHCSClient) ref \<Rightarrow> 'w HCSClient" where
  "FakeHCSClient_Impl writer_of p =
     \<lparr>hcs_NewLayerWriter = (\<lambda>di i ps. go_bind (zoom p (FakeHCSClient_NewLayerWriter di i ps)) (\<lambda>(lw, err).
        go_ret (as_res (case lw of None \<Rightarrow> nil_LayerWriter | Some r \<Rightarrow> writer_of r, err)))),
      hcs_CreateLayer = (\<lambda>di i ps. zoom p (FakeHCSClient_CreateLayer di i ps)),
      hcs_LayerExists = (\<lambda>di i. go_bind (zoom p (FakeHCSClient_LayerExists di i)) (\<lambda>r. go_ret (as_res r))),
      hcs_GetLayerMountPath = (\<lambda>di i. go_bind (zoom p (FakeHCSClient_GetLayerMountPath di i)) (\<lambda>r. go_ret (as_res r))),
      hcs_DestroyLayer = (\<lambda>di i. zoom p (FakeHCSClient_DestroyLayer di i))\<rparr>"

definition FakeTarStreamer_Impl :: "('w LayerWriter \<Rightarrow> 'lw) \<Rightarrow> ('w, 's \<times> ('s, 'r, 'lw) FakeTarStreamer) ref \<Rightarrow> ('w, 'r) TarStreamer" where
  "FakeTarStreamer_Impl writer_ref p =
     \<lparr>ts_SetReader = (\<lambda>r. zoom p (FakeTarStreamer_SetReader r)), ts_Next = zoom p FakeTarStreamer_Next,
      ts_FileInfoFromHeader = (\<lambda>h. go_bind (zoom p (FakeTarStreamer_FileInfoFromHeader (Some h))) (\<lambda>(name, sz, fi, err).
        go_ret (as_res ((name, sz, fi), err)))),
      ts_WriteBackupStreamFromTarFile = (\<lambda>lw h path. zoom p (FakeTarStreamer_WriteBackupStreamFromTarFile (writer_ref lw) (Some h) path))\<rparr>"

section \<open>The test bench\<close>

record ('s, 'r) bench =
  bn_state :: 's
  bn_hcs :: "('s, unit) FakeHCSClient"
  bn_tar :: "('s, 'r, unit) FakeTarStreamer"
  bn_priv :: "'s FakePrivilegeElevator"
  bn_lim :: "'s FakeLimiter"
  bn_writer :: "'s FakeLayerWriter"

definition bench_part :: "(('s, 'r) bench \<Rightarrow> 'f) \<Rightarrow> (('f \<Rightarrow> 'f) \<Rightarrow> ('s, 'r) bench \<Rightarrow> ('s, 'r) bench) \<Rightarrow> (('s, 'r) bench, 's \<times> 'f) ref" where
  "bench_part get upd =
     \<lparr>ref_get = (\<lambda>b. (bn_state b, get b)), ref_put = (\<lambda>(s, f) b. upd (\<lambda>_. f) (b\<lparr>bn_state := s\<rparr>))\<rparr>"

definition bench_driver :: "string \<Rightarrow> (('s, 'r) bench, 'r) Driver" where
  "bench_driver store =
     (New (FakeHCSClient_Impl (\<lambda>_. FakeLayerWriter_Impl (bench_part bn_writer bn_writer_update)) (bench_part bn_hcs bn_hcs_update))
        (FakeTarStreamer_Impl (\<lambda>_. ()) (bench_part bn_tar bn_tar_update))
        (FakePrivilegeElevator_Impl (bench_part bn_priv bn_priv_update))
        (FakeLimiter_Impl (bench_part bn_lim bn_lim_update)))\<lparr>Store := store\<rparr>"

definition new_bench :: "'s \<Rightarrow> ('s, 'r) bench" where
  "new_bench s = \<lparr>bn_state = s, bn_hcs = FakeHCSClient_zero, bn_tar = FakeTarStreamer_zero, bn_priv = FakePrivilegeElevator_zero,
     bn_lim = FakeLimiter_zero, bn_writer = FakeLayerWriter_zero\<rparr>"

text \<open>No mutex of the client and the limiter is held, and the methods Bundle and Delete call have no stub.\<close>

definition bench_quiet :: "('s, 'r) bench \<Rightarrow> bool" where
  "bench_quiet b \<longleftrightarrow> FakeHCSClient_ready (bn_state b, bn_hcs b) \<and> FakeLimiter_ready (bn_state b, bn_lim b)
     \<and> fm_Stub (m_LayerExists (bn_hcs b)) = None \<and> fm_Stub (m_CreateLayer (bn_hcs b)) = None
     \<and> fm_Stub (m_GetLayerMountPath (bn_hcs b)) = None \<and> fm_Stub (m_DestroyLayer (bn_hcs b)) = None \<and> fm_Stub (m_SetQuota (bn_lim b)) = None"

text \<open>What the next call of a method returns.\<close>

definition next_answer :: "('s, 'a, 'r) fake_method \<Rightarrow> 'r" where
  "next_answer m = answer_of m (int (length (fm_ArgsForCall m)))"

definition record_call :: "'a \<Rightarrow> ('s, 'a, 'r) fake_method \<Rightarrow> ('s, 'a, 'r) fake_method" where
  "record_call a m = m\<lparr>fm_ArgsForCall := fm_ArgsForCall m @ [a]\<rparr>"

lemma fake_call_next:
  "idle (s, m, l) \<Longrightarrow> fm_Stub m = None \<Longrightarrow> fake_call key enc a (s, m, l) = (Ret (next_answer m), (s, record_call a m, log_call key (enc a) l))"
  by (simp add: fake_call_run Let_def next_answer_def answer_of_def record_call_def)

lemma record_call_simps [simp]:
  "fm_Stub (record_call a m) = fm_Stub m" "fm_Mutex (record_call a m) = fm_Mutex m" "fm_ArgsForCall (record_call a m) = fm_ArgsForCall m @ [a]"
  by (simp_all add: record_call_def)

lemma bench_driver_simps [simp]:
  "Store (bench_driver s) = s"
  "hcsClient (bench_driver s) = FakeHCSClient_Impl (\<lambda>_. FakeLayerWriter_Impl (bench_part bn_writer bn_writer_update)) (bench_part bn_hcs bn_hcs_update)"
  "tarStreamer (bench_driver s) = FakeTarStreamer_Impl (\<lambda>_. ()) (bench_part bn_tar bn_tar_update)"
  "privilegeElevator (bench_driver s) = FakePrivilegeElevator_Impl (bench_part bn_priv bn_priv_update)"
  "limiter (bench_driver s) = FakeLimiter_Impl (bench_part bn_lim bn_lim_update)"
  by (simp_all add: bench_driver_def New_def)

lemma bench_stores [simp]:
  "VolumeStore (bench_driver s) = toWindowsPath (Join [s, ''volumes''])" "LayerStore (bench_driver s) = toWindowsPath (Join [s, ''layers''])"
  by (simp_all add: VolumeStore_def LayerStore_def)

text \<open>The methods Bundle and Delete call, and their calls on a quiet bench.\<close>

definition plan :: "('s, 'r) bench \<Rightarrow> ('s, DriverInfo \<times> string, bool \<times> go_error option) fake_method
    \<times> ('s, DriverInfo \<times> string \<times> string list, go_error option) fake_method \<times> ('s, DriverInfo \<times> string, string \<times> go_error option) fake_method
    \<times> ('s, DriverInfo \<times> string, go_error option) fake_method \<times> ('s, string \<times> uint64, go_error option) fake_method" where
  "plan b = (m_LayerExists (bn_hcs b), m_CreateLayer (bn_hcs b), m_GetLayerMountPath (bn_hcs b), m_DestroyLayer (bn_hcs b), m_SetQuota (bn_lim b))"

lemma bench_calls:
  assumes "bench_quiet b" and "plan b = (e, c, g, x, q)"
  shows "\<exists>b'. hcs_LayerExists (hcsClient (bench_driver st)) di i b = (Ret (as_res (next_answer e)), b')
      \<and> bench_quiet b' \<and> plan b' = (record_call (di, i) e, c, g, x, q)"
    and "\<exists>b'. hcs_CreateLayer (hcsClient (bench_driver st)) di i ps b = (Ret (next_answer c), b')
      \<and> bench_quiet b' \<and> plan b' = (e, record_call (di, i, ps) c, g, x, q)"
    and "\<exists>b'. hcs_GetLayerMountPath (hcsClient (bench_driver st)) di i b = (Ret (as_res (next_answer g)), b')
      \<and> bench_quiet b' \<and> plan b' = (e, c, record_call (di, i) g, x, q)"
    and "\<exists>b'. hcs_DestroyLayer (hcsClient (bench_driver st)) di i b = (Ret (next_answer x), b')
      \<and> bench_quiet b' \<and> plan b' = (e, c, g, record_call (di, i) x, q)"
    and "\<exists>b'. lim_SetQuota (limiter (bench_driver st)) v n b = (Ret (next_answer q), b')
      \<and> bench_quiet b' \<and> plan b' = (e, c, g, x, record_call (v, n) q)"
  using assms
  by (auto simp: FakeHCSClient_Impl_def FakeLimiter_Impl_def zoom_def bench_part_def FakeHCSClient_ops FakeLimiter_ops fake_call_next
      bench_quiet_def FakeHCSClient_ready_def FakeLimiter_ready_def idle_def plan_def)

section \<open>Delete and Bundle\<close>

lemma cleanup_calls:
  assumes "bench_quiet b" and "plan b = (e, c, g, x, q)"
  shows "\<exists>b'. (\<forall>err. cleanupLayer (bench_driver st) di i err b = (Ret (Inl err), b')) \<and> plan b' = (e, c, g, record_call (di, i) x, q)"
  using bench_calls(4) [OF assms, of st di i] by (auto simp: cleanupLayer_def simp del: bench_driver_simps)

text \<open>
  Delete asks for the volume once, and destroys it, once, exactly when the answer is that it exists; it returns the
  error of whichever call came last.
\<close>

theorem Delete_calls:
  fixes b :: "('s, 'r) bench"
  assumes "bench_quiet b" and "plan b = (e, c, g, x, q)" and "store \<noteq> []" and "next_answer e = (ex, err)"
  shows "\<exists>b'. Delete (bench_driver store) i b = (Ret (if err \<noteq> None then err else if ex then next_answer x else None), b')
    \<and> plan b' = (let di = \<lparr>Flavour = 1, HomeDir = toWindowsPath (Join [store, ''volumes''])\<rparr> in
        (record_call (di, i) e, c, g, if err = None \<and> ex then record_call (di, i) x else x, q))"
proof -
  let ?d = "bench_driver store :: (('s, 'r) bench, 'r) Driver"
  let ?di = "\<lparr>Flavour = 1, HomeDir = toWindowsPath (Join [store, ''volumes''])\<rparr>"
  from bench_calls(1) [OF assms(1,2), of store ?di i] obtain b1
    where b1: "hcs_LayerExists (hcsClient ?d) ?di i b = (Ret (as_res (next_answer e)), b1)" "bench_quiet b1" "plan b1 = (record_call (?di, i) e, c, g, x, q)"
    by blast
  from bench_calls(4) [OF b1(2,3), of store ?di i] obtain b2
    where b2: "hcs_DestroyLayer (hcsClient ?d) ?di i b1 = (Ret (next_answer x), b2)" "plan b2 = (record_call (?di, i) e, c, g, record_call (?di, i) x, q)"
    by blast
  show ?thesis
    using assms(3,4) b1 b2 by (cases err) (simp_all add: Delete_def Let_def as_res_def del: bench_driver_simps(2-5))
qed

text \<open>
  C36: which calls Bundle makes, for every plan of answers: it asks once whether the volume exists, creates it exactly if it does not,
  asks for the mount path exactly if creating worked, sets the quota on that path exactly if there is one, destroys
  the volume once exactly if it created it and anything after that failed, and succeeds exactly if everything worked.
\<close>

theorem Bundle_calls:
  fixes b :: "('s, 'r) bench"
  assumes "bench_quiet b" and "plan b = (e, c, g, x, q)" and "store \<noteq> []"
    and "os_MkdirAll os (toWindowsPath (Join [store, ''volumes''])) perm755 b = (Ret None, b)"
    and "di = \<lparr>Flavour = 1, HomeDir = toWindowsPath (Join [store, ''volumes''])\<rparr>"
    and "fs = rev (map (\<lambda>l. Join [toWindowsPath (Join [store, ''layers'']), l]) ls)"
    and "next_answer e = (ex, err)" and "next_answer g = (v, verr)"
    and "creates \<longleftrightarrow> err = None \<and> \<not> ex" and "mounts \<longleftrightarrow> creates \<and> next_answer c = None"
    and "limits \<longleftrightarrow> mounts \<and> verr = None \<and> v \<noteq> []" and "succeeds \<longleftrightarrow> limits \<and> next_answer q = None"
  shows "\<exists>r b'. Bundle os (bench_driver store) i ls n b = (Ret r, b') \<and> (succeeds \<longleftrightarrow> (\<exists>sp. r = Inr sp))
    \<and> plan b' = (record_call (di, i) e, if creates then record_call (di, i, fs) c else c, if mounts then record_call (di, i) g else g,
        if creates \<and> \<not> succeeds then record_call (di, i) x else x, if limits then record_call (v, n) q else q)"
proof -
  let ?d = "bench_driver store :: (('s, 'r) bench, 'r) Driver"
  note [simp del] = bench_driver_simps(2-5)
  have fs: "prepend_paths (toWindowsPath (Join [store, ''layers''])) [] ls = fs" by (simp add: prepend_paths_rev assms(6))
  from bench_calls(1) [OF assms(1,2), of store di i] obtain b1
    where b1: "hcs_LayerExists (hcsClient ?d) di i b = (Ret (as_res (ex, err)), b1)" "bench_quiet b1" "plan b1 = (record_call (di, i) e, c, g, x, q)"
    by (auto simp: assms(7))
  from bench_calls(2) [OF b1(2,3), of store di i fs] obtain b2
    where b2: "hcs_CreateLayer (hcsClient ?d) di i fs b1 = (Ret (next_answer c), b2)" "bench_quiet b2" "plan b2 = (record_call (di, i) e, record_call (di, i, fs) c, g, x, q)"
    by blast
  from bench_calls(3) [OF b2(2,3), of store di i] obtain b3
    where b3: "hcs_GetLayerMountPath (hcsClient ?d) di i b2 = (Ret (as_res (v, verr)), b3)" "bench_quiet b3"
      "plan b3 = (record_call (di, i) e, record_call (di, i, fs) c, record_call (di, i) g, x, q)"
    by (auto simp: assms(8))
  from bench_calls(5) [OF b3(2,3), of store v n] obtain b4
    where b4: "lim_SetQuota (limiter ?d) v n b3 = (Ret (next_answer q), b4)" "bench_quiet b4"
      "plan b4 = (record_call (di, i) e, record_call (di, i, fs) c, record_call (di, i) g, x, record_call (v, n) q)"
    by blast
  have run: "Bundle os ?d i ls n b =
     (if err \<noteq> None then (Ret (Inl (the err)), b1) else if ex then (Ret (Inl (LayerExistsError i)), b1)
      else if next_answer c \<noteq> None then cleanupLayer ?d di i (the (next_answer c)) b2
      else if verr \<noteq> None then cleanupLayer ?d di i (the verr) b3
      else if v = [] then cleanupLayer ?d di i (MissingVolumePathError i) b3
      else if next_answer q \<noteq> None then cleanupLayer ?d di i (the (next_answer q)) b4
      else (Ret (Inr \<lparr>spec_Version = specs_Version, spec_RootPath = v, spec_LayerFolders = fs\<rparr>), b4))"
    using assms(3-5) b1 b2 b3 b4
    by (cases err; cases "next_answer c"; cases verr; cases "next_answer q") (simp_all add: Bundle_def Let_def as_res_def fs)
  from cleanup_calls [OF b2(2,3), of store di i] cleanup_calls [OF b3(2,3), of store di i] cleanup_calls [OF b4(2,3), of store di i]
  obtain c2 c3 c4 where c: "\<And>err. cleanupLayer ?d di i err b2 = (Ret (Inl err), c2)" "\<And>err. cleanupLayer ?d di i err b3 = (Ret (Inl err), c3)"
    "\<And>err. cleanupLayer ?d di i err b4 = (Ret (Inl err), c4)"
    and p: "plan c2 = (record_call (di, i) e, record_call (di, i, fs) c, g, record_call (di, i) x, q)"
      "plan c3 = (record_call (di, i) e, record_call (di, i, fs) c, record_call (di, i) g, record_call (di, i) x, q)"
      "plan c4 = (record_call (di, i) e, record_call (di, i, fs) c, record_call (di, i) g, record_call (di, i) x, record_call (v, n) q)"
    by blast
  show ?thesis
    unfolding run c using b1(3) b4(3) p assms(9-12) by auto
qed

section \<open>Unpack\<close>

text \<open>What the other fakes do leaves the elevator alone.\<close>

lemma agree_zoom:
  assumes "\<And>x b. bn_priv (ref_put p x b) = bn_priv b"
  shows "agree (\<lambda>b. Q (bn_priv b)) (zoom p m) (zoom p m)"
  using assms by (simp add: agree_def zoom_def split: prod.split)

lemma other_parts:
  "bn_priv (ref_put (bench_part bn_hcs bn_hcs_update) x b) = bn_priv b" "bn_priv (ref_put (bench_part bn_tar bn_tar_update) y b) = bn_priv b"
  "bn_priv (ref_put (bench_part bn_writer bn_writer_update) z b) = bn_priv b"
  by (simp_all add: bench_part_def split: prod.split)

lemma writer_keeps: "writer_agree (\<lambda>b. Q (bn_priv b)) (FakeLayerWriter_Impl (bench_part bn_writer bn_writer_update)) (FakeLayerWriter_Impl (bench_part bn_writer bn_writer_update))"
  "writer_agree P nil_LayerWriter nil_LayerWriter"
  by (auto simp: writer_agree_def FakeLayerWriter_Impl_def nil_LayerWriter_def other_parts intro!: agree_zoom agree_intros)

definition os_keeps :: "('w \<Rightarrow> 'f) \<Rightarrow> 'w os_api \<Rightarrow> bool" where
  "os_keeps f os \<longleftrightarrow> (\<forall>p. within (same f) (os_ReadFile os p)) \<and> (\<forall>p b m. within (same f) (os_WriteFile os p b m))
     \<and> (\<forall>p m. within (same f) (os_MkdirAll os p m))"

lemma agree_same: "within (same f) m \<Longrightarrow> agree (\<lambda>w. Q (f w)) m m"
  by (simp add: agree_def within_def same_def)

lemma os_agree:
  assumes "os_keeps f os"
  shows "agree (\<lambda>w. Q (f w)) (os_ReadFile os p) (os_ReadFile os p)" "agree (\<lambda>w. Q (f w)) (os_WriteFile os p b m) (os_WriteFile os p b m)"
    "agree (\<lambda>w. Q (f w)) (os_MkdirAll os p m) (os_MkdirAll os p m)"
  using assms unfolding os_keeps_def by (simp_all add: agree_same)

lemma bench_guard:
  fixes os :: "('s, 'r) bench os_api"
  assumes "os_keeps bn_priv os"
  shows "tar_guard (\<lambda>b. Q (bn_priv b)) os (bench_driver store)"
proof (intro tar_guard.intro tar_frame.intro tar_guard_axioms.intro)
  fix di i ps and w w' :: "('s, 'r) bench" and lw
  assume "hcs_NewLayerWriter (hcsClient (bench_driver store)) di i ps w = (Ret (Inr lw), w')"
  then have "lw = nil_LayerWriter \<or> lw = FakeLayerWriter_Impl (bench_part bn_writer bn_writer_update)"
    by (auto simp: FakeHCSClient_Impl_def as_res_def go_bind_def split: prod.splits go.splits option.splits)
  then show "writer_agree (\<lambda>b. Q (bn_priv b)) lw lw" using writer_keeps by blast
qed (auto simp: FakeHCSClient_Impl_def FakeTarStreamer_Impl_def other_parts split: prod.splits
      intro!: agree_intros agree_zoom os_agree [OF assms])

lemma bench_body_keeps:
  assumes "os_keeps bn_priv os" and "unpack_body fuel os (bench_driver store) i ps tar ex b = (r, b')"
  shows "bn_priv b' = bn_priv b"
proof -
  let ?P = "\<lambda>c. bn_priv c = bn_priv b"
  have fresh: "agree ?P (unpack_fresh fuel os (bench_driver store) di i ps tar) (unpack_fresh fuel os (guarded_driver ?P (bench_driver store)) di i ps tar)" for di
    using tar_guard.fresh_agree [OF bench_guard [OF assms(1), of "\<lambda>p. p = bn_priv b"]] .
  have "agree ?P (unpack_body fuel os (bench_driver store) i ps tar ex) (unpack_body fuel os (guarded_driver ?P (bench_driver store)) i ps tar ex)"
    unfolding unpack_body_def Let_def guarded_driver_simps
    using assms(1) by (intro agree_intros fresh) (auto simp: os_keeps_def FakeHCSClient_Impl_def other_parts
      intro!: agree_same [of bn_priv _ "\<lambda>p. p = bn_priv b"] agree_zoom [of _ "\<lambda>p. p = bn_priv b"])
  from agreeD(2) [OF this _ assms(2)] show ?thesis by simp
qed

definition elevator_quiet :: "('s, 'r) bench \<Rightarrow> bool" where
  "elevator_quiet b \<longleftrightarrow> FakePrivilegeElevator_ready (bn_state b, bn_priv b)
     \<and> fm_Stub (m_EnableProcessPrivileges (bn_priv b)) = None \<and> fm_Stub (m_DisableProcessPrivileges (bn_priv b)) = None"

lemma quiet_priv: "bn_priv b' = bn_priv b \<Longrightarrow> elevator_quiet b' \<longleftrightarrow> elevator_quiet b"
  by (simp add: elevator_quiet_def FakePrivilegeElevator_ready_def)

lemma elevator_calls:
  assumes "elevator_quiet b"
  shows "\<exists>b'. pe_Enable (privilegeElevator (bench_driver st)) ns b = (Ret (next_answer (m_EnableProcessPrivileges (bn_priv b))), b') \<and> elevator_quiet b'
      \<and> m_EnableProcessPrivileges (bn_priv b') = record_call ns (m_EnableProcessPrivileges (bn_priv b))
      \<and> m_DisableProcessPrivileges (bn_priv b') = m_DisableProcessPrivileges (bn_priv b)"
    and "\<exists>b'. pe_Disable (privilegeElevator (bench_driver st)) ns b = (Ret (next_answer (m_DisableProcessPrivileges (bn_priv b))), b') \<and> elevator_quiet b'
      \<and> m_DisableProcessPrivileges (bn_priv b') = record_call ns (m_DisableProcessPrivileges (bn_priv b))
      \<and> m_EnableProcessPrivileges (bn_priv b') = m_EnableProcessPrivileges (bn_priv b)"
  using assms
  by (auto simp: FakePrivilegeElevator_Impl_def zoom_def bench_part_def FakePrivilegeElevator_ops fake_call_next
      elevator_quiet_def FakePrivilegeElevator_ready_def idle_def)

text \<open>
  Unpack enables the two privileges at most once, before anything else it does to the layer, and disables them
  exactly when it enabled them, once, whether it then succeeds, fails or panics, and whatever the other fakes do.
\<close>

theorem Unpack_calls:
  fixes b :: "('s, 'r) bench"
  assumes "elevator_quiet b" and "os_keeps bn_priv os" and "store \<noteq> []"
    and "Unpack fuel os (bench_driver store) i ps tar b = (r, b')" and "r \<noteq> Diverged"
  shows "\<exists>asked. m_EnableProcessPrivileges (bn_priv b') =
        (if asked then record_call [SeBackupPrivilege, SeRestorePrivilege] else id) (m_EnableProcessPrivileges (bn_priv b))
    \<and> m_DisableProcessPrivileges (bn_priv b') =
        (if asked \<and> next_answer (m_EnableProcessPrivileges (bn_priv b)) = None then record_call [SeBackupPrivilege, SeRestorePrivilege] else id)
          (m_DisableProcessPrivileges (bn_priv b))
    \<and> ((\<exists>n. r = Ret (n, None)) \<longrightarrow> asked)"
proof -
  let ?d = "bench_driver store :: (('s, 'r) bench, 'r) Driver"
  let ?di = "\<lparr>Flavour = 1, HomeDir = LayerStore ?d\<rparr>"
  note [simp del] = bench_driver_simps(2-5) bench_stores
  obtain q b1 where ex: "hcs_LayerExists (hcsClient ?d) ?di i b = (q, b1)" by force
  have "agree (\<lambda>c. bn_priv c = bn_priv b) (hcs_LayerExists (hcsClient ?d) ?di i) (hcs_LayerExists (hcsClient ?d) ?di i)"
    by (auto simp: bench_driver_simps FakeHCSClient_Impl_def other_parts intro!: agree_intros agree_zoom [of _ "\<lambda>p. p = bn_priv b"])
  from agreeD(2) [OF this _ ex] have p1: "bn_priv b1 = bn_priv b" by simp
  show ?thesis
  proof (cases "\<exists>e. q = Ret (Inr e)")
    case False
    with ex assms(3-5) p1 show ?thesis by (auto simp: Unpack_body go_try_def go_bind_def intro!: exI [of _ False] split: go.splits sum.splits)
  next
    case True
    then obtain e where q: "q = Ret (Inr e)" by blast
    from p1 assms(1) have "elevator_quiet b1" using quiet_priv by blast
    from elevator_calls(1) [OF this, of store privileges] p1 obtain b2
      where en: "pe_Enable (privilegeElevator ?d) privileges b1 = (Ret (next_answer (m_EnableProcessPrivileges (bn_priv b))), b2)" "elevator_quiet b2"
        "m_EnableProcessPrivileges (bn_priv b2) = record_call privileges (m_EnableProcessPrivileges (bn_priv b))"
        "m_DisableProcessPrivileges (bn_priv b2) = m_DisableProcessPrivileges (bn_priv b)" by auto
    obtain s b3 where body: "unpack_body fuel os ?d i ps tar e b2 = (s, b3)" by force
    have p3: "bn_priv b3 = bn_priv b2" using bench_body_keeps [OF assms(2) body] .
    with en(2) have "elevator_quiet b3" using quiet_priv by blast
    from elevator_calls(2) [OF this, of store privileges] p3 en(3,4) obtain b4 u
      where di: "pe_Disable (privilegeElevator ?d) privileges b3 = (Ret u, b4)"
        "m_DisableProcessPrivileges (bn_priv b4) = record_call privileges (m_DisableProcessPrivileges (bn_priv b))"
        "m_EnableProcessPrivileges (bn_priv b4) = record_call privileges (m_EnableProcessPrivileges (bn_priv b))" by auto
    show ?thesis
    proof (cases "next_answer (m_EnableProcessPrivileges (bn_priv b))")
      case None
      with ex q en(1) assms(3) have "Unpack fuel os ?d i ps tar b = go_defer (pe_Disable (privilegeElevator ?d) privileges) (unpack_body fuel os ?d i ps tar e) b2"
        by (simp add: Unpack_body)
      with assms(4,5) body di(1) have "b' = b4" by (cases s) (simp_all add: go_defer_def)
      with None di(2,3) show ?thesis by (simp add: privileges_def exI [of _ True])
    next
      case (Some err)
      with ex q en(1) assms(3,4) have "b' = b2" "\<forall>n. r \<noteq> Ret (n, None)" by (auto simp: Unpack_body)
      with Some en(3,4) show ?thesis by (simp add: privileges_def exI [of _ True])
    qed
  qed
qed

end
