(* ===== verification/Fake_Runs.thy ===== *)
theory Fake_Runs
  imports Fake_Driver
begin

text \<open>
  Concrete uses of the theorems about the fakes: a new bench, with answers planned as the unit tests of src/driver plan them.
\<close>

definition example_bench :: "(nat, unit) bench" where
  "example_bench = (new_bench 0)\<lparr>bn_hcs := FakeHCSClient_zero
     \<lparr>m_GetLayerMountPath := (method_zero ([], None))\<lparr>fm_ReturnsOnCall := Some [0 \<mapsto> (''some-volume-guid'', None)]\<rparr>\<rparr>\<rparr>"

definition plain_os :: "'w os_api" where
  "plain_os = \<lparr>os_ReadFile = (\<lambda>p. go_ret (Inl (NotExist p))), os_WriteFile = (\<lambda>p b m. go_ret None), os_MkdirAll = (\<lambda>p m. go_ret None)\<rparr>"

lemma example_quiet: "bench_quiet (example_bench\<lparr>bn_lim := FakeLimiter_zero\<lparr>m_SetQuota := method_zero r\<rparr>\<rparr>)" "bench_quiet example_bench"
  "bench_quiet (example_bench\<lparr>bn_hcs := FakeHCSClient_zero\<lparr>m_LayerExists := method_zero (True, None)\<rparr>\<rparr>)"
  by (simp_all add: bench_quiet_def example_bench_def new_bench_def FakeHCSClient_ready_def FakeLimiter_ready_def FakeHCSClient_zero_def FakeLimiter_zero_def method_zero_def log_zero_def)

text \<open>The quota cannot be set: the volume is destroyed again, once.\<close>

theorem Bundle_calls_witness:
  "\<exists>e b'. Bundle plain_os (bench_driver ''C:/store'') ''some-bundle-id'' [''oldest-layer''] 1000
       (example_bench\<lparr>bn_lim := FakeLimiter_zero\<lparr>m_SetQuota := method_zero (Some (ErrorString ''limit failed''))\<rparr>\<rparr>) = (Ret (Inl e), b')
     \<and> length (fm_ArgsForCall (m_DestroyLayer (bn_hcs b'))) = 1
     \<and> fm_ArgsForCall (m_SetQuota (bn_lim b')) = [(''some-volume-guid'', 1000)]"
proof -
  let ?b = "example_bench\<lparr>bn_lim := FakeLimiter_zero\<lparr>m_SetQuota := method_zero (Some (ErrorString ''limit failed''))\<rparr>\<rparr>"
  note Z = next_answer_def answer_of_def example_bench_def new_bench_def FakeHCSClient_zero_def FakeLimiter_zero_def method_zero_def map_index_def
  have a: "next_answer (m_LayerExists (bn_hcs ?b)) = (False, None)" "next_answer (m_GetLayerMountPath (bn_hcs ?b)) = (''some-volume-guid'', None)"
    "next_answer (m_CreateLayer (bn_hcs ?b)) = None" "next_answer (m_SetQuota (bn_lim ?b)) = Some (ErrorString ''limit failed'')"
    "fm_ArgsForCall (m_DestroyLayer (bn_hcs ?b)) = []" "fm_ArgsForCall (m_SetQuota (bn_lim ?b)) = []"
    by (simp_all add: Z)
  from Bundle_calls [OF example_quiet(1) plan_def _ _ refl refl a(1,2) refl refl refl refl,
      where store = "''C:/store''" and os = plain_os and i = "''some-bundle-id''" and ls = "[''oldest-layer'']" and n = 1000] a(3-)
  obtain r b' where "Bundle plain_os (bench_driver ''C:/store'') ''some-bundle-id'' [''oldest-layer''] 1000 ?b = (Ret r, b')" "\<not> (\<exists>sp. r = Inr sp)"
    "length (fm_ArgsForCall (m_DestroyLayer (bn_hcs b'))) = 1" "fm_ArgsForCall (m_SetQuota (bn_lim b')) = [(''some-volume-guid'', 1000)]"
    by (auto simp: plain_os_def plan_def)
  then show ?thesis by (cases r) auto
qed

theorem Delete_calls_witness:
  "\<exists>b'. Delete (bench_driver ''C:/store'') ''some-bundle-id'' (example_bench\<lparr>bn_hcs := FakeHCSClient_zero\<lparr>m_LayerExists := method_zero (True, None)\<rparr>\<rparr>) = (Ret None, b')
     \<and> length (fm_ArgsForCall (m_DestroyLayer (bn_hcs b'))) = 1"
proof -
  let ?b = "example_bench\<lparr>bn_hcs := FakeHCSClient_zero\<lparr>m_LayerExists := method_zero (True, None)\<rparr>\<rparr>"
  have a: "next_answer (m_LayerExists (bn_hcs ?b)) = (True, None)" "next_answer (m_DestroyLayer (bn_hcs ?b)) = None" "fm_ArgsForCall (m_DestroyLayer (bn_hcs ?b)) = []"
    by (simp_all add: next_answer_def answer_of_def FakeHCSClient_zero_def method_zero_def map_index_def)
  from Delete_calls [OF example_quiet(3) plan_def _ a(1), of "''C:/store''" "''some-bundle-id''"] a(2,3) show ?thesis
    by (auto simp: plan_def Let_def)
qed

text \<open>
  The archive is empty and the fake client has no layer writer to return: the deferred Close of Unpack panics on the nil writer,
  and the privileges are given back.
\<close>

definition empty_archive :: "(nat, unit) bench" where
  "empty_archive = example_bench\<lparr>bn_tar := FakeTarStreamer_zero\<lparr>m_Next := method_zero (None, Some EOF)\<rparr>\<rparr>"

abbreviation example_unpack :: "(int64 \<times> go_error option) go \<times> (nat, unit) bench" where
  "example_unpack \<equiv> Unpack 5 plain_os (bench_driver ''C:/store'') ''layer'' [] () empty_archive"

theorem Unpack_calls_witness:
  "fst example_unpack = Panic NilDereference
     \<and> (\<exists>asked. m_EnableProcessPrivileges (bn_priv (snd example_unpack)) =
           (if asked then record_call [SeBackupPrivilege, SeRestorePrivilege] else id) (m_EnableProcessPrivileges (bn_priv empty_archive))
         \<and> m_DisableProcessPrivileges (bn_priv (snd example_unpack)) =
           (if asked then record_call [SeBackupPrivilege, SeRestorePrivilege] else id) (m_DisableProcessPrivileges (bn_priv empty_archive)))"
proof -
  have q: "elevator_quiet empty_archive" "next_answer (m_EnableProcessPrivileges (bn_priv empty_archive)) = None"
    by (simp_all add: elevator_quiet_def empty_archive_def example_bench_def new_bench_def FakePrivilegeElevator_ready_def FakePrivilegeElevator_zero_def
        method_zero_def log_zero_def next_answer_def answer_of_def map_index_def)
  have o: "os_keeps bn_priv plain_os" by (simp add: os_keeps_def plain_os_def within_def same_def)
  have r: "fst example_unpack = Panic NilDereference" by code_simp
  then have nd: "fst example_unpack \<noteq> Diverged" by simp
  have ne: "''C:/store'' \<noteq> []" by simp
  from Unpack_calls [OF q(1) o ne surjective_pairing nd, unfolded q(2) simp_thms] show ?thesis
    by (elim exE conjE, intro conjI [OF r] exI conjI) assumption+
qed

abbreviation example_client :: "nat \<times> (nat, unit) FakeHCSClient" where
  "example_client \<equiv> snd (FakeHCSClient_DestroyLayer \<lparr>Flavour = 1, HomeDir = ''v''\<rparr> ''b'' (0, FakeHCSClient_zero))"

theorem HCSClient_log_complete_witness:
  "\<exists>log. FakeHCSClient_Invocations example_client = (Ret log, example_client)
     \<and> entries log ''DestroyLayer'' = [[AnyDriverInfo \<lparr>Flavour = 1, HomeDir = ''v''\<rparr>, AnyString ''b'']]"
proof -
  have "FakeHCSClient_step\<^sup>*\<^sup>* (0, FakeHCSClient_zero) example_client" by (rule r_into_rtranclp) (rule FakeHCSClient_step.intros)
  from HCSClient_log_complete [OF this] obtain log where "FakeHCSClient_Invocations example_client = (Ret log, example_client)"
    "entries log ''DestroyLayer'' = map (\<lambda>(di, i). [AnyDriverInfo di, AnyString i]) (fm_ArgsForCall (m_DestroyLayer (snd example_client)))"
    by blast
  moreover have "fm_ArgsForCall (m_DestroyLayer (snd example_client)) = [(\<lparr>Flavour = 1, HomeDir = ''v''\<rparr>, ''b'')]"
    by (simp add: FakeHCSClient_ops zoom_def fake_call_run idle_def FakeHCSClient_zero_def method_zero_def log_zero_def Let_def)
  ultimately show ?thesis by (intro exI [of _ log]) simp
qed

theorem Write_recorded_witness:
  "\<exists>w. go_each FakeLayerWriter_Write [''he'', ''llo''] (0 :: nat, FakeLayerWriter_zero) = (Ret [(0, None), (0, None)], w)
     \<and> FakeLayerWriter_WriteArgsForCall 1 w = (Ret ''llo'', w)"
proof -
  from Write_recorded [of "[''he'', ''llo'']" "0 :: nat"] obtain w
    where w: "go_each FakeLayerWriter_Write [''he'', ''llo''] (0 :: nat, FakeLayerWriter_zero) = (Ret (replicate 2 (0, None)), w)"
      and a: "\<forall>i < 2. FakeLayerWriter_WriteArgsForCall (int i) w = (Ret ([''he'', ''llo''] ! i), w)" by (auto simp: numeral_2_eq_2)
  from a have "FakeLayerWriter_WriteArgsForCall (int 1) w = (Ret ([''he'', ''llo''] ! 1), w)" by (rule allE [of _ 1]) simp
  with w show ?thesis by (intro exI [of _ w]) (simp add: numeral_2_eq_2)
qed

theorem Enable_answers_witness:
  "fst (FakePrivilegeElevator_EnableProcessPrivileges [''p''] (0 :: nat, FakePrivilegeElevator_zero)) = Ret None"
proof -
  let ?run = "FakePrivilegeElevator_EnableProcessPrivileges [''p''] (0 :: nat, FakePrivilegeElevator_zero)"
  have "FakePrivilegeElevator_ready (0 :: nat, FakePrivilegeElevator_zero)"
    by (simp add: FakePrivilegeElevator_ready_def FakePrivilegeElevator_zero_def)
  from Enable_answers [OF this, of "[''p'']" "fst ?run" "snd ?run", OF _ refl] show ?thesis
    by (simp add: FakePrivilegeElevator_zero_def method_zero_def map_index_def)
qed

theorem SetQuota_plan_witness:
  "\<exists>w1 w2 w3 w4. FakeLimiter_SetQuotaReturnsOnCall 1 (Some EOF) (0 :: nat, FakeLimiter_zero) = (Ret (), w1)
     \<and> FakeLimiter_SetQuotaReturns None w1 = (Ret (), w2) \<and> FakeLimiter_SetQuota ''v'' 1 w2 = (Ret None, w3)
     \<and> FakeLimiter_SetQuota ''v'' 2 w3 = (Ret (Some EOF), w4)"
proof -
  have "FakeLimiter_ready (0 :: nat, FakeLimiter_zero)" "int (length (fm_ArgsForCall (m_SetQuota (snd (0 :: nat, FakeLimiter_zero))))) = 0"
    "0 \<notin> dom (map_index (fm_ReturnsOnCall (m_SetQuota (snd (0 :: nat, FakeLimiter_zero)))))"
    by (simp_all add: FakeLimiter_ready_def FakeLimiter_zero_def method_zero_def log_zero_def map_index_def dom_def)
  with SetQuota_plan [of "(0 :: nat, FakeLimiter_zero)" 0 "Some EOF" None "''v''" 1 "''v''" 2] show ?thesis by fastforce
qed

end
