(* ===== verification/Fake_Locks.thy ===== *)
theory Fake_Locks
  imports Fake_Method
begin

text \<open>
  The mutexes of a fake when several goroutines use it. Each operation of a fake is reduced to the calls it makes on mutexes, in the
  order of the code (deferred calls run last in, first out); a goroutine performs a sequence of operations, and the goroutines
  interleave at each mutex call, with the mutexes of Fake\_Method. A stub runs when the mutexes of its method are released, so that
  what it does with the fake is a further operation of the same goroutine.
  That the sequences are those of the code is proved by running the code on a world that records the calls on its mutexes.

  Calls, inspections and plans never block each other for good. Invocations takes the mutexes in the opposite order of a call,
  and the two can wait for each other forever.
\<close>

section \<open>The mutex calls of the operations\<close>

datatype lock = LogMutex | MethodMutex nat

datatype lock_op = Lock | Unlock | RLock | RUnlock

type_synonym lock_call = "lock_op \<times> lock"

definition call_locks :: "nat \<Rightarrow> lock_call list" where
  "call_locks i = [(Lock, MethodMutex i), (Lock, LogMutex), (Unlock, LogMutex), (Unlock, MethodMutex i)]"

definition inspect_locks :: "nat \<Rightarrow> lock_call list" where
  "inspect_locks i = [(RLock, MethodMutex i), (RUnlock, MethodMutex i)]"

definition plan_locks :: "nat \<Rightarrow> lock_call list" where
  "plan_locks i = [(Lock, MethodMutex i), (Unlock, MethodMutex i)]"

text \<open>Invocations of a fake with the methods \<open>is\<close>, in the order of the code.\<close>

definition Invocations_locks :: "nat list \<Rightarrow> lock_call list" where
  "Invocations_locks is = (RLock, LogMutex) # map (\<lambda>i. (RLock, MethodMutex i)) is
     @ map (\<lambda>i. (RUnlock, MethodMutex i)) (rev is) @ [(RUnlock, LogMutex)]"

text \<open>One goroutine's use of a fake: a call; CallCount or ArgsForCall; Calls, Returns or ReturnsOnCall; Invocations.\<close>

datatype fake_use = Call nat | Inspect nat | Plan nat | AllInvocations "nat list"

fun use_locks :: "fake_use \<Rightarrow> lock_call list" where
  "use_locks (Call i) = call_locks i"
| "use_locks (Inspect i) = inspect_locks i"
| "use_locks (Plan i) = plan_locks i"
| "use_locks (AllInvocations is) = Invocations_locks is"

definition uses_locks :: "fake_use list \<Rightarrow> lock_call list" where
  "uses_locks us = concat (map use_locks us)"

lemma uses_locks_simps [simp]: "uses_locks [] = []" "uses_locks (u # us) = use_locks u @ uses_locks us"
  by (simp_all add: uses_locks_def)

section \<open>Goroutines\<close>

text \<open>What a call does to its mutex; \<^const>\<open>Diverged\<close> while it has to wait.\<close>

definition self_ref :: "('a, 'a) ref" where
  "self_ref = \<lparr>ref_get = (\<lambda>x. x), ref_put = (\<lambda>x _. x)\<rparr>"

fun on_mutex :: "lock_op \<Rightarrow> (mutex, unit) io" where
  "on_mutex Lock = mx_Lock self_ref"
| "on_mutex Unlock = mx_Unlock self_ref"
| "on_mutex RLock = mx_RLock self_ref"
| "on_mutex RUnlock = mx_RUnlock self_ref"

declare on_mutex.simps [simp del]

lemmas on_mutex_defs = on_mutex.simps mutex_defs go_simps self_ref_def

text \<open>The mutexes, and for each goroutine the mutex calls it has still to make.\<close>

type_synonym lock_state = "(lock \<Rightarrow> mutex) \<times> lock_call list list"

inductive lock_step :: "lock_state \<Rightarrow> lock_state \<Rightarrow> bool" where
  "i < length gs \<Longrightarrow> gs ! i = (c, k) # rest \<Longrightarrow> on_mutex c (mx k) = (Ret (), m) \<Longrightarrow> lock_step (mx, gs) (mx(k := m), gs[i := rest])"

inductive_cases lock_stepE: "lock_step (mx, gs) s"

definition lock_start :: "fake_use list list \<Rightarrow> lock_state" where
  "lock_start uss = (\<lambda>_. mutex_zero, map uses_locks uss)"

definition lock_finished :: "lock_state \<Rightarrow> bool" where
  "lock_finished = (\<lambda>(mx, gs). set gs \<subseteq> {[]} \<and> mx = (\<lambda>_. mutex_zero))"

text \<open>
  Goroutine \<open>i\<close> can go on even though a \<^verbatim>\<open>sync.RWMutex\<close> lets no reader in while a writer is waiting, where every goroutine
  about to call Lock counts as waiting.
\<close>

definition can_run :: "lock_state \<Rightarrow> nat \<Rightarrow> bool" where
  "can_run = (\<lambda>(mx, gs) i. i < length gs \<and> (case gs ! i of
       [] \<Rightarrow> False
     | (c, k) # _ \<Rightarrow> fst (on_mutex c (mx k)) = Ret () \<and> (c = RLock \<longrightarrow> (\<forall>g \<in> set gs. g = [] \<or> hd g \<noteq> (Lock, k)))))"

definition lock_calls :: "lock_call list list \<Rightarrow> nat" where
  "lock_calls gs = sum_list (map length gs)"

section \<open>The mutex calls are those of the code\<close>

text \<open>The mutex calls of one goroutine alone: how they end (a call that waits for ever is \<^const>\<open>Diverged\<close>), those that were made, and the mutexes after them.\<close>

fun run_locks :: "lock_call list \<Rightarrow> (lock \<Rightarrow> mutex) \<Rightarrow> unit go \<times> lock_call list \<times> (lock \<Rightarrow> mutex)" where
  "run_locks [] mx = (Ret (), [], mx)"
| "run_locks ((c, k) # cs) mx = (case on_mutex c (mx k) of
       (Ret _, m) \<Rightarrow> (case run_locks cs (mx(k := m)) of (r, made, mx') \<Rightarrow> (r, (c, k) # made, mx'))
     | (r, m) \<Rightarrow> (r, [], mx))"

text \<open>
  A world that records the mutex calls: the state of the test, the methods of a fake, its log, and the calls so far. The code of a method works
  through references; those to a method and to the log add what an assignment has done to the mutex.
\<close>

type_synonym ('s, 'a, 'r, 'x, 'lw) traced = "'s \<times> (nat \<Rightarrow> ('s, 'a, 'r) fake_method) \<times> ('x, 'lw) fake_log \<times> lock_call list"

definition mutex_calls :: "lock \<Rightarrow> mutex \<Rightarrow> mutex \<Rightarrow> lock_call list" where
  "mutex_calls k m m' =
     (if mx_writer m = mx_writer m' then [] else if mx_writer m' then [(Lock, k)] else [(Unlock, k)])
     @ (if mx_readers m = mx_readers m' then [] else if mx_readers m < mx_readers m' then [(RLock, k)] else [(RUnlock, k)])"

definition traced_state :: "(('s, 'a, 'r, 'x, 'lw) traced, 's) ref" where
  "traced_state = \<lparr>ref_get = fst, ref_put = (\<lambda>s w. (s, snd w))\<rparr>"

definition traced_method :: "nat \<Rightarrow> (('s, 'a, 'r, 'x, 'lw) traced, ('s, 'a, 'r) fake_method) ref" where
  "traced_method i = \<lparr>ref_get = (\<lambda>(s, ms, l, t). ms i),
     ref_put = (\<lambda>m (s, ms, l, t). (s, ms(i := m), l, t @ mutex_calls (MethodMutex i) (fm_Mutex (ms i)) (fm_Mutex m)))\<rparr>"

definition traced_log :: "(('s, 'a, 'r, 'x, 'lw) traced, ('x, 'lw) fake_log) ref" where
  "traced_log = \<lparr>ref_get = (\<lambda>(s, ms, l, t). l),
     ref_put = (\<lambda>l' (s, ms, l, t). (s, ms, l', t @ mutex_calls LogMutex (fl_invocationsMutex l) (fl_invocationsMutex l')))\<rparr>"

definition locks_of :: "(nat \<Rightarrow> ('s, 'a, 'r) fake_method) \<Rightarrow> ('x, 'lw) fake_log \<Rightarrow> lock \<Rightarrow> mutex" where
  "locks_of ms l k = (case k of LogMutex \<Rightarrow> fl_invocationsMutex l | MethodMutex i \<Rightarrow> fm_Mutex (ms i))"

text \<open>
  The code \<open>traced\<close> of an operation, run in any state of the fake and its mutexes, makes the mutex calls of \<open>cs\<close> one after the other, up to the first that waits,
  and leaves the mutexes as they do. If one waits, the operation does; without a stub it waits only then. For the rest it does what \<open>code\<close>, which records nothing, does to method \<open>i\<close> and the log.
\<close>

definition makes_calls :: "nat \<Rightarrow> lock_call list \<Rightarrow> (('s, 'a, 'r, 'x, 'lw) method_world, 'b) io \<Rightarrow> (('s, 'a, 'r, 'x, 'lw) traced, 'b) io \<Rightarrow> bool" where
  "makes_calls i cs code traced \<longleftrightarrow> (\<forall>s ms l.
     case traced (s, ms, l, []) of (r, s', ms', l', made) \<Rightarrow>
     (case run_locks cs (locks_of ms l) of (q, calls, mx) \<Rightarrow>
        made = calls \<and> locks_of ms' l' = mx \<and> (q \<noteq> Ret () \<longrightarrow> q = Diverged \<and> r = Diverged)
        \<and> (fm_Stub (ms i) = None \<and> r = Diverged \<longrightarrow> q = Diverged))
     \<and> code (s, ms i, l) = (r, s', ms' i, l') \<and> (\<forall>j. j \<noteq> i \<longrightarrow> ms' j = ms j))"

lemma locks_of_simps [simp]:
  "locks_of ms l LogMutex = fl_invocationsMutex l" "locks_of ms l (MethodMutex i) = fm_Mutex (ms i)"
  "locks_of (ms(i := m)) l = (locks_of ms l)(MethodMutex i := fm_Mutex m)"
  "locks_of ms (fl_invocations_update f l) = locks_of ms l"
  "locks_of ms (fl_invocationsMutex_update g l) = (locks_of ms l)(LogMutex := g (fl_invocationsMutex l))"
  by (auto simp: locks_of_def split: lock.splits)

lemmas traced_defs = traced_state_def traced_method_def traced_log_def mutex_calls_def on_mutex_defs Let_def map_make_def map_assign_def map_index_def
  fake_recordInvocation_def zoom_def

lemmas sequence_defs = call_locks_def inspect_locks_def plan_locks_def

lemma call_makes: "makes_calls i (call_locks i) (fake_call key enc arg) (fake_call_on traced_state (traced_method i) traced_log key enc arg)"
  unfolding makes_calls_def
  by (auto simp: fake_call_def fake_call_on_def traced_defs sequence_defs split: if_splits option.splits prod.splits)

lemma call_void_makes:
  "makes_calls i (call_locks i) (fake_call_void key enc arg) (fake_call_void_on traced_state (traced_method i) traced_log key enc arg)"
  unfolding makes_calls_def
  by (auto simp: fake_call_void_def fake_call_void_on_def traced_defs sequence_defs split: if_splits option.splits prod.splits)

lemma inspect_makes:
  "makes_calls i (inspect_locks i) fake_CallCount (fake_CallCount_on (traced_method i))"
  "makes_calls i (inspect_locks i) (fake_ArgsForCall j) (fake_ArgsForCall_on (traced_method i) j)"
  unfolding makes_calls_def
  by (auto simp: fake_CallCount_def fake_CallCount_on_def fake_ArgsForCall_def fake_ArgsForCall_on_def traced_defs sequence_defs
      split: if_splits)

lemma plan_makes:
  "makes_calls i (plan_locks i) (fake_Calls stub) (fake_Calls_on (traced_method i) stub)"
  "makes_calls i (plan_locks i) (fake_Returns r) (fake_Returns_on (traced_method i) r)"
  "makes_calls i (plan_locks i) (fake_ReturnsOnCall j r) (fake_ReturnsOnCall_on (traced_method i) j r)"
  unfolding makes_calls_def
  by (auto simp: fake_Calls_def fake_Calls_on_def fake_Returns_def fake_Returns_on_def fake_ReturnsOnCall_def fake_ReturnsOnCall_on_def
      traced_defs sequence_defs split: if_splits option.splits)

text \<open>Invocations: the readers of the methods, in a list of any length, around a read of the log.\<close>

abbreviation rlocks :: "nat list \<Rightarrow> lock_call list" where
  "rlocks is \<equiv> map (\<lambda>i. (RLock, MethodMutex i)) is"

abbreviation runlocks :: "nat list \<Rightarrow> lock_call list" where
  "runlocks is \<equiv> map (\<lambda>i. (RUnlock, MethodMutex i)) (rev is)"

definition add_reader :: "nat \<Rightarrow> (nat \<Rightarrow> ('s, 'a, 'r) fake_method) \<Rightarrow> nat \<Rightarrow> ('s, 'a, 'r) fake_method" where
  "add_reader i ms = ms(i := (ms i)\<lparr>fm_Mutex := (fm_Mutex (ms i))\<lparr>mx_readers := Suc (mx_readers (fm_Mutex (ms i)))\<rparr>\<rparr>)"

lemma add_reader_simps [simp]:
  "mx_writer (fm_Mutex (add_reader i ms j)) = mx_writer (fm_Mutex (ms j))"
  "fm_Stub (add_reader i ms j) = fm_Stub (ms j)"
  by (simp_all add: add_reader_def)

lemma traced_RLock:
  "mx_RLock (mutex_of (traced_method i)) (s, ms, l, t) = (if mx_writer (fm_Mutex (ms i)) then (Diverged, (s, ms, l, t))
     else (Ret (), (s, add_reader i ms, l, t @ [(RLock, MethodMutex i)])))"
  by (simp add: traced_method_def mutex_calls_def mx_RLock_def go_simps add_reader_def)

lemma rlocking_run: "mx_RLock p w = (Ret (), w1) \<Longrightarrow> rlocking p m w = go_defer (mx_RUnlock p) m w1"
  by (simp add: rlocking_def go_bind_def)

lemma traced_rlocking:
  "rlocking (mutex_of (traced_method i)) m (s, ms, l, t) = (if mx_writer (fm_Mutex (ms i)) then (Diverged, (s, ms, l, t))
     else go_defer (mx_RUnlock (mutex_of (traced_method i))) m (s, add_reader i ms, l, t @ [(RLock, MethodMutex i)]))"
  by (simp add: rlocking_def go_bind_def traced_RLock)

lemma traced_RUnlock:
  "mx_RUnlock (mutex_of (traced_method i)) (s, add_reader i ms, l, t) = (Ret (), (s, ms, l, t @ [(RUnlock, MethodMutex i)]))"
  by (simp add: traced_method_def mutex_calls_def mx_RUnlock_def go_simps add_reader_def)

lemma run_RLock:
  "run_locks ((RLock, MethodMutex i) # cs) (locks_of ms l) = (if mx_writer (fm_Mutex (ms i)) then (Diverged, [], locks_of ms l)
     else (case run_locks cs (locks_of (add_reader i ms) l) of (q, made, mx) \<Rightarrow> (q, (RLock, MethodMutex i) # made, mx)))"
  by (simp add: on_mutex_defs add_reader_def)

lemma run_RUnlock:
  "run_locks ((RUnlock, MethodMutex i) # cs) (locks_of (add_reader i ms) l)
     = (case run_locks cs (locks_of ms l) of (q, made, mx) \<Rightarrow> (q, (RUnlock, MethodMutex i) # made, mx))"
  by (simp add: on_mutex_defs add_reader_def fun_upd_idem)

lemma readers_pass:
  assumes "\<forall>i \<in> set is. \<not> mx_writer (fm_Mutex (ms i))" and "\<And>ms t. m (s, ms, l, t) = (Ret x, (s, ms, l, t))"
  shows "foldr rlocking (map (\<lambda>i. mutex_of (traced_method i)) is) m (s, ms, l, t) = (Ret x, (s, ms, l, t @ rlocks is @ runlocks is))"
    and "run_locks (rlocks is @ runlocks is @ rest) (locks_of ms l)
      = (case run_locks rest (locks_of ms l) of (q, made, mx) \<Rightarrow> (q, rlocks is @ runlocks is @ made, mx))"
  using assms(1)
proof (induction "is" arbitrary: ms t rest)
  case (Cons i "is")
  { case 1 with Cons.IH(1) [of "add_reader i ms"] show ?case
      by (simp add: traced_rlocking go_defer_def traced_RUnlock) }
  { case 2 with Cons.IH(2) [of "add_reader i ms"] show ?case
      by (simp add: run_RLock run_RUnlock del: run_locks.simps split: prod.splits) }
qed (simp_all add: assms(2) split: prod.splits)

lemma readers_wait:
  assumes "\<exists>i \<in> set is. mx_writer (fm_Mutex (ms i))"
  shows "\<exists>ms' made. foldr rlocking (map (\<lambda>i. mutex_of (traced_method i)) is) m (s, ms, l, t) = (Diverged, (s, ms', l, t @ made))
    \<and> run_locks (rlocks is @ rest) (locks_of ms l) = (Diverged, made, locks_of ms' l)"
  using assms
proof (induction "is" arbitrary: ms t)
  case (Cons i "is")
  show ?case
  proof (cases "mx_writer (fm_Mutex (ms i))")
    case True
    then show ?thesis by (simp add: traced_rlocking run_RLock del: run_locks.simps)
  next
    case False
    with Cons.prems Cons.IH [of "add_reader i ms" "t @ [(RLock, MethodMutex i)]"] obtain ms' made where
      "foldr rlocking (map (\<lambda>i. mutex_of (traced_method i)) is) m (s, add_reader i ms, l, t @ [(RLock, MethodMutex i)])
         = (Diverged, (s, ms', l, (t @ [(RLock, MethodMutex i)]) @ made))"
      "run_locks (rlocks is @ rest) (locks_of (add_reader i ms) l) = (Diverged, made, locks_of ms' l)"
      by auto
    with False show ?thesis
      by (intro exI [of _ ms'] exI [of _ "(RLock, MethodMutex i) # made"])
         (simp add: traced_rlocking go_defer_def run_RLock del: run_locks.simps)
  qed
qed simp

lemma Invocations_makes:
  fixes ms :: "nat \<Rightarrow> ('s, 'a, 'r) fake_method" and l :: "('x, 'lw) fake_log"
  shows "case fake_Invocations (map (\<lambda>i. mutex_of (traced_method i)) is) traced_log (s, ms, l, []) of (r, s', ms', l', made) \<Rightarrow>
    (case run_locks (Invocations_locks is) (locks_of ms l) of (q, calls, mx) \<Rightarrow>
       made = calls \<and> locks_of ms' l' = mx \<and> s' = s
       \<and> (if q = Ret () then r = Ret (map_index (fl_invocations l)) \<and> ms' = ms \<and> l' = l else q = Diverged \<and> r = Diverged))"
proof (cases "mx_writer (fl_invocationsMutex l)")
  case True
  then show ?thesis by (simp add: fake_Invocations_def Invocations_locks_def traced_defs)
next
  case False
  let ?l = "l\<lparr>fl_invocationsMutex := (fl_invocationsMutex l)\<lparr>mx_readers := Suc (mx_readers (fl_invocationsMutex l))\<rparr>\<rparr>"
  let ?read = "go_bind (ref_read traced_log) (\<lambda>log. go_ret (map_index (fl_invocations log)))
    :: (('s, 'a, 'r, 'x, 'lw) traced, string \<rightharpoonup> ('x, 'lw) any list list) io"
  let ?in = "foldr rlocking (map (\<lambda>i. mutex_of (traced_method i)) is) ?read"
  have run: "fake_Invocations (map (\<lambda>i. mutex_of (traced_method i)) is) traced_log (s, ms, l, [])
      = go_defer (mx_RUnlock (field_ref fl_invocationsMutex fl_invocationsMutex_update traced_log)) ?in (s, ms, ?l, [(RLock, LogMutex)])"
    unfolding fake_Invocations_def
  proof (rule rlocking_run)
    show "mx_RLock (field_ref fl_invocationsMutex fl_invocationsMutex_update traced_log) (s, ms, l, []) = (Ret (), (s, ms, ?l, [(RLock, LogMutex)]))"
      using False by (simp add: mx_RLock_def traced_log_def mutex_calls_def go_simps)
  qed
  have calls: "run_locks (Invocations_locks is) (locks_of ms l)
      = (case run_locks (rlocks is @ runlocks is @ [(RUnlock, LogMutex)]) (locks_of ms ?l) of (q, made, mx) \<Rightarrow> (q, (RLock, LogMutex) # made, mx))"
    using False by (simp add: Invocations_locks_def on_mutex_defs)
  have last: "run_locks [(RUnlock, LogMutex)] (locks_of ms ?l) = (Ret (), [(RUnlock, LogMutex)], locks_of ms l)"
    by (simp add: on_mutex_defs fun_upd_idem)
  have unlock: "mx_RUnlock (field_ref fl_invocationsMutex fl_invocationsMutex_update traced_log) (s, ms, ?l, t) = (Ret (), (s, ms, l, t @ [(RUnlock, LogMutex)]))" for t
    by (simp add: traced_log_def mutex_calls_def mx_RUnlock_def go_simps)
  show ?thesis
  proof (cases "\<exists>i \<in> set is. mx_writer (fm_Mutex (ms i))")
    case True
    from readers_wait [OF this, of ?read s ?l "[(RLock, LogMutex)]" "runlocks is @ [(RUnlock, LogMutex)]"] obtain ms' made where
      w: "?in (s, ms, ?l, [(RLock, LogMutex)]) = (Diverged, (s, ms', ?l, [(RLock, LogMutex)] @ made))"
        "run_locks (rlocks is @ runlocks is @ [(RUnlock, LogMutex)]) (locks_of ms ?l) = (Diverged, made, locks_of ms' ?l)" by blast
    show ?thesis unfolding run calls go_defer_def w by simp
  next
    case no: False
    have read: "?read (s, ms, ?l, t) = (Ret (map_index (fl_invocations l)), (s, ms, ?l, t))" for ms t
      by (simp add: traced_log_def go_simps)
    from no have "\<forall>i \<in> set is. \<not> mx_writer (fm_Mutex (ms i))" by blast
    note w = readers_pass [OF this read]
    show ?thesis unfolding run calls go_defer_def w last by (simp add: unlock)
  qed
qed

text \<open>
  C39: The sequences of mutex calls are those of the code, in every state of the fake and of its mutexes: a call, with or without results and with or without a
  stub, CallCount, ArgsForCall, Calls, Returns, ReturnsOnCall and Invocations of any list of methods make exactly the mutex calls of their sequence, in this order,
  up to the first one that waits, also when they panic; they wait for ever if one does, and only a stub can keep them from returning otherwise.
\<close>

theorem fake_locks_of_code:
  fixes ms :: "nat \<Rightarrow> ('s, 'a, 'r) fake_method" and l :: "('x, 'lw) fake_log"
  shows "makes_calls i (call_locks i) (fake_call key enc arg) (fake_call_on traced_state (traced_method i) traced_log key enc arg)
    \<and> makes_calls i (call_locks i) (fake_call_void key' enc' arg') (fake_call_void_on traced_state (traced_method i) traced_log key' enc' arg')
    \<and> makes_calls i (inspect_locks i) fake_CallCount (fake_CallCount_on (traced_method i))
    \<and> makes_calls i (inspect_locks i) (fake_ArgsForCall j) (fake_ArgsForCall_on (traced_method i) j)
    \<and> makes_calls i (plan_locks i) (fake_Calls stub) (fake_Calls_on (traced_method i) stub)
    \<and> makes_calls i (plan_locks i) (fake_Returns ret) (fake_Returns_on (traced_method i) ret)
    \<and> makes_calls i (plan_locks i) (fake_ReturnsOnCall j ret) (fake_ReturnsOnCall_on (traced_method i) j ret)
    \<and> (case fake_Invocations (map (\<lambda>i. mutex_of (traced_method i)) is) traced_log (s, ms, l, []) of (r, s', ms', l', made) \<Rightarrow>
        (case run_locks (Invocations_locks is) (locks_of ms l) of (q, calls, mx) \<Rightarrow>
           made = calls \<and> locks_of ms' l' = mx \<and> s' = s
           \<and> (if q = Ret () then r = Ret (map_index (fl_invocations l)) \<and> ms' = ms \<and> l' = l else q = Diverged \<and> r = Diverged)))"
  by (intro conjI call_makes call_void_makes inspect_makes plan_makes Invocations_makes)

section \<open>Which goroutine holds what\<close>

text \<open>A goroutine holds what it has still to unlock.\<close>

definition owes :: "lock_op \<Rightarrow> lock_op \<Rightarrow> lock \<Rightarrow> lock_call list \<Rightarrow> int" where
  "owes u l k g = int (count_list g (u, k)) - int (count_list g (l, k))"

lemma owes_simps [simp]:
  "owes u l k [] = 0"
  "owes u l k (c # g) = owes u l k g + of_bool (c = (u, k)) - of_bool (c = (l, k))"
  "owes u l k (g @ h) = owes u l k g + owes u l k h"
  by (simp_all add: owes_def)

text \<open>The state of every mutex agrees with what the goroutines hold.\<close>

definition lock_inv :: "lock_state \<Rightarrow> bool" where
  "lock_inv = (\<lambda>(mx, gs). \<forall>k. int (mx_readers (mx k)) = sum_list (map (owes RUnlock RLock k) gs)
     \<and> of_bool (mx_writer (mx k)) = sum_list (map (owes Unlock Lock k) gs))"

lemma owes_Invocations_map:
  "owes RUnlock RLock k (map (\<lambda>i. (RLock, MethodMutex i)) is) = - owes RUnlock RLock k (map (\<lambda>i. (RUnlock, MethodMutex i)) (rev is))"
  "owes Unlock Lock k (map (\<lambda>i. (RLock, MethodMutex i)) is) = 0" "owes Unlock Lock k (map (\<lambda>i. (RUnlock, MethodMutex i)) (rev is)) = 0"
  by (induction "is") simp_all

lemma owes_use [simp]: "owes RUnlock RLock k (use_locks u) = 0" "owes Unlock Lock k (use_locks u) = 0"
  by (cases u; simp add: call_locks_def inspect_locks_def plan_locks_def Invocations_locks_def owes_Invocations_map)+

lemma owes_uses [simp]: "owes RUnlock RLock k (uses_locks us) = 0" "owes Unlock Lock k (uses_locks us) = 0"
  by (induction us) simp_all

lemma start_inv: "lock_inv (lock_start uss)"
  by (simp add: lock_inv_def lock_start_def mutex_zero_def comp_def)

lemma on_mutex_owes:
  assumes "on_mutex c m = (Ret (), m')"
  shows "int (mx_readers m') = int (mx_readers m) - of_bool (c = RUnlock) + of_bool (c = RLock)"
    and "of_bool (mx_writer m') = (of_bool (mx_writer m) :: int) - of_bool (c = Unlock) + of_bool (c = Lock)"
  using assms by (cases c; auto simp: on_mutex_defs split: if_splits)+

lemma sum_list_update_int: "i < length xs \<Longrightarrow> sum_list (xs[i := x]) = sum_list xs + x - (xs ! i :: int)"
  by (induction xs arbitrary: i) (auto split: nat.split)

lemma step_inv: "lock_step s s' \<Longrightarrow> lock_inv s \<Longrightarrow> lock_inv s'"
proof (induction rule: lock_step.induct)
  case (1 i gs c k rest mx m)
  have "sum_list (map (owes u l j) (gs[i := rest])) = sum_list (map (owes u l j) gs) - of_bool ((c, k) = (u, j)) + of_bool ((c, k) = (l, j))" for u l j
    using 1(1,2) by (simp add: map_update sum_list_update_int)
  with 1(4) on_mutex_owes [OF 1(3)] show ?case by (auto simp: lock_inv_def)
qed

lemma reachable_inv: "(lock_step ^^ n) s s' \<Longrightarrow> lock_inv s \<Longrightarrow> lock_inv s'"
  by (induction n arbitrary: s') (auto intro: step_inv)

text \<open>Every step is one mutex call less.\<close>

lemma step_calls: "lock_step s s' \<Longrightarrow> Suc (lock_calls (snd s')) = lock_calls (snd s)"
proof (induction rule: lock_step.induct)
  case (1 i gs c k rest mx m)
  then have "int (sum_list (map length (gs[i := rest]))) = int (sum_list (map length gs)) - 1"
    using sum_list_update_int [of i "map (\<lambda>g. int (length g)) gs" "int (length rest)"]
    by (simp add: map_update comp_def flip: sum_list_of_nat)
  then show ?case by (simp add: lock_calls_def)
qed

lemma run_calls: "(lock_step ^^ n) s s' \<Longrightarrow> lock_calls (snd s') + n = lock_calls (snd s)"
  by (induction n arbitrary: s') (fastforce dest: step_calls)+

section \<open>Goroutines that do not call Invocations\<close>

text \<open>Where such a goroutine can be: between two operations, in a call before, in or after recording it, in an inspection or a plan.\<close>

definition plain :: "fake_use list \<Rightarrow> bool" where
  "plain us \<longleftrightarrow> (\<forall>u \<in> set us. case u of AllInvocations _ \<Rightarrow> False | _ \<Rightarrow> True)"

inductive at_rest :: "lock_call list \<Rightarrow> bool" where
  "plain us \<Longrightarrow> at_rest (uses_locks us)"

inductive ordered :: "lock_call list \<Rightarrow> bool" where
  between: "at_rest g \<Longrightarrow> ordered g"
| recording: "at_rest g \<Longrightarrow> ordered ((Lock, LogMutex) # (Unlock, LogMutex) # (Unlock, MethodMutex i) # g)"
| recorded: "at_rest g \<Longrightarrow> ordered ((Unlock, LogMutex) # (Unlock, MethodMutex i) # g)"
| leaving: "at_rest g \<Longrightarrow> ordered ((Unlock, MethodMutex i) # g)"
| inspected: "at_rest g \<Longrightarrow> ordered ((RUnlock, MethodMutex i) # g)"

lemma at_rest_owes: "at_rest g \<Longrightarrow> owes RUnlock RLock k g = 0" "at_rest g \<Longrightarrow> owes Unlock Lock k g = 0"
  by (auto elim!: at_rest.cases)

lemma at_rest_next:
  assumes "at_rest (c # g)"
  shows "ordered g" and "\<exists>i. c = (Lock, MethodMutex i) \<or> c = (RLock, MethodMutex i)"
proof -
  from assms obtain us where us: "plain us" "c # g = uses_locks us" by (auto elim: at_rest.cases)
  then obtain u us' where u: "us = u # us'" by (cases us) auto
  with us have r: "at_rest (uses_locks us')" and "\<And>x. u \<noteq> AllInvocations x" by (auto simp: plain_def intro: at_rest.intros)
  with us u show "ordered g" and "\<exists>i. c = (Lock, MethodMutex i) \<or> c = (RLock, MethodMutex i)"
    by (cases u; auto simp: call_locks_def inspect_locks_def plan_locks_def intro: ordered.intros)+
qed

lemma ordered_next: "ordered (c # g) \<Longrightarrow> ordered g"
  by (erule ordered.cases) (auto dest: at_rest_next intro: ordered.intros)

lemma ordered_owes:
  assumes "ordered g"
  shows "0 \<le> owes RUnlock RLock k g" and "0 \<le> owes Unlock Lock k g"
  using assms by (auto elim!: ordered.cases simp: at_rest_owes)

lemma step_ordered: "lock_step s s' \<Longrightarrow> \<forall>g \<in> set (snd s). ordered g \<Longrightarrow> \<forall>g \<in> set (snd s'). ordered g"
proof (induction rule: lock_step.induct)
  case (1 i gs c k rest mx m)
  then have "ordered ((c, k) # rest)" by (metis nth_mem snd_conv)
  then have "ordered rest" by (rule ordered_next)
  with 1(4) show ?case using set_update_subset_insert [of gs i rest] by auto
qed

lemma reachable_ordered: "(lock_step ^^ n) s s' \<Longrightarrow> \<forall>g \<in> set (snd s). ordered g \<Longrightarrow> \<forall>g \<in> set (snd s'). ordered g"
  by (induction n arbitrary: s') (auto dest: step_ordered)

section \<open>Progress\<close>

lemma on_mutex_runs [simp]:
  "fst (on_mutex Lock m) = Ret () \<longleftrightarrow> \<not> mx_writer m \<and> mx_readers m = 0"
  "fst (on_mutex Unlock m) = Ret () \<longleftrightarrow> mx_writer m"
  "fst (on_mutex RLock m) = Ret () \<longleftrightarrow> \<not> mx_writer m"
  "fst (on_mutex RUnlock m) = Ret () \<longleftrightarrow> mx_readers m \<noteq> 0"
  by (auto simp: on_mutex_defs)

lemma can_run_Cons: "i < length gs \<Longrightarrow> gs ! i = (c, k) # rest \<Longrightarrow>
   can_run (mx, gs) i \<longleftrightarrow> fst (on_mutex c (mx k)) = Ret () \<and> (c = RLock \<longrightarrow> (\<forall>g \<in> set gs. g = [] \<or> hd g \<noteq> (Lock, k)))"
  by (simp add: can_run_def)

text \<open>What a goroutine is about to unlock is locked.\<close>

lemma unlock_runs:
  assumes inv: "lock_inv (mx, gs)" and ord: "\<forall>g \<in> set gs. ordered g" and i: "i < length gs" "gs ! i = (c, k) # rest" and c: "c = Unlock \<or> c = RUnlock"
  shows "can_run (mx, gs) i"
proof -
  have o: "ordered ((c, k) # rest)" and m: "(c, k) # rest \<in> set gs" using i ord by (metis nth_mem)+
  have "owes u l k ((c, k) # rest) \<le> sum_list (map (owes u l k) gs)" if "(u, l) = (Unlock, Lock) \<or> (u, l) = (RUnlock, RLock)" for u l
  proof (rule member_le_sum_list)
    show "owes u l k ((c, k) # rest) \<in> set (map (owes u l k) gs)" unfolding set_map using m by (rule imageI)
  qed (use ord that ordered_owes in auto)
  from this [of Unlock Lock] this [of RUnlock RLock] ordered_owes [OF ordered_next [OF o], of k]
  have "c = Unlock \<Longrightarrow> 0 < sum_list (map (owes Unlock Lock k) gs)" "c = RUnlock \<Longrightarrow> 0 < sum_list (map (owes RUnlock RLock k) gs)"
    by simp_all
  then have "c = Unlock \<Longrightarrow> mx_writer (mx k)" "c = RUnlock \<Longrightarrow> mx_readers (mx k) \<noteq> 0"
    using inv by (auto simp: lock_inv_def of_bool_def dest!: spec [of _ k] split: if_splits)
  with i c show ?thesis by (auto simp: can_run_Cons)
qed

lemma free_mutex:
  assumes "lock_inv (mx, gs)" and "\<And>g. g \<in> set gs \<Longrightarrow> owes RUnlock RLock k g = 0 \<and> owes Unlock Lock k g = 0"
  shows "mx k = mutex_zero"
proof -
  have "sum_list (map (owes RUnlock RLock k) gs) = 0" "sum_list (map (owes Unlock Lock k) gs) = 0"
    using assms(2) by (induction gs) auto
  with assms(1) show ?thesis by (cases "mx k") (auto simp: lock_inv_def mutex_zero_def dest!: spec [of _ k])
qed

text \<open>If nobody is about to unlock, the log is free; if nobody is about to record either, every mutex is.\<close>

lemma progress:
  assumes inv: "lock_inv (mx, gs)" and ord: "\<forall>g \<in> set gs. ordered g" and busy: "\<not> set gs \<subseteq> {[]}"
  shows "\<exists>i. can_run (mx, gs) i"
proof (rule ccontr)
  assume stuck: "\<nexists>i. can_run (mx, gs) i"
  have waits: "at_rest g \<or> (\<exists>i h. at_rest h \<and> g = (Lock, LogMutex) # (Unlock, LogMutex) # (Unlock, MethodMutex i) # h)" if g: "g \<in> set gs" for g
  proof -
    obtain i where i: "i < length gs" "gs ! i = g" using g by (metis in_set_conv_nth)
    have "c \<noteq> Unlock \<and> c \<noteq> RUnlock" if "g = (c, k) # rest" for c k rest using unlock_runs [OF inv ord i(1)] i(2) that stuck by blast
    with ord g show ?thesis by (elim ballE [of _ _ g]) (auto elim!: ordered.cases)
  qed
  then have log: "mx LogMutex = mutex_zero" by (intro free_mutex [OF inv]) (auto dest!: waits simp: at_rest_owes)
  have lock: "mx k \<noteq> mutex_zero" if "(Lock, k) # rest \<in> set gs" for k rest
    using that stuck by (metis can_run_Cons in_set_conv_nth lock_op.distinct(3) mutex.select_convs(1,2) mutex_zero_def on_mutex_runs(1))
  have rest: "at_rest g" if "g \<in> set gs" for g using waits [OF that] lock log that by blast
  then have free: "mx k = mutex_zero" for k by (intro free_mutex [OF inv]) (auto simp: at_rest_owes)
  from busy obtain g where g: "g \<in> set gs" "g \<noteq> []" by auto
  then obtain c rest' where "g = c # rest'" by (meson neq_Nil_conv)
  with g rest at_rest_next(2) lock free obtain j where g': "(RLock, MethodMutex j) # rest' \<in> set gs" by metis
  then obtain i where i: "i < length gs" "gs ! i = (RLock, MethodMutex j) # rest'" by (metis in_set_conv_nth)
  have "h = [] \<or> hd h \<noteq> (Lock, MethodMutex j)" if "h \<in> set gs" for h using lock free that by (cases h) auto
  with i free have "can_run (mx, gs) i" by (simp add: can_run_Cons mutex_zero_def)
  with stuck show False by blast
qed

lemma all_done: "lock_inv (mx, gs) \<Longrightarrow> set gs \<subseteq> {[]} \<Longrightarrow> lock_finished (mx, gs)"
  by (auto simp: lock_finished_def intro!: ext free_mutex)

lemma no_calls: "lock_calls gs = 0 \<longleftrightarrow> set gs \<subseteq> {[]}"
  by (auto simp: lock_calls_def)

text \<open>A goroutine that can go on has a step.\<close>

lemma can_run_step:
  assumes "can_run s i"
  shows "\<exists>s'. lock_step s s'"
proof -
  obtain mx gs where s: "s = (mx, gs)" by force
  with assms obtain c k rest where g: "i < length gs" "gs ! i = (c, k) # rest" and "fst (on_mutex c (mx k)) = Ret ()"
    by (auto simp: can_run_def simp del: on_mutex_runs split: list.splits)
  then have "on_mutex c (mx k) = (Ret (), snd (on_mutex c (mx k)))" by (metis prod.collapse)
  from lock_step.intros [of i gs c k rest mx, OF g this] s show ?thesis by blast
qed

text \<open>
  C38: Goroutines that call the methods of a fake, inspect their calls and plan their results, in any number and order, never
  deadlock: as long as mutex calls are left some goroutine can go on, also when waiting writers keep readers out; and after the
  last one every mutex is free again.
\<close>

theorem fake_no_deadlock:
  assumes "\<forall>us \<in> set uss. plain us" and "(lock_step ^^ n) (lock_start uss) s"
  shows "if n < lock_calls (map uses_locks uss) then \<exists>i. can_run s i else n = lock_calls (map uses_locks uss) \<and> lock_finished s"
proof -
  obtain mx gs where s: "s = (mx, gs)" by force
  have inv: "lock_inv (mx, gs)" using reachable_inv [OF assms(2) start_inv] s by simp
  have ord: "\<forall>g \<in> set gs. ordered g"
    using reachable_ordered [OF assms(2)] assms(1) s by (auto simp: lock_start_def intro: between at_rest.intros)
  have calls: "lock_calls gs + n = lock_calls (map uses_locks uss)" using run_calls [OF assms(2)] s by (simp add: lock_start_def)
  show ?thesis
  proof (cases "lock_calls gs = 0")
    case True
    then have "set gs \<subseteq> {[]}" by (simp add: no_calls)
    with all_done [OF inv] calls True s show ?thesis by simp
  next
    case False
    then have "\<not> set gs \<subseteq> {[]}" by (simp add: no_calls)
    with progress [OF inv ord] calls False s show ?thesis by simp
  qed
qed

theorem fake_no_deadlock_witness:
  "\<exists>s. (lock_step ^^ 1) (lock_start [[Call 0, Inspect 0], [Plan 0], [Call 1]]) s \<and> (\<exists>i. can_run s i)"
proof -
  let ?uss = "[[Call 0, Inspect 0], [Plan 0], [Call 1]]"
  have "can_run (lock_start ?uss) 0" by (simp add: can_run_def lock_start_def call_locks_def mutex_zero_def)
  then obtain s where run: "(lock_step ^^ 1) (lock_start ?uss) s" using can_run_step relpowp_1 by metis
  from fake_no_deadlock [OF _ this] have "\<exists>i. can_run s i"
    by (simp add: plain_def lock_calls_def call_locks_def inspect_locks_def plan_locks_def)
  with run show ?thesis by blast
qed

section \<open>Invocations against a call\<close>

text \<open>Invocations takes the mutexes of the methods before the one a call has locked.\<close>

lemma readers_run:
  assumes "\<forall>i \<in> set is. \<not> mx_writer (mx (MethodMutex i))"
  shows "\<exists>mx'. lock_step\<^sup>*\<^sup>* (mx, [g, map (\<lambda>i. (RLock, MethodMutex i)) is @ rest]) (mx', [g, rest])
    \<and> (\<forall>k. mx_writer (mx' k) = mx_writer (mx k)) \<and> mx' LogMutex = mx LogMutex"
  using assms
proof (induction "is" arbitrary: mx)
  case Nil
  then show ?case by auto
next
  case (Cons i "is")
  let ?m = "mx (MethodMutex i)\<lparr>mx_readers := Suc (mx_readers (mx (MethodMutex i)))\<rparr>" and ?g = "map (\<lambda>i. (RLock, MethodMutex i)) is @ rest"
  let ?mx = "mx(MethodMutex i := ?m)"
  have "on_mutex RLock (mx (MethodMutex i)) = (Ret (), ?m)" using Cons.prems by (simp add: on_mutex_defs)
  then have st: "lock_step (mx, [g, (RLock, MethodMutex i) # ?g]) (?mx, [g, ?g])"
    using lock_step.intros [of 1 "[g, (RLock, MethodMutex i) # ?g]" RLock "MethodMutex i" ?g mx] by simp
  have "\<forall>j \<in> set is. \<not> mx_writer (?mx (MethodMutex j))" using Cons.prems by simp
  from Cons.IH [OF this] obtain mx' where "lock_step\<^sup>*\<^sup>* (?mx, [g, ?g]) (mx', [g, rest])"
    "\<forall>k. mx_writer (mx' k) = mx_writer (?mx k)" "mx' LogMutex = ?mx LogMutex" by blast
  with st show ?case by (intro exI [of _ mx']) (auto intro: converse_rtranclp_into_rtranclp)
qed

text \<open>
  C40: A call of a method and Invocations can deadlock: the call holds the mutex of its method and waits for the log, Invocations
  holds the log and waits for the method.
\<close>

theorem Invocations_deadlock:
  assumes "i \<in> set is"
  shows "\<exists>s. lock_step\<^sup>*\<^sup>* (lock_start [[Call i], [AllInvocations is]]) s \<and> (\<nexists>s'. lock_step s s') \<and> \<not> lock_finished s"
proof -
  obtain a b where ab: "is = a @ i # b" "i \<notin> set a" using split_list_first [OF assms] by blast
  define rest where "rest = map (\<lambda>i. (RLock, MethodMutex i)) b @ map (\<lambda>i. (RUnlock, MethodMutex i)) (rev is) @ [(RUnlock, LogMutex)]"
  define call where "call = [(Unlock, LogMutex), (Unlock, MethodMutex i)]"
  let ?gs = "[(Lock, LogMutex) # call, map (\<lambda>i. (RLock, MethodMutex i)) a @ (RLock, MethodMutex i) # rest]"
  let ?mx0 = "\<lambda>_. mutex_zero"
  let ?mx1 = "?mx0(MethodMutex i := \<lparr>mx_readers = 0, mx_writer = True\<rparr>)"
  let ?mx2 = "?mx1(LogMutex := \<lparr>mx_readers = 1, mx_writer = False\<rparr>)"
  have start: "lock_start [[Call i], [AllInvocations is]] = (?mx0, [call_locks i, Invocations_locks is])"
    by (simp add: lock_start_def)
  have one: "lock_step (?mx0, [call_locks i, Invocations_locks is]) (?mx1, [(Lock, LogMutex) # call, Invocations_locks is])"
    using lock_step.intros [of 0 "[call_locks i, Invocations_locks is]" Lock "MethodMutex i" "(Lock, LogMutex) # call" ?mx0]
    by (simp add: call_locks_def call_def on_mutex_defs mutex_zero_def)
  have two: "lock_step (?mx1, [(Lock, LogMutex) # call, Invocations_locks is]) (?mx2, ?gs)"
    using lock_step.intros [of 1 "[(Lock, LogMutex) # call, Invocations_locks is]" RLock LogMutex
        "map (\<lambda>i. (RLock, MethodMutex i)) a @ (RLock, MethodMutex i) # rest" ?mx1]
    by (simp add: Invocations_locks_def rest_def ab(1) on_mutex_defs mutex_zero_def)
  have "\<forall>j \<in> set a. \<not> mx_writer (?mx2 (MethodMutex j))" using ab(2) by (auto simp: mutex_zero_def)
  from readers_run [OF this] obtain mx where more: "lock_step\<^sup>*\<^sup>* (?mx2, ?gs) (mx, [(Lock, LogMutex) # call, (RLock, MethodMutex i) # rest])"
    and w: "\<forall>k. mx_writer (mx k) = mx_writer (?mx2 k)" and l: "mx LogMutex = ?mx2 LogMutex" by blast
  from w l have w: "mx_writer (mx (MethodMutex i))" and l: "mx LogMutex = \<lparr>mx_readers = 1, mx_writer = False\<rparr>" by simp_all
  let ?s = "(mx, [(Lock, LogMutex) # call, (RLock, MethodMutex i) # rest])"
  have "lock_step\<^sup>*\<^sup>* (lock_start [[Call i], [AllInvocations is]]) ?s"
    using one two more unfolding start by (simp add: converse_rtranclp_into_rtranclp)
  moreover have "\<nexists>s'. lock_step ?s s'"
    using w l by (auto elim!: lock_stepE simp: less_Suc_eq on_mutex_defs)
  ultimately show ?thesis by (intro exI [of _ ?s]) (simp add: lock_finished_def)
qed

theorem Invocations_deadlock_witness:
  "\<exists>s. lock_step\<^sup>*\<^sup>* (lock_start [[Call 1], [AllInvocations [0, 1]]]) s \<and> (\<nexists>s'. lock_step s s') \<and> \<not> lock_finished s"
  by (rule Invocations_deadlock) simp

end
