(* ===== verification/Fetched_Blobs.thy ===== *)
theory Fetched_Blobs
  imports Fetchers
begin

text \<open>
  What can be relied on when a layer was fetched (LayerSource.Blob and LayerFetcher.StreamBlob): the temporary file holds bytes with the
  checksum the image names, at most as many as the quota left, and nothing else is left in the file system; a failed fetch leaves no file.
\<close>

section \<open>The interface of the outside\<close>

text \<open>
  The contract of temporary files, of the blobs of a source and of gzip: a new temporary file has a fresh name and is empty, writing appends to it, a
  read returns at most as many bytes as asked for and touches neither files nor the quota of the source, and a decompressor touches what is outside
  only by reading.
\<close>

definition blob_view :: "('w \<Rightarrow> string \<Rightarrow> bytes option) \<Rightarrow> ('w, int64) ref \<Rightarrow> 'w blob_world \<Rightarrow> (string \<Rightarrow> bytes option) \<times> int64 \<times> bytes \<times> int64" where
  "blob_view files q = (\<lambda>(w, l). (files w, ref_get q w, bl_diffIDHash l, bl_QuotaLeft l))"

definition steady :: "('w \<Rightarrow> string \<Rightarrow> bytes option) \<Rightarrow> ('w, int64) ref \<Rightarrow> 'w blob_world reader \<Rightarrow> bool" where
  "steady files q r \<longleftrightarrow> (\<forall>n. within (same (blob_view files q)) (r n)) \<and> (\<forall>n v b e v'. r n v = (Ret (b, e), v') \<longrightarrow> length b \<le> n)"

lemma sint_take:
  fixes q :: int64
  assumes "int k \<le> sint q + 1" and "k < 2 ^ 63"
  shows "sint (q - of_nat k) = sint q - int k"
proof -
  have "signed_take_bit 63 (sint q - int k) = sint q - int k"
    using assms(1) sint_int64_bounds [of q] by (intro signed_take_bit_int_eq_self) linarith+
  then show ?thesis using sint_of_nat_int64 [OF assms(2)] by (simp add: sint_word_ariths)
qed

locale blob_store =
  fixes F :: "('w, 'f) file_api" and A :: "('w, 'src, 'img, 'b) image_api" and gz :: "'w blob_world gzip"
    and s :: "('w, 'src) LayerSource" and files :: "'w \<Rightarrow> string \<Rightarrow> bytes option"
  assumes create_ok: "fi_CreateTemp F p w = (Ret (Inr f), w') \<Longrightarrow> files w f = None \<and> files w' = (files w)(f := Some [])"
    and create_err: "fi_CreateTemp F p w = (Ret (Inl e), w') \<Longrightarrow> files w' = files w"
    and create_quota: "within (same (ref_get (ls_remainingImageQuota s))) (fi_CreateTemp F p)"
    and write_ok: "files w f = Some c \<Longrightarrow> fi_WriteTemp F f b w = (Ret (int (length b), None), w') \<Longrightarrow> files w' = (files w)(f := Some (c @ b))"
    and write_others: "g \<noteq> f \<Longrightarrow> within (same (\<lambda>w. files w g)) (fi_WriteTemp F f b)"
    and write_quota: "within (same (ref_get (ls_remainingImageQuota s))) (fi_WriteTemp F f b)"
    and remove_ok: "fi_Remove F f w = (Ret None, w') \<Longrightarrow> files w' = (files w)(f := None)"
    and remove_others: "g \<noteq> f \<Longrightarrow> within (same (\<lambda>w. files w g)) (fi_Remove F f)"
    and outside_keeps: "within (same (\<lambda>w. (files w, ref_get (ls_remainingImageQuota s) w))) (fi_CloseTemp F f)"
      "within (same (\<lambda>w. (files w, ref_get (ls_remainingImageQuota s) w))) (fi_Open F f)"
      "within (same (\<lambda>w. (files w, ref_get (ls_remainingImageQuota s) w))) (fi_Close F h)"
      "within (same (\<lambda>w. (files w, ref_get (ls_remainingImageQuota s) w))) (ia_NewImageSource A sc x)"
      "within (same (\<lambda>w. (files w, ref_get (ls_remainingImageQuota s) w))) (ia_GetBlob A src info)"
      "within (same (\<lambda>w. (files w, ref_get (ls_remainingImageQuota s) w))) (ia_CloseBlob A b')"
      "within (same (\<lambda>w. (files w, ref_get (ls_remainingImageQuota s) w))) (ia_ReadBlob A b' n)"
    and read_short: "ia_ReadBlob A b' n w = (Ret (d', e'), w') \<Longrightarrow> length d' \<le> n"
    and source_put: "files (ref_put (ls_imageSource s) x' w) = files w" "ref_get (ls_remainingImageQuota s) (ref_put (ls_imageSource s) x' w) = ref_get (ls_remainingImageQuota s) w"
    and quota_put: "ref_get (ls_remainingImageQuota s) (ref_put (ls_remainingImageQuota s) k w) = k" "files (ref_put (ls_remainingImageQuota s) k w) = files w"
    and gzip_steady: "steady files (ls_remainingImageQuota s) r \<Longrightarrow> within (same (blob_view files (ls_remainingImageQuota s))) (gz r)"
      "steady files (ls_remainingImageQuota s) r \<Longrightarrow> gz r v = (Ret (Inr z), v') \<Longrightarrow>
         steady files (ls_remainingImageQuota s) (rc_Read z) \<and> within (same (blob_view files (ls_remainingImageQuota s))) (rc_Close z)"
begin

abbreviation quota :: "'w \<Rightarrow> int64" where
  "quota \<equiv> ref_get (ls_remainingImageQuota s)"

abbreviation enforced :: bool where
  "enforced \<equiv> shouldEnforceImageQuotaValidation s"

lemma outside_run: "outside m v = (r, v') \<longleftrightarrow> m (fst v) = (r, fst v') \<and> snd v' = snd v"
  by (cases v; cases v'; cases "m (fst v)") (auto simp: zoom_def fst_ref_def)

lemma outside_view: "within (same (\<lambda>w. (files w, quota w))) m \<Longrightarrow> within (same (blob_view files (ls_remainingImageQuota s))) (outside m)"
  by (rule withinI) (auto simp: outside_run blob_view_def same_def split: prod.splits dest!: withinD)

lemma steady_raw: "steady files (ls_remainingImageQuota s) (TeeReader (\<lambda>n. outside (ia_ReadBlob A b n)) blobIDHash)"
  unfolding steady_def
proof (intro conjI allI impI)
  fix n
  have "within (same (blob_view files (ls_remainingImageQuota s))) (ref_modify blobIDHash f)" for f
    by (rule withinI) (auto simp: go_simps same_def blob_view_def)
  then show "within (same (blob_view files (ls_remainingImageQuota s))) (TeeReader (\<lambda>n. outside (ia_ReadBlob A b n)) blobIDHash n)"
    unfolding TeeReader_def by (auto intro!: within_intros outside_view outside_keeps split: prod.splits)
next
  fix n v d e v'
  assume "TeeReader (\<lambda>n. outside (ia_ReadBlob A b n)) blobIDHash n v = (Ret (d, e), v')"
  then show "length d \<le> n"
    by (auto simp: TeeReader_def outside_run dest!: go_bind_RetD read_short split: if_splits)
qed

text \<open>What a read of the reader that is copied does: it hashes what it delivers, and accounts for it.\<close>

definition accounting :: "'w blob_world reader \<Rightarrow> bool" where
  "accounting r \<longleftrightarrow> (\<forall>n v b e v'. n \<le> 2 ^ 15 \<longrightarrow> r n v = (Ret (b, e), v') \<longrightarrow>
     files (fst v') = files (fst v) \<and> quota (fst v') = quota (fst v) \<and> bl_diffIDHash (snd v') = bl_diffIDHash (snd v) @ b
     \<and> (enforced \<longrightarrow> sint (bl_QuotaLeft (snd v')) = sint (bl_QuotaLeft (snd v)) - int (length b)
         \<and> (e = None \<or> e = Some EOF \<longrightarrow> 0 \<le> sint (bl_QuotaLeft (snd v')))))"

lemma steadyD:
  assumes "steady files (ls_remainingImageQuota s) r" and "r n v = (Ret (b, e), v')"
  shows "files (fst v') = files (fst v)" "quota (fst v') = quota (fst v)" "bl_diffIDHash (snd v') = bl_diffIDHash (snd v)"
    "bl_QuotaLeft (snd v') = bl_QuotaLeft (snd v)" "length b \<le> n"
proof -
  from assms have "same (blob_view files (ls_remainingImageQuota s)) v v'" "length b \<le> n" unfolding steady_def by (blast dest: withinD)+
  then show "files (fst v') = files (fst v)" "quota (fst v') = quota (fst v)" "bl_diffIDHash (snd v') = bl_diffIDHash (snd v)"
    "bl_QuotaLeft (snd v') = bl_QuotaLeft (snd v)" "length b \<le> n"
    by (auto simp: same_def blob_view_def split: prod.splits)
qed

lemma quota_read:
  assumes "steady files (ls_remainingImageQuota s) r" and "n \<le> 2 ^ 15" and "QuotaedReader_Read r QuotaLeft msg n v = (Ret (b, e), v')"
  shows "files (fst v') = files (fst v)" "quota (fst v') = quota (fst v)" "bl_diffIDHash (snd v') = bl_diffIDHash (snd v)"
    "sint (bl_QuotaLeft (snd v')) = sint (bl_QuotaLeft (snd v)) - int (length b)"
    "e = None \<or> e = Some EOF \<Longrightarrow> 0 \<le> sint (bl_QuotaLeft (snd v'))"
proof -
  let ?left = "sint (bl_QuotaLeft (snd v))"
  let ?n = "if int n > ?left then nat (?left + 1) else n"
  obtain e0 v1 where r: "r ?n v = (Ret (b, e0), v1)" and ok: "\<not> (int n > ?left \<and> ?left + 1 < 0)"
    and v': "v' = (fst v1, (snd v1)\<lparr>bl_QuotaLeft := bl_QuotaLeft (snd v1) - of_nat (length b)\<rparr>)"
    and e: "e = (if sint (bl_QuotaLeft (snd v')) < 0 then Some (ErrorString msg) else e0)"
    using assms(3) by (auto simp: QuotaedReader_Read_def go_simps split: if_splits prod.splits go.splits)
  note k = steadyD [OF assms(1) r]
  have "int (length b) \<le> ?left + 1" "length b < 2 ^ 63" using k(5) ok assms(2) by (auto split: if_splits)
  from sint_take [OF this] show q: "sint (bl_QuotaLeft (snd v')) = ?left - int (length b)" by (simp add: v' k)
  show "e = None \<or> e = Some EOF \<Longrightarrow> 0 \<le> sint (bl_QuotaLeft (snd v'))" using e by (auto split: if_splits)
  show "files (fst v') = files (fst v)" "quota (fst v') = quota (fst v)" "bl_diffIDHash (snd v') = bl_diffIDHash (snd v)"
    by (simp_all add: v' k)
qed

lemma copied_reader:
  assumes "steady files (ls_remainingImageQuota s) r"
  shows "accounting (TeeReader (if enforced then QuotaedReader_Read r QuotaLeft msg else r) diffIDHash)"
  unfolding accounting_def
proof (intro allI impI)
  fix n v b e v'
  assume n: "n \<le> 2 ^ 15" and run: "TeeReader (if enforced then QuotaedReader_Read r QuotaLeft msg else r) diffIDHash n v = (Ret (b, e), v')"
  then obtain v1 where r: "(if enforced then QuotaedReader_Read r QuotaLeft msg else r) n v = (Ret (b, e), v1)"
    and v': "v' = (fst v1, (snd v1)\<lparr>bl_diffIDHash := bl_diffIDHash (snd v1) @ b\<rparr>)"
    by (auto simp: TeeReader_def go_simps split: if_splits prod.splits go.splits)
  show "files (fst v') = files (fst v) \<and> quota (fst v') = quota (fst v) \<and> bl_diffIDHash (snd v') = bl_diffIDHash (snd v) @ b
    \<and> (enforced \<longrightarrow> sint (bl_QuotaLeft (snd v')) = sint (bl_QuotaLeft (snd v)) - int (length b)
        \<and> (e = None \<or> e = Some EOF \<longrightarrow> 0 \<le> sint (bl_QuotaLeft (snd v'))))"
  proof (cases enforced)
    case True
    with r have "QuotaedReader_Read r QuotaLeft msg n v = (Ret (b, e), v1)" by simp
    from quota_read [OF assms n this] True show ?thesis by (simp add: v')
  next
    case False
    with r have "r n v = (Ret (b, e), v1)" by simp
    from steadyD [OF assms this] False show ?thesis by (simp add: v')
  qed
qed

text \<open>Copying: afterwards the file holds what was hashed.\<close>

lemma copied:
  assumes "accounting r"
  shows "copy_to fuel (\<lambda>b. outside (fi_WriteTemp F f b)) r written v = (Ret (written', None), v') \<Longrightarrow>
    files (fst v) = f0(f := Some (bl_diffIDHash (snd v))) \<Longrightarrow>
    \<exists>c. bl_diffIDHash (snd v') = bl_diffIDHash (snd v) @ c \<and> files (fst v') = f0(f := Some (bl_diffIDHash (snd v')))
      \<and> written' = written + of_nat (length c) \<and> quota (fst v') = quota (fst v)
      \<and> (enforced \<longrightarrow> sint (bl_QuotaLeft (snd v')) = sint (bl_QuotaLeft (snd v)) - int (length c) \<and> 0 \<le> sint (bl_QuotaLeft (snd v')))"
proof (induction fuel arbitrary: written v)
  case (Suc fuel)
  obtain b e v1 where r: "r 32768 v = (Ret (b, e), v1)"
    using Suc.prems(1) by (auto simp: go_bind_def split: prod.splits go.splits)
  have k: "files (fst v1) = files (fst v)" "quota (fst v1) = quota (fst v)" "bl_diffIDHash (snd v1) = bl_diffIDHash (snd v) @ b"
    "enforced \<Longrightarrow> sint (bl_QuotaLeft (snd v1)) = sint (bl_QuotaLeft (snd v)) - int (length b)"
    "enforced \<Longrightarrow> e = None \<or> e = Some EOF \<Longrightarrow> 0 \<le> sint (bl_QuotaLeft (snd v1))"
    using assms [unfolded accounting_def, rule_format, OF _ r] by auto
  let ?out = "\<lambda>b. outside (fi_WriteTemp F f b)"
  let ?finish = "\<lambda>written. case e of None \<Rightarrow> copy_to fuel ?out r written | Some e \<Rightarrow> go_ret (written, if e = EOF then None else Some e)"
  obtain v2 where v2: "?finish (written + of_nat (length b)) v2 = (Ret (written', None), v')"
    and w: "files (fst v2) = f0(f := Some (bl_diffIDHash (snd v1)))" "quota (fst v2) = quota (fst v1)" "snd v2 = snd v1"
  proof (cases "b = []")
    case True
    have "?finish (written + of_nat (length b)) v1 = (Ret (written', None), v')" using Suc.prems(1) r True by (cases e) simp_all
    moreover have "files (fst v1) = f0(f := Some (bl_diffIDHash (snd v1)))" using k(1,3) Suc.prems(2) True by (metis append_Nil2)
    ultimately show thesis by (rule that) simp_all
  next
    case False
    obtain nw ew v2 where o: "?out b v1 = (Ret (nw, ew), v2)"
      using Suc.prems(1) r False by (auto simp: go_bind_def split: prod.splits go.splits)
    have ok: "ew = None" "nw = int (length b)" "?finish (written + of_nat (length b)) v2 = (Ret (written', None), v')"
      using Suc.prems(1) r False o by (auto simp: Let_def split: if_splits option.splits)
    from o ok have wr: "fi_WriteTemp F f b (fst v1) = (Ret (int (length b), None), fst v2)" "snd v2 = snd v1" by (simp_all add: outside_run)
    have "files (fst v2) = f0(f := Some (bl_diffIDHash (snd v1)))"
      using write_ok [OF _ wr(1), of "bl_diffIDHash (snd v)"] k(1,3) Suc.prems(2) by (simp add: fun_eq_iff)
    moreover have "quota (fst v2) = quota (fst v1)" using within_sameD [OF write_quota wr(1)] .
    ultimately show thesis using that ok(3) wr(2) by blast
  qed
  show ?case
  proof (cases e)
    case None
    with v2 have go: "copy_to fuel ?out r (written + of_nat (length b)) v2 = (Ret (written', None), v')" by simp
    have "files (fst v2) = f0(f := Some (bl_diffIDHash (snd v2)))" using w by simp
    from Suc.IH [OF go this] obtain c where "bl_diffIDHash (snd v') = bl_diffIDHash (snd v2) @ c" "files (fst v') = f0(f := Some (bl_diffIDHash (snd v')))"
      "written' = written + of_nat (length b) + of_nat (length c)" "quota (fst v') = quota (fst v2)"
      "enforced \<Longrightarrow> sint (bl_QuotaLeft (snd v')) = sint (bl_QuotaLeft (snd v2)) - int (length c) \<and> 0 \<le> sint (bl_QuotaLeft (snd v'))" by blast
    with k w show ?thesis by (intro exI [of _ "b @ c"]) auto
  next
    case (Some x)
    with v2 have "x = EOF" "v' = v2" "written' = written + of_nat (length b)" by (auto split: if_splits)
    with k w Some show ?thesis by (intro exI [of _ b]) auto
  qed
qed simp

lemma saved:
  assumes "steady files (ls_remainingImageQuota s) r" and "save_blob fuel F s li sz f r v = (Ret (Inr x), v')"
    and "files (fst v) = f0(f := Some [])" and "bl_diffIDHash (snd v) = []" and "bl_QuotaLeft (snd v) = quota (fst v)"
  shows "x = (f, sz) \<and> (\<exists>c. files (fst v') = f0(f := Some c) \<and> checkCheckSum s c (DiffID li) (url_Scheme (ls_imageURL s)) = None
    \<and> (enforced \<longrightarrow> int (length c) \<le> sint (quota (fst v)) \<and> quota (fst v') = quota (fst v) - of_nat (length c)))"
proof -
  let ?r = "TeeReader (if enforced then QuotaedReader_Read r QuotaLeft ''uncompressed layer size exceeds quota'' else r) diffIDHash"
  obtain n v1 where cp: "copy_to fuel (\<lambda>b. outside (fi_WriteTemp F f b)) ?r 0 v = (Ret (n, None), v1)"
    and chk: "checkCheckSum s (bl_diffIDHash (snd v1)) (DiffID li) (url_Scheme (ls_imageURL s)) = None"
    and x: "x = (f, sz)" and v': "v' = (ref_put (ls_remainingImageQuota s) (quota (fst v1) - n) (fst v1), snd v1)"
    using assms(2) unfolding save_blob_def Let_def
    by (auto simp: after_colon_def go_simps zoom_def split: option.splits prod.splits go.splits list.splits)
  have "files (fst v) = f0(f := Some (bl_diffIDHash (snd v)))" using assms(3,4) by simp
  from copied [OF copied_reader [OF assms(1)] cp this] obtain c where "bl_diffIDHash (snd v1) = c" "files (fst v1) = f0(f := Some c)"
    "n = of_nat (length c)" "quota (fst v1) = quota (fst v)"
    "enforced \<Longrightarrow> sint (bl_QuotaLeft (snd v1)) = sint (quota (fst v)) - int (length c) \<and> 0 \<le> sint (bl_QuotaLeft (snd v1))"
    using assms(4,5) by auto
  with chk x v' show ?thesis by (auto simp: quota_put)
qed

lemma stored:
  assumes "store_blob fuel F gz s li (ia_ReadBlob A b) sz f v = (Ret (Inr x), v')"
    and "files (fst v) = f0(f := Some [])" and "bl_diffIDHash (snd v) = []" and "bl_QuotaLeft (snd v) = quota (fst v)"
  shows "x = (f, sz) \<and> (\<exists>c. files (fst v') = f0(f := Some c) \<and> checkCheckSum s c (DiffID li) (url_Scheme (ls_imageURL s)) = None
    \<and> (enforced \<longrightarrow> int (length c) \<le> sint (quota (fst v)) \<and> quota (fst v') = quota (fst v) - of_nat (length c)))"
proof (cases "li_MediaType li = [] \<or> Contains (li_MediaType li) ''gzip''")
  case True
  let ?raw = "TeeReader (\<lambda>n. outside (ia_ReadBlob A b n)) blobIDHash"
  obtain z v1 u v2 where z: "gz ?raw v = (Ret (Inr z), v1)" and sv: "save_blob fuel F s li sz f (rc_Read z) v1 = (Ret (Inr x), v2)"
    and cl: "rc_Close z v2 = (Ret u, v')"
    using assms(1) True unfolding store_blob_def Let_def go_try_def
    by (auto dest!: go_bind_RetD go_defer_RetD split: sum.splits)
  from withinD [OF gzip_steady(1) [OF steady_raw] z] gzip_steady(2) [OF steady_raw z]
  have k: "files (fst v1) = files (fst v)" "quota (fst v1) = quota (fst v)" "bl_diffIDHash (snd v1) = bl_diffIDHash (snd v)"
      "bl_QuotaLeft (snd v1) = bl_QuotaLeft (snd v)" and st: "steady files (ls_remainingImageQuota s) (rc_Read z)"
      and c: "within (same (blob_view files (ls_remainingImageQuota s))) (rc_Close z)"
    by (auto simp: same_def blob_view_def split: prod.splits)
  from withinD [OF c cl] have "files (fst v') = files (fst v2)" "quota (fst v') = quota (fst v2)" by (auto simp: same_def blob_view_def split: prod.splits)
  with saved [OF st sv] k assms(2-4) show ?thesis by simp
next
  case False
  with assms saved [OF steady_raw] show ?thesis by (simp add: store_blob_def Let_def)
qed

text \<open>All the while no other file is touched.\<close>

definition others :: "string \<Rightarrow> 'w blob_world \<Rightarrow> 'w blob_world \<Rightarrow> bool" where
  "others f v v' \<longleftrightarrow> (\<forall>g. g \<noteq> f \<longrightarrow> files (fst v') g = files (fst v) g)"

lemma others_order [simp]: "reflp (others f)" "transp (others f)"
  by (auto simp: others_def intro!: reflpI transpI)

lemma view_others: "within (same (blob_view files (ls_remainingImageQuota s))) m \<Longrightarrow> within (others f) m"
  by (erule within_mono) (auto simp: others_def same_def blob_view_def split: prod.splits)

lemma ref_others: "within (others f) (ref_modify blobIDHash h)" "within (others f) (ref_modify diffIDHash h)" "within (others f) (ref_modify QuotaLeft k)"
  "within (others f) (ref_read p)" "within (others f) (outside (ref_modify (ls_remainingImageQuota s) k))"
  by (auto simp: within_def others_def go_simps zoom_def quota_put)

lemma write_others_outside: "within (others f) (outside (fi_WriteTemp F f b))"
  by (rule withinI) (auto simp: others_def outside_run dest: within_sameD [OF write_others])

lemma copy_others: "(\<And>n. within (others f) (r n)) \<Longrightarrow> within (others f) (copy_to fuel (\<lambda>b. outside (fi_WriteTemp F f b)) r written)"
proof (induction fuel arbitrary: written)
  case (Suc fuel)
  then show ?case
    by (auto simp: Let_def intro!: within_intros write_others_outside split: option.splits)
qed (auto intro: within_intros)

lemma save_others:
  assumes "steady files (ls_remainingImageQuota s) r"
  shows "within (others f) (save_blob fuel F s li sz f r)"
proof -
  have r: "within (others f) (r n)" for n using assms view_others unfolding steady_def by blast
  then have "within (others f) ((if enforced then QuotaedReader_Read r QuotaLeft msg else r) n)" for msg n
    unfolding QuotaedReader_Read_def by (auto intro!: within_intros ref_others)
  then have "within (others f) (TeeReader (if enforced then QuotaedReader_Read r QuotaLeft msg else r) diffIDHash n)" for msg n
    unfolding TeeReader_def by (auto intro!: within_intros ref_others)
  then show ?thesis
    unfolding save_blob_def Let_def after_colon_def
    by (intro within_bind) (auto intro!: within_intros copy_others ref_others split: option.splits list.splits)
qed

lemma store_others: "within (others f) (store_blob fuel F gz s li (ia_ReadBlob A b) sz f)"
proof -
  let ?raw = "TeeReader (\<lambda>n. outside (ia_ReadBlob A b n)) blobIDHash"
  have "within (others f) (go_defer (rc_Close z) (save_blob fuel F s li sz f (rc_Read z)))" if "gz ?raw v = (Ret (Inr z), v')" for z v v'
    using gzip_steady(2) [OF steady_raw that] by (intro within_intros view_others save_others) simp_all
  then have z: "within (others f) (go_try (gz ?raw) h (\<lambda>z. go_defer (rc_Close z) (save_blob fuel F s li sz f (rc_Read z))))"
    if "\<And>e. within (others f) (h e)" for h
    unfolding go_try_def using that
    by (intro within_bind_at view_others [OF gzip_steady(1) [OF steady_raw]]) (auto split: sum.splits)
  show ?thesis
    unfolding store_blob_def Let_def by (intro within_if z save_others steady_raw within_ret others_order)
qed

subsection \<open>Blob\<close>

abbreviation fq :: "'w \<Rightarrow> (string \<Rightarrow> bytes option) \<times> int64" where
  "fq w \<equiv> (files w, quota w)"

lemma source_keeps: "within (same fq) (getImageSource A s)"
proof -
  have "within (same fq) (ref_modify (ls_imageSource s) h)" for h
    by (auto simp: within_def same_def go_simps source_put)
  moreover have "within (same fq) (ref_read (ls_imageSource s))" by (simp add: within_def same_def go_simps)
  ultimately show ?thesis
    unfolding getImageSource_def createImageSource_def by (auto intro!: within_intros outside_keeps split: option.splits sum.splits)
qed

lemma attempts_keep: "within (same fq) (blob_attempts k A src info e)"
  by (induction k arbitrary: e) (auto intro!: within_intros outside_keeps)

lemma with_locals_run: "with_locals l m w = (r, w') \<longleftrightarrow> (\<exists>l'. m (w, l) = (r, (w', l')))"
  by (auto simp: with_locals_def split: prod.splits)

text \<open>How a run looks that returns: there is no file yet, or a file is created and filled, and removed again on failure.\<close>

lemma temp_cases:
  assumes "temp_blob fuel F gz s li (ia_ReadBlob A b) sz w = (Ret r, w')"
  obtains (early) "files w' = files w" and "\<And>x. r \<noteq> Inr x"
    | (made) f w1 w2 l w3 u where "files w f = None" and "fq w1 = ((files w)(f := Some []), quota w)"
      and "store_blob fuel F gz s li (ia_ReadBlob A b) sz f (w1, \<lparr>bl_blobIDHash = [], bl_diffIDHash = [], bl_QuotaLeft = quota w1\<rparr>) = (Ret r, (w2, l))"
      and "fq w3 = fq w2" and "(case r of Inl e \<Rightarrow> fi_Remove F f | Inr x \<Rightarrow> go_ret None) w3 = (Ret u, w')"
proof -
  obtain q w1 where cr: "fi_CreateTemp F (''blob-'' @ map (\<lambda>c. if c = CHR '':'' then CHR ''-'' else c) (BlobID li)) w = (Ret q, w1)"
    using assms unfolding temp_blob_def go_try_def by (blast dest: go_bind_RetD)
  show thesis
  proof (cases q)
    case (Inl e)
    with assms cr create_err [OF cr [unfolded Inl]] early show thesis by (auto simp: temp_blob_def)
  next
    case (Inr f)
    let ?l = "\<lparr>bl_blobIDHash = [], bl_diffIDHash = [], bl_QuotaLeft = quota w1\<rparr>"
    obtain w2 l z w3 u where st: "store_blob fuel F gz s li (ia_ReadBlob A b) sz f (w1, ?l) = (Ret r, (w2, l))"
      and cl: "fi_CloseTemp F f w2 = (Ret z, w3)" and rm: "(case r of Inl e \<Rightarrow> fi_Remove F f | Inr x \<Rightarrow> go_ret None) w3 = (Ret u, w')"
      using assms cr Inr
      by (auto simp: temp_blob_def go_defer_seeing_def go_bind_def ref_read_def with_locals_def split: prod.splits go.splits)
    have "files w f = None" "fq w1 = ((files w)(f := Some []), quota w)"
      using create_ok [OF cr [unfolded Inr]] within_sameD [OF create_quota cr] by simp_all
    with st cl rm within_sameD [OF outside_keeps(1) cl] made show thesis by blast
  qed
qed

text \<open>Up to the temporary file nothing happens to files and quota.\<close>

lemma blob_cases:
  assumes "LayerSource_Blob fuel F A gz s li w = (Ret r, w')"
  obtains (early) "files w' = files w" and "\<And>x. r \<noteq> Inr x"
    | (temp) b sz w1 w2 where "fq w1 = fq w" and "validateLayerSize s li sz = None" and "temp_blob fuel F gz s li (ia_ReadBlob A b) sz w1 = (Ret r, w2)" and "fq w' = fq w2"
proof -
  obtain q1 u1 where src: "getImageSource A s w = (Ret q1, u1)"
    using assms unfolding LayerSource_Blob_def go_try_def by (blast dest: go_bind_RetD)
  have k1: "fq u1 = fq w" using within_sameD [OF source_keeps src] .
  show thesis
  proof (cases q1)
    case (Inl e)
    with assms src k1 early show thesis by (auto simp: LayerSource_Blob_def)
  next
    case src_ok: (Inr imgSrc)
    obtain q2 u2 where gb: "getBlobWithRetries A imgSrc \<lparr>bi_Digest = BlobID li, bi_Size = 0, bi_URLs = li_URLs li, bi_MediaType = []\<rparr> u1 = (Ret q2, u2)"
      using assms src src_ok unfolding LayerSource_Blob_def by (auto simp: go_try_def dest!: go_bind_RetD)
    have k2: "fq u2 = fq w" using within_sameD [OF attempts_keep gb [unfolded getBlobWithRetries_def]] k1 by simp
    show thesis
    proof (cases q2)
      case (Inl e)
      with assms src src_ok gb k2 early show thesis by (auto simp: LayerSource_Blob_def)
    next
      case (Inr x)
      obtain b sz where x: "x = (b, sz)" by force
      obtain u5 y where body: "(case validateLayerSize s li sz of Some e \<Rightarrow> go_ret (Inl e) | None \<Rightarrow> temp_blob fuel F gz s li (ia_ReadBlob A b) sz) u2 = (Ret r, u5)"
        and cl: "ia_CloseBlob A b u5 = (Ret y, w')"
        using assms src src_ok gb Inr x by (auto simp: LayerSource_Blob_def dest!: go_defer_RetD)
      have "fq w' = fq u5" using within_sameD [OF outside_keeps(6) cl] .
      with body k2 early temp show thesis by (cases "validateLayerSize s li sz") auto
    qed
  qed
qed

lemma blob_ok:
  assumes "LayerSource_Blob fuel F A gz s li w = (Ret (Inr (f, sz)), w')"
  shows "files w f = None \<and> validateLayerSize s li sz = None
    \<and> (\<exists>c. files w' = (files w)(f := Some c) \<and> checkCheckSum s c (DiffID li) (url_Scheme (ls_imageURL s)) = None
      \<and> (enforced \<longrightarrow> int (length c) \<le> sint (quota w) \<and> quota w' = quota w - of_nat (length c)))"
  using assms
proof (cases rule: blob_cases)
  case (temp b sz' w1 w2)
  from temp(3) show ?thesis
  proof (cases rule: temp_cases)
    case (made g u1 u2 l u3 u)
    from stored [OF made(3), of "files w1"] made temp show ?thesis by auto
  qed auto
qed auto

lemma blob_failed:
  assumes "LayerSource_Blob fuel F A gz s li w = (Ret (Inl e), w')"
  shows "files w' = files w \<or> (\<exists>f u u' x. files w f = None \<and> (\<forall>g. g \<noteq> f \<longrightarrow> files w' g = files w g)
    \<and> fi_Remove F f u = (Ret (Some x), u') \<and> files w' = files u')"
  using assms(1)
proof (cases rule: blob_cases)
  case (temp b sz w1 w2)
  from temp(3) show ?thesis
  proof (cases rule: temp_cases)
    case (made g u1 u2 l u3 u)
    from made(5) have rm: "fi_Remove F g u3 = (Ret u, w2)" by simp
    have rest: "files w2 h = files w1 h" if "h \<noteq> g" for h
      using withinD [OF store_others made(3)] within_sameD [OF remove_others rm] made(2,4) that by (simp add: others_def)
    show ?thesis
    proof (cases u)
      case None
      have "files w2 = files w1"
      proof
        show "files w2 h = files w1 h" for h using remove_ok rm None rest made(1) by (cases "h = g") auto
      qed
      with temp show ?thesis by simp
    next
      case (Some x)
      have "files w g = None" "\<forall>h. h \<noteq> g \<longrightarrow> files w' h = files w h" "files w' = files w2" using rest made(1) temp by auto
      with rm Some show ?thesis by blast
    qed
  qed (use temp in simp)
qed simp

text \<open>Closing the stream of a fetched blob removes its file.\<close>

lemma stream_closed:
  assumes "st_Close (fetched_streams F) (BlobReader h f) w = (Ret None, w')"
  shows "files w' = (files w)(f := None)"
proof -
  obtain y w1 where "fi_Close F h w = (Ret y, w1)" "fi_Remove F f w1 = (Ret None, w')"
    using assms by (auto simp: fetched_streams_def dest!: go_bind_RetD)
  with within_sameD [OF outside_keeps(3)] remove_ok show ?thesis by fastforce
qed

lemma streamed:
  assumes "LayerFetcher_StreamBlob fuel F A gz s li w = (Ret (Inr (st, sz)), w')"
  obtains h f w1 where "LayerSource_Blob fuel F A gz s li w = (Ret (Inr (f, sz)), w1)" and "st = BlobReader h f" and "fq w' = fq w1"
proof -
  obtain f h w1 where b: "LayerSource_Blob fuel F A gz s li w = (Ret (Inr (f, sz)), w1)" and o: "fi_Open F f w1 = (Ret (Inr h), w')"
    and st: "st = BlobReader h f"
    using assms unfolding LayerFetcher_StreamBlob_def NewBlobReader_def go_try_def
    by (auto dest!: go_bind_RetD split: sum.splits)
  with that [OF b st] within_sameD [OF outside_keeps(2) o] show thesis by blast
qed

end

section \<open>Theorems\<close>

text \<open>
  C11: a fetched layer is what the image says: when a layer is streamed, its bytes are in a new temporary file and their SHA-256 sum is the
  layer's diff ID; the blob had the size the manifest states, if it states one; with a quota there are at most as many bytes as it
  leaves, and exactly these are taken from it. Closing the stream removes the file, and then all files are as before.
\<close>

theorem StreamBlob_verified:
  assumes "blob_store F A gz s files" and "\<not> ls_skipOCILayerValidation s"
    and "LayerFetcher_StreamBlob fuel F A gz s li w = (Ret (Inr (st, sz)), w')"
  shows "\<exists>h f c. st = BlobReader h f \<and> files w f = None \<and> files w' = (files w)(f := Some c)
    \<and> hex_EncodeToString (sha256 c) = DiffID li \<and> (li_Size li = - 1 \<or> li_Size li = sz)
    \<and> (\<not> ls_skipImageQuotaValidation s \<longrightarrow> sint (ref_get (ls_remainingImageQuota s) w') = sint (ref_get (ls_remainingImageQuota s) w) - int (length c)
        \<and> 0 \<le> sint (ref_get (ls_remainingImageQuota s) w'))
    \<and> (\<forall>w''. st_Close (fetched_streams F) st w' = (Ret None, w'') \<longrightarrow> files w'' = files w)"
proof -
  note L = assms(1)
  obtain h f w1 where b: "LayerSource_Blob fuel F A gz s li w = (Ret (Inr (f, sz)), w1)" and st: "st = BlobReader h f"
    and k: "files w' = files w1" "ref_get (ls_remainingImageQuota s) w' = ref_get (ls_remainingImageQuota s) w1"
    by (rule blob_store.streamed [OF L assms(3)]) auto
  from blob_store.blob_ok [OF L b] assms(2) obtain c where c: "files w f = None" "files w1 = (files w)(f := Some c)"
    "hex_EncodeToString (sha256 c) = DiffID li" "li_Size li = - 1 \<or> li_Size li = sz"
    "\<not> ls_skipImageQuotaValidation s \<Longrightarrow> int (length c) \<le> sint (ref_get (ls_remainingImageQuota s) w)
      \<and> ref_get (ls_remainingImageQuota s) w1 = ref_get (ls_remainingImageQuota s) w - of_nat (length c)"
    by (auto simp: validateLayerSize_def isV1Image_def checkCheckSum_def shouldEnforceImageQuotaValidation_def Let_def split: if_splits)
  have "sint (ref_get (ls_remainingImageQuota s) w') = sint (ref_get (ls_remainingImageQuota s) w) - int (length c)"
    "0 \<le> sint (ref_get (ls_remainingImageQuota s) w')" if "\<not> ls_skipImageQuotaValidation s"
  proof -
    have "int (length c) < 2 ^ 63" using c(5) [OF that] sint_int64_bounds(2) [of "ref_get (ls_remainingImageQuota s) w"] by linarith
    then have "sint (ref_get (ls_remainingImageQuota s) w - of_nat (length c)) = sint (ref_get (ls_remainingImageQuota s) w) - int (length c)"
      using c(5) [OF that] by (intro sint_take) (simp_all add: of_nat_less_iff [symmetric] del: of_nat_less_iff)
    then show "sint (ref_get (ls_remainingImageQuota s) w') = sint (ref_get (ls_remainingImageQuota s) w) - int (length c)"
      "0 \<le> sint (ref_get (ls_remainingImageQuota s) w')" using k(2) c(5) [OF that] by simp_all
  qed
  moreover have "files w'' = files w" if "st_Close (fetched_streams F) st w' = (Ret None, w'')" for w''
    using blob_store.stream_closed [OF L that [unfolded st]] k(1) c(1,2) by (simp add: fun_eq_iff)
  ultimately show ?thesis using st c k(1) by (intro exI [of _ h] exI [of _ f] exI [of _ c]) simp
qed

text \<open>
  C12: a layer that could not be streamed, for whatever reason an error is returned, leaves the files as they were, with two exceptions, in
  which one new file is left and all others are as before: the temporary file could not be removed, or it was fetched and verified but could not be
  opened for reading. In this last case the code does not remove it.
\<close>

theorem Blob_failure_cleans:
  assumes "blob_store F A gz s files" and "LayerFetcher_StreamBlob fuel F A gz s li w = (Ret (Inl e), w')"
  shows "files w' = files w
    \<or> (\<exists>f. files w f = None \<and> (\<forall>g. g \<noteq> f \<longrightarrow> files w' g = files w g)
        \<and> ((\<exists>u u' x. fi_Remove F f u = (Ret (Some x), u') \<and> files w' = files u')
          \<or> (\<exists>sz u x. LayerSource_Blob fuel F A gz s li w = (Ret (Inr (f, sz)), u) \<and> fi_Open F f u = (Ret (Inl x), w') \<and> files w' f \<noteq> None)))"
proof -
  note L = assms(1)
  obtain q u where b: "LayerSource_Blob fuel F A gz s li w = (Ret q, u)"
    using assms(2) unfolding LayerFetcher_StreamBlob_def go_try_def by (blast dest: go_bind_RetD)
  show ?thesis
  proof (cases q)
    case (Inl x)
    with b assms(2) blob_store.blob_failed [OF L b [unfolded Inl]] show ?thesis by (auto simp: LayerFetcher_StreamBlob_def)
  next
    case (Inr y)
    obtain f sz where y: "y = (f, sz)" by force
    obtain x where op: "fi_Open F f u = (Ret (Inl x), w')"
      using assms(2) b Inr y by (auto simp: LayerFetcher_StreamBlob_def NewBlobReader_def go_try_def dest!: go_bind_RetD split: sum.splits)
    have "files w' = files u" using within_sameD [OF blob_store.outside_keeps(2) [OF L] op] by simp
    with blob_store.blob_ok [OF L b [unfolded Inr y]] b Inr y op show ?thesis by auto
  qed
qed

section \<open>Chain identifiers\<close>

text \<open>The identifier of a stack of layers, from the encoded diff IDs of its layers, bottom first.\<close>

definition chain_of :: "string list \<Rightarrow> string" where
  "chain_of xs = (case xs of [] \<Rightarrow> [] | x # ys \<Rightarrow> foldl (\<lambda>parent y. hex_EncodeToString (sha256 (parent @ '' '' @ y))) x ys)"

definition chain_info :: "BlobInfo \<Rightarrow> string list \<Rightarrow> nat \<Rightarrow> LayerInfo" where
  "chain_info layer xs k = \<lparr>BlobID = bi_Digest layer, ChainID = chain_of (take (Suc k) xs), DiffID = xs ! k, ParentChainID = chain_of (take k xs),
     li_Size = bi_Size layer, li_URLs = bi_URLs layer, li_MediaType = bi_MediaType layer\<rparr>"

definition sha_digest :: "string \<Rightarrow> string" where
  "sha_digest x = ''sha256:'' @ x"

definition encoded :: "string \<Rightarrow> bool" where
  "encoded x \<longleftrightarrow> x \<noteq> [] \<and> CHR '':'' \<notin> set x"

lemma split_at_none: "c \<notin> set x \<Longrightarrow> split_at c x = [x]"
  by (induction x) auto

lemma split_at_colon: "c \<notin> set p \<Longrightarrow> c \<notin> set x \<Longrightarrow> split_at c (p @ c # x) = [p, x]"
  by (induction p) (auto simp: split_at_none)

lemma digest_parts:
  assumes "encoded x"
  shows "after_colon (sha_digest x) = go_ret x" and "digest_Hex (sha_digest x) = go_ret x"
proof -
  have "split_at (CHR '':'') (''sha256'' @ CHR '':'' # x) = [''sha256'', x]"
    using assms by (intro split_at_colon) (simp_all add: encoded_def)
  then show "after_colon (sha_digest x) = go_ret x" by (simp add: after_colon_def sha_digest_def)
  show "digest_Hex (sha_digest x) = go_ret x" by (simp add: digest_Hex_def sha_digest_def)
qed

lemma sha_digest_not_empty [simp]: "sha_digest x \<noteq> []"
  by (simp add: sha_digest_def)

lemma hex_not_empty: "b \<noteq> [] \<Longrightarrow> hex_EncodeToString b \<noteq> []"
  by (cases b) (simp_all add: hex_EncodeToString_def)

lemma sha_not_empty: "hex_EncodeToString (sha256 m) \<noteq> []"
  using length_sha256 [of m] by (intro hex_not_empty) auto

lemma chain_of_snoc: "xs \<noteq> [] \<Longrightarrow> chain_of (xs @ [y]) = hex_EncodeToString (sha256 (chain_of xs @ '' '' @ y))"
  by (cases xs) (simp_all add: chain_of_def)

lemma chain_of_not_empty: "xs \<noteq> [] \<Longrightarrow> \<forall>x \<in> set xs. encoded x \<Longrightarrow> chain_of xs \<noteq> []"
  by (cases xs rule: rev_cases; cases "butlast xs") (auto simp: chain_of_snoc sha_not_empty chain_of_def encoded_def)

lemma chainID_step:
  assumes "\<forall>x \<in> set xs. encoded x" and "encoded y"
  shows "chainID (sha_digest y) (chain_of xs) = go_ret (chain_of (xs @ [y]))"
proof (cases "xs = []")
  case True
  then show ?thesis by (simp add: chainID_def chain_of_def digest_parts(1) [OF assms(2)] fun_eq_iff)
next
  case False
  then show ?thesis
    using chain_of_not_empty [OF False assms(1)] by (simp add: chainID_def digest_parts(1) [OF assms(2)] chain_of_snoc [OF False] fun_eq_iff)
qed

lemma layer_infos_chain:
  assumes "\<forall>x \<in> set (xs @ ys). encoded x" and "length layers \<le> length ys"
  shows "layer_infos layers (map sha_digest ys) (chain_of xs) acc w
    = (Ret (acc @ map (\<lambda>i. chain_info (layers ! i) (xs @ ys) (length xs + i)) [0..<length layers]), w)"
  using assms
proof (induction layers arbitrary: xs ys acc)
  case (Cons layer layers)
  then obtain y ys' where ys: "ys = y # ys'" by (cases ys) auto
  let ?info = "chain_info layer (xs @ ys) (length xs)"
  have y: "encoded y" using Cons.prems(1) ys by simp
  have "layer_infos (layer # layers) (map sha_digest ys) (chain_of xs) acc w
    = layer_infos layers (map sha_digest ys') (chain_of (xs @ [y])) (acc @ [?info]) w"
    using Cons.prems(1) y by (simp add: ys chain_info_def nth_append chainID_step digest_parts(2) [OF y])
  also have "\<dots> = (Ret ((acc @ [?info]) @ map (\<lambda>i. chain_info (layers ! i) ((xs @ [y]) @ ys') (length (xs @ [y]) + i)) [0..<length layers]), w)"
    by (rule Cons.IH) (use Cons.prems ys in auto)
  finally show ?case
    using map_upt_Suc [of "\<lambda>i. chain_info ((layer # layers) ! i) (xs @ ys) (length xs + i)" "length layers"] by (simp add: ys)
qed simp

text \<open>
  C14: the layers of an image are identified by the chain of diff IDs up to them: every layer has the chain identifier of the stack that ends with it, its
  parent is the stack below, and it keeps digest, size, addresses and media type of its blob; so images that share their lower layers share
  the identifiers of these layers.
\<close>

theorem createLayerInfos_chain:
  assumes "oc_DiffIDs config = map sha_digest xs" and "\<forall>x \<in> set xs. encoded x" and "length layers \<le> length xs"
  shows "\<exists>infos. createLayerInfos layers config w = (Ret infos, w) \<and> length infos = length layers
    \<and> (\<forall>i < length layers. infos ! i = \<lparr>BlobID = bi_Digest (layers ! i), ChainID = chain_of (take (Suc i) xs), DiffID = xs ! i,
         ParentChainID = chain_of (take i xs), li_Size = bi_Size (layers ! i), li_URLs = bi_URLs (layers ! i), li_MediaType = bi_MediaType (layers ! i)\<rparr>)"
  using layer_infos_chain [of "[]" xs layers "[]" w] assms by (simp add: createLayerInfos_def chain_of_def chain_info_def)

theorem createLayerInfos_chain_witness:
  "\<exists>a b. createLayerInfos [\<lparr>bi_Digest = ''sha256:b0'', bi_Size = 1, bi_URLs = [], bi_MediaType = []\<rparr>, \<lparr>bi_Digest = ''sha256:b1'', bi_Size = 2, bi_URLs = [], bi_MediaType = []\<rparr>]
       \<lparr>oc_DiffIDs = [''sha256:d0'', ''sha256:d1''], oc_Env = []\<rparr> () = (Ret [a, b], ())
     \<and> ChainID a = ''d0'' \<and> ParentChainID b = ''d0'' \<and> ChainID b = hex_EncodeToString (sha256 (''d0 d1''))"
proof -
  let ?layers = "[\<lparr>bi_Digest = ''sha256:b0'', bi_Size = 1, bi_URLs = [], bi_MediaType = []\<rparr>, \<lparr>bi_Digest = ''sha256:b1'', bi_Size = 2, bi_URLs = [], bi_MediaType = []\<rparr>]"
  let ?config = "\<lparr>oc_DiffIDs = [''sha256:d0'', ''sha256:d1''], oc_Env = []\<rparr>"
  have "oc_DiffIDs ?config = map sha_digest [''d0'', ''d1'']" "\<forall>x \<in> set [''d0'', ''d1'']. encoded x" "length ?layers \<le> length [''d0'', ''d1'']"
    by (simp_all add: encoded_def sha_digest_def)
  from createLayerInfos_chain [OF this, of "()"] obtain infos where i: "createLayerInfos ?layers ?config () = (Ret infos, ())" "length infos = 2"
    and n: "\<And>i. i < 2 \<Longrightarrow> ChainID (infos ! i) = chain_of (take (Suc i) [''d0'', ''d1'']) \<and> ParentChainID (infos ! i) = chain_of (take i [''d0'', ''d1''])"
    by (auto simp: numeral_2_eq_2)
  obtain a b where ab: "infos = [a, b]" using i(2) by (cases infos; cases "tl infos") (auto simp: numeral_2_eq_2)
  from n [of 0] n [of 1] i(1) show ?thesis unfolding ab by (intro exI [of _ a] exI [of _ b]) (simp add: chain_of_def)
qed

end
