(* ===== verification/Fetch_Platform.thy ===== *)
theory Fetch_Platform
  imports Fetched_Blobs Command_Line
begin

text \<open>
  A stand-in for what the fetchers use: files with temporary files, and a registry with one blob. The interface of fetched blobs
  is interpreted on it, for the layer source that the commands make.
\<close>

section \<open>Files and a registry\<close>

record registry =
  reg_files :: "string \<Rightarrow> bytes option"
  reg_quota :: int64
  reg_source :: "unit option"
  reg_unread :: bytes
  reg_buffer :: bytes
  reg_out :: string

definition quota_ref :: "(registry, int64) ref" where
  "quota_ref = \<lparr>ref_get = reg_quota, ref_put = (\<lambda>q w. w\<lparr>reg_quota := q\<rparr>)\<rparr>"

definition source_ref :: "(registry, unit option) ref" where
  "source_ref = \<lparr>ref_get = reg_source, ref_put = (\<lambda>s w. w\<lparr>reg_source := s\<rparr>)\<rparr>"

definition reg_file_api :: "(registry, string) file_api" where
  "reg_file_api =
     \<lparr>fi_Stat = (\<lambda>p w. (Ret (case reg_files w p of None \<Rightarrow> Inl (NotExist p) | Some b \<Rightarrow> Inr \<lparr>fs_ModTime = 0, fs_Size = of_nat (length b), fs_IsDir = False\<rparr>), w)),
      fi_Open = (\<lambda>p w. (Ret (case reg_files w p of None \<Rightarrow> Inl (NotExist p) | Some b \<Rightarrow> Inr p), w)),
      fi_Read = (\<lambda>f n. go_ret ([], Some EOF)),
      fi_Close = (\<lambda>f. go_ret None),
      fi_Remove = (\<lambda>p w. (Ret None, w\<lparr>reg_files := (reg_files w)(p := None)\<rparr>)),
      fi_CreateTemp = (\<lambda>p w. if reg_files w p = None then (Ret (Inr p), w\<lparr>reg_files := (reg_files w)(p := Some [])\<rparr>)
                             else (Ret (Inl (ErrorString ''file exists'')), w)),
      fi_WriteTemp = (\<lambda>p b w. case reg_files w p of
           None \<Rightarrow> (Ret (0, Some (NotExist p)), w)
         | Some c \<Rightarrow> (Ret (int (length b), None), w\<lparr>reg_files := (reg_files w)(p := Some (c @ b))\<rparr>)),
      fi_CloseTemp = (\<lambda>p. go_ret None)\<rparr>"

text \<open>The registry has one blob; when it was opened, \<open>reg_unread\<close> is what is still to be read.\<close>

definition reg_images :: "int64 \<Rightarrow> (registry, unit, unit, unit) image_api" where
  "reg_images sz =
     \<lparr>ia_ParseReference = (\<lambda>scheme r. Inr r), ia_NewImageSource = (\<lambda>sc r. go_ret (Inr ())), 
      ia_GetBlob = (\<lambda>src info w. (Ret (Inr ((), sz)), w\<lparr>reg_unread := ''abc''\<rparr>)),
      ia_CloseSource = (\<lambda>src. go_ret None),
      ia_ReadBlob = (\<lambda>b n w. (Ret (take n (reg_unread w), if reg_unread w = [] then Some EOF else None), w\<lparr>reg_unread := drop n (reg_unread w)\<rparr>)),
      ia_CloseBlob = (\<lambda>b. go_ret None), ia_FromUnparsedImage = (\<lambda>sc src. go_ret (Inr ())), ia_Manifest = (\<lambda>img. go_ret (Inr [])),
      ia_LayerInfos = (\<lambda>img. []), ia_UpdatedImage = (\<lambda>img ds ls. go_ret (Inr img)), ia_ConfigBlob = (\<lambda>img. go_ret None),
      ia_OCIConfig = (\<lambda>img. go_ret (Inr \<lparr>oc_DiffIDs = [], oc_Env = []\<rparr>))\<rparr>"

text \<open>
  A decompressor for blobs in which every byte stands for two. Like that of gzip it reads ahead and buffers: one read of the blob is followed by
  several from the buffer.
\<close>

abbreviation inflate_buffer :: "(registry blob_world, bytes) ref" where
  "inflate_buffer \<equiv> field_ref reg_buffer reg_buffer_update fst_ref"

definition reg_deliver :: "registry blob_world reader" where
  "reg_deliver n = go_bind (ref_read inflate_buffer) (\<lambda>buf. go_bind (ref_modify inflate_buffer (drop n)) (\<lambda>_. go_ret (take n buf, None)))"

definition reg_inflate :: "registry blob_world reader \<Rightarrow> registry blob_world reader" where
  "reg_inflate r n =
     go_bind (ref_read inflate_buffer) (\<lambda>buf.
     if buf \<noteq> [] then reg_deliver n
     else
       go_bind (r 1) (\<lambda>(b, err).
       if err \<noteq> None then go_ret ([], err)
       else go_bind (ref_modify inflate_buffer (\<lambda>_. concat (map (\<lambda>c. [c, c]) b))) (\<lambda>_. reg_deliver n)))"

definition reg_gzip :: "registry blob_world gzip" where
  "reg_gzip r = go_bind (ref_modify inflate_buffer (\<lambda>_. [])) (\<lambda>_. go_ret (Inr \<lparr>rc_Read = reg_inflate r, rc_Close = go_ret None\<rparr>))"

lemma inflate_read: "reg_inflate r n v = (Ret (b, e), v') \<Longrightarrow>
   (reg_buffer (fst v) \<noteq> [] \<and> e = None \<and> b = take n (reg_buffer (fst v)) \<and> v' = (fst v\<lparr>reg_buffer := drop n (reg_buffer (fst v))\<rparr>, snd v))
   \<or> (reg_buffer (fst v) = [] \<and> (\<exists>c v1. r 1 v = (Ret (c, e), v1) \<and>
        (if e \<noteq> None then b = [] \<and> v' = v1
         else let buf = concat (map (\<lambda>x. [x, x]) c) in b = take n buf \<and> v' = (fst v1\<lparr>reg_buffer := drop n buf\<rparr>, snd v1))))"
  by (cases v) (auto simp: reg_inflate_def reg_deliver_def go_simps Let_def split: prod.splits go.splits if_splits)

definition reg_source_of :: "bool \<Rightarrow> URL \<Rightarrow> (registry, unit) LayerSource" where
  "reg_source_of skipQuota url =
     \<lparr>ls_skipOCILayerValidation = False, ls_systemContext = \<lparr>sc_InsecureSkipTLSVerify = None, sc_DockerAuth = None\<rparr>, ls_imageURL = url,
      ls_skipImageQuotaValidation = skipQuota, ls_imageSource = source_ref, ls_remainingImageQuota = quota_ref\<rparr>"

lemma inflate_returns:
  assumes "r 1 v = (Ret x, v1)"
  shows "\<exists>y v'. reg_inflate r n v = (Ret y, v')"
proof -
  have deliver: "\<exists>y u'. reg_deliver n u = (Ret y, u')" for u by (simp add: reg_deliver_def go_simps)
  obtain c e where "x = (c, e)" by force
  with assms deliver show ?thesis by (cases e) (simp_all add: reg_inflate_def go_simps)
qed

lemma inflate_length: "reg_inflate r n v = (Ret (b, e), v') \<Longrightarrow> length b \<le> n"
  by (auto dest!: inflate_read simp: Let_def split: if_splits)

lemma buffer_view: "within (same (blob_view reg_files quota_ref)) (ref_modify inflate_buffer g)"
  by (rule withinI) (auto simp: go_simps same_def blob_view_def quota_ref_def)

lemma buffer_read: "within (same (blob_view reg_files quota_ref)) (ref_read inflate_buffer)"
  by (simp add: within_def same_def ref_read_def)

lemma inflate_steady:
  assumes "steady reg_files quota_ref r"
  shows "steady reg_files quota_ref (reg_inflate r)"
proof -
  have "within (same (blob_view reg_files quota_ref)) (reg_inflate r n)" for n
    using assms unfolding reg_inflate_def reg_deliver_def steady_def by (auto intro!: within_intros buffer_view buffer_read)
  then show ?thesis unfolding steady_def using inflate_length by blast
qed

lemmas registry_defs = reg_file_api_def reg_images_def reg_source_of_def quota_ref_def source_ref_def

interpretation registry: blob_store reg_file_api "reg_images sz" reg_gzip "reg_source_of skipQuota url" reg_files for sz skipQuota url
proof unfold_locales
  fix r :: "registry blob_world reader" and v z v'
  let ?q = "ls_remainingImageQuota (reg_source_of skipQuota url)"
  assume r: "steady reg_files ?q r"
  have q: "?q = quota_ref" by (simp add: reg_source_of_def)
  show "within (same (blob_view reg_files ?q)) (reg_gzip r)"
    unfolding reg_gzip_def q by (intro within_intros buffer_view) simp_all
  show "reg_gzip r v = (Ret (Inr z), v') \<Longrightarrow> steady reg_files ?q (rc_Read z) \<and> within (same (blob_view reg_files ?q)) (rc_Close z)"
    using inflate_steady [OF r [unfolded q]] by (auto simp: reg_gzip_def q go_simps within_def same_def)
qed (auto simp: registry_defs within_def same_def go_simps split: option.splits if_splits)

text \<open>The source of this interpretation is the one that a new layer source of an OCI image is.\<close>

lemma reg_source_new:
  assumes "rt_imageSource rt = source_ref" and "rt_remainingImageQuota rt = quota_ref"
  shows "NewLayerSource rt \<lparr>sc_InsecureSkipTLSVerify = None, sc_DockerAuth = None\<rparr> False skipQuota limit url w
    = (Ret (reg_source_of skipQuota url), w\<lparr>reg_source := None, reg_quota := limit\<rparr>)"
  using assms by (simp add: NewLayerSource_def reg_source_of_def go_simps quota_ref_def source_ref_def)

end
