(* ===== verification/Fetch_Returns.thy ===== *)
theory Fetch_Returns
  imports Fetchers Go_Stops
begin

text \<open>
  The fetcher of layers always comes back. Its loops are the three attempts, which are bounded, and the copying of a blob (\<^const>\<open>copy_to\<close>,
  \<^const>\<open>read_all\<close>), which ends when the stream of the blob does: the measure is what the streams still have to deliver.
\<close>

section \<open>Ending from one world\<close>

definition ends_at :: "('w, 'a) io \<Rightarrow> 'w \<Rightarrow> bool" where
  "ends_at m w \<longleftrightarrow> fst (m w) \<noteq> Diverged"

abbreviation ends :: "('w, 'a) io \<Rightarrow> bool" where
  "ends \<equiv> stops (\<lambda>_ _. True)"

lemma any_order [simp]: "reflp (\<lambda>_ _. True)" "transp (\<lambda>_ _. True)"
  by (auto intro!: reflpI transpI)

lemma ends_everywhere: "stops R m \<Longrightarrow> ends_at m w"
  by (simp add: stops_def ends_at_def)

lemma ends_of: "(\<And>w. ends_at m w) \<Longrightarrow> ends m"
  by (simp add: stops_def ends_at_def within_def)

lemma ends_bind: "ends_at m w \<Longrightarrow> (\<And>x u. m w = (Ret x, u) \<Longrightarrow> ends_at (f x) u) \<Longrightarrow> ends_at (go_bind m f) w"
  by (auto simp: ends_at_def go_bind_def split: prod.splits go.splits)

lemma ends_try:
  "ends_at m w \<Longrightarrow> (\<And>e u. m w = (Ret (Inl e), u) \<Longrightarrow> ends_at (h e) u) \<Longrightarrow> (\<And>x u. m w = (Ret (Inr x), u) \<Longrightarrow> ends_at (k x) u)
    \<Longrightarrow> ends_at (go_try m h k) w"
  unfolding go_try_def by (rule ends_bind) (auto split: sum.splits)

lemma ends_defer: "ends_at m w \<Longrightarrow> ends d \<Longrightarrow> ends_at (go_defer d m) w"
  by (auto simp: ends_at_def go_defer_def stops_def split: prod.splits go.splits) (metis fst_conv)+

lemma ends_defer_seeing: "ends_at m w \<Longrightarrow> (\<And>r. ends (d r)) \<Longrightarrow> ends_at (go_defer_seeing d m) w"
  by (auto simp: ends_at_def go_defer_seeing_def stops_def split: prod.splits go.splits) (metis fst_conv)+

lemma ends_ret: "ends_at (go_ret x) w"
  by (simp add: ends_at_def go_ret_def)

lemma ends_modify: "ends (ref_modify p f)"
  by (rule stopsI) (auto simp: ref_modify_def)

lemma ends_outside: "ends m \<Longrightarrow> ends (outside m)"
  by (rule stopsI) (auto simp: zoom_def split: prod.splits dest: stopsD(1))

lemma ends_locals: "ends_at m (w, l) \<Longrightarrow> ends_at (with_locals l m) w"
  by (auto simp: ends_at_def with_locals_def split: prod.splits)

lemmas ends_rules = stops_intros ends_modify ends_outside

section \<open>Copying ends with its reader\<close>

lemma eatsD: "eats f m \<Longrightarrow> m w = (Ret (b, e), w') \<Longrightarrow> f w' \<le> f w \<and> (e = None \<longrightarrow> f w' < f w)"
  unfolding eats_def using stopsD(2) [of "fewer f" m] by (fastforce simp: fewer_def)

lemma copy_to_ends:
  assumes "eats f (r 32768)" and "\<And>b. stops (fewer f) (out b)" and "f w < fuel"
  shows "ends_at (copy_to fuel out r n) w"
  using assms(3)
proof (induction fuel arbitrary: n w)
  case (Suc fuel)
  have finish: "ends_at (case e of None \<Rightarrow> copy_to fuel out r n | Some x \<Rightarrow> go_ret (n, if x = EOF then None else Some x)) u2"
    if "r 32768 w = (Ret (b, e), u)" "f u2 \<le> f u" for b e u u2 n
    using Suc.IH [of u2 n] eatsD [OF assms(1) that(1)] that(2) Suc.prems by (cases e) (auto simp: ends_ret)
  show ?case
    unfolding copy_to.simps
  proof (rule ends_bind, goal_cases)
    case 1
    show ?case by (rule ends_everywhere [OF eats_stops [OF assms(1)]])
  next
    case (2 x u)
    obtain b e where be: "x = (b, e)" by force
    have "f u2 \<le> f u" if "out b u = (Ret y, u2)" for y u2 using stopsD(2) [OF assms(2) that] by (simp add: fewer_def)
    with finish [OF 2 [unfolded be]] finish [OF 2 [unfolded be] order_refl] show ?case
      unfolding be Let_def prod.case by (auto intro!: ends_bind ends_everywhere [OF assms(2)] simp: ends_ret split: prod.split option.split)
  qed
qed simp

lemma read_all_ends:
  assumes "\<And>n. eats f (r (avail n))" and "f w < fuel"
  shows "ends_at (read_all fuel avail r acc) w"
  using assms(2)
proof (induction fuel arbitrary: acc w)
  case (Suc fuel)
  show ?case
  proof (simp only: read_all.simps, rule ends_bind)
    show "ends_at (r (avail (length acc))) w" by (rule ends_everywhere [OF eats_stops [OF assms(1)]])
    fix x u
    assume x: "r (avail (length acc)) w = (Ret x, u)"
    then show "ends_at (case x of (b, err) \<Rightarrow> case err of None \<Rightarrow> read_all fuel avail r (acc @ b) | Some e \<Rightarrow> go_ret (if e = EOF then Inr (acc @ b) else Inl e)) u"
      using eatsD [OF assms(1), of "length acc" w] Suc by (fastforce simp: ends_ret split: prod.splits option.splits)
  qed
qed simp

section \<open>What ends outside\<close>

text \<open>
  The calls of the fetcher end; reading a blob keeps the contract of io.Reader and uses up what its stream has left, \<open>left\<close>, which is less
  than \<open>k\<close> when the blob was opened. A decompressor on the stream of such a blob ends too; it buffers, so it has a measure of its own, \<open>h\<close>: what it
  has still to deliver, less than \<open>m\<close> for a blob of that length, whatever is written to files meanwhile. It does not touch the quota of the reader above it.
\<close>

definition files_end :: "('w, 'f) file_api \<Rightarrow> ('w \<Rightarrow> nat) \<Rightarrow> bool" where
  "files_end F left \<longleftrightarrow> (\<forall>p. stops (fewer left) (fi_CreateTemp F p)) \<and> (\<forall>f b. stops (fewer left) (fi_WriteTemp F f b))
     \<and> (\<forall>f. ends (fi_CloseTemp F f)) \<and> (\<forall>f. ends (fi_Remove F f)) \<and> (\<forall>p. ends (fi_Open F p))"

definition ending_reader :: "('v \<Rightarrow> nat) \<Rightarrow> 'v reader \<Rightarrow> bool" where
  "ending_reader f r \<longleftrightarrow> (\<forall>n. stops (fewer f) (r n)) \<and> (\<forall>n > 0. eats f (r n)) \<and> (\<forall>n v b e v'. r n v = (Ret (b, e), v') \<longrightarrow> length b \<le> n)"

definition images_end :: "('w, 'src, 'img, 'b) image_api \<Rightarrow> ('w \<Rightarrow> nat) \<Rightarrow> nat \<Rightarrow> bool" where
  "images_end A left k \<longleftrightarrow> (\<forall>sc r. ends (ia_NewImageSource A sc r)) \<and> (\<forall>src info. ends (ia_GetBlob A src info))
     \<and> (\<forall>src info w x w'. ia_GetBlob A src info w = (Ret (Inr x), w') \<longrightarrow> left w' < k)
     \<and> (\<forall>b. ending_reader left (ia_ReadBlob A b)) \<and> (\<forall>b. ends (ia_CloseBlob A b))
     \<and> (\<forall>sc src. ends (ia_FromUnparsedImage A sc src)) \<and> (\<forall>img. ends (ia_Manifest A img)) \<and> (\<forall>img ds ls. ends (ia_UpdatedImage A img ds ls))
     \<and> (\<forall>img. ends (ia_ConfigBlob A img)) \<and> (\<forall>img. ends (ia_OCIConfig A img))"

definition blob_reader :: "('w \<Rightarrow> nat) \<Rightarrow> 'w blob_world reader \<Rightarrow> bool" where
  "blob_reader left r \<longleftrightarrow> ending_reader (left \<circ> fst) r \<and> (\<forall>n. within (same (bl_QuotaLeft \<circ> snd)) (r n))"

definition blob_stream :: "('w, 'src, 'img, 'b) image_api \<Rightarrow> 'b \<Rightarrow> 'w blob_world reader \<Rightarrow> bool" where
  "blob_stream A b r \<longleftrightarrow> (let raw = (\<lambda>n. outside (ia_ReadBlob A b n)) in r = raw \<or> r = TeeReader raw blobIDHash)"

definition gzip_ends :: "('w, 'f) file_api \<Rightarrow> ('w, 'src, 'img, 'b) image_api \<Rightarrow> 'w blob_world gzip \<Rightarrow> ('w \<Rightarrow> nat) \<Rightarrow> nat \<Rightarrow> nat \<Rightarrow> bool" where
  "gzip_ends F A gz left k m \<longleftrightarrow> (\<forall>b r. blob_stream A b r \<longrightarrow> ends (gz r)
     \<and> (\<forall>v z v'. left (fst v) < k \<longrightarrow> gz r v = (Ret (Inr z), v') \<longrightarrow> ends (rc_Close z)
          \<and> (\<exists>h. blob_reader h (rc_Read z) \<and> (\<forall>f c. stops (fewer h) (fi_WriteTemp F f c)) \<and> h (fst v') < m)))"

lemma gzip_endsD:
  assumes "gzip_ends F A gz left k m" and "blob_stream A b r"
  shows "ends (gz r)"
    and "left (fst v) < k \<Longrightarrow> gz r v = (Ret (Inr z), v') \<Longrightarrow> ends (rc_Close z)
      \<and> (\<exists>h. blob_reader h (rc_Read z) \<and> (\<forall>f c. stops (fewer h) (fi_WriteTemp F f c)) \<and> h (fst v') < m)"
  using assms unfolding gzip_ends_def by blast+

lemma blob_streams: "blob_stream A b (\<lambda>n. outside (ia_ReadBlob A b n))" "blob_stream A b (TeeReader (\<lambda>n. outside (ia_ReadBlob A b n)) blobIDHash)"
  by (simp_all add: blob_stream_def Let_def)

lemma ending_readerD:
  assumes "ending_reader f r"
  shows "stops (fewer f) (r n)" and "0 < n \<Longrightarrow> eats f (r n)" and "r n v = (Ret (b, e), v') \<Longrightarrow> length b \<le> n"
  using assms unfolding ending_reader_def by blast+

lemma ending_readerI:
  "(\<And>n. stops (fewer f) (r n)) \<Longrightarrow> (\<And>n. 0 < n \<Longrightarrow> eats f (r n)) \<Longrightarrow> (\<And>n v b e v'. r n v = (Ret (b, e), v') \<Longrightarrow> length b \<le> n) \<Longrightarrow> ending_reader f r"
  unfolding ending_reader_def by blast

lemma blob_readerD:
  assumes "blob_reader left r"
  shows "ending_reader (left \<circ> fst) r" and "within (same (bl_QuotaLeft \<circ> snd)) (r n)"
  using assms by (simp_all add: blob_reader_def)

lemma blob_reader_quota: "blob_reader left r \<Longrightarrow> r n v = (x, v') \<Longrightarrow> bl_QuotaLeft (snd v') = bl_QuotaLeft (snd v)"
  using withinD [OF blob_readerD(2)] by (fastforce simp: same_def)

lemma outside_fewer: "stops (fewer f) m \<Longrightarrow> stops (fewer (f \<circ> fst)) (outside m)"
  by (rule stopsI) (fastforce simp: zoom_def fst_ref_def fewer_def split: prod.splits dest: stopsD)

lemma outside_eats: "eats f m \<Longrightarrow> eats (f \<circ> fst) (outside m)"
  using outside_fewer [of f m] unfolding eats_def by (auto simp: zoom_def fst_ref_def split: prod.splits)

lemma local_keeps: "(\<And>x v. fst (ref_put p x v) = fst v) \<Longrightarrow> stops (fewer (f \<circ> fst)) (ref_modify p g)"
  by (rule stopsI) (auto simp: ref_modify_def fewer_def)

lemma raw_ends:
  assumes "images_end A left k"
  shows "blob_reader left (\<lambda>n. outside (ia_ReadBlob A b n))"
proof -
  have r: "ending_reader left (ia_ReadBlob A b)" using assms by (simp add: images_end_def)
  have "ending_reader (left \<circ> fst) (\<lambda>n. outside (ia_ReadBlob A b n))"
  proof (rule ending_readerI)
    show "outside (ia_ReadBlob A b n) v = (Ret (x, e), v') \<Longrightarrow> length x \<le> n" for n v x e v'
      by (auto simp: zoom_def split: prod.splits dest: ending_readerD(3) [OF r])
  qed (simp_all add: outside_fewer outside_eats ending_readerD [OF r])
  moreover have "within (same (bl_QuotaLeft \<circ> snd)) (outside (ia_ReadBlob A b n))" for n
    by (rule withinI) (auto simp: zoom_def fst_ref_def same_def split: prod.splits)
  ultimately show ?thesis by (simp add: blob_reader_def)
qed

lemma tee_ends:
  assumes "ending_reader (left \<circ> fst) r" and "\<And>x v. fst (ref_put h x v) = fst v"
  shows "ending_reader (left \<circ> fst) (TeeReader r h)"
proof -
  have st: "stops (fewer (left \<circ> fst)) (TeeReader r h n)" for n
    using assms unfolding TeeReader_def ending_reader_def by (auto intro!: stops_intros local_keeps split: prod.splits)
  have "\<exists>v1. r n v = (Ret (b, e), v1) \<and> fst v' = fst v1" if "TeeReader r h n v = (Ret (b, e), v')" for n v b e v'
    using that assms(2) by (auto simp: TeeReader_def ref_modify_def dest!: go_bind_RetD split: if_splits)
  with assms(1) st show ?thesis unfolding ending_reader_def eats_def comp_def by metis
qed

lemma raw_tee_ends:
  assumes "images_end A left k"
  shows "blob_reader left (TeeReader (\<lambda>n. outside (ia_ReadBlob A b n)) blobIDHash)"
proof -
  note raw = raw_ends [OF assms, of b, unfolded blob_reader_def]
  have "within (same (bl_QuotaLeft \<circ> snd)) (ref_modify blobIDHash f)" for f
    by (rule withinI) (auto simp: go_simps same_def)
  then have "within (same (bl_QuotaLeft \<circ> snd)) (TeeReader (\<lambda>n. outside (ia_ReadBlob A b n)) blobIDHash n)" for n
    using raw unfolding TeeReader_def by (auto intro!: within_intros split: prod.splits)
  with tee_ends [of left _ blobIDHash] raw show ?thesis by (simp add: blob_reader_def go_simps)
qed

text \<open>A read with a quota; it asks for nothing only when there is no quota left, and then reports it.\<close>

lemma quota_run:
  assumes "blob_reader left r" and "QuotaedReader_Read r QuotaLeft msg n v = (Ret (b, e), v')"
  obtains m e1 v1 where "m \<le> n" and "r m v = (Ret (b, e1), v1)" and "fst v' = fst v1" and "e = None \<Longrightarrow> e1 = None \<and> (0 < n \<longrightarrow> 0 < m)"
proof -
  let ?q = "sint (bl_QuotaLeft (snd v))"
  let ?m = "if int n > ?q then nat (?q + 1) else n"
  obtain e1 v1 where run: "\<not> (int n > ?q \<and> ?q + 1 < 0)" "r ?m v = (Ret (b, e1), v1)" "fst v' = fst v1"
    and ok: "e = None \<Longrightarrow> e1 = None \<and> 0 \<le> sint (bl_QuotaLeft (snd v1) - of_nat (length b))"
    using assms(2) by (auto simp: QuotaedReader_Read_def go_simps split: if_splits prod.splits go.splits)
  have "length b \<le> ?m" "bl_QuotaLeft (snd v1) = bl_QuotaLeft (snd v)"
    using ending_readerD(3) [OF blob_readerD(1) [OF assms(1)] run(2)] blob_reader_quota [OF assms(1) run(2)] .
  then have "0 < ?m" if "e = None" "0 < n" using ok [OF that(1)] that(2) run(1) by (cases "?m = 0") (auto split: if_splits)
  moreover have "?m \<le> n" by auto
  ultimately show thesis using run(2,3) ok by (intro that [of ?m e1 v1]) auto
qed

lemma quota_ends:
  assumes "blob_reader left r"
  shows "ending_reader (left \<circ> fst) (QuotaedReader_Read r QuotaLeft msg)"
proof -
  note r = ending_readerD [OF blob_readerD(1) [OF assms]]
  have st: "stops (fewer (left \<circ> fst)) (QuotaedReader_Read r QuotaLeft msg n)" for n
    unfolding QuotaedReader_Read_def by (auto intro!: stops_intros local_keeps r(1) simp: field_ref_def snd_ref_def split: prod.splits)
  moreover have "eats (left \<circ> fst) (QuotaedReader_Read r QuotaLeft msg n)" if n: "0 < n" for n
    unfolding eats_def
  proof (intro conjI st allI impI)
    fix v b v'
    assume "QuotaedReader_Read r QuotaLeft msg n v = (Ret (b, None), v')"
    then obtain m v1 where "r m v = (Ret (b, None), v1)" "fst v' = fst v1" "0 < m" using n
      by (elim quota_run [OF assms]) auto
    with r(2) [of m] show "(left \<circ> fst) v' < (left \<circ> fst) v" unfolding eats_def by fastforce
  qed
  moreover have "length b \<le> n" if "QuotaedReader_Read r QuotaLeft msg n v = (Ret (b, e), v')" for n v b e v'
    using that by (elim quota_run [OF assms]) (auto dest: r(3))
  ultimately show ?thesis by (rule ending_readerI)
qed

section \<open>Fetching ends\<close>

lemma images_endD:
  assumes "images_end A left k"
  shows "ends (ia_NewImageSource A sc x)" "ends (ia_GetBlob A src info)" "ends (ia_CloseBlob A b)" "ends (ia_FromUnparsedImage A sc src)"
    "ends (ia_Manifest A img)" "ends (ia_UpdatedImage A img ds ls)" "ends (ia_ConfigBlob A img)" "ends (ia_OCIConfig A img)"
    and "ia_GetBlob A src info w = (Ret (Inr y), w') \<Longrightarrow> left w' < k"
  using assms unfolding images_end_def by metis+

lemma source_ends: "images_end A left k \<Longrightarrow> ends (getImageSource A s)"
  unfolding getImageSource_def createImageSource_def by (auto intro!: ends_rules images_endD split: option.split sum.split)

lemma blob_attempts_end:
  assumes "images_end A left k"
  shows "ends (blob_attempts i A src info e)" and "blob_attempts i A src info e w = (Ret (Inr x), w') \<Longrightarrow> left w' < k"
proof -
  show "ends (blob_attempts i A src info e)"
    by (induction i arbitrary: e) (auto intro!: ends_rules images_endD [OF assms])
  show "blob_attempts i A src info e w = (Ret (Inr x), w') \<Longrightarrow> left w' < k"
    by (induction i arbitrary: e w) (auto simp: go_try_def dest!: go_bind_RetD split: sum.splits dest: images_endD(9) [OF assms])
qed

lemma after_colon_ends: "ends (after_colon s)"
  unfolding after_colon_def by (auto intro!: ends_rules split: list.split)

lemma save_blob_ends:
  assumes "blob_reader left r" and "\<And>f c. stops (fewer left) (fi_WriteTemp F f c)" and "left (fst v) < fuel"
  shows "ends_at (save_blob fuel F s li sz f r) v"
proof -
  define rd where "rd = TeeReader (if shouldEnforceImageQuotaValidation s
     then QuotaedReader_Read r QuotaLeft ''uncompressed layer size exceeds quota'' else r) diffIDHash"
  have "ending_reader (left \<circ> fst) rd"
    unfolding rd_def using quota_ends [OF assms(1)] blob_readerD(1) [OF assms(1)] by (intro tee_ends) (auto simp: field_ref_def snd_ref_def)
  moreover have "stops (fewer (left \<circ> fst)) (outside (fi_WriteTemp F f b))" for b
    by (intro outside_fewer assms(2))
  ultimately have copied: "ends_at (copy_to fuel (\<lambda>b. outside (fi_WriteTemp F f b)) rd 0) v"
    using assms(3) by (intro copy_to_ends [of "left \<circ> fst"] ending_readerD(2)) (simp_all add: comp_def)
  show ?thesis
    unfolding save_blob_def Let_def rd_def [symmetric]
    by (rule ends_bind [OF copied])
       (auto intro!: ends_everywhere [of "\<lambda>_ _. True"] ends_rules after_colon_ends split: option.split)
qed

lemma store_blob_ends:
  assumes "images_end A left k" and "gzip_ends F A gz left k m" and "files_end F left" and "left (fst v) < k" and "k \<le> fuel" and "m \<le> fuel"
  shows "ends_at (store_blob fuel F gz s li (ia_ReadBlob A b) sz f) v"
proof -
  note raw = raw_tee_ends [OF assms(1), of b] and z = gzip_endsD [OF assms(2) blob_streams(2) [of A b]]
  have wr: "stops (fewer left) (fi_WriteTemp F f c)" for f c using assms(3) by (simp add: files_end_def)
  have "ends_at (save_blob fuel F s li sz f (rc_Read z)) u \<and> ends (rc_Close z)"
    if run: "gz (TeeReader (\<lambda>n. outside (ia_ReadBlob A b n)) blobIDHash) v = (Ret (Inr z), u)" for z u
  proof -
    obtain h where "blob_reader h (rc_Read z)" "\<And>f c. stops (fewer h) (fi_WriteTemp F f c)" "h (fst u) < m" and c: "ends (rc_Close z)"
      using z(2) [OF assms(4) run] by blast
    with assms(6) show ?thesis by (intro conjI save_blob_ends [of h]) simp_all
  qed
  then show ?thesis
    unfolding store_blob_def Let_def
    using assms(4,5) by (auto intro!: ends_try ends_defer ends_everywhere [OF z(1)] ends_ret save_blob_ends [OF raw wr])
qed

lemma Blob_ends:
  assumes "images_end A left k" and "gzip_ends F A gz left k m" and "files_end F left" and "k \<le> fuel" and "m \<le> fuel"
  shows "ends_at (LayerSource_Blob fuel F A gz s li) w"
proof -
  have temp: "ends_at (temp_blob fuel F gz s li (ia_ReadBlob A b) sz) u" if u: "left u < k" for b sz u
    unfolding temp_blob_def
  proof (rule ends_try, goal_cases)
    case 1
    show ?case using assms(3) by (intro ends_everywhere [of "fewer left"]) (simp add: files_end_def)
  next
    case (2 e u')
    show ?case by (rule ends_ret)
  next
    case (3 f u')
    have "stops (fewer left) (fi_CreateTemp F p)" for p using assms(3) by (simp add: files_end_def)
    from stopsD(2) [OF this 3] have "left u' \<le> left u" by (simp add: fewer_def)
    then have "ends_at (store_blob fuel F gz s li (ia_ReadBlob A b) sz f) (u', l)" for l
      using u by (intro store_blob_ends [OF assms(1-3) _ assms(4,5)]) simp
    then have "ends_at (go_bind (ref_read (ls_remainingImageQuota s)) (\<lambda>quota.
        with_locals \<lparr>bl_blobIDHash = [], bl_diffIDHash = [], bl_QuotaLeft = quota\<rparr> (store_blob fuel F gz s li (ia_ReadBlob A b) sz f))) u'"
      by (intro ends_bind) (auto simp: ref_read_def ends_at_def intro!: ends_locals [unfolded ends_at_def])
    then show ?case
      using assms(3) by (intro ends_defer_seeing) (auto simp: files_end_def intro!: ends_rules split: option.split sum.split)
  qed
  show ?thesis
    unfolding LayerSource_Blob_def getBlobWithRetries_def
    by (auto intro!: ends_try ends_defer ends_ret ends_everywhere [OF source_ends [OF assms(1)]] ends_everywhere [OF blob_attempts_end(1) [OF assms(1)]]
        temp images_endD(3) [OF assms(1)] dest: blob_attempts_end(2) [OF assms(1)] split: option.split)
qed

lemma Manifest_ends:
  assumes "images_end A left k" and "gzip_ends F A gz left k m" and "\<And>n. 0 < avail n" and "m \<le> fuel"
  shows "ends (LayerSource_Manifest fuel avail A gz s)"
proof -
  have "ends (v1DiffID fuel avail A gz layer src)" for layer src
  proof (rule ends_of)
    note z = gzip_endsD [OF assms(2) blob_streams(1)]
    have read: "ends_at (read_all fuel avail (rc_Read z) []) v"
      if got: "blob_attempts i A src info e w = (Ret (Inr (b, sz)), u)" and run: "gz (\<lambda>n. outside (ia_ReadBlob A b n)) (u, l) = (Ret (Inr z), v)" for b sz i info e w u l z v
    proof -
      have "left (fst (u, l)) < k" using blob_attempts_end(2) [OF assms(1) got] by simp
      from z(2) [OF this run] obtain h where "blob_reader h (rc_Read z)" "h (fst v) < m" by blast
      with assms(3,4) show ?thesis by (intro read_all_ends [of "h \<circ> fst"] ending_readerD(2) [OF blob_readerD(1)]) simp_all
    qed
    show "ends_at (v1DiffID fuel avail A gz layer src) w" for w
      unfolding v1DiffID_def getBlobWithRetries_def
      by (auto intro!: ends_try ends_defer ends_ret ends_locals ends_everywhere [OF blob_attempts_end(1) [OF assms(1)]] ends_everywhere [OF z(1)] images_endD(3) [OF assms(1)]
          intro: read)
  qed
  then have "ends (v1_diff_ids fuel avail A gz src layers ds)" for src layers ds
    by (induction layers arbitrary: ds) (auto intro!: ends_rules)
  then have "ends (convertImage fuel avail A gz s img)" for img
    unfolding convertImage_def by (auto intro!: ends_rules images_endD [OF assms(1)] source_ends [OF assms(1)])
  moreover have "ends (image_attempts i A s e)" for i e
    by (induction i arbitrary: e) (auto intro!: ends_rules images_endD [OF assms(1)] source_ends [OF assms(1)])
  moreover have "ends (config_attempts i A img e)" for i img e
    by (induction i arbitrary: e) (auto intro!: ends_rules images_endD [OF assms(1)])
  ultimately show ?thesis unfolding LayerSource_Manifest_def getImageWithRetries_def by (auto intro!: ends_rules)
qed

lemma createLayerInfos_ends: "ends (createLayerInfos layers config)"
proof -
  have "ends (chainID d p)" "ends (digest_Hex d)" for d p
    unfolding chainID_def digest_Hex_def by (intro ends_rules after_colon_ends; simp)+
  then have "ends (layer_infos layers ds c acc)" for ds c acc
    by (induction layers arbitrary: ds c acc) (auto intro!: ends_rules split: list.split)
  then show ?thesis by (simp add: createLayerInfos_def)
qed

text \<open>
  C13: the fetcher of layers always comes back, with a result, an error or a panic, from describing an image and from streaming a layer:
  its retries are bounded, and copying a blob, compressed or not, with or without a quota, ends when the stream of the blob does. Enough turns of
  the copy loops are the reads that a stream, or the decompressor on it, has to deliver.
\<close>

theorem LayerFetcher_returns:
  assumes "images_end A left k" and "gzip_ends F A gz left k m" and "files_end F left" and "\<And>n. 0 < avail n" and "k \<le> fuel" and "m \<le> fuel"
  shows "fst (ft_ImageInfo (LayerFetcher fuel avail F A gz s) w) \<noteq> Diverged
    \<and> fst (ft_StreamBlob (LayerFetcher fuel avail F A gz s) li w) \<noteq> Diverged"
proof -
  have "ends (LayerFetcher_ImageInfo fuel avail A gz s)"
    unfolding LayerFetcher_ImageInfo_def
    by (intro ends_rules Manifest_ends [OF assms(1,2,4,6)] images_endD(8) [OF assms(1)] createLayerInfos_ends) simp_all
  moreover have "ends (NewBlobReader F p)" for p
    unfolding NewBlobReader_def using assms(3) by (intro ends_rules) (simp_all add: files_end_def)
  then have "ends (LayerFetcher_StreamBlob fuel F A gz s li)"
    unfolding LayerFetcher_StreamBlob_def by (auto intro!: ends_rules ends_of [OF Blob_ends [OF assms(1-3,5,6)]])
  ultimately show ?thesis by (simp add: LayerFetcher_def stops_def)
qed

end
