(* ===== verification/Fetch_Runs.thy ===== *)
theory Fetch_Runs
  imports Fetch_Platform Fetch_Returns "HOL-Library.Code_Target_Nat"
begin

text \<open>Concrete executions of the fetchers and of the command line, at which the theorems about them are applied.\<close>

section \<open>Fetching a layer\<close>

lemma hex_digits: "x \<in> set (hex_EncodeToString b) \<Longrightarrow> x \<in> set ''0123456789abcdef''"
proof -
  have "hex_digit n \<in> set ''0123456789abcdef''" for n unfolding hex_digit_def by (rule nth_mem) simp
  then show "x \<in> set (hex_EncodeToString b) \<Longrightarrow> x \<in> set ''0123456789abcdef''" by (auto simp: hex_EncodeToString_def)
qed

lemma encoded_sha: "encoded (hex_EncodeToString (sha256 m))"
  using hex_digits [of "CHR '':''"] sha_not_empty unfolding encoded_def by auto

definition example_blob :: LayerInfo where
  "example_blob = \<lparr>BlobID = sha_digest (hex_EncodeToString (sha256 ''abc'')), ChainID = ''base'', DiffID = hex_EncodeToString (sha256 ''abc''), ParentChainID = [],
     li_Size = 3, li_URLs = [], li_MediaType = ''tar''\<rparr>"

definition example_url :: URL where
  "example_url = \<lparr>url_Scheme = ''oci'', url_Host = [], url_Path = ''/image'', url_String = ''oci:///image''\<rparr>"

definition example_registry :: "int64 \<Rightarrow> registry" where
  "example_registry quota = \<lparr>reg_files = (\<lambda>_. None), reg_quota = quota, reg_source = None, reg_unread = [], reg_buffer = [], reg_out = []\<rparr>"

text \<open>The states that a fetch goes through.\<close>

abbreviation reg_at :: "int64 \<Rightarrow> (string \<Rightarrow> bytes option) \<Rightarrow> bytes \<Rightarrow> registry" where
  "reg_at q f u \<equiv> \<lparr>reg_files = f, reg_quota = q, reg_source = Some (), reg_unread = u, reg_buffer = [], reg_out = []\<rparr>"

abbreviation locals_at :: "bytes \<Rightarrow> int64 \<Rightarrow> blob_locals" where
  "locals_at b q \<equiv> \<lparr>bl_blobIDHash = b, bl_diffIDHash = b, bl_QuotaLeft = q\<rparr>"

definition example_reader :: "registry blob_world reader" where
  "example_reader = TeeReader (QuotaedReader_Read (TeeReader (\<lambda>n. outside (ia_ReadBlob (reg_images 3) () n)) blobIDHash) QuotaLeft
     ''uncompressed layer size exceeds quota'') diffIDHash"

lemma example_reads:
  "example_reader 32768 (reg_at 10 f ''abc'', locals_at [] 10) = (Ret (''abc'', None), (reg_at 10 f [], locals_at ''abc'' 7))"
  "example_reader 32768 (reg_at 10 f [], locals_at ''abc'' 7) = (Ret ([], Some EOF), (reg_at 10 f [], locals_at ''abc'' 7))"
  "example_reader 32768 (reg_at 2 f ''abc'', locals_at [] 2)
     = (Ret (''abc'', Some (ErrorString ''uncompressed layer size exceeds quota'')), (reg_at 2 f [], locals_at ''abc'' (- 1)))"
  by (simp_all add: example_reader_def TeeReader_def QuotaedReader_Read_def zoom_def registry_defs go_simps)

lemma example_copies:
  "copy_to 3 (\<lambda>b. outside (fi_WriteTemp reg_file_api p b)) example_reader 0 (reg_at 10 (f(p := Some [])) ''abc'', locals_at [] 10)
     = (Ret (3, None), (reg_at 10 (f(p := Some ''abc'')) [], locals_at ''abc'' 7))"
  "copy_to 3 (\<lambda>b. outside (fi_WriteTemp reg_file_api p b)) example_reader 0 (reg_at 2 (f(p := Some [])) ''abc'', locals_at [] 2)
     = (Ret (3, Some (ErrorString ''uncompressed layer size exceeds quota'')), (reg_at 2 (f(p := Some ''abc'')) [], locals_at ''abc'' (- 1)))"
proof -
  have out: "outside (fi_WriteTemp reg_file_api p b) (reg_at q (f(p := Some c)) u, l) = (Ret (int (length b), None), (reg_at q (f(p := Some (c @ b))) u, l))" for b c q u l
    by (simp add: zoom_def fst_ref_def reg_file_api_def)
  show "copy_to 3 (\<lambda>b. outside (fi_WriteTemp reg_file_api p b)) example_reader 0 (reg_at 10 (f(p := Some [])) ''abc'', locals_at [] 10)
     = (Ret (3, None), (reg_at 10 (f(p := Some ''abc'')) [], locals_at ''abc'' 7))"
    by (simp add: numeral_3_eq_3 example_reads out)
  show "copy_to 3 (\<lambda>b. outside (fi_WriteTemp reg_file_api p b)) example_reader 0 (reg_at 2 (f(p := Some [])) ''abc'', locals_at [] 2)
     = (Ret (3, Some (ErrorString ''uncompressed layer size exceeds quota'')), (reg_at 2 (f(p := Some ''abc'')) [], locals_at ''abc'' (- 1)))"
    by (simp add: numeral_3_eq_3 example_reads out)
qed

abbreviation example_source :: "(registry, unit) LayerSource" where
  "example_source \<equiv> reg_source_of False example_url"

lemma example_saves:
  "store_blob 3 reg_file_api reg_gzip example_source example_blob (ia_ReadBlob (reg_images 3) ()) 3 p (reg_at 10 (f(p := Some [])) ''abc'', locals_at [] 10)
     = (Ret (Inr (p, 3)), (reg_at 7 (f(p := Some ''abc'')) [], locals_at ''abc'' 7))"
  "\<exists>e. store_blob 3 reg_file_api reg_gzip example_source example_blob (ia_ReadBlob (reg_images 3) ()) 3 p (reg_at 2 (f(p := Some [])) ''abc'', locals_at [] 2)
     = (Ret (Inl e), (reg_at 2 (f(p := Some ''abc'')) [], locals_at ''abc'' (- 1)))"
proof -
  have plain: "\<not> (li_MediaType example_blob = [] \<or> Contains (li_MediaType example_blob) ''gzip'')" by (simp add: Contains_def example_blob_def)
  have enforced: "shouldEnforceImageQuotaValidation example_source" by (simp add: shouldEnforceImageQuotaValidation_def reg_source_of_def)
  have parts: "BlobID example_blob = sha_digest (hex_EncodeToString (sha256 ''abc''))" "DiffID example_blob = hex_EncodeToString (sha256 ''abc'')"
    by (simp_all add: example_blob_def)
  have sum: "checkCheckSum example_source ''abc'' (hex_EncodeToString (sha256 ''abc'')) x = None" for x by (simp add: checkCheckSum_def)
  have reads: "ref_read blobIDHash (w, l) = (Ret (bl_blobIDHash l), (w, l))" "ref_read diffIDHash (w, l) = (Ret (bl_diffIDHash l), (w, l))"
    "outside (ref_modify (ls_remainingImageQuota example_source) g) (reg_at q h u, l) = (Ret (), (reg_at (g q) h u, l))" for w :: registry and l g q h u
    by (simp_all add: go_simps zoom_def reg_source_of_def quota_ref_def)
  note saving = store_blob_def save_blob_def Let_def if_not_P [OF plain] if_P [OF enforced] example_reader_def [symmetric] parts digest_parts(1) [OF encoded_sha]
  show "store_blob 3 reg_file_api reg_gzip example_source example_blob (ia_ReadBlob (reg_images 3) ()) 3 p (reg_at 10 (f(p := Some [])) ''abc'', locals_at [] 10)
     = (Ret (Inr (p, 3)), (reg_at 7 (f(p := Some ''abc'')) [], locals_at ''abc'' 7))"
    unfolding saving
    by (simp add: example_copies sum reads)
  show "\<exists>e. store_blob 3 reg_file_api reg_gzip example_source example_blob (ia_ReadBlob (reg_images 3) ()) 3 p (reg_at 2 (f(p := Some [])) ''abc'', locals_at [] 2)
     = (Ret (Inl e), (reg_at 2 (f(p := Some ''abc'')) [], locals_at ''abc'' (- 1)))"
    unfolding saving by (simp add: example_copies)
qed

lemma example_opens:
  "getImageSource (reg_images 3) example_source (example_registry q) = (Ret (Inr ()), reg_at q (\<lambda>_. None) [])"
  "getBlobWithRetries (reg_images 3) () info w = (Ret (Inr ((), 3)), w\<lparr>reg_unread := ''abc''\<rparr>)"
  "validateLayerSize example_source example_blob 3 = None"
  by (simp_all add: getImageSource_def createImageSource_def getBlobWithRetries_def MAX_DOCKER_RETRIES_def numeral_3_eq_3 validateLayerSize_def example_blob_def
      registry_defs go_simps example_registry_def)

lemma example_temp:
  "fi_CreateTemp reg_file_api p (reg_at q (\<lambda>_. None) u) = (Ret (Inr p), reg_at q ((\<lambda>_. None)(p := Some [])) u)"
  "fi_CloseTemp reg_file_api p w = (Ret None, w)" "ia_CloseBlob (reg_images 3) () w = (Ret None, w)"
  "ref_read (ls_remainingImageQuota example_source) (reg_at q f u) = (Ret q, reg_at q f u)"
  by (simp_all add: registry_defs go_simps)

lemma example_fetched:
  "\<exists>f. LayerSource_Blob 3 reg_file_api (reg_images 3) reg_gzip example_source example_blob (example_registry 10)
     = (Ret (Inr (f, 3)), reg_at 7 ((\<lambda>_. None)(f := Some ''abc'')) [])"
  by (simp add: LayerSource_Blob_def example_opens temp_blob_def example_temp go_defer_def go_defer_seeing_def with_locals_def example_saves)

theorem StreamBlob_verified_witness:
  "\<exists>f w'. LayerFetcher_StreamBlob 3 reg_file_api (reg_images 3) reg_gzip example_source example_blob (example_registry 10) = (Ret (Inr (BlobReader f f, 3)), w')
     \<and> (\<exists>c. reg_files w' f = Some c \<and> hex_EncodeToString (sha256 c) = DiffID example_blob) \<and> 0 \<le> sint (reg_quota w')"
proof -
  obtain f w' where run: "LayerFetcher_StreamBlob 3 reg_file_api (reg_images 3) reg_gzip example_source example_blob (example_registry 10) = (Ret (Inr (BlobReader f f, 3)), w')"
    using example_fetched by (auto simp: LayerFetcher_StreamBlob_def NewBlobReader_def go_simps reg_file_api_def)
  have "\<not> ls_skipOCILayerValidation example_source" by (simp add: reg_source_of_def)
  from StreamBlob_verified [OF registry.blob_store_axioms this run] run show ?thesis
    by (auto simp: reg_source_of_def quota_ref_def)
qed

text \<open>Three bytes, of which the quota allows two.\<close>

theorem Blob_failure_cleans_witness:
  "\<exists>e w'. LayerFetcher_StreamBlob 3 reg_file_api (reg_images 3) reg_gzip example_source example_blob (example_registry 2) = (Ret (Inl e), w')
     \<and> reg_files w' = (\<lambda>_. None)"
proof -
  obtain e w' where blob: "LayerSource_Blob 3 reg_file_api (reg_images 3) reg_gzip example_source example_blob (example_registry 2) = (Ret (Inl e), w')"
    using example_saves(2) [of "''blob-'' @ map (\<lambda>c. if c = CHR '':'' then CHR ''-'' else c) (BlobID example_blob)" "\<lambda>_. None"]
    by (auto simp: LayerSource_Blob_def example_opens temp_blob_def example_temp go_defer_def go_defer_seeing_def with_locals_def reg_file_api_def go_bind_def split: prod.splits go.splits)
  then have run: "LayerFetcher_StreamBlob 3 reg_file_api (reg_images 3) reg_gzip example_source example_blob (example_registry 2) = (Ret (Inl e), w')"
    by (simp add: LayerFetcher_StreamBlob_def)
  have "\<not> (\<exists>f u u' x. fi_Remove reg_file_api f u = (Ret (Some x), u'))" by (simp add: reg_file_api_def)
  with Blob_failure_cleans [OF registry.blob_store_axioms run] blob run show ?thesis by (auto simp: example_registry_def)
qed

text \<open>
  The blob has three bytes, which stand for six when it is compressed. The second image has a manifest of schema 1, for which the diff ID of its layer is
  computed from the uncompressed blob.
\<close>

definition example_layer :: BlobInfo where
  "example_layer = \<lparr>bi_Digest = ''sha256:x'', bi_Size = - 1, bi_URLs = [], bi_MediaType = []\<rparr>"

definition schema1_images :: "(registry, unit, unit, unit) image_api" where
  "schema1_images = (reg_images 3)\<lparr>ia_Manifest := (\<lambda>img. go_ret (Inr (hd schema1_types))), ia_LayerInfos := (\<lambda>img. [example_layer])\<rparr>"

lemma registry_ends:
  assumes "A \<in> {reg_images 3, schema1_images}"
  shows "images_end A (\<lambda>w. length (reg_unread w)) 4" and "gzip_ends reg_file_api A reg_gzip (\<lambda>w. length (reg_unread w)) 4 10"
    and "files_end reg_file_api (\<lambda>w. length (reg_unread w))"
proof -
  let ?left = "\<lambda>w. length (reg_unread w)"
  have A: "ia_ReadBlob A = ia_ReadBlob (reg_images 3)" using assms by (auto simp: schema1_images_def)
  have "ending_reader ?left (ia_ReadBlob A b)" for b
    unfolding A by (rule ending_readerI) (auto simp: eats_def stops_def within_def fewer_def reg_images_def)
  then show "images_end A ?left 4"
    using assms unfolding images_end_def by (auto simp: schema1_images_def reg_images_def stops_def within_def)
  let ?h = "\<lambda>w. 3 * length (reg_unread w) + length (reg_buffer w)"
  show "gzip_ends reg_file_api A reg_gzip ?left 4 10"
    unfolding gzip_ends_def
  proof (intro allI impI conjI)
    fix b r
    assume "blob_stream A b r"
    then have r: "blob_stream (reg_images 3) b r" by (simp add: blob_stream_def A)
    have one: "r 1 v = (Ret (c, e), v1) \<Longrightarrow> reg_buffer (fst v1) = reg_buffer (fst v) \<and> ?left (fst v1) \<le> ?left (fst v)
        \<and> (e = None \<longrightarrow> ?left (fst v1) < ?left (fst v)) \<and> length c \<le> 1 \<and> bl_QuotaLeft (snd v1) = bl_QuotaLeft (snd v)"
      and returns: "\<exists>x v1. r 1 v = (Ret x, v1)" for v c e v1
      using r by (auto simp: blob_stream_def Let_def TeeReader_def zoom_def fst_ref_def reg_images_def go_simps split: if_splits)
    show "ends (reg_gzip r)" by (auto simp: reg_gzip_def stops_def within_def go_simps)
    fix v z v'
    assume "?left (fst v) < 4" and "reg_gzip r v = (Ret (Inr z), v')"
    then have z: "rc_Read z = reg_inflate r" "rc_Close z = go_ret None" and bound: "?h (fst v') < 10"
      by (auto simp: reg_gzip_def go_simps)
    show "ends (rc_Close z)" by (simp add: z stops_ret)
    have step: "?h (fst v') \<le> ?h (fst v) \<and> (e = None \<and> 0 < n \<longrightarrow> ?h (fst v') < ?h (fst v)) \<and> bl_QuotaLeft (snd v') = bl_QuotaLeft (snd v)"
      if run: "reg_inflate r n v = (Ret (b, e), v')" for n v b e v'
    proof (cases "reg_buffer (fst v) = []")
      case False
      with inflate_read [OF run] show ?thesis by (cases "reg_buffer (fst v)") auto
    next
      case True
      then obtain c v1 where c: "r 1 v = (Ret (c, e), v1)" and v': "if e \<noteq> None then v' = v1
          else v' = (fst v1\<lparr>reg_buffer := drop n (concat (map (\<lambda>x. [x, x]) c))\<rparr>, snd v1)"
        using inflate_read [OF run] by (auto simp: Let_def split: if_splits)
      from one [OF c] have "length (concat (map (\<lambda>x. [x, x]) c)) \<le> 2" by (cases c) auto
      with one [OF c] v' True show ?thesis by (cases e) auto
    qed
    have reader: "ending_reader (?h \<circ> fst) (reg_inflate r)"
    proof (rule ending_readerI)
      show st: "stops (fewer (?h \<circ> fst)) (reg_inflate r n)" for n
      proof (rule stopsI)
        fix v x v'
        assume "reg_inflate r n v = (x, v')"
        with returns [of v] inflate_returns [of r v _ _ n] step [of n v] show "x \<noteq> Diverged \<and> fewer (?h \<circ> fst) v v'" by (auto simp: fewer_def)
      qed
      show "eats (?h \<circ> fst) (reg_inflate r n)" if "0 < n" for n
        unfolding eats_def using st [of n] step [of n] that by fastforce
    qed (rule inflate_length)
    have "within (same (bl_QuotaLeft \<circ> snd)) (reg_inflate r n)" for n
    proof (rule withinI)
      fix v x v'
      assume "reg_inflate r n v = (x, v')"
      with returns [of v] inflate_returns [of r v _ _ n] step [of n v] show "same (bl_QuotaLeft \<circ> snd) v v'" by (auto simp: same_def)
    qed
    with reader have "blob_reader ?h (rc_Read z)" by (simp add: blob_reader_def z)
    moreover have "stops (fewer ?h) (fi_WriteTemp reg_file_api f c)" for f c
      by (auto simp: reg_file_api_def stops_def within_def fewer_def split: option.split)
    ultimately show "\<exists>h. blob_reader h (rc_Read z) \<and> (\<forall>f c. stops (fewer h) (fi_WriteTemp reg_file_api f c)) \<and> h (fst v') < 10"
      using bound by (intro exI [of _ ?h]) simp
  qed
  show "files_end reg_file_api ?left"
    by (auto simp: files_end_def reg_file_api_def stops_def within_def fewer_def split: option.split)
qed

lemma example_inflates: "\<exists>w'. v1DiffID 10 (\<lambda>_. 512) schema1_images reg_gzip example_layer () (example_registry 10)
     = (Ret (Inr (''sha256:'' @ hex_EncodeToString (sha256 ''aabbcc''))), w')"
  by (simp add: v1DiffID_def getBlobWithRetries_def MAX_DOCKER_RETRIES_def numeral_3_eq_3 schema1_images_def reg_images_def example_registry_def go_simps with_locals_def
      reg_gzip_def reg_inflate_def reg_deliver_def zoom_def eval_nat_numeral)

theorem LayerFetcher_returns_witness:
  "fst (ft_ImageInfo (LayerFetcher 10 (\<lambda>_. 512) reg_file_api schema1_images reg_gzip example_source) (example_registry 10)) \<noteq> Diverged
   \<and> fst (ft_StreamBlob (LayerFetcher 10 (\<lambda>_. 512) reg_file_api (reg_images 3) reg_gzip example_source) (example_blob\<lparr>li_MediaType := []\<rparr>) (example_registry 2)) \<noteq> Diverged
   \<and> (\<exists>w'. v1DiffID 10 (\<lambda>_. 512) schema1_images reg_gzip example_layer () (example_registry 10)
     = (Ret (Inr (''sha256:'' @ hex_EncodeToString (sha256 ''aabbcc''))), w'))"
  using LayerFetcher_returns [OF registry_ends [of schema1_images], of "\<lambda>_. 512" 10 example_source "example_registry 10" example_blob]
    LayerFetcher_returns [OF registry_ends [of "reg_images 3"], of "\<lambda>_. 512" 10 example_source "example_registry 2" "example_blob\<lparr>li_MediaType := []\<rparr>"]
    example_inflates
  by simp

section \<open>Command lines\<close>

definition out_ref :: "(registry, string) ref" where
  "out_ref = \<lparr>ref_get = reg_out, ref_put = (\<lambda>s w. w\<lparr>reg_out := s\<rparr>)\<rparr>"

definition no_reader :: "(registry, string fetched option) ref" where
  "no_reader = \<lparr>ref_get = (\<lambda>w. None), ref_put = (\<lambda>s w. w)\<rparr>"

definition reg_runtime :: "(registry, string, unit, unit, unit) runtime" where
  "reg_runtime =
     \<lparr>rt_os = \<lparr>os_ReadFile = (\<lambda>p w. (Ret (case reg_files w p of None \<Rightarrow> Inl (NotExist p) | Some b \<Rightarrow> Inr b), w)),
               os_WriteFile = (\<lambda>p b m w. (Ret None, w\<lparr>reg_files := (reg_files w)(p := Some b)\<rparr>)), os_MkdirAll = (\<lambda>p m. go_ret None)\<rparr>,
      rt_files = reg_file_api, rt_images = reg_images 3, rt_gzip = reg_gzip, rt_yaml = (\<lambda>b. Inl (ErrorString ''yaml'')),
      rt_url_Parse = (\<lambda>s. Inr example_url), rt_spec_json = (\<lambda>s. []), rt_json_msg = (\<lambda>e. []), rt_stdout = out_ref, rt_reader = no_reader,
      rt_imageSource = source_ref, rt_remainingImageQuota = quota_ref, rt_avail = (\<lambda>n. 512), rt_fetch_fuel = 3, rt_unpack_fuel = 3\<rparr>"

theorem Run_usage_witness:
  "\<forall>d. Run reg_runtime d \<lparr>inv_driverStore = [], inv_config = [], inv_command = CreateCommand, inv_context = \<lparr>ctx_flags = [], ctx_Args = [''image'']\<rparr>\<rparr> (example_registry 0)
     = (Ret 1, (example_registry 0)\<lparr>reg_out := ''Incorrect number of args. Expect 2, got 1'' @ [CHR 0x0A]\<rparr>)"
proof
  fix d
  have "dec 2 = ''2''" "dec 1 = ''1''" by code_simp+
  then show "Run reg_runtime d \<lparr>inv_driverStore = [], inv_config = [], inv_command = CreateCommand, inv_context = \<lparr>ctx_flags = [], ctx_Args = [''image'']\<rparr>\<rparr> (example_registry 0)
     = (Ret 1, (example_registry 0)\<lparr>reg_out := ''Incorrect number of args. Expect 2, got 1'' @ [CHR 0x0A]\<rparr>)"
    by (subst Run_usage) (simp_all add: reg_runtime_def out_ref_def example_registry_def)
qed

theorem Run_config_silent_witness:
  "\<forall>d. Run reg_runtime d \<lparr>inv_driverStore = [], inv_config = ''missing.yml'', inv_command = DeleteCommand, inv_context = \<lparr>ctx_flags = [], ctx_Args = [''b1'']\<rparr>\<rparr> (example_registry 0)
     = (Ret 1, example_registry 0)"
  by (intro allI Run_config_silent [where r = "Inl (NotExist ''missing.yml'')"]) (simp_all add: reg_runtime_def example_registry_def)

end
