(* ===== verification/Go_Utf.thy ===== *)
theory Go_Utf
  imports Go_Encoding
begin

text \<open>
  Strings made from UTF-16 code units: \<^verbatim>\<open>utf16.Decode\<close> and the conversion of runes to a string, the inverse of what
  Go\_Encoding has. A string that is the UTF-8 form of scalar values survives the way to UTF-16 and back.
\<close>

section \<open>Runes and their UTF-8 form\<close>

definition scalar :: "nat \<Rightarrow> bool" where
  "scalar r \<longleftrightarrow> r < 0xD800 \<or> 0xE000 \<le> r \<and> r \<le> 0x10FFFF"

text \<open>\<^verbatim>\<open>string(runes)\<close>: a rune that is no scalar value is written as the replacement rune.\<close>

definition utf8_rune :: "nat \<Rightarrow> nat list" where
  "utf8_rune r =
     (let r = (if scalar r then r else rune_error) in
      if r < 0x80 then [r]
      else if r < 0x800 then [0xC0 + r div 64, 0x80 + r mod 64]
      else if r < 0x10000 then [0xE0 + r div 4096, 0x80 + r div 64 mod 64, 0x80 + r mod 64]
      else [0xF0 + r div 262144, 0x80 + r div 4096 mod 64, 0x80 + r div 64 mod 64, 0x80 + r mod 64])"

definition string_of_runes :: "nat list \<Rightarrow> string" where
  "string_of_runes rs = map char_of (concat (map utf8_rune rs))"

section \<open>From UTF-16 to runes\<close>

fun utf16_Decode :: "nat list \<Rightarrow> nat list" where
  "utf16_Decode [] = []"
| "utf16_Decode [u] = [if 0xD800 \<le> u \<and> u < 0xE000 then rune_error else u]"
| "utf16_Decode (u # v # us) =
     (if u < 0xD800 \<or> 0xE000 \<le> u then u # utf16_Decode (v # us)
      else if u < 0xDC00 \<and> 0xDC00 \<le> v \<and> v < 0xE000
      then ((u - 0xD800) * 1024 + (v - 0xDC00) + 0x10000) # utf16_Decode us
      else rune_error # utf16_Decode (v # us))"

section \<open>Round trips\<close>

lemma utf16_Decode_single: "u < 0xD800 \<or> 0xE000 \<le> u \<Longrightarrow> utf16_Decode (u # us) = u # utf16_Decode us"
  by (cases us) auto

lemma utf16_Decode_units: "scalar r \<Longrightarrow> utf16_Decode (utf16_units r @ us) = r # utf16_Decode us"
proof (cases "r < 0x10000")
  case True
  moreover assume "scalar r"
  ultimately show ?thesis by (auto simp: utf16_units_def scalar_def utf16_Decode_single)
next
  case False
  moreover assume "scalar r"
  ultimately have r: "0x10000 \<le> r" "r \<le> 0x10FFFF" by (auto simp: scalar_def)
  then have "(r - 0x10000) div 1024 < 0x400" by (intro div_less_iff_less_mult [THEN iffD2]) auto
  with r show ?thesis by (simp add: utf16_units_def)
qed

lemma utf16_roundtrip: "list_all scalar rs \<Longrightarrow> utf16_Decode (concat (map utf16_units rs)) = rs"
  by (induction rs) (simp_all add: utf16_Decode_units)

text \<open>The digits of a rune to the base 64, as UTF-8 has them.\<close>

lemma rune_digits:
  fixes r :: nat
  shows "r div 64 = r div 4096 * 64 + r div 64 mod 64" and "r div 4096 = r div 262144 * 64 + r div 4096 mod 64"
    and "r = r div 64 * 64 + r mod 64" and "r mod 64 < 64" and "r div 64 mod 64 < 64" and "r div 4096 mod 64 < 64"
  using div_mult_mod_eq [of "r div 64" 64] div_mult_mod_eq [of "r div 4096" 64] div_mult2_eq [of r 64 64] div_mult2_eq [of r 4096 64]
  by simp_all

lemma utf8_rune_byte: "b \<in> set (utf8_rune r) \<Longrightarrow> b < 256"
proof -
  assume b: "b \<in> set (utf8_rune r)"
  define q where "q = (if scalar r then r else rune_error)"
  have "q \<le> 0x10FFFF" by (auto simp: q_def scalar_def rune_error_def)
  then have "q div 262144 < 5" by (intro div_less_iff_less_mult [THEN iffD2]) auto
  moreover have "k mod 64 < 64" for k :: nat by simp
  ultimately show "b < 256"
    using b [unfolded utf8_rune_def, folded q_def] rune_digits(2) [of q] less_imp_le
    by (fastforce simp: Let_def split: if_splits dest: add_strict_left_mono)
qed

lemma decode_utf8_rune: "scalar r \<Longrightarrow> decode_rune (utf8_rune r @ bs) = (r, length (utf8_rune r))"
proof -
  assume s: "scalar r"
  define a b c d where "a = r div 262144" and "b = r div 4096 mod 64" and "c = r div 64 mod 64" and "d = r mod 64"
  have r: "r = a * 262144 + b * 4096 + c * 64 + d" "r div 4096 = a * 64 + b" "r div 64 = a * 4096 + b * 64 + c" "b < 64" "c < 64" "d < 64"
    unfolding a_def b_def c_def d_def using rune_digits [of r] by linarith+
  consider "r < 0x80" | "0x80 \<le> r" "r < 0x800" | "0x800 \<le> r" "r < 0x10000" | "0x10000 \<le> r" by linarith
  then show ?thesis
  proof cases
    case 1
    with s show ?thesis by (simp add: utf8_rune_def decode_rune_def)
  next
    case 2
    with r have z: "a = 0" "b = 0" by linarith+
    have "2 \<le> c" "c < 32" "c * 64 + d = r" using 2 r z by linarith+
    moreover have "utf8_rune r = [0xC0 + c, 0x80 + d]" using 2 s z r(3) by (simp add: utf8_rune_def d_def)
    ultimately show ?thesis using r(6) by (simp add: decode_rune_def cont_byte_def)
  next
    case 3
    with r have z: "a = 0" by linarith
    have "b < 16" "b = 0 \<Longrightarrow> 32 \<le> c" "b * 4096 + c * 64 + d = r" using z 3 r by linarith+
    moreover have "b = 13 \<Longrightarrow> c < 32" using s r(1,5,6) z unfolding scalar_def by (elim disjE) linarith+
    moreover have "utf8_rune r = [0xE0 + b, 0x80 + c, 0x80 + d]" using 3 s z r(2) by (simp add: utf8_rune_def c_def d_def)
    ultimately show ?thesis using r(4-6) by (auto simp: decode_rune_def cont_byte_def)
  next
    case 4
    have "r \<le> 0x10FFFF" using s 4 by (auto simp: scalar_def)
    then have "a < 5" "a = 0 \<Longrightarrow> 16 \<le> b" "a = 4 \<Longrightarrow> b < 16" using r 4 by linarith+
    moreover have "utf8_rune r = [0xF0 + a, 0x80 + b, 0x80 + c, 0x80 + d]" using 4 s by (simp add: utf8_rune_def a_def b_def c_def d_def)
    ultimately show ?thesis using r(1) [symmetric] r(4-6) by (auto simp: decode_rune_def cont_byte_def)
  qed
qed

lemma runes_utf8: "list_all scalar rs \<Longrightarrow> runes (concat (map utf8_rune rs) @ bs) = rs @ runes bs"
proof (induction rs)
  case (Cons r rs)
  have "utf8_rune r \<noteq> []" by (simp add: utf8_rune_def Let_def)
  with Cons show ?case
    by (subst runes.simps) (simp add: decode_utf8_rune)
qed simp

lemma runes_of_string: "list_all scalar rs \<Longrightarrow> runes (map of_char (string_of_runes rs)) = rs"
proof -
  assume "list_all scalar rs"
  then have "runes (concat (map utf8_rune rs) @ []) = rs @ runes []" by (rule runes_utf8)
  moreover have "map of_char (string_of_runes rs) = concat (map utf8_rune rs)"
    unfolding string_of_runes_def map_map by (rule map_idI) (auto dest: utf8_rune_byte)
  ultimately show ?thesis by (simp add: runes.simps [of "[]"])
qed

lemma string_of_runes_append: "string_of_runes (rs @ ss) = string_of_runes rs @ string_of_runes ss"
  by (simp add: string_of_runes_def)

text \<open>A string in UTF-8, encoded in UTF-16 and decoded.\<close>

lemma utf16_Encode_string: "list_all scalar rs \<Longrightarrow> utf16_Encode (string_of_runes rs) = concat (map utf16_units rs)"
  by (simp add: utf16_Encode_def runes_of_string)

end
