(* ===== verification/Winio_Decode.thy ===== *)
theory Winio_Decode
  imports Backuptar Go_Utf Go_Sha256
begin

text \<open>
  Reading back what unpacking writes: the decoders of go-winio for extended attributes (ea.go) and reparse points (reparse.go).
  Decoding the buffers that \<^const>\<open>EncodeExtendedAttributes\<close> and \<^const>\<open>EncodeReparsePoint\<close> build gives back the attributes and the target
  of the link, so these buffers mean what the tar header says; and decoding attributes is safe for every buffer.
\<close>

section \<open>Slices\<close>

text \<open>\<^verbatim>\<open>b[i:j]\<close>, for a buffer whose capacity is its length.\<close>

definition go_slice :: "bytes \<Rightarrow> nat \<Rightarrow> nat \<Rightarrow> ('w, bytes) io" where
  "go_slice b i j = (if i \<le> j \<and> j \<le> length b then go_ret (take (j - i) (drop i b)) else go_panic SliceBounds)"

lemma go_slice_parts: "length p = i \<Longrightarrow> length q = n \<Longrightarrow> go_slice (p @ q @ r) i (i + n) w = (Ret q, w)"
  by (simp add: go_slice_def)

section \<open>Extended attributes\<close>

definition errInvalidEaBuffer :: go_error where
  "errInvalidEaBuffer = ErrorString ''invalid extended attribute buffer''"

text \<open>
  The head of an entry: the offset of the next entry, flags, the lengths of name and value, little-endian; \<^verbatim>\<open>binary.Read\<close> fails on a
  buffer that is too short.
\<close>

definition read_ea_info :: "bytes \<Rightarrow> (nat \<times> nat \<times> nat \<times> nat) option" where
  "read_ea_info b =
     (if length b < 8 then None
      else Some (le_value (take 4 b), le_value (take 1 (drop 4 b)), le_value (take 1 (drop 5 b)), le_value (take 2 (drop 6 b))))"

definition parseEa :: "bytes \<Rightarrow> ('w, (ExtendedAttribute \<times> bytes) res) io" where
  "parseEa b =
     (case read_ea_info b of
        None \<Rightarrow> go_ret (Inl errInvalidEaBuffer)
      | Some (nextEntryOffset, flags, nameLen, valueLen) \<Rightarrow>
          let nameOffset = 8;
              valueOffset = nameOffset + nameLen + 1 in
          if valueLen + valueOffset > length b \<or> nextEntryOffset > length b then go_ret (Inl errInvalidEaBuffer)
          else
            go_bind (go_slice b nameOffset (nameOffset + nameLen)) (\<lambda>name.
            go_bind (go_slice b valueOffset (valueOffset + valueLen)) (\<lambda>val.
            go_bind (if nextEntryOffset \<noteq> 0 then go_slice b nextEntryOffset (length b) else go_ret []) (\<lambda>nb.
            go_ret (Inr (\<lparr>ea_Name = name, ea_Value = val, ea_Flags = flags\<rparr>, nb))))))"

text \<open>The loop of DecodeExtendedAttributes. Every turn consumes a byte at least, so one turn more than there are bytes is enough.\<close>

fun decode_loop :: "nat \<Rightarrow> bytes \<Rightarrow> ExtendedAttribute list \<Rightarrow> ('w, ExtendedAttribute list res) io" where
  "decode_loop 0 b eas = go_diverge"
| "decode_loop (Suc fuel) b eas =
     (if length b = 0 then go_ret (Inr eas)
      else go_try (parseEa b) (\<lambda>e. go_ret (Inl e)) (\<lambda>(ea, nb). decode_loop fuel nb (eas @ [ea])))"

definition DecodeExtendedAttributes :: "bytes \<Rightarrow> ('w, ExtendedAttribute list res) io" where
  "DecodeExtendedAttributes b = decode_loop (Suc (length b)) b []"

subsection \<open>Every buffer is decoded or refused\<close>

lemma parseEa_returns: "\<exists>r. parseEa b w = (Ret r, w) \<and> (\<forall>ea nb. r = Inr (ea, nb) \<longrightarrow> length nb < length b)"
  by (auto simp: parseEa_def read_ea_info_def Let_def go_slice_def)

lemma decode_loop_returns: "length b < fuel \<Longrightarrow> \<exists>r. decode_loop fuel b eas w = (Ret r, w)"
proof (induction fuel arbitrary: b eas)
  case (Suc fuel)
  obtain r where r: "parseEa b w = (Ret r, w)" "\<forall>ea nb. r = Inr (ea, nb) \<longrightarrow> length nb < length b"
    using parseEa_returns [of b w] by blast
  show ?case
  proof (cases r)
    case (Inl e)
    with r show ?thesis by simp
  next
    case (Inr x)
    with r Suc show ?thesis by (cases x) auto
  qed
qed simp

subsection \<open>Decoding what was encoded\<close>

lemma read_ea_info_head:
  assumes "a < 2 ^ 32" and "f < 256" and "n < 256" and "v < 2 ^ 16"
  shows "read_ea_info (le_bytes 4 a @ le_bytes 1 f @ le_bytes 1 n @ le_bytes 2 v @ r) = Some (a, f, n, v)"
  using assms le_value_bytes [of a 4] le_value_bytes [of f 1] le_value_bytes [of n 1] le_value_bytes [of v 2]
  by (simp add: read_ea_info_def)

lemma parseEa_writeEa:
  assumes "writeEa ea last_ea = Inr b" and "ea_Flags ea < 256" and "last_ea \<Longrightarrow> bs = []"
  shows "parseEa (b @ bs) w = (Ret (Inr (ea, bs)), w)"
proof -
  let ?name = "ea_Name ea" and ?val = "ea_Value ea"
  define n v m where "n = length ?name" and "v = length ?val" and "m = (8 + n + 1 + v + 3) div 4 * 4"
  define head where "head = le_bytes 4 (if last_ea then 0 else m) @ le_bytes 1 (ea_Flags ea) @ le_bytes 1 n @ le_bytes 2 v"
  define pad where "pad = replicate (m - (8 + n + 1 + v)) (CHR 0x00)"
  have nv: "n < 256" "v < 2 ^ 16" and b: "b = head @ ?name @ [CHR 0x00] @ ?val @ pad"
    using assms(1) by (auto simp: writeEa_def Let_def n_def v_def m_def head_def pad_def split: if_splits)
  have m: "8 + n + 1 + v \<le> m" "m < 8 + n + 1 + v + 4" unfolding m_def by linarith+
  have head: "length head = 8" by (simp add: head_def)
  have info: "read_ea_info (b @ bs) = Some (if last_ea then 0 else m, ea_Flags ea, n, v)"
    using read_ea_info_head [of "if last_ea then 0 else m" "ea_Flags ea" n v] nv m assms(2) by (simp add: b head_def)
  have len: "length b = m" using m by (simp add: b head pad_def flip: n_def v_def)
  have name: "go_slice (b @ bs) 8 (8 + n) w = (Ret ?name, w)"
    using go_slice_parts [of head 8 ?name n] by (simp add: b head n_def)
  have val: "go_slice (b @ bs) (8 + n + 1) (8 + n + 1 + v) w = (Ret ?val, w)"
    using go_slice_parts [of "head @ ?name @ [CHR 0x00]" "8 + n + 1" ?val v] by (simp add: b head n_def v_def)
  have nb: "go_slice (b @ bs) m (length (b @ bs)) w = (Ret bs, w)" by (simp add: go_slice_def len)
  show ?thesis
    using name val nb m len assms(3) unfolding parseEa_def info by (auto simp: Let_def)
qed

lemma decode_loop_encoded:
  assumes "EncodeExtendedAttributes eas = Inr b" and "\<forall>ea \<in> set eas. ea_Flags ea < 256" and "length b < fuel"
  shows "decode_loop fuel b acc w = (Ret (Inr (acc @ eas)), w)"
  using assms
proof (induction eas arbitrary: b acc fuel)
  case Nil
  then show ?case by (cases fuel) simp_all
next
  case (Cons ea eas)
  from Cons.prems(1) obtain c bs where c: "writeEa ea (eas = []) = Inr c" and bs: "EncodeExtendedAttributes eas = Inr bs" and b: "b = c @ bs"
    by (auto split: sum.splits)
  have p: "parseEa b w = (Ret (Inr (ea, bs)), w)"
    unfolding b using Cons.prems(2) bs by (intro parseEa_writeEa [OF c]) auto
  have l: "length bs < length b" using parseEa_returns [of b w] p by auto
  obtain f where f: "fuel = Suc f" using Cons.prems(3) by (cases fuel) auto
  have "decode_loop f bs (acc @ [ea]) w = (Ret (Inr ((acc @ [ea]) @ eas)), w)"
    by (rule Cons.IH [OF bs]) (use Cons.prems l f in auto)
  with p l show ?case by (auto simp: f)
qed

text \<open>
  C34: decoding extended attributes ends for every buffer, however malformed, with a list or an error (no offset or length in the
  buffer makes it read outside or run forever), and a buffer that was encoded for the backup stream decodes to the attributes it
  was built from, with their names, values and flags, in order.
\<close>

theorem ExtendedAttributes_roundtrip:
  "\<exists>r. DecodeExtendedAttributes b w = (Ret r, w)
     \<and> (\<forall>eas. EncodeExtendedAttributes eas = Inr b \<and> (\<forall>ea \<in> set eas. ea_Flags ea < 256) \<longrightarrow> r = Inr eas)"
proof -
  obtain r where r: "DecodeExtendedAttributes b w = (Ret r, w)"
    unfolding DecodeExtendedAttributes_def using decode_loop_returns [OF lessI, of b "[]" w] by blast
  moreover have "r = Inr eas" if "EncodeExtendedAttributes eas = Inr b" "\<forall>ea \<in> set eas. ea_Flags ea < 256" for eas
    using decode_loop_encoded [OF that lessI, of "[]" w] r by (simp add: DecodeExtendedAttributes_def del: decode_loop.simps)
  ultimately show ?thesis by blast
qed

theorem ExtendedAttributes_roundtrip_witness:
  "\<exists>b. EncodeExtendedAttributes [\<lparr>ea_Name = ''A'', ea_Value = ''xy'', ea_Flags = 0\<rparr>, \<lparr>ea_Name = ''B'', ea_Value = [], ea_Flags = 128\<rparr>] = Inr b
     \<and> length b = 24
     \<and> DecodeExtendedAttributes b () = (Ret (Inr [\<lparr>ea_Name = ''A'', ea_Value = ''xy'', ea_Flags = 0\<rparr>, \<lparr>ea_Name = ''B'', ea_Value = [], ea_Flags = 128\<rparr>]), ())"
proof -
  let ?eas = "[\<lparr>ea_Name = ''A'', ea_Value = ''xy'', ea_Flags = 0\<rparr>, \<lparr>ea_Name = ''B'', ea_Value = [], ea_Flags = 128\<rparr>]"
  obtain b where b: "EncodeExtendedAttributes ?eas = Inr b" "length b = 24" by (simp add: writeEa_def)
  moreover have "\<forall>ea \<in> set ?eas. ea_Flags ea < 256" by simp
  ultimately have "DecodeExtendedAttributes b () = (Ret (Inr ?eas), ())"
    using ExtendedAttributes_roundtrip [of b "()"] by blast
  with b show ?thesis by blast
qed

section \<open>Reparse points\<close>

text \<open>
  \<^verbatim>\<open>DecodeReparsePointData\<close> reads the print name. Offsets and lengths are 16-bit numbers, whose sums wrap around; the buffer is
  sliced before it is read, so the read of the units cannot fail. The error for a tag that is neither a link nor a mount point is
  \<^verbatim>\<open>UnsupportedReparsePointError\<close>, of which the text is kept.
\<close>

fun read_units :: "bytes \<Rightarrow> nat list" where
  "read_units (x # y # b) = le_value [x, y] # read_units b"
| "read_units b = []"

definition reparseTagMountPoint :: nat where
  "reparseTagMountPoint = 0xA0000003"

definition reparseTagSymlink :: nat where
  "reparseTagSymlink = 0xA000000C"

record ReparsePoint =
  rp_Target :: string
  rp_IsMountPoint :: bool

definition DecodeReparsePointData :: "nat \<Rightarrow> bytes \<Rightarrow> ('w, ReparsePoint res) io" where
  "DecodeReparsePointData tag b =
     (if tag \<noteq> reparseTagMountPoint \<and> tag \<noteq> reparseTagSymlink
      then go_ret (Inl (ErrorString (''unsupported reparse point '' @ hex tag)))
      else
        let isMountPoint = (tag = reparseTagMountPoint) in
        go_bind (go_slice b 4 6) (\<lambda>off.
        let nameOffset = (8 + le_value off) mod 2 ^ 16;
            nameOffset = (if isMountPoint then nameOffset else (nameOffset + 4) mod 2 ^ 16) in
        go_bind (go_slice b 6 8) (\<lambda>len.
        let nameLength = le_value len in
        go_bind (go_slice b nameOffset ((nameOffset + nameLength) mod 2 ^ 16)) (\<lambda>data.
        let name = take (nameLength div 2) (read_units data) in
        go_ret (Inr \<lparr>rp_Target = string_of_runes (utf16_Decode name), rp_IsMountPoint = isMountPoint\<rparr>)))))"

definition DecodeReparsePoint :: "bytes \<Rightarrow> ('w, ReparsePoint res) io" where
  "DecodeReparsePoint b =
     go_bind (go_slice b 0 4) (\<lambda>tag.
     go_bind (go_slice b 8 (length b)) (\<lambda>data.
     DecodeReparsePointData (le_value tag) data))"

lemma utf16_unit_bound: "u \<in> set (utf16_units r) \<Longrightarrow> u < 2 ^ 16"
proof -
  assume "u \<in> set (utf16_units r)"
  moreover have "0x10000 \<le> r \<Longrightarrow> r \<le> 0x10FFFF \<Longrightarrow> (r - 0x10000) div 1024 < 0x400"
    by (intro div_less_iff_less_mult [THEN iffD2]) auto
  moreover have "(r - 0x10000) mod 1024 < 0x400" by simp
  ultimately show ?thesis by (fastforce simp: utf16_units_def rune_error_def split: if_splits)
qed

lemma read_units_bytes: "\<forall>u \<in> set us. u < 2 ^ 16 \<Longrightarrow> read_units (utf16_bytes us) = us"
proof (induction us)
  case (Cons u us)
  obtain x y where xy: "le_bytes 2 u = [x, y]" by (auto simp: numeral_2_eq_2)
  have "le_value (le_bytes 2 u) = u" using Cons.prems by (intro le_value_bytes) simp
  with Cons show ?case by (simp add: utf16_bytes_def xy del: le_value.simps)
qed (simp add: utf16_bytes_def)

text \<open>The units of a target in UTF-8, with their NUL.\<close>

lemma target_units:
  assumes "list_all scalar rs"
  shows "utf16_Encode (string_of_runes rs @ [CHR 0x00]) = concat (map utf16_units rs) @ [0]"
proof -
  have "string_of_runes rs @ [CHR 0x00] = string_of_runes (rs @ [0])"
    by (simp add: string_of_runes_append) (simp add: string_of_runes_def utf8_rune_def scalar_def char_of_def bit_iff_odd)
  then show ?thesis
    using assms utf16_Encode_string [of "rs @ [0]"] by (simp add: scalar_def utf16_units_def)
qed

text \<open>
  C35: the reparse buffer of a symbolic link or mount point decodes to the target and the kind it was built for, for every
  target in UTF-8 whose data fit the 16-bit length of the buffer.
\<close>

theorem ReparsePoint_roundtrip:
  assumes "list_all scalar rs" and "target = string_of_runes rs" and "length (EncodeReparsePoint target mount) < 2 ^ 16 + 8"
  shows "DecodeReparsePoint (EncodeReparsePoint target mount) w = (Ret (Inr \<lparr>rp_Target = target, rp_IsMountPoint = mount\<rparr>), w)"
proof -
  let ?tag = "if mount then reparseTagMountPoint else reparseTagSymlink"
  obtain nt rel where nt: "ntTarget target = (nt, rel)" by force
  define us ns where "us = concat (map utf16_units rs)" and "ns = utf16_Encode (nt @ [CHR 0x00])"
  have t16: "utf16_Encode (target @ [CHR 0x00]) = us @ [0]" unfolding us_def assms(2) by (rule target_units [OF assms(1)])
  define pre where "pre = le_bytes 2 0 @ le_bytes 2 ((length ns - 1) * 2)"
  define flags where "flags = (if mount then [] else le_bytes 4 (if rel then 1 else 0))"
  define off where "off = 8 + length flags + 2 * length ns"
  define data where "data = pre @ le_bytes 2 (length ns * 2) @ le_bytes 2 (length us * 2) @ flags @ utf16_bytes ns @ utf16_bytes us @ le_bytes 2 0"
  define sz where "sz = 8 + length ns * 2 + length (us @ [0]) * 2 + (if mount then 0 else 4)"
  have enc: "EncodeReparsePoint target mount = le_bytes 4 ?tag @ (le_bytes 2 sz @ le_bytes 2 0) @ data"
    using nt by (simp add: EncodeReparsePoint_def t16 data_def pre_def flags_def sz_def utf16_bytes_def
        reparseTagMountPoint_def reparseTagSymlink_def flip: ns_def)
  have len: "off + 2 * length us + 2 < 2 ^ 16"
    using assms(3) unfolding enc by (simp add: data_def off_def pre_def)
  have tag: "le_value (le_bytes 4 ?tag) = ?tag"
    by (intro le_value_bytes) (simp add: reparseTagMountPoint_def reparseTagSymlink_def)
  have "DecodeReparsePoint (EncodeReparsePoint target mount) w = DecodeReparsePointData ?tag data w"
    unfolding DecodeReparsePoint_def enc using tag by (simp add: go_slice_def)
  also have "\<dots> = (Ret (Inr \<lparr>rp_Target = target, rp_IsMountPoint = mount\<rparr>), w)"
  proof -
    have "go_slice data 4 (4 + 2) w = (Ret (le_bytes 2 (length ns * 2)), w)"
      and "go_slice data 6 (6 + 2) w = (Ret (le_bytes 2 (length us * 2)), w)"
      and "go_slice data off (off + length us * 2) w = (Ret (utf16_bytes us), w)"
      using go_slice_parts [of pre 4 "le_bytes 2 (length ns * 2)" 2] go_slice_parts [of "pre @ le_bytes 2 (length ns * 2)" 6 "le_bytes 2 (length us * 2)" 2]
        go_slice_parts [of "pre @ le_bytes 2 (length ns * 2) @ le_bytes 2 (length us * 2) @ flags @ utf16_bytes ns" off "utf16_bytes us" "length us * 2"]
      by (simp_all add: data_def pre_def off_def)
    moreover have "le_value (le_bytes 2 (length ns * 2)) = length ns * 2" "le_value (le_bytes 2 (length us * 2)) = length us * 2"
      using len by (simp_all add: le_value_bytes off_def)
    moreover have "read_units (utf16_bytes us) = us" by (rule read_units_bytes) (auto simp: us_def dest: utf16_unit_bound)
    moreover have "utf16_Decode us = rs" unfolding us_def by (rule utf16_roundtrip [OF assms(1)])
    moreover have "mount \<Longrightarrow> (8 + length ns * 2) mod 2 ^ 16 = off" "\<not> mount \<Longrightarrow> ((8 + length ns * 2) mod 2 ^ 16 + 4) mod 2 ^ 16 = off"
      "(off + length us * 2) mod 2 ^ 16 = off + length us * 2"
      using len by (simp_all add: off_def flags_def)
    ultimately show ?thesis
      using assms(2) by (simp add: DecodeReparsePointData_def Let_def reparseTagMountPoint_def reparseTagSymlink_def)
  qed
  finally show ?thesis .
qed

theorem ReparsePoint_roundtrip_witness:
  "DecodeReparsePoint (EncodeReparsePoint ''d'' False) () = (Ret (Inr \<lparr>rp_Target = ''d'', rp_IsMountPoint = False\<rparr>), ())"
proof -
  have "''d'' = string_of_runes [100]" by (simp add: string_of_runes_def utf8_rune_def scalar_def char_of_def bit_iff_odd)
  moreover have "length (EncodeReparsePoint ''d'' False) < 2 ^ 16 + 8" by (simp add: EncodeReparsePoint_def ntTarget_def utf16_ascii Let_def)
  ultimately show ?thesis using ReparsePoint_roundtrip [of "[100]" "''d''" False "()"] by (simp add: scalar_def)
qed

end
