(* ===== verification/Spec2Isabelle.thy ===== *)
theory Spec2Isabelle
  imports Runs Fake_Runs Fake_Locks Fetch_Runs Winio_Decode
begin

text \<open>
  \<^bold>\<open>A verification library for groot-windows\<close>

  groot-windows is the image driver with which Cloud Foundry unpacks container image layers and makes container
  volumes on Windows. The program (src/main.go) builds a driver (src/driver) from four parts and hands it to the
  command line of the groot library:

  \<^item> the host-compute-service client, src/hcs/client.go, which creates and destroys layers through the vendored hcsshim and
    serialises creation with an exclusive file lock (vendored filelock);
  \<^item> the tar streamer, src/tarstream/tarstream.go, which reads an image layer as a tar archive and turns each file into a Win32
    backup stream with the vendored go-winio, through a buffered writer;
  \<^item> the privilege elevator, src/privilege/elevator.go;
  \<^item> the quota limiter, src/volume/limiter.go, over quota.dll.

  The driver's operations are Unpack (one layer), Bundle (a volume on top of layers), Delete, Stats and WriteMetadata. The groot library
  (src/vendor/code.cloudfoundry.org/groot) calls them: create pulls an image, unpacking its layers from the bottom up, makes a volume on top and
  records the size of the image; pull, delete and stats do what they say. Its fetchers read the layers from a tar file, or from a registry or OCI
  directory through a temporary file whose checksums they verify. The unit tests
  run the driver on generated test doubles, src/driver/fakes and src/hcs/fakes.

  \<^bold>\<open>How the code is modelled\<close>

  A Go function is a program over a world \<open>'w\<close>: a function from the world to an outcome (a returned value, a panic, or
  \<^const>\<open>Diverged\<close> for a call that does not return) and the next world (theory Go\_Base). An operation is translated statement by
  statement with combinators for sequencing, \<^verbatim>\<open>if err != nil { return ... }\<close> and \<^verbatim>\<open>defer\<close>; an interface is a record of programs,
  a struct a record, an error a value of \<^typ>\<open>go_error\<close>, a pointer a pair of a read and a write function (\<open>ref\<close>), \<^verbatim>\<open>int64\<close> and \<^verbatim>\<open>uint64\<close>
  64-bit words. What the code calls outside (Windows, package os, the converter of textual security
  descriptors, registry access, gzip, yaml) is a parameter: a record of programs whose documented behaviour is stated, where a theorem needs it, as a locale.
  Log messages are left out.

  \<^bold>\<open>The theories\<close>

  \<^item> Go\_Base: the prelude. Values, programs, evaluation rules (\<open>go_simps\<close>), frame rules (\<open>within_intros\<close>) and rules for programs that
    behave alike while a condition holds (\<open>agree_intros\<close>).
  \<^item> Go\_Strconv, Go\_Encoding, Go\_Utf, Go\_Sha256, Go\_Json, Go\_Path: the parts of the Go library the code computes with: decimal numbers, UTF-8/UTF-16
    and base64, SHA-256 and hexadecimal digits, JSON, and paths in their Windows and slash versions. They show that printed numbers parse back, that marshalled metadata
    unmarshal, and that \<^verbatim>\<open>filepath.Clean\<close>, with its lazy buffer, computes the resolved list of path elements.
  \<^item> Filelock, Hcs\_Client: the file lock and the layer client. Creation happens only under the lock and always releases it; what the
    destroy loop does in each of its three rounds, and its panic. The interface \<open>hcs_contract\<close> of a client is derived from the
    interface \<open>wclayer_contract\<close> of the layer service. Create\_Processes: CreateLayer cut at its calls, the cut proved to be the code, and
    mutual exclusion of any number of processes that create layers at the same time (interface \<open>exclusive_lock\<close>).
  \<^item> Volume\_Limiter, Privilege: the limiter and the elevator.
  \<^item> Backuptar, Backup\_Stream: the conversion of a tar entry to a backup stream, and its equivalence with a reference
    definition of that stream (\<open>backup_stream\<close>), for every division of the archive into chunks. Winio\_Decode: the decoders of go-winio for
    extended attributes and reparse points, which give back what was encoded and are safe for every buffer of attributes.
  \<^item> Driver: the driver's operations. Driver\_Paths: the layout of its store, for
    identifiers that are plain names (the program does not refuse others). Driver\_Unpack: the abstract layer an archive stands
    for (\<open>layer_of\<close>) and the proof, against the interface \<open>tar_contents\<close>, that the loop of Unpack performs it. Driver\_Frame,
    Unpack\_Privileges: privileges. Unpack\_Layer: contents and caching of unpacked layers. Unpack\_Failure: a failed Unpack is not cached. Driver\_Bundle: Bundle and Delete against the
    client's contract. Driver\_Stats: metadata and usage.
  \<^item> Tarstream, Unpack\_Stream, Stream\_Frame: the streamer with its buffer, the proof that buffering is transparent, and that it implements the
    interfaces the driver's theorems are stated against.
  \<^item> Go\_Stops, Stream\_Stops, Unpack\_Returns: programs that end (rules \<open>stops_intros\<close>), how many turns the loops of the streamer and of
    Unpack take, and that Unpack ends for every archive.
  \<^item> Groot, Image\_Store: the image puller and the commands of the groot library, and how they work on the driver: layers are built on
    complete ones only, pulling is cached, the limit of a volume, stats after create. Create\_Failures: a driver without a store, and a volume
    whose metadata could not be written.
  \<^item> Fetchers: the file fetcher and the layer fetcher with its layer source. Fetched\_Blobs: a streamed layer has the checksum, the size and at most the
    quota it should have, and when a failed one leaves a file (interface \<open>blob_store\<close>); chain identifiers of layers. Fetch\_Returns: the fetcher always comes back.
  \<^item> Command\_Line: the configuration, the four commands, Run and main, and how a run of the program ends. Fetch\_Platform, Fetch\_Runs: an executable
    registry, on which \<open>blob_store\<close> is interpreted, and concrete executions.
  \<^item> Platform: the driver as main builds it, on an executable model of the Windows services with failures that can be switched on;
    every interface is interpreted there on the program's own definitions. Runs: concrete executions.
  \<^item> Fake\_Method, Fake\_Contract: the code that counterfeiter generates for one method of a fake, with its mutexes, and the interfaces
    \<open>counted\<close>, \<open>inspected\<close> and \<open>scripted\<close> it implements. Fake\_HCSClient, Fake\_TarStreamer, Fake\_PrivilegeElevator, Fake\_Limiter,
    Fake\_LayerWriter: the five fakes, one definition per method, with a step relation and its invariant. Fake\_Locks: the mutexes of a
    fake used from several goroutines, as a step relation over the sequences of mutex calls that the code of the operations is proved to make: calls, inspections
    and plans never deadlock, a call and Invocations can. Fake\_Driver: the driver on the fakes, and which calls its operations make.
    Fake\_Runs: concrete executions.

  \<^bold>\<open>Loops and fuel\<close>

  The loop over the tar entries in Unpack and the copy loops below it are recursive functions with fuel whose exhaustion is the
  outcome \<^const>\<open>Diverged\<close>. Unpack takes the fuel as an argument; a theorem that it returns a result states how much is enough (at most two turns more than
  there are entries). The inner loops compute their fuel from the state of the reader: copying reads one chunk a turn, the loop
  over alternate data streams one entry a turn, and a buffered write needs at most three turns on a writer that reports short writes. The two loops
  of the fetchers that read a blob (\<^const>\<open>copy_to\<close> and \<^const>\<open>read_all\<close>) take fuel too; as many turns as the stream of the blob, or the decompressor on it, has reads to deliver, and one more,
  are enough. The decoder of extended attributes takes one turn more than there are bytes.

  \<^bold>\<open>Not modelled\<close>

  Logging; the parsing of the command line, which the cli framework does (an invocation is given as the command, its flags and arguments), and yaml, URLs
  and the JSON of the runtime spec, which are parameters of the commands; registry access (containers/image) and gzip, which are
  parameters of the fetchers; the Windows services, quota.dll and go-winio's BackupFileWriter, which are parameters; the direction of backuptar that
  writes archives, which the program does not call; the reading of a tar archive from its bytes, which belongs to the Go library: a tar
  reader is modelled by the entries and chunks it delivers; the integration tests and build scripts. In the theories of the fakes a call is atomic with respect to other
  goroutines except in Fake\_Locks, which models their locking alone; a stub works on the state of the test and does not use the fake it belongs to. Of the
  cli framework an invocation has the Before hook and the action, and what the framework prints is left out.
\<close>

end
